(* ===== verification/Prelude.thy ===== *)
theory Prelude
  imports Complex_Main "HOL-Library.Word" "HOL-Library.Product_Lexorder" "HOL-Library.List_Lexorder"
begin

text \<open>
  Shared vocabulary of the development.

  \<^item> The error values of the extension: every \<open>ereport(ERROR, ...)\<close> of the sources is an
    \<open>Inl\<close> of the type \<open>'a result\<close>, which carries the error code of the report
    (\<^verbatim>\<open>include/utils/documentdb_errors.h\<close> and PostgreSQL's own codes).  A report with no
    \<open>errcode\<close> is PostgreSQL's \<open>ERRCODE_INTERNAL_ERROR\<close>.
  \<^item> Byte strings: a C buffer is a list of \<open>char\<close> (octets), \<open>memcmp\<close> compares them as
    unsigned bytes.  The C standard fixes only the sign of its result, the model returns
    that sign.
  \<^item> The machine integers of the code: \<open>int32\<close>, \<open>int64\<close> and their unsigned variants are
    words; the extension is built with PostgreSQL's flags (\<^verbatim>\<open>-fwrapv\<close>), so signed
    arithmetic wraps as well.
  \<^item> The laws of three-way comparisons (\<open>three_way\<close>), which the comparison components
    interpret.
\<close>

section \<open>Errors\<close>

datatype errcode =
    ERRCODE_INTERNAL_ERROR
  | ERRCODE_FEATURE_NOT_SUPPORTED
  | ERRCODE_INVALID_PARAMETER_VALUE
  | ERRCODE_DOCUMENTDB_BADVALUE
  | ERRCODE_DOCUMENTDB_INTERNALERROR
  | ERRCODE_DOCUMENTDB_CONVERSIONFAILURE
  | ERRCODE_DOCUMENTDB_COMMANDNOTSUPPORTED
  | ERRCODE_DOCUMENTDB_LOCATION16004
  | ERRCODE_DOCUMENTDB_LOCATION16006
  | ERRCODE_DOCUMENTDB_FAILEDTOPARSE
  | ERRCODE_DOCUMENTDB_TYPEMISMATCH
  | ERRCODE_DOCUMENTDB_PATHNOTVIABLE
  | ERRCODE_DOCUMENTDB_CONFLICTINGUPDATEOPERATORS
  | ERRCODE_DOCUMENTDB_DOLLARPREFIXEDFIELDNAME
  | ERRCODE_DOCUMENTDB_EMPTYFIELDNAME
  | ERRCODE_DOCUMENTDB_IMMUTABLEFIELD
  | ERRCODE_DOCUMENTDB_CANNOTBACKFILLARRAY
  | ERRCODE_DOCUMENTDB_INDEXNOTFOUND
  | ERRCODE_DOCUMENTDB_LOCATION31109
  | ERRCODE_DOCUMENTDB_LOCATION31138
  | ERRCODE_DOCUMENTDB_LOCATION31249
  | ERRCODE_DOCUMENTDB_LOCATION31250
  | ERRCODE_DOCUMENTDB_LOCATION51091
  | ERRCODE_DOCUMENTDB_LOCATION51111
  | ERRCODE_DOCUMENTDB_LOCATION51156
  | ERRCODE_DOCUMENTDB_LOCATION5429414
  | ERRCODE_DOCUMENTDB_LOCATION5429513

text \<open>
  \<open>Ereport\<close> is an error the code raises.  \<open>TrapDivide\<close> is the hardware trap of a signed
  64-bit division whose quotient does not fit.  \<open>UnionMisread\<close> marks the reads of a member of
  the \<open>bson_value_t\<close> union that was not the one written, \<open>NullDereference\<close> the reads through a
  null pointer, \<open>BufferOverread\<close> the reads past the end
  of a buffer: C leaves their value open, so the model stops there and proves nothing of the
  result.
\<close>

datatype error = Ereport errcode | TrapDivide | UnionMisread | BufferOverread | NullDereference

type_synonym 'a result = "error + 'a"

definition ebind :: "'a result \<Rightarrow> ('a \<Rightarrow> 'b result) \<Rightarrow> 'b result" where
  "ebind r f = (case r of Inl e \<Rightarrow> Inl e | Inr x \<Rightarrow> f x)"

lemma ebind_simps [simp]:
  "ebind (Inl e) f = Inl e"
  "ebind (Inr x) f = f x"
  by (simp_all add: ebind_def)

lemma ebind_cong [fundef_cong]:
  "r = r' \<Longrightarrow> (\<And>x. r' = Inr x \<Longrightarrow> f x = f' x) \<Longrightarrow> ebind r f = ebind r' f'"
  by (cases r') simp_all

lemma ebind_Inr_iff: "ebind r f = Inr y \<longleftrightarrow> (\<exists>x. r = Inr x \<and> f x = Inr y)"
  by (cases r) auto

lemma ebind_split: "P (ebind r f) \<longleftrightarrow> (\<forall>e. r = Inl e \<longrightarrow> P (Inl e)) \<and> (\<forall>x. r = Inr x \<longrightarrow> P (f x))"
  by (cases r) auto

definition returns :: "'a result \<Rightarrow> bool" where
  "returns r \<longleftrightarrow> (\<exists>x. r = Inr x)"

lemma returns_Inr [simp]: "returns (Inr x)"
  by (simp add: returns_def)

lemma returns_ebind: "returns r \<Longrightarrow> (\<And>x. returns (f x)) \<Longrightarrow> returns (ebind r f)"
  by (auto simp: returns_def)

section \<open>Byte strings and C integers\<close>

type_synonym int32 = "32 word"
type_synonym int64 = "64 word"
type_synonym uint32 = "32 word"
type_synonym uint64 = "64 word"

abbreviation (input) INT64_MAX :: int where "INT64_MAX \<equiv> 9223372036854775807"
abbreviation (input) INT64_MIN :: int where "INT64_MIN \<equiv> - 9223372036854775808"
abbreviation (input) INT32_MAX :: int where "INT32_MAX \<equiv> 2147483647"
abbreviation (input) INT32_MIN :: int where "INT32_MIN \<equiv> - 2147483648"

definition byte_val :: "char \<Rightarrow> int" where
  "byte_val c = int (of_char c)"

fun memcmp :: "string \<Rightarrow> string \<Rightarrow> nat \<Rightarrow> int" where
  "memcmp _ _ 0 = 0"
| "memcmp (a # as) (b # bs) (Suc n) =
     (if byte_val a < byte_val b then -1
      else if byte_val a > byte_val b then 1
      else memcmp as bs n)"
| "memcmp _ _ (Suc n) = 0"

text \<open>
  \<open>leftLength - rightLength\<close> on \<open>uint32_t\<close>, returned as \<open>int\<close>: the subtraction wraps and
  the 32 bits are read as a signed number.
\<close>

definition length_diff :: "nat \<Rightarrow> nat \<Rightarrow> int" where
  "length_diff l r = sint (of_nat l - of_nat r :: uint32)"

definition int_cmp :: "'a::linorder \<Rightarrow> 'a \<Rightarrow> int" where
  "int_cmp l r = (if l > r then 1 else if l = r then 0 else -1)"

text \<open>\<open>strcmp\<close> reads both strings up to their terminating zero byte.\<close>

definition cstr :: "string \<Rightarrow> string" where
  "cstr s = takeWhile (\<lambda>c. byte_val c \<noteq> 0) s"

fun strcmp_bytes :: "string \<Rightarrow> string \<Rightarrow> int" where
  "strcmp_bytes [] [] = 0"
| "strcmp_bytes [] (b # bs) = -1"
| "strcmp_bytes (a # as) [] = 1"
| "strcmp_bytes (a # as) (b # bs) =
     (if byte_val a < byte_val b then -1
      else if byte_val a > byte_val b then 1
      else strcmp_bytes as bs)"

definition strcmp :: "string \<Rightarrow> string \<Rightarrow> int" where
  "strcmp a b = strcmp_bytes (cstr a) (cstr b)"

text \<open>Keep \<open>of_int (sint w)\<close> and \<open>of_int (uint w)\<close> as they are written.\<close>

declare of_int_sint [simp del] of_int_uint [simp del]

lemma of_int_word_same [simp]: "(of_int (uint w) :: 'a::len word) = w" "(of_int (sint w) :: 'a word) = w"
  by (simp_all add: of_int_uint of_int_sint)

named_theorems word_conv \<open>signed and unsigned readings of words that fit\<close>

lemma byte_val_inj [simp]: "byte_val a = byte_val b \<longleftrightarrow> a = b"
  by (simp add: byte_val_def)

lemma byte_val_bounds: "0 \<le> byte_val c" "byte_val c < 256"
  using nat_of_char_less_256 [of c] by (simp_all add: byte_val_def)

lemma strcmp_bytes_eq_0 [simp]: "strcmp_bytes a b = 0 \<longleftrightarrow> a = b"
  by (induction a b rule: strcmp_bytes.induct) auto

lemma strcmp_bytes_same [simp]: "strcmp_bytes a a = 0"
  by simp

lemma strcmp_cstr: "strcmp a b = 0 \<longleftrightarrow> cstr a = cstr b"
  by (simp add: strcmp_def)

lemma sint_inj: "sint a = sint b \<longleftrightarrow> a = b"
  by (metis of_int_word_same(2))

lemma sint_of_int64 [word_conv]:
  "INT64_MIN \<le> x \<Longrightarrow> x \<le> INT64_MAX \<Longrightarrow> sint (of_int x :: int64) = x"
  by (simp add: sint_sbintrunc' signed_take_bit_int_eq_self)

lemma sint_of_int32 [word_conv]:
  "INT32_MIN \<le> x \<Longrightarrow> x \<le> INT32_MAX \<Longrightarrow> sint (of_int x :: int32) = x"
  by (simp add: sint_sbintrunc' signed_take_bit_int_eq_self)

lemma sint64_bounds: "INT64_MIN \<le> sint (w :: int64)" "sint w \<le> INT64_MAX"
  using sint_ge [of w] sint_lt [of w] by simp_all

lemma sint32_bounds: "INT32_MIN \<le> sint (w :: int32)" "sint w \<le> INT32_MAX"
  using sint_ge [of w] sint_lt [of w] by simp_all

lemma uint_of_int64 [word_conv]: "0 \<le> x \<Longrightarrow> x < 2 ^ 64 \<Longrightarrow> uint (of_int x :: uint64) = x"
  by (simp add: uint_word_of_int)

lemma int32_in_int64 [word_conv]: "sint (of_int (sint (i :: int32)) :: int64) = sint i"
  using sint32_bounds [of i] by (intro sint_of_int64) auto

lemma length_diff_small:
  assumes "l < 2 ^ 31" "r < 2 ^ 31"
  shows "length_diff l r = int l - int r"
proof -
  have "(of_nat l - of_nat r :: uint32) = of_int (int l - int r)" by simp
  then show ?thesis
    using assms sint_of_int32 [of "int l - int r"] by (simp add: length_diff_def)
qed

section \<open>Three-way comparison\<close>

text \<open>
  A C comparison function returns a negative number, zero or a positive number.
  \<open>three_way P cmp\<close> is the contract the sorting, grouping and indexing code of the extension
  relies on: on the values that satisfy \<open>P\<close>, exchanging the arguments negates the sign and
  ``less or equal'' is transitive.  What callers use of it (equality is an equivalence, equal
  values compare alike with every third value) is derived once, here.
\<close>

locale three_way =
  fixes P :: "'a \<Rightarrow> bool" and cmp :: "'a \<Rightarrow> 'a \<Rightarrow> int"
  assumes cmp_flip: "P x \<Longrightarrow> P y \<Longrightarrow> sgn (cmp y x) = - sgn (cmp x y)"
    and cmp_le_trans: "P x \<Longrightarrow> P y \<Longrightarrow> P z \<Longrightarrow> cmp x y \<le> 0 \<Longrightarrow> cmp y z \<le> 0 \<Longrightarrow> cmp x z \<le> 0"
begin

lemma cmp_same: "P x \<Longrightarrow> cmp x x = 0"
  using cmp_flip [of x x] by (simp add: sgn_if split: if_splits)

lemma cmp_eq_sym: "P x \<Longrightarrow> P y \<Longrightarrow> cmp x y = 0 \<Longrightarrow> cmp y x = 0"
  using cmp_flip [of x y] by (simp add: sgn_if split: if_splits)

lemma cmp_total: "P x \<Longrightarrow> P y \<Longrightarrow> cmp x y \<le> 0 \<or> cmp y x \<le> 0"
  using cmp_flip [of x y] by (auto simp: sgn_if split: if_splits)

lemma cmp_less_flip: "P x \<Longrightarrow> P y \<Longrightarrow> cmp x y < 0 \<longleftrightarrow> cmp y x > 0"
  using cmp_flip [of x y] by (auto simp: sgn_if split: if_splits)

lemma cmp_le_flip: "P x \<Longrightarrow> P y \<Longrightarrow> cmp x y \<le> 0 \<longleftrightarrow> cmp y x \<ge> 0"
  using cmp_flip [of x y] by (auto simp: sgn_if split: if_splits)

lemma cmp_less_le_trans:
  assumes "P x" "P y" "P z" "cmp x y < 0" "cmp y z \<le> 0"
  shows "cmp x z < 0"
proof (rule ccontr)
  assume "\<not> cmp x z < 0"
  with assms have "cmp z x \<le> 0" using cmp_le_flip [of z x] by simp
  with assms have "cmp y x \<le> 0" using cmp_le_trans [of y z x] by simp
  with assms show False using cmp_less_flip [of x y] by simp
qed

lemma cmp_le_less_trans:
  assumes "P x" "P y" "P z" "cmp x y \<le> 0" "cmp y z < 0"
  shows "cmp x z < 0"
proof (rule ccontr)
  assume "\<not> cmp x z < 0"
  with assms have "cmp z x \<le> 0" using cmp_le_flip [of z x] by simp
  with assms have "cmp z y \<le> 0" using cmp_le_trans [of z x y] by simp
  with assms show False using cmp_less_flip [of y z] by simp
qed

lemma cmp_eq_cong:
  assumes "P x" "P y" "P z" "cmp x y = 0"
  shows "sgn (cmp x z) = sgn (cmp y z)"
proof (cases "cmp y z" "0 :: int" rule: linorder_cases)
  case less
  with assms cmp_le_less_trans [of x y z] show ?thesis by simp
next
  case equal
  have "cmp y x = 0" using assms cmp_eq_sym by simp
  with equal assms cmp_le_trans [of x y z] cmp_le_trans [of z y x] cmp_eq_sym [of y z]
  have "cmp x z \<le> 0" "cmp z x \<le> 0" by simp_all
  with assms cmp_less_flip [of x z] cmp_le_flip [of z x] equal show ?thesis by simp
next
  case greater
  have "cmp y x = 0" using assms cmp_eq_sym by simp
  with greater assms cmp_less_le_trans [of z y x] cmp_less_flip [of z y] cmp_less_flip [of z x]
  show ?thesis by simp
qed

lemma cmp_eq_trans:
  assumes "P x" "P y" "P z" "cmp x y = 0" "cmp y z = 0"
  shows "cmp x z = 0"
  using cmp_eq_cong [of x y z] assms by (simp add: sgn_if split: if_splits)

end

text \<open>
  A comparison that has the sign of the comparison of two keys in a linear order satisfies the
  contract.
\<close>

lemma int_cmp_simps [simp]:
  "int_cmp x x = 0"
  "int_cmp l r = 0 \<longleftrightarrow> l = r"
  "int_cmp l r \<le> 0 \<longleftrightarrow> l \<le> r"
  "int_cmp l r < 0 \<longleftrightarrow> l < r"
  "int_cmp l r > 0 \<longleftrightarrow> l > r"
  "sgn (int_cmp l r) = int_cmp l r"
  by (auto simp: int_cmp_def)

lemma int_cmp_flip: "int_cmp r l = - int_cmp l r"
  by (auto simp: int_cmp_def)

lemma three_way_by_key:
  assumes "\<And>x y. P x \<Longrightarrow> P y \<Longrightarrow> sgn (cmp x y) = int_cmp (key x) (key y)"
  shows "three_way P cmp"
proof
  fix x y assume "P x" "P y"
  then show "sgn (cmp y x) = - sgn (cmp x y)"
    using assms [of x y] assms [of y x] int_cmp_flip [of "key y" "key x"] by simp
next
  fix x y z assume *: "P x" "P y" "P z" "cmp x y \<le> 0" "cmp y z \<le> 0"
  have le: "cmp a b \<le> 0 \<longleftrightarrow> key a \<le> key b" if "P a" "P b" for a b
  proof -
    have "cmp a b \<le> 0 \<longleftrightarrow> sgn (cmp a b) \<le> 0" by (simp add: sgn_if)
    then show ?thesis by (simp only: assms [OF that] int_cmp_simps)
  qed
  show "cmp x z \<le> 0"
    using * le [of x y] le [of y z] le [of x z] by simp
qed

text \<open>
  Lexicographic composition: \<open>lexk c xs ys\<close> is the outcome when a first comparison gave \<open>c\<close>
  and, if it was zero, the keys \<open>xs\<close> and \<open>ys\<close> decide.
\<close>

type_synonym key = "(nat \<times> rat) list"

definition lexk :: "int \<Rightarrow> key \<Rightarrow> key \<Rightarrow> int" where
  "lexk c xs ys = (if c = 0 then int_cmp xs ys else sgn c)"

lemma int_cmp_Cons:
  "int_cmp (x # xs) (y # ys) = (if x < y then -1 else if y < x then 1 else int_cmp xs ys)"
  by (auto simp: int_cmp_def)

lemma int_cmp_Cons_lexk: "int_cmp (x # xs) (y # ys) = lexk (int_cmp x y) xs ys"
  by (auto simp: int_cmp_def lexk_def)

definition str_key :: "string \<Rightarrow> key" where
  "str_key s = map (\<lambda>c. (1, of_int (byte_val c))) s @ [(0, 0)]"

lemma str_key_simps [simp]:
  "str_key [] = [(0, 0)]"
  "str_key (c # s) = (1, of_int (byte_val c)) # str_key s"
  by (simp_all add: str_key_def)

lemma strcmp_bytes_key: "int_cmp (str_key a @ xs) (str_key b @ ys) = lexk (strcmp_bytes a b) xs ys"
  by (induction a b rule: strcmp_bytes.induct) (auto simp: int_cmp_Cons lexk_def)

lemma memcmp_key:
  "length a = length b \<Longrightarrow>
     int_cmp (str_key a @ xs) (str_key b @ ys) = lexk (memcmp a b (length a)) xs ys"
  by (induction a b rule: list_induct2) (auto simp: int_cmp_Cons lexk_def)

end
