(* ===== verification/String_View.thy ===== *)
theory String_View
  imports Prelude
begin

text \<open>
  \<^verbatim>\<open>pg_documentdb_core/src/types/string_view.c\<close> and the inline functions of
  \<^verbatim>\<open>include/utils/string_view.h\<close>: views on substrings of larger strings.

  A pointer to bytes is \<open>None\<close> (NULL) or \<open>Some\<close> of the bytes readable from it, which may
  extend past the view; a function that accepts a NULL view takes an \<open>option\<close>.
  \<open>hash_bytes\<close> of PostgreSQL is a parameter.
\<close>

record StringView =
  sv_string :: "string option"
  sv_length :: nat

definition sv_buf :: "StringView \<Rightarrow> string" where
  "sv_buf v = (case sv_string v of None \<Rightarrow> [] | Some s \<Rightarrow> s)"

definition sv_bytes :: "StringView \<Rightarrow> string" where
  "sv_bytes v = take (sv_length v) (sv_buf v)"

text \<open>A view whose bytes are all readable and whose length is a \<open>uint32_t\<close>.\<close>

definition sv_wf :: "StringView \<Rightarrow> bool" where
  "sv_wf v \<longleftrightarrow> sv_length v \<le> length (sv_buf v) \<and> sv_length v < 2 ^ 32"

definition strlen :: "string \<Rightarrow> nat" where
  "strlen s = length (cstr s)"

definition strncmp :: "string \<Rightarrow> string \<Rightarrow> nat \<Rightarrow> int" where
  "strncmp a b n = strcmp_bytes (cstr (take n a)) (cstr (take n b))"

definition tolower_c :: "char \<Rightarrow> char" where
  "tolower_c c = (if 65 \<le> byte_val c \<and> byte_val c \<le> 90 then char_of (nat (byte_val c) + 32) else c)"

definition strncasecmp :: "string \<Rightarrow> string \<Rightarrow> nat \<Rightarrow> int" where
  "strncasecmp a b n =
     strcmp_bytes (map tolower_c (cstr (take n a))) (map tolower_c (cstr (take n b)))"

text \<open>\<open>memchr\<close>: the offset of the first occurrence of a byte among the first \<open>n\<close>.\<close>

fun memchr :: "string \<Rightarrow> char \<Rightarrow> nat \<Rightarrow> nat option" where
  "memchr _ _ 0 = None"
| "memchr [] _ (Suc n) = None"
| "memchr (b # bs) c (Suc n) = (if b = c then Some 0 else map_option Suc (memchr bs c n))"

section \<open>string_view.c\<close>

definition CreateStringViewFromString :: "string \<Rightarrow> StringView" where
  "CreateStringViewFromString s = \<lparr>sv_string = Some s, sv_length = strlen s mod 2 ^ 32\<rparr>"

definition CreateStringViewFromStringWithLength :: "string \<Rightarrow> nat \<Rightarrow> StringView" where
  "CreateStringViewFromStringWithLength s n = \<lparr>sv_string = Some s, sv_length = n\<rparr>"

text \<open>A \<open>text\<close> datum is its bytes (\<open>VARDATA_ANY\<close>, \<open>VARSIZE_ANY_EXHDR\<close>).\<close>

definition CreateStringViewFromText :: "string \<Rightarrow> StringView" where
  "CreateStringViewFromText t = \<lparr>sv_string = Some t, sv_length = length t mod 2 ^ 32\<rparr>"

text \<open>\<open>pnstrdup\<close> copies up to the length or the first zero byte.\<close>

definition CreateStringFromStringView :: "StringView \<Rightarrow> string" where
  "CreateStringFromStringView v = cstr (sv_bytes v)"

definition CompareStringView :: "StringView \<Rightarrow> StringView \<Rightarrow> int" where
  "CompareStringView left right =
     (let minLength = (if sv_length left > sv_length right then sv_length right
                       else sv_length left);
          cmp = (if minLength \<noteq> 0 then strncmp (sv_buf left) (sv_buf right) minLength else 0)
      in if cmp \<noteq> 0 then cmp
         else length_diff (sv_length left) (sv_length right))"

definition HashStringView :: "(string \<Rightarrow> uint32) \<Rightarrow> StringView \<Rightarrow> uint32" where
  "HashStringView hash_bytes v = hash_bytes (sv_bytes v)"

definition StringViewFindPrefix :: "StringView \<Rightarrow> char \<Rightarrow> StringView" where
  "StringViewFindPrefix v c =
     (case memchr (sv_buf v) c (sv_length v) of
        Some i \<Rightarrow> if i < sv_length v then \<lparr>sv_string = sv_string v, sv_length = i\<rparr>
                  else \<lparr>sv_string = None, sv_length = 0\<rparr>
      | None \<Rightarrow> \<lparr>sv_string = None, sv_length = 0\<rparr>)"

definition StringViewFindSuffix :: "StringView \<Rightarrow> char \<Rightarrow> StringView" where
  "StringViewFindSuffix v c =
     (case memchr (sv_buf v) c (sv_length v) of
        Some i \<Rightarrow>
          if i < sv_length v \<and> sv_length v - (i + 1) > 0
          then \<lparr>sv_string = Some (drop (i + 1) (sv_buf v)), sv_length = sv_length v - (i + 1)\<rparr>
          else \<lparr>sv_string = None, sv_length = 0\<rparr>
      | None \<Rightarrow> \<lparr>sv_string = None, sv_length = 0\<rparr>)"

definition StringViewSubstring :: "StringView \<Rightarrow> nat \<Rightarrow> StringView result" where
  "StringViewSubstring source offset =
     (if offset > sv_length source then Inl (Ereport ERRCODE_INTERNAL_ERROR)
      else Inr \<lparr>sv_string = map_option (drop offset) (sv_string source),
                sv_length = sv_length source - offset\<rparr>)"

text \<open>The loop of \<open>StringViewToPositiveInteger\<close>; \<open>finalValue\<close> is an \<open>int32_t\<close> that wraps.\<close>

fun positive_integer_loop :: "string \<Rightarrow> int32 \<Rightarrow> int32" where
  "positive_integer_loop [] finalValue = finalValue"
| "positive_integer_loop (c # cs) finalValue =
     (if byte_val c < 48 \<or> byte_val c > 57 then - 1
      else let v = finalValue * 10 + of_int (byte_val c - 48)
           in if sint v < 0 then - 1 else positive_integer_loop cs v)"

definition StringViewToPositiveInteger :: "StringView option \<Rightarrow> int32" where
  "StringViewToPositiveInteger view =
     (case view of
        None \<Rightarrow> - 1
      | Some v \<Rightarrow> if sv_length v = 0 then - 1 else positive_integer_loop (sv_bytes v) 0)"

text \<open>
  The size of a UTF-8 character from its first byte: the masks of the code, written as
  divisions of the byte (\<open>(c & 0xE0) == 0xC0\<close> is \<open>c div 32 = 6\<close>, and so on).
\<close>

definition utf8_char_size :: "char \<Rightarrow> nat result" where
  "utf8_char_size ch =
     (let c = byte_val ch
      in if c \<le> 127 then Inr 1
         else if c div 32 = 6 then Inr 2
         else if c div 16 = 14 then Inr 3
         else if c div 8 = 30 then Inr 4
         else Inl (Ereport ERRCODE_INTERNAL_ERROR))"

function multi_byte_loop :: "string \<Rightarrow> nat \<Rightarrow> nat result" where
  "multi_byte_loop [] len = Inr len"
| "multi_byte_loop (c # cs) len =
     (case utf8_char_size c of
        Inl e \<Rightarrow> Inl e
      | Inr charSize \<Rightarrow> multi_byte_loop (drop (charSize - 1) cs) (len + 1))"
  by pat_completeness auto
termination
  by (relation "measure (\<lambda>(s, len). length s)") auto

definition StringViewMultiByteCharStrlen :: "StringView \<Rightarrow> nat result" where
  "StringViewMultiByteCharStrlen v = multi_byte_loop (sv_bytes v) 0"

section \<open>string_view.h\<close>

definition StringViewStartsWith :: "StringView option \<Rightarrow> char \<Rightarrow> bool" where
  "StringViewStartsWith source c =
     (case source of None \<Rightarrow> False
      | Some v \<Rightarrow> sv_length v > 0 \<and> sv_buf v ! 0 = c)"

definition StringViewStartsWithStringView :: "StringView option \<Rightarrow> StringView \<Rightarrow> bool" where
  "StringViewStartsWithStringView source s =
     (case source of None \<Rightarrow> False
      | Some v \<Rightarrow> sv_length v \<ge> sv_length s \<and> strncmp (sv_buf v) (sv_buf s) (sv_length s) = 0)"

definition StringViewEndsWith :: "StringView option \<Rightarrow> char \<Rightarrow> bool" where
  "StringViewEndsWith source c =
     (case source of None \<Rightarrow> False
      | Some v \<Rightarrow> sv_length v > 0 \<and> sv_buf v ! (sv_length v - 1) = c)"

text \<open>The loop runs both indices down; \<open>k\<close> is the number of characters left to compare.\<close>

fun ends_with_loop :: "string \<Rightarrow> nat \<Rightarrow> string \<Rightarrow> nat \<Rightarrow> bool" where
  "ends_with_loop src n target 0 = True"
| "ends_with_loop src n target (Suc k) =
     (if src ! (n - 1) \<noteq> target ! k then False else ends_with_loop src (n - 1) target k)"

definition StringViewEndsWithString :: "StringView \<Rightarrow> string \<Rightarrow> bool" where
  "StringViewEndsWithString source target =
     (if sv_length source < strlen target then False
      else ends_with_loop (sv_buf source) (sv_length source) target (strlen target))"

definition StringViewEquals :: "StringView option \<Rightarrow> StringView option \<Rightarrow> bool" where
  "StringViewEquals left right =
     (case (left, right) of
        (None, None) \<Rightarrow> True
      | (Some l, Some r) \<Rightarrow>
          sv_length l = sv_length r \<and> strncmp (sv_buf l) (sv_buf r) (sv_length l) = 0
      | _ \<Rightarrow> False)"

definition StringViewEqualsCString :: "StringView option \<Rightarrow> string option \<Rightarrow> bool" where
  "StringViewEqualsCString left right =
     (case (left, right) of
        (None, None) \<Rightarrow> True
      | (Some l, None) \<Rightarrow> sv_string l = None
      | (None, Some r) \<Rightarrow> False
      | (Some l, Some r) \<Rightarrow>
          (case sv_string l of
             None \<Rightarrow> False
           | Some s \<Rightarrow> sv_length l = strlen r \<and> strncmp s r (sv_length l) = 0))"

definition StringViewEqualsCStringCaseInsensitive ::
    "StringView option \<Rightarrow> string option \<Rightarrow> bool" where
  "StringViewEqualsCStringCaseInsensitive left right =
     (case (left, right) of
        (None, None) \<Rightarrow> True
      | (Some l, None) \<Rightarrow> sv_string l = None
      | (None, Some r) \<Rightarrow> False
      | (Some l, Some r) \<Rightarrow>
          (case sv_string l of
             None \<Rightarrow> False
           | Some s \<Rightarrow> sv_length l = strlen r \<and> strncasecmp s r (sv_length l) = 0))"

definition StringViewContains :: "StringView option \<Rightarrow> char \<Rightarrow> bool" where
  "StringViewContains source c =
     (case source of None \<Rightarrow> False
      | Some v \<Rightarrow> sv_length v > 0 \<and> memchr (sv_buf v) c (sv_length v) \<noteq> None)"

section \<open>Splitting a path\<close>

lemma sv_bytes_simps [simp]: "sv_bytes \<lparr>sv_string = Some s, sv_length = n\<rparr> = take n s"
  by (simp add: sv_bytes_def sv_buf_def)

lemma memchr_Some:
  "memchr s c n = Some i \<Longrightarrow> i < n \<and> i < length s \<and> s ! i = c \<and> c \<notin> set (take i s)"
proof (induction s c n arbitrary: i rule: memchr.induct)
  case (3 b bs c n)
  then show ?case by (cases i) (auto split: if_splits)
qed simp_all

lemma memchr_None: "memchr s c n = None \<longleftrightarrow> c \<notin> set (take n s)"
  by (induction s c n rule: memchr.induct) auto

lemma StringViewFindPrefix_None:
  "sv_string (StringViewFindPrefix v c) = None \<Longrightarrow> sv_string v \<noteq> None \<Longrightarrow> c \<notin> set (sv_bytes v)"
  by (auto simp: StringViewFindPrefix_def sv_bytes_def memchr_None
      split: option.splits if_splits dest!: memchr_Some)

lemma StringViewFindPrefix_Some:
  assumes "sv_wf v" and "sv_string (StringViewFindPrefix v c) = Some s"
  obtains rest where
    "StringViewSubstring v (sv_length (StringViewFindPrefix v c) + 1) = Inr rest"
    "sv_bytes v = sv_bytes (StringViewFindPrefix v c) @ c # sv_bytes rest"
    "c \<notin> set (sv_bytes (StringViewFindPrefix v c))"
    "sv_wf (StringViewFindPrefix v c)" "sv_wf rest" "sv_length rest < sv_length v"
proof -
  from assms(2) obtain i where i: "memchr (sv_buf v) c (sv_length v) = Some i"
    and pre: "StringViewFindPrefix v c = \<lparr>sv_string = sv_string v, sv_length = i\<rparr>"
    and s: "sv_string v = Some s"
    by (auto simp: StringViewFindPrefix_def split: option.splits if_splits)
  note i' = memchr_Some [OF i]
  let ?rest = "\<lparr>sv_string = Some (drop (i + 1) s), sv_length = sv_length v - (i + 1)\<rparr>"
  have buf: "sv_buf v = s" by (simp add: sv_buf_def s)
  have "take (sv_length v) s = take i s @ drop i (take (sv_length v) s)"
    using i' by (metis append_take_drop_id less_imp_le min.absorb1 take_take)
  also have "drop i (take (sv_length v) s) = s ! i # drop (i + 1) (take (sv_length v) s)"
    using i' buf by (simp add: Cons_nth_drop_Suc [symmetric])
  finally have split: "take (sv_length v) s = take i s @ c # take (sv_length v - (i + 1)) (drop (i + 1) s)"
    using i' buf by (simp add: drop_take)
  show thesis
  proof (rule that [of ?rest])
    show "StringViewSubstring v (sv_length (StringViewFindPrefix v c) + 1) = Inr ?rest"
      using i' by (simp add: StringViewSubstring_def pre s)
    show "sv_bytes v = sv_bytes (StringViewFindPrefix v c) @ c # sv_bytes ?rest"
      using split by (simp add: pre s sv_bytes_def sv_buf_def)
    show "c \<notin> set (sv_bytes (StringViewFindPrefix v c))"
      using i' buf by (simp add: pre s)
    show "sv_wf (StringViewFindPrefix v c)" "sv_wf ?rest" "sv_length ?rest < sv_length v"
      using assms(1) i' by (auto simp: pre s sv_wf_def sv_buf_def)
  qed
qed

section \<open>Comparing views\<close>

text \<open>Readable views without zero bytes, of at most \<open>INT32_MAX\<close> bytes.\<close>

definition sv_plain :: "StringView \<Rightarrow> bool" where
  "sv_plain v \<longleftrightarrow> sv_length v \<le> length (sv_buf v) \<and> sv_length v < 2 ^ 31
     \<and> (\<forall>c \<in> set (sv_bytes v). byte_val c \<noteq> 0)"

lemma cstr_take_plain:
  "\<forall>c \<in> set (take n s). byte_val c \<noteq> 0 \<Longrightarrow> m \<le> n \<Longrightarrow> cstr (take m s) = take m s"
  unfolding cstr_def by (rule takeWhile_eq_all_conv [THEN iffD2]) (meson set_take_subset_set_take subsetD)

lemma strcmp_bytes_take:
  "sgn (strcmp_bytes a b) =
     (let c = strcmp_bytes (take (length b) a) (take (length a) b)
      in if c \<noteq> 0 then sgn c else int_cmp (length a) (length b))"
proof (induction a b rule: strcmp_bytes.induct)
  case (4 a as b bs)
  then show ?case
    by (simp only: strcmp_bytes.simps list.size take_Suc_Cons add_0_right add_Suc_right Let_def
        split: if_split) (simp add: int_cmp_def)
qed (simp_all add: Let_def int_cmp_def)

lemma CompareStringView_sgn:
  assumes "sv_plain l" "sv_plain r"
  shows "sgn (CompareStringView l r) = sgn (strcmp_bytes (sv_bytes l) (sv_bytes r))"
proof -
  let ?n = "min (sv_length l) (sv_length r)"
  have len: "length (sv_bytes l) = sv_length l" "length (sv_bytes r) = sv_length r"
    using assms by (simp_all add: sv_plain_def sv_bytes_def)
  have c: "cstr (take ?n (sv_buf l)) = take (sv_length r) (sv_bytes l)"
    "cstr (take ?n (sv_buf r)) = take (sv_length l) (sv_bytes r)"
    using assms cstr_take_plain [of "sv_length l" "sv_buf l" ?n] cstr_take_plain [of "sv_length r" "sv_buf r" ?n]
    by (simp_all add: sv_plain_def sv_bytes_def min.commute)
  have d: "sgn (length_diff (sv_length l) (sv_length r)) = int_cmp (sv_length l) (sv_length r)"
    using assms by (simp add: sv_plain_def length_diff_small int_cmp_def)
  have m: "(if sv_length l > sv_length r then sv_length r else sv_length l) = ?n"
    by (simp add: min_def)
  define cmp where "cmp = strcmp_bytes (take (sv_length r) (sv_bytes l)) (take (sv_length l) (sv_bytes r))"
  have "(if ?n \<noteq> 0 then strncmp (sv_buf l) (sv_buf r) ?n else 0) = cmp"
    unfolding strncmp_def c cmp_def by (auto simp: min_def sv_bytes_def split: if_splits)
  then have "CompareStringView l r = (if cmp \<noteq> 0 then cmp else length_diff (sv_length l) (sv_length r))"
    unfolding CompareStringView_def m Let_def by simp
  then show ?thesis
    using d strcmp_bytes_take [of "sv_bytes l" "sv_bytes r"]
    by (simp add: len cmp_def [symmetric] Let_def)
qed

interpretation sv_cmp: three_way sv_plain CompareStringView
  by (rule three_way_by_key [where key = "\<lambda>v. str_key (sv_bytes v)"])
    (use strcmp_bytes_key [where xs = "[]" and ys = "[]"] in
      \<open>simp add: CompareStringView_sgn lexk_def split: if_splits\<close>)

lemma CompareStringView_eq_0:
  assumes "sv_plain l" "sv_plain r"
  shows "CompareStringView l r = 0 \<longleftrightarrow> sv_bytes l = sv_bytes r"
  using CompareStringView_sgn [OF assms] by (metis sgn_0_0 strcmp_bytes_eq_0)

section \<open>Numbers and characters in a view\<close>

definition is_digit_c :: "char \<Rightarrow> bool" where
  "is_digit_c c \<longleftrightarrow> 48 \<le> byte_val c \<and> byte_val c \<le> 57"

fun dec_val :: "string \<Rightarrow> int \<Rightarrow> int" where
  "dec_val [] a = a"
| "dec_val (c # cs) a = dec_val cs (a * 10 + (byte_val c - 48))"

lemma dec_val_mono: "\<forall>c \<in> set cs. is_digit_c c \<Longrightarrow> 0 \<le> a \<Longrightarrow> a \<le> dec_val cs a"
proof (induction cs arbitrary: a)
  case (Cons c cs)
  then have "a \<le> a * 10 + (byte_val c - 48)" by (simp add: is_digit_c_def)
  also have "\<dots> \<le> dec_val cs (a * 10 + (byte_val c - 48))"
    using Cons by (simp add: is_digit_c_def)
  finally show ?case by simp
qed simp

lemma positive_integer_loop_digits:
  assumes "\<forall>c \<in> set cs. is_digit_c c" "0 \<le> a" "dec_val cs a \<le> INT32_MAX"
  shows "positive_integer_loop cs (of_int a) = of_int (dec_val cs a)"
  using assms
proof (induction cs arbitrary: a)
  case (Cons c cs)
  let ?a = "a * 10 + (byte_val c - 48)"
  have dig: "48 \<le> byte_val c" "byte_val c \<le> 57" using Cons.prems by (simp_all add: is_digit_c_def)
  with Cons.prems have a: "0 \<le> ?a" by simp
  have "?a \<le> INT32_MAX"
    using dec_val_mono [of cs ?a] Cons.prems a by simp
  with a have s: "sint (of_int ?a :: int32) = ?a"
    by (intro sint_of_int32) simp_all
  have w: "of_int a * 10 + of_int (byte_val c - 48) = (of_int ?a :: int32)" by simp
  have "positive_integer_loop cs (of_int ?a) = of_int (dec_val cs ?a)"
    by (rule Cons.IH) (use Cons.prems a in simp_all)
  with s w dig a show ?case
    by (simp add: Let_def del: of_int_add of_int_mult of_int_diff)
qed simp

lemma positive_integer_loop_non_digit:
  "\<exists>c \<in> set cs. \<not> is_digit_c c \<Longrightarrow> positive_integer_loop cs a = - 1"
  by (induction cs arbitrary: a) (auto simp: is_digit_c_def Let_def)

lemma multi_byte_loop_concat:
  "\<forall>ch \<in> set chs. ch \<noteq> [] \<and> utf8_char_size (hd ch) = Inr (length ch) \<Longrightarrow>
     multi_byte_loop (concat chs) n = Inr (n + length chs)"
proof (induction chs arbitrary: n)
  case (Cons ch chs)
  then obtain c cs where ch: "ch = c # cs" by (cases ch) auto
  with Cons.prems have "utf8_char_size c = Inr (Suc (length cs))" by simp
  moreover have "multi_byte_loop (concat chs) (n + 1) = Inr (n + 1 + length chs)"
    by (rule Cons.IH) (use Cons.prems in simp)
  ultimately show ?case by (simp add: ch)
qed simp

end
