(* ===== verification/Ieee_Double.thy ===== *)
theory Ieee_Double
  imports Prelude
begin

text \<open>
  The C type \<open>double\<close> as the code uses it: IEEE 754 binary64 on its 64 bits, with the
  operations of the language and of \<^verbatim>\<open>math.h\<close> that the modelled sources call (comparison,
  \<open>+\<close>, \<open>*\<close>, \<open>/\<close>, negation, conversions from and to integers, \<open>floor\<close>, \<open>round\<close>, \<open>ceil\<close>).
  Rounding is to nearest, ties to even.  A conversion of a double to an integer type it does
  not fit is undefined in C; the model returns what the x86-64 conversion instruction gives
  (the least value of the type).  Payloads of NaNs are not tracked: an operation whose result
  is a NaN returns the default one.

  \<open>xnum\<close> is the set of numeric values (NaN, the infinities, the rationals) that doubles,
  the \<open>long double\<close> temporaries and decimals denote.
\<close>

section \<open>Numeric values\<close>

datatype xnum = XNaN | XNegInf | XFin rat | XPosInf

fun xnum_key :: "xnum \<Rightarrow> nat \<times> rat" where
  "xnum_key XNaN = (0, 0)"
| "xnum_key XNegInf = (1, 0)"
| "xnum_key (XFin q) = (2, q)"
| "xnum_key XPosInf = (3, 0)"

text \<open>The relational operators of C on floating-point operands are false on NaN.\<close>

definition x_less :: "xnum \<Rightarrow> xnum \<Rightarrow> bool" where
  "x_less x y \<longleftrightarrow> x \<noteq> XNaN \<and> y \<noteq> XNaN \<and> xnum_key x < xnum_key y"

definition x_eq :: "xnum \<Rightarrow> xnum \<Rightarrow> bool" where
  "x_eq x y \<longleftrightarrow> x \<noteq> XNaN \<and> y \<noteq> XNaN \<and> x = y"

definition x_le :: "xnum \<Rightarrow> xnum \<Rightarrow> bool" where
  "x_le x y \<longleftrightarrow> x_less x y \<or> x_eq x y"

section \<open>Binary64\<close>

datatype double = Double (dbl_bits: "64 word")

definition dbl_sign :: "double \<Rightarrow> bool" where
  "dbl_sign d = (2 ^ 63 \<le> uint (dbl_bits d))"

definition dbl_expo :: "double \<Rightarrow> int" where
  "dbl_expo d = (uint (dbl_bits d) div 2 ^ 52) mod 2 ^ 11"

definition dbl_frac :: "double \<Rightarrow> int" where
  "dbl_frac d = uint (dbl_bits d) mod 2 ^ 52"

definition pow2 :: "int \<Rightarrow> rat" where
  "pow2 e = (if 0 \<le> e then 2 ^ nat e else 1 / 2 ^ nat (- e))"

definition dbl_mant :: "double \<Rightarrow> int" where
  "dbl_mant d =
     (let m = (if dbl_expo d = 0 then dbl_frac d else 2 ^ 52 + dbl_frac d)
      in if dbl_sign d then - m else m)"

definition dbl_exp2 :: "double \<Rightarrow> int" where
  "dbl_exp2 d = (if dbl_expo d = 0 then -1074 else dbl_expo d - 1075)"

definition isnan :: "double \<Rightarrow> bool" where
  "isnan d \<longleftrightarrow> dbl_expo d = 2047 \<and> dbl_frac d \<noteq> 0"

definition isinf :: "double \<Rightarrow> bool" where
  "isinf d \<longleftrightarrow> dbl_expo d = 2047 \<and> dbl_frac d = 0"

definition dbl_x :: "double \<Rightarrow> xnum" where
  "dbl_x d =
     (if isnan d then XNaN
      else if isinf d then (if dbl_sign d then XNegInf else XPosInf)
      else XFin (of_int (dbl_mant d) * pow2 (dbl_exp2 d)))"

definition dbl_nan :: double where
  "dbl_nan = Double 0x7FF8000000000000"

text \<open>A result from its sign and its magnitude bits, and the special values.\<close>

definition dbl_make :: "bool \<Rightarrow> int \<Rightarrow> double" where
  "dbl_make s b = Double (of_int ((if s then 2 ^ 63 else 0) + b))"

definition dbl_inf :: "bool \<Rightarrow> double" where
  "dbl_inf s = dbl_make s (2047 * 2 ^ 52)"

definition dbl_zero :: "bool \<Rightarrow> double" where
  "dbl_zero s = dbl_make s 0"

section \<open>Rounding\<close>

definition round_half_even :: "rat \<Rightarrow> int" where
  "round_half_even q =
     (let f = \<lfloor>q\<rfloor>; r = q - of_int f
      in if r < 1 / 2 then f
         else if r > 1 / 2 then f + 1
         else if even f then f else f + 1)"

function ilog2 :: "int \<Rightarrow> int" where
  "ilog2 n = (if n < 2 then 0 else 1 + ilog2 (n div 2))"
  by pat_completeness auto
termination
  by (relation "measure nat") auto

declare ilog2.simps [simp del]

text \<open>The exponent of the binade of a positive rational.\<close>

definition flog2 :: "rat \<Rightarrow> int" where
  "flog2 q =
     (let (a, b) = quotient_of q; k = ilog2 a - ilog2 b
      in if q < pow2 k then k - 1 else k)"

text \<open>
  The double nearest to a non-negative rational, with the given sign.  With exponent \<open>e\<close> and
  significand \<open>m\<close> in units of \<open>2 ^ e\<close> the magnitude bits are \<open>(e + 1074) * 2 ^ 52 + m\<close>, for
  subnormal and normal results alike, and a significand that rounds up to \<open>2 ^ 53\<close> carries
  into the exponent; what exceeds the largest finite number is infinite.
\<close>

definition dbl_round :: "bool \<Rightarrow> rat \<Rightarrow> double" where
  "dbl_round s q =
     (if q = 0 then dbl_zero s
      else let e = max (- 1074) (flog2 q - 52);
               b = (e + 1074) * 2 ^ 52 + round_half_even (q / pow2 e)
           in dbl_make s (min b (2047 * 2 ^ 52)))"

section \<open>Operations\<close>

definition dbl_of_rat :: "rat \<Rightarrow> double" where
  "dbl_of_rat q = dbl_round (q < 0) \<bar>q\<bar>"

definition dbl_of_int :: "int \<Rightarrow> double" where
  "dbl_of_int i = dbl_of_rat (of_int i)"

definition dbl_neg :: "double \<Rightarrow> double" where
  "dbl_neg d = Double (dbl_bits d + 2 ^ 63)"

definition dbl_add :: "double \<Rightarrow> double \<Rightarrow> double" where
  "dbl_add x y =
     (case (dbl_x x, dbl_x y) of
        (XFin a, XFin b) \<Rightarrow>
          (if a + b = 0 then dbl_zero (dbl_sign x \<and> dbl_sign y) else dbl_of_rat (a + b))
      | (XNaN, _) \<Rightarrow> dbl_nan
      | (_, XNaN) \<Rightarrow> dbl_nan
      | (XFin a, _) \<Rightarrow> y
      | (_, XFin b) \<Rightarrow> x
      | (i, j) \<Rightarrow> if i = j then x else dbl_nan)"

definition dbl_mul :: "double \<Rightarrow> double \<Rightarrow> double" where
  "dbl_mul x y =
     (let s = (dbl_sign x \<noteq> dbl_sign y)
      in case (dbl_x x, dbl_x y) of
           (XNaN, _) \<Rightarrow> dbl_nan
         | (_, XNaN) \<Rightarrow> dbl_nan
         | (XFin a, XFin b) \<Rightarrow> dbl_round s (\<bar>a\<bar> * \<bar>b\<bar>)
         | (XFin a, _) \<Rightarrow> if a = 0 then dbl_nan else dbl_inf s
         | (_, XFin b) \<Rightarrow> if b = 0 then dbl_nan else dbl_inf s
         | _ \<Rightarrow> dbl_inf s)"

definition dbl_div :: "double \<Rightarrow> double \<Rightarrow> double" where
  "dbl_div x y =
     (let s = (dbl_sign x \<noteq> dbl_sign y)
      in case (dbl_x x, dbl_x y) of
           (XNaN, _) \<Rightarrow> dbl_nan
         | (_, XNaN) \<Rightarrow> dbl_nan
         | (XFin a, XFin b) \<Rightarrow>
             (if b = 0 then (if a = 0 then dbl_nan else dbl_inf s)
              else dbl_round s (\<bar>a\<bar> / \<bar>b\<bar>))
         | (XFin a, _) \<Rightarrow> dbl_zero s
         | (_, XFin b) \<Rightarrow> dbl_inf s
         | _ \<Rightarrow> dbl_nan)"

text \<open>Conversions to integers: truncation, and \<open>round\<close>, which rounds half away from zero.\<close>

definition trunc_rat :: "rat \<Rightarrow> int" where
  "trunc_rat q = (if q < 0 then - \<lfloor>- q\<rfloor> else \<lfloor>q\<rfloor>)"

definition round_away :: "rat \<Rightarrow> int" where
  "round_away q = (if q < 0 then - \<lfloor>- q + 1 / 2\<rfloor> else \<lfloor>q + 1 / 2\<rfloor>)"

definition x_to_int64 :: "(rat \<Rightarrow> int) \<Rightarrow> xnum \<Rightarrow> int64" where
  "x_to_int64 f x =
     (case x of
        XFin q \<Rightarrow> if INT64_MIN \<le> f q \<and> f q \<le> INT64_MAX then of_int (f q) else of_int INT64_MIN
      | _ \<Rightarrow> of_int INT64_MIN)"

definition x_to_int32 :: "(rat \<Rightarrow> int) \<Rightarrow> xnum \<Rightarrow> int32" where
  "x_to_int32 f x =
     (case x of
        XFin q \<Rightarrow> if INT32_MIN \<le> f q \<and> f q \<le> INT32_MAX then of_int (f q) else of_int INT32_MIN
      | _ \<Rightarrow> of_int INT32_MIN)"

text \<open>\<open>floor(d) == d\<close>.\<close>

definition dbl_is_floor :: "double \<Rightarrow> bool" where
  "dbl_is_floor d =
     (case dbl_x d of XNaN \<Rightarrow> False | XFin q \<Rightarrow> of_int \<lfloor>q\<rfloor> = q | _ \<Rightarrow> True)"

section \<open>Exactness and spacing\<close>

lemma xnum_key_inj [simp]: "xnum_key x = xnum_key y \<longleftrightarrow> x = y"
  by (cases x; cases y) auto

lemma pow2_pos [simp]: "0 < pow2 e"
  by (simp add: pow2_def)

lemma pow2_nonneg [simp]: "0 \<le> pow2 e" "pow2 e \<noteq> 0"
  using pow2_pos [of e] by linarith+

lemma pow2_add_nat: "pow2 (e + int n) = pow2 e * 2 ^ n"
proof (cases "0 \<le> e")
  case True
  then show ?thesis by (simp add: pow2_def nat_add_distrib power_add)
next
  case False
  show ?thesis
  proof (cases "0 \<le> e + int n")
    case True
    have "n = nat (e + int n) + nat (- e)" using False True by simp
    then have "(2::rat) ^ n = 2 ^ nat (e + int n) * 2 ^ nat (- e)" by (metis power_add)
    with False True show ?thesis by (simp add: pow2_def)
  next
    case neg: False
    have "nat (- e) = nat (- (e + int n)) + n" using neg by simp
    then have "(2::rat) ^ nat (- e) = 2 ^ nat (- (e + int n)) * 2 ^ n" by (metis power_add)
    with False neg show ?thesis by (simp add: pow2_def field_simps)
  qed
qed

lemma dbl_frac_bounds: "0 \<le> dbl_frac d" "dbl_frac d < 2 ^ 52"
  by (simp_all add: dbl_frac_def)

lemma dbl_mant_bound: "\<bar>dbl_mant d\<bar> < 2 ^ 53"
  using dbl_frac_bounds [of d] by (auto simp: dbl_mant_def Let_def)

lemma dbl_x_finite:
  "dbl_x d = XFin q \<Longrightarrow> q = of_int (dbl_mant d) * pow2 (dbl_exp2 d)"
  by (auto simp: dbl_x_def split: if_splits)

lemma dbl_x_nan [simp]: "dbl_x d = XNaN \<longleftrightarrow> isnan d"
  by (simp add: dbl_x_def)

text \<open>
  Two different dyadic numbers whose significands have at most 64 bits (doubles and 64-bit
  integers) are far apart in relation to their size, so a conversion with a small relative
  error keeps their order.
\<close>

lemma dyadic_gap_le:
  fixes m m' :: int
  assumes "of_int m * pow2 e \<noteq> of_int m' * pow2 e'" and "e \<le> e'" and "\<bar>m\<bar> \<le> 2 ^ 63"
  shows "\<bar>of_int m * pow2 e\<bar> + \<bar>of_int m' * pow2 e'\<bar>
     \<le> (2 ^ 64 + 1) * \<bar>of_int m * pow2 e - of_int m' * pow2 e'\<bar>"
proof -
  let ?x = "of_int m * pow2 e" and ?y = "of_int m' * pow2 e'"
  let ?k = "m - m' * 2 ^ nat (e' - e)"
  have "pow2 e' = pow2 e * 2 ^ nat (e' - e)"
    using pow2_add_nat [of e "nat (e' - e)"] \<open>e \<le> e'\<close> by simp
  then have diff: "?x - ?y = of_int ?k * pow2 e"
    by (simp add: algebra_simps)
  with assms(1) have "?k \<noteq> 0" by auto
  then have "1 \<le> \<bar>?k\<bar>" by simp
  then have k: "(1::rat) \<le> \<bar>of_int ?k\<bar>" by (metis of_int_1_le_iff of_int_abs)
  have "1 * pow2 e \<le> \<bar>of_int ?k\<bar> * pow2 e"
    by (rule mult_right_mono [OF k]) simp
  then have gap: "pow2 e \<le> \<bar>?x - ?y\<bar>"
    unfolding diff by (simp add: abs_mult)
  have m: "(of_int \<bar>m\<bar> :: rat) \<le> 2 ^ 63"
    using assms(3) by (metis of_int_le_numeral_power_cancel_iff)
  have "\<bar>?x\<bar> \<le> 2 ^ 63 * pow2 e"
    using mult_right_mono [OF m, of "pow2 e"] by (simp add: abs_mult)
  also have "\<dots> \<le> 2 ^ 63 * \<bar>?x - ?y\<bar>"
    using gap by (simp add: mult_left_mono)
  finally have x: "\<bar>?x\<bar> \<le> 2 ^ 63 * \<bar>?x - ?y\<bar>" .
  have "\<bar>?y\<bar> \<le> \<bar>?x\<bar> + \<bar>?x - ?y\<bar>" by linarith
  moreover have "(2 ^ 64 + 1) * \<bar>?x - ?y\<bar> = 2 * (2 ^ 63 * \<bar>?x - ?y\<bar>) + \<bar>?x - ?y\<bar>"
    by (simp add: distrib_right)
  ultimately show ?thesis using x by linarith
qed

lemma dyadic_gap:
  fixes m m' :: int
  assumes "of_int m * pow2 e \<noteq> of_int m' * pow2 e'" and "\<bar>m\<bar> \<le> 2 ^ 63" and "\<bar>m'\<bar> \<le> 2 ^ 63"
  shows "\<bar>of_int m * pow2 e\<bar> + \<bar>of_int m' * pow2 e'\<bar>
     \<le> (2 ^ 64 + 1) * \<bar>of_int m * pow2 e - of_int m' * pow2 e'\<bar>"
proof (cases "e \<le> e'")
  case True
  then show ?thesis using dyadic_gap_le assms by blast
next
  case False
  then show ?thesis
    using dyadic_gap_le [of m' e' m e] assms by (simp add: abs_minus_commute add.commute)
qed

lemma close_keeps_order:
  fixes x y q r :: rat
  assumes "\<bar>x\<bar> + \<bar>y\<bar> \<le> (2 ^ 64 + 1) * \<bar>x - y\<bar>" "x < y"
    and "\<bar>q - x\<bar> \<le> \<bar>x\<bar> / 10 ^ 30" "\<bar>r - y\<bar> \<le> \<bar>y\<bar> / 10 ^ 30"
  shows "q < r"
proof -
  have "\<bar>q - x\<bar> + \<bar>r - y\<bar> \<le> (\<bar>x\<bar> + \<bar>y\<bar>) / 10 ^ 30"
    using assms(3,4) by (simp add: add_divide_distrib)
  also have "\<dots> \<le> (2 ^ 64 + 1) * \<bar>x - y\<bar> / 10 ^ 30"
    using assms(1) by (rule divide_right_mono) simp
  also have "\<dots> < \<bar>x - y\<bar>" using \<open>x < y\<close> by simp
  finally show ?thesis using \<open>x < y\<close> by linarith
qed

end
