(* ===== verification/Bson_Types.thy ===== *)
theory Bson_Types
  imports Ieee_Double
begin

text \<open>
  BSON types and values: the tagged union \<open>bson_value_t\<close> of libbson as a datatype, one
  constructor per type tag with the fields of that member, and the functions on type tags of
  \<^verbatim>\<open>src/io/pgbson_utils.c\<close>, \<^verbatim>\<open>src/query/bson_compare.c\<close> and
  \<^verbatim>\<open>include/io/bsonvalue_utils.h\<close>.

  A document or array is the sequence of its elements, in order, as the libbson iterator
  yields them; an array's keys are part of its elements, as they are in BSON.  Strings are
  their bytes, without the terminating zero.  \<open>Regex\<close> holds two C string pointers, which may
  be NULL.  Documents that the libbson iterator rejects are outside the model.
\<close>

datatype bson_type =
    BSON_TYPE_EOD | BSON_TYPE_DOUBLE | BSON_TYPE_UTF8 | BSON_TYPE_DOCUMENT | BSON_TYPE_ARRAY
  | BSON_TYPE_BINARY | BSON_TYPE_UNDEFINED | BSON_TYPE_OID | BSON_TYPE_BOOL | BSON_TYPE_DATE_TIME
  | BSON_TYPE_NULL | BSON_TYPE_REGEX | BSON_TYPE_DBPOINTER | BSON_TYPE_CODE | BSON_TYPE_SYMBOL
  | BSON_TYPE_CODEWSCOPE | BSON_TYPE_INT32 | BSON_TYPE_TIMESTAMP | BSON_TYPE_INT64
  | BSON_TYPE_DECIMAL128 | BSON_TYPE_MAXKEY | BSON_TYPE_MINKEY

fun bson_type_code :: "bson_type \<Rightarrow> int" where
  "bson_type_code BSON_TYPE_EOD = 0"
| "bson_type_code BSON_TYPE_DOUBLE = 1"
| "bson_type_code BSON_TYPE_UTF8 = 2"
| "bson_type_code BSON_TYPE_DOCUMENT = 3"
| "bson_type_code BSON_TYPE_ARRAY = 4"
| "bson_type_code BSON_TYPE_BINARY = 5"
| "bson_type_code BSON_TYPE_UNDEFINED = 6"
| "bson_type_code BSON_TYPE_OID = 7"
| "bson_type_code BSON_TYPE_BOOL = 8"
| "bson_type_code BSON_TYPE_DATE_TIME = 9"
| "bson_type_code BSON_TYPE_NULL = 10"
| "bson_type_code BSON_TYPE_REGEX = 11"
| "bson_type_code BSON_TYPE_DBPOINTER = 12"
| "bson_type_code BSON_TYPE_CODE = 13"
| "bson_type_code BSON_TYPE_SYMBOL = 14"
| "bson_type_code BSON_TYPE_CODEWSCOPE = 15"
| "bson_type_code BSON_TYPE_INT32 = 16"
| "bson_type_code BSON_TYPE_TIMESTAMP = 17"
| "bson_type_code BSON_TYPE_INT64 = 18"
| "bson_type_code BSON_TYPE_DECIMAL128 = 19"
| "bson_type_code BSON_TYPE_MAXKEY = 127"
| "bson_type_code BSON_TYPE_MINKEY = 255"

definition bson_types :: "bson_type list" where
  "bson_types =
     [BSON_TYPE_EOD, BSON_TYPE_DOUBLE, BSON_TYPE_UTF8, BSON_TYPE_DOCUMENT, BSON_TYPE_ARRAY,
      BSON_TYPE_BINARY, BSON_TYPE_UNDEFINED, BSON_TYPE_OID, BSON_TYPE_BOOL, BSON_TYPE_DATE_TIME,
      BSON_TYPE_NULL, BSON_TYPE_REGEX, BSON_TYPE_DBPOINTER, BSON_TYPE_CODE, BSON_TYPE_SYMBOL,
      BSON_TYPE_CODEWSCOPE, BSON_TYPE_INT32, BSON_TYPE_TIMESTAMP, BSON_TYPE_INT64,
      BSON_TYPE_DECIMAL128, BSON_TYPE_MAXKEY, BSON_TYPE_MINKEY]"

text \<open>The enumerator with a given code, if there is one.\<close>

definition bson_type_of_code :: "int \<Rightarrow> bson_type option" where
  "bson_type_of_code n = find (\<lambda>t. bson_type_code t = n) bson_types"

datatype decimal128 = Dec128 (dec_high: uint64) (dec_low: uint64)

datatype bson_value =
    BvEOD
  | BvDouble double
  | BvUtf8 string
  | BvDocument "(string \<times> bson_value) list"
  | BvArray "(string \<times> bson_value) list"
  | BvBinary "8 word" string
  | BvUndefined
  | BvOid string
  | BvBool bool
  | BvDateTime int64
  | BvNull
  | BvRegex "string option" "string option"
  | BvDBPointer string string
  | BvCode string
  | BvSymbol string
  | BvCodeWScope string "(string \<times> bson_value) list"
  | BvInt32 int32
  | BvTimestamp uint32 uint32
  | BvInt64 int64
  | BvDecimal128 decimal128
  | BvMaxKey
  | BvMinKey

type_synonym bson_doc = "(string \<times> bson_value) list"

fun value_type :: "bson_value \<Rightarrow> bson_type" where
  "value_type BvEOD = BSON_TYPE_EOD"
| "value_type (BvDouble _) = BSON_TYPE_DOUBLE"
| "value_type (BvUtf8 _) = BSON_TYPE_UTF8"
| "value_type (BvDocument _) = BSON_TYPE_DOCUMENT"
| "value_type (BvArray _) = BSON_TYPE_ARRAY"
| "value_type (BvBinary _ _) = BSON_TYPE_BINARY"
| "value_type BvUndefined = BSON_TYPE_UNDEFINED"
| "value_type (BvOid _) = BSON_TYPE_OID"
| "value_type (BvBool _) = BSON_TYPE_BOOL"
| "value_type (BvDateTime _) = BSON_TYPE_DATE_TIME"
| "value_type BvNull = BSON_TYPE_NULL"
| "value_type (BvRegex _ _) = BSON_TYPE_REGEX"
| "value_type (BvDBPointer _ _) = BSON_TYPE_DBPOINTER"
| "value_type (BvCode _) = BSON_TYPE_CODE"
| "value_type (BvSymbol _) = BSON_TYPE_SYMBOL"
| "value_type (BvCodeWScope _ _) = BSON_TYPE_CODEWSCOPE"
| "value_type (BvInt32 _) = BSON_TYPE_INT32"
| "value_type (BvTimestamp _ _) = BSON_TYPE_TIMESTAMP"
| "value_type (BvInt64 _) = BSON_TYPE_INT64"
| "value_type (BvDecimal128 _) = BSON_TYPE_DECIMAL128"
| "value_type BvMaxKey = BSON_TYPE_MAXKEY"
| "value_type BvMinKey = BSON_TYPE_MINKEY"

text \<open>\<open>pgbsonelement\<close>: a field of a document.\<close>

record pgbsonelement =
  path :: string
  bsonValue :: bson_value

section \<open>Type names\<close>

text \<open>
  \<open>BsonTypeFromName\<close> compares C strings with \<open>strcmp\<close>; a C string has no zero byte, so the
  comparisons are equalities of the names.
\<close>

definition BsonTypeFromName :: "string \<Rightarrow> bson_type result" where
  "BsonTypeFromName name =
     (if strcmp name ''null'' = 0 then Inr BSON_TYPE_NULL
      else if strcmp name ''undefined'' = 0 then Inr BSON_TYPE_UNDEFINED
      else if strcmp name ''minKey'' = 0 then Inr BSON_TYPE_MINKEY
      else if strcmp name ''maxKey'' = 0 then Inr BSON_TYPE_MAXKEY
      else if strcmp name ''bool'' = 0 then Inr BSON_TYPE_BOOL
      else if strcmp name ''int'' = 0 then Inr BSON_TYPE_INT32
      else if strcmp name ''long'' = 0 then Inr BSON_TYPE_INT64
      else if strcmp name ''double'' = 0 then Inr BSON_TYPE_DOUBLE
      else if strcmp name ''date'' = 0 then Inr BSON_TYPE_DATE_TIME
      else if strcmp name ''timestamp'' = 0 then Inr BSON_TYPE_TIMESTAMP
      else if strcmp name ''objectId'' = 0 then Inr BSON_TYPE_OID
      else if strcmp name ''decimal'' = 0 then Inr BSON_TYPE_DECIMAL128
      else if strcmp name ''string'' = 0 then Inr BSON_TYPE_UTF8
      else if strcmp name ''array'' = 0 then Inr BSON_TYPE_ARRAY
      else if strcmp name ''object'' = 0 then Inr BSON_TYPE_DOCUMENT
      else if strcmp name ''symbol'' = 0 then Inr BSON_TYPE_SYMBOL
      else if strcmp name ''binData'' = 0 then Inr BSON_TYPE_BINARY
      else if strcmp name ''regex'' = 0 then Inr BSON_TYPE_REGEX
      else if strcmp name ''dbPointer'' = 0 then Inr BSON_TYPE_DBPOINTER
      else if strcmp name ''javascript'' = 0 then Inr BSON_TYPE_CODE
      else if strcmp name ''javascriptWithScope'' = 0 then Inr BSON_TYPE_CODEWSCOPE
      else Inl (Ereport ERRCODE_DOCUMENTDB_BADVALUE))"

text \<open>
  \<open>type = (bson_type_t) typeCode\<close> keeps the low 32 bits (\<open>bson_type_t\<close> is an unsigned
  32-bit enumeration), while the test for \<open>-1\<close> is on the 64-bit argument.
\<close>

definition TryGetTypeFromInt64 :: "int64 \<Rightarrow> bson_type option" where
  "TryGetTypeFromInt64 typeCode =
     (let type = uint (ucast typeCode :: 32 word)
      in if (type \<ge> bson_type_code BSON_TYPE_EOD \<and> type \<le> bson_type_code BSON_TYPE_DECIMAL128)
            \<or> type = bson_type_code BSON_TYPE_MAXKEY \<or> sint typeCode = -1
         then (if sint typeCode = -1 then Some BSON_TYPE_MINKEY else bson_type_of_code type)
         else None)"

fun BsonTypeName :: "bson_type \<Rightarrow> string result" where
  "BsonTypeName BSON_TYPE_NULL = Inr ''null''"
| "BsonTypeName BSON_TYPE_UNDEFINED = Inr ''undefined''"
| "BsonTypeName BSON_TYPE_MINKEY = Inr ''minKey''"
| "BsonTypeName BSON_TYPE_MAXKEY = Inr ''maxKey''"
| "BsonTypeName BSON_TYPE_BOOL = Inr ''bool''"
| "BsonTypeName BSON_TYPE_INT32 = Inr ''int''"
| "BsonTypeName BSON_TYPE_INT64 = Inr ''long''"
| "BsonTypeName BSON_TYPE_DOUBLE = Inr ''double''"
| "BsonTypeName BSON_TYPE_DATE_TIME = Inr ''date''"
| "BsonTypeName BSON_TYPE_TIMESTAMP = Inr ''timestamp''"
| "BsonTypeName BSON_TYPE_OID = Inr ''objectId''"
| "BsonTypeName BSON_TYPE_DECIMAL128 = Inr ''decimal''"
| "BsonTypeName BSON_TYPE_UTF8 = Inr ''string''"
| "BsonTypeName BSON_TYPE_ARRAY = Inr ''array''"
| "BsonTypeName BSON_TYPE_DOCUMENT = Inr ''object''"
| "BsonTypeName BSON_TYPE_SYMBOL = Inr ''symbol''"
| "BsonTypeName BSON_TYPE_BINARY = Inr ''binData''"
| "BsonTypeName BSON_TYPE_REGEX = Inr ''regex''"
| "BsonTypeName BSON_TYPE_DBPOINTER = Inr ''dbPointer''"
| "BsonTypeName BSON_TYPE_CODE = Inr ''javascript''"
| "BsonTypeName BSON_TYPE_CODEWSCOPE = Inr ''javascriptWithScope''"
| "BsonTypeName _ = Inl (Ereport ERRCODE_FEATURE_NOT_SUPPORTED)"

text \<open>
  An error report whose message names a type: computing the name may itself raise, and that
  error is then the one reported.
\<close>

definition raise_naming :: "errcode \<Rightarrow> bson_type \<Rightarrow> 'a result" where
  "raise_naming code t = ebind (BsonTypeName t) (\<lambda>_. Inl (Ereport code))"

section \<open>Classification and sort order of types\<close>

fun BsonTypeIsNumber :: "bson_type \<Rightarrow> bool" where
  "BsonTypeIsNumber BSON_TYPE_DOUBLE = True"
| "BsonTypeIsNumber BSON_TYPE_INT64 = True"
| "BsonTypeIsNumber BSON_TYPE_INT32 = True"
| "BsonTypeIsNumber BSON_TYPE_DECIMAL128 = True"
| "BsonTypeIsNumber _ = False"

fun BsonTypeIsNumberOrBool :: "bson_type \<Rightarrow> bool" where
  "BsonTypeIsNumberOrBool BSON_TYPE_BOOL = True"
| "BsonTypeIsNumberOrBool BSON_TYPE_DOUBLE = True"
| "BsonTypeIsNumberOrBool BSON_TYPE_INT64 = True"
| "BsonTypeIsNumberOrBool BSON_TYPE_INT32 = True"
| "BsonTypeIsNumberOrBool BSON_TYPE_DECIMAL128 = True"
| "BsonTypeIsNumberOrBool _ = False"

definition BsonValueIsNumber :: "bson_value \<Rightarrow> bool" where
  "BsonValueIsNumber v = BsonTypeIsNumber (value_type v)"

definition BsonValueIsNumberOrBool :: "bson_value \<Rightarrow> bool" where
  "BsonValueIsNumberOrBool v = BsonTypeIsNumberOrBool (value_type v)"

definition IsBsonValueDateTimeFormat :: "bson_type \<Rightarrow> bool" where
  "IsBsonValueDateTimeFormat t \<longleftrightarrow>
     t = BSON_TYPE_DATE_TIME \<or> t = BSON_TYPE_TIMESTAMP \<or> t = BSON_TYPE_OID"

fun GetSortOrderType :: "bson_type \<Rightarrow> int" where
  "GetSortOrderType BSON_TYPE_EOD = 0x0"
| "GetSortOrderType BSON_TYPE_MINKEY = 0x0"
| "GetSortOrderType BSON_TYPE_UNDEFINED = 0x1"
| "GetSortOrderType BSON_TYPE_NULL = 0x1"
| "GetSortOrderType BSON_TYPE_DOUBLE = 0x2"
| "GetSortOrderType BSON_TYPE_INT32 = 0x2"
| "GetSortOrderType BSON_TYPE_INT64 = 0x2"
| "GetSortOrderType BSON_TYPE_DECIMAL128 = 0x2"
| "GetSortOrderType BSON_TYPE_UTF8 = 0x3"
| "GetSortOrderType BSON_TYPE_SYMBOL = 0x3"
| "GetSortOrderType BSON_TYPE_DOCUMENT = 0x4"
| "GetSortOrderType BSON_TYPE_ARRAY = 0x5"
| "GetSortOrderType BSON_TYPE_BINARY = 0x6"
| "GetSortOrderType BSON_TYPE_OID = 0x7"
| "GetSortOrderType BSON_TYPE_BOOL = 0x8"
| "GetSortOrderType BSON_TYPE_DATE_TIME = 0x9"
| "GetSortOrderType BSON_TYPE_TIMESTAMP = 0xA"
| "GetSortOrderType BSON_TYPE_REGEX = 0xB"
| "GetSortOrderType BSON_TYPE_DBPOINTER = 0xC"
| "GetSortOrderType BSON_TYPE_CODE = 0xD"
| "GetSortOrderType BSON_TYPE_CODEWSCOPE = 0xE"
| "GetSortOrderType BSON_TYPE_MAXKEY = 0xF"

definition CompareSortOrderType :: "bson_type \<Rightarrow> bson_type \<Rightarrow> int" where
  "CompareSortOrderType left right = GetSortOrderType left - GetSortOrderType right"

definition CompareBsonSortOrderType :: "bson_value \<Rightarrow> bson_value \<Rightarrow> int" where
  "CompareBsonSortOrderType left right = CompareSortOrderType (value_type left) (value_type right)"

section \<open>Well-formed values\<close>

definition c_string :: "string \<Rightarrow> bool" where
  "c_string s \<longleftrightarrow> (\<forall>c \<in> set s. byte_val c \<noteq> 0)"

definition short :: "string \<Rightarrow> bool" where
  "short s \<longleftrightarrow> length s < 2 ^ 31"

text \<open>
  What libbson guarantees of the values it hands out: lengths fit in a signed 32-bit integer,
  object ids have 12 bytes, keys, patterns and options are non-null C strings, and the
  end-of-document marker is not the value of a field.
\<close>

fun wf_value :: "bson_value \<Rightarrow> bool"
  and wf_doc :: "bson_doc \<Rightarrow> bool" where
  "wf_value (BvUtf8 s) = short s"
| "wf_value (BvSymbol s) = short s"
| "wf_value (BvCode s) = short s"
| "wf_value (BvDocument d) = wf_doc d"
| "wf_value (BvArray d) = wf_doc d"
| "wf_value (BvBinary _ s) = short s"
| "wf_value (BvOid s) = (length s = 12)"
| "wf_value (BvRegex r t) =
     (case (r, t) of (Some r, Some t) \<Rightarrow> c_string r \<and> c_string t | _ \<Rightarrow> False)"
| "wf_value (BvDBPointer s oid) = (short s \<and> length oid = 12)"
| "wf_value (BvCodeWScope s d) = (short s \<and> wf_doc d)"
| "wf_value _ = True"
| "wf_doc [] = True"
| "wf_doc ((k, v) # d) = (short k \<and> c_string k \<and> v \<noteq> BvEOD \<and> wf_value v \<and> wf_doc d)"

section \<open>Facts\<close>

lemma cstr_c_string: "c_string s \<Longrightarrow> cstr s = s"
  by (simp add: cstr_def c_string_def takeWhile_eq_all_conv)

lemma cstr_literals [simp]:
  "cstr ''null'' = ''null''" "cstr ''undefined'' = ''undefined''" "cstr ''minKey'' = ''minKey''"
  "cstr ''maxKey'' = ''maxKey''" "cstr ''bool'' = ''bool''" "cstr ''int'' = ''int''"
  "cstr ''long'' = ''long''" "cstr ''double'' = ''double''" "cstr ''date'' = ''date''"
  "cstr ''timestamp'' = ''timestamp''" "cstr ''objectId'' = ''objectId''"
  "cstr ''decimal'' = ''decimal''" "cstr ''string'' = ''string''" "cstr ''array'' = ''array''"
  "cstr ''object'' = ''object''" "cstr ''symbol'' = ''symbol''" "cstr ''binData'' = ''binData''"
  "cstr ''regex'' = ''regex''" "cstr ''dbPointer'' = ''dbPointer''"
  "cstr ''javascript'' = ''javascript''" "cstr ''javascriptWithScope'' = ''javascriptWithScope''"
  by (simp_all add: cstr_def byte_val_def)

lemma bson_type_in_types [simp]: "t \<in> set bson_types"
  by (cases t) (simp_all add: bson_types_def)

lemma bson_type_code_inj: "bson_type_code s = bson_type_code t \<longleftrightarrow> s = t"
  by (cases s; cases t) simp_all

lemma bson_type_of_code_Some: "bson_type_of_code n = Some t \<longleftrightarrow> bson_type_code t = n"
proof
  assume "bson_type_of_code n = Some t"
  then show "bson_type_code t = n"
    by (auto simp: bson_type_of_code_def find_Some_iff)
next
  assume *: "bson_type_code t = n"
  then have "bson_type_of_code n \<noteq> None"
    unfolding bson_type_of_code_def find_None_iff using bson_type_in_types by blast
  then obtain s where "bson_type_of_code n = Some s" by blast
  moreover from this have "bson_type_code s = n"
    by (auto simp: bson_type_of_code_def find_Some_iff)
  ultimately show "bson_type_of_code n = Some t" using * bson_type_code_inj [of s t] by simp
qed

lemma GetSortOrderType_bounds: "0 \<le> GetSortOrderType t" "GetSortOrderType t \<le> 15"
  by (cases t; simp)+

lemma sort_type_cases:
  "GetSortOrderType s = GetSortOrderType t \<Longrightarrow>
     s = t \<or> {s, t} \<subseteq> {BSON_TYPE_DOUBLE, BSON_TYPE_INT32, BSON_TYPE_INT64, BSON_TYPE_DECIMAL128}
     \<or> {s, t} \<subseteq> {BSON_TYPE_UTF8, BSON_TYPE_SYMBOL} \<or> {s, t} \<subseteq> {BSON_TYPE_NULL, BSON_TYPE_UNDEFINED}
     \<or> {s, t} \<subseteq> {BSON_TYPE_EOD, BSON_TYPE_MINKEY}"
  by (cases s; cases t) simp_all

text \<open>The type determines the constructor.\<close>

lemma value_of_type:
  "value_type v = BSON_TYPE_EOD \<longleftrightarrow> v = BvEOD"
  "value_type v = BSON_TYPE_DOUBLE \<longleftrightarrow> (\<exists>x. v = BvDouble x)"
  "value_type v = BSON_TYPE_UTF8 \<longleftrightarrow> (\<exists>x. v = BvUtf8 x)"
  "value_type v = BSON_TYPE_DOCUMENT \<longleftrightarrow> (\<exists>x. v = BvDocument x)"
  "value_type v = BSON_TYPE_ARRAY \<longleftrightarrow> (\<exists>x. v = BvArray x)"
  "value_type v = BSON_TYPE_BINARY \<longleftrightarrow> (\<exists>x y. v = BvBinary x y)"
  "value_type v = BSON_TYPE_UNDEFINED \<longleftrightarrow> v = BvUndefined"
  "value_type v = BSON_TYPE_OID \<longleftrightarrow> (\<exists>x. v = BvOid x)"
  "value_type v = BSON_TYPE_BOOL \<longleftrightarrow> (\<exists>x. v = BvBool x)"
  "value_type v = BSON_TYPE_DATE_TIME \<longleftrightarrow> (\<exists>x. v = BvDateTime x)"
  "value_type v = BSON_TYPE_NULL \<longleftrightarrow> v = BvNull"
  "value_type v = BSON_TYPE_REGEX \<longleftrightarrow> (\<exists>x y. v = BvRegex x y)"
  "value_type v = BSON_TYPE_DBPOINTER \<longleftrightarrow> (\<exists>x y. v = BvDBPointer x y)"
  "value_type v = BSON_TYPE_CODE \<longleftrightarrow> (\<exists>x. v = BvCode x)"
  "value_type v = BSON_TYPE_SYMBOL \<longleftrightarrow> (\<exists>x. v = BvSymbol x)"
  "value_type v = BSON_TYPE_CODEWSCOPE \<longleftrightarrow> (\<exists>x y. v = BvCodeWScope x y)"
  "value_type v = BSON_TYPE_INT32 \<longleftrightarrow> (\<exists>x. v = BvInt32 x)"
  "value_type v = BSON_TYPE_TIMESTAMP \<longleftrightarrow> (\<exists>x y. v = BvTimestamp x y)"
  "value_type v = BSON_TYPE_INT64 \<longleftrightarrow> (\<exists>x. v = BvInt64 x)"
  "value_type v = BSON_TYPE_DECIMAL128 \<longleftrightarrow> (\<exists>x. v = BvDecimal128 x)"
  "value_type v = BSON_TYPE_MAXKEY \<longleftrightarrow> v = BvMaxKey"
  "value_type v = BSON_TYPE_MINKEY \<longleftrightarrow> v = BvMinKey"
  by (cases v; simp)+

lemma raise_naming_Inl: "\<exists>e. raise_naming c t = Inl e"
  by (cases t) (simp_all add: raise_naming_def)

end
