(* ===== verification/Extern.thy ===== *)
theory Extern
  imports Bson_Types
begin

text \<open>
  The code outside the repository that the modelled sources call, as one record of functions
  that every definition takes as its parameter \<open>E\<close>: the Intel decimal floating-point library
  (\<^verbatim>\<open>bid128_*\<close>), libbson, ICU, PCRE2, the \<open>log10\<close> of the C library, and PostgreSQL's hash functions,
  hash tables and hexadecimal coding.
  What the proofs use of them is collected in the locale \<open>external_code\<close>; each law states
  documented behaviour (IEEE 754 decimal arithmetic, the BID encoding, \<open>memcmp\<close> order of
  object ids).

  A library function that reports through an \<open>_IDEC_flags\<close> pointer returns the exception bits
  it raises; the caller ors them into its flag word.
\<close>

unbundle bit_operations_syntax

section \<open>Decimal128 data\<close>

definition pow10 :: "int \<Rightarrow> rat" where
  "pow10 e = (if 0 \<le> e then 10 ^ nat e else 1 / 10 ^ nat (- e))"

definition dec_sign :: "decimal128 \<Rightarrow> bool" where
  "dec_sign d \<longleftrightarrow> 2 ^ 63 \<le> uint (dec_high d)"

text \<open>The bits of the high word below the sign.\<close>

definition dec_comb :: "decimal128 \<Rightarrow> int" where
  "dec_comb d = uint (dec_high d) mod 2 ^ 63"

definition dec_coeff :: "decimal128 \<Rightarrow> int" where
  "dec_coeff d =
     (let c = (uint (dec_high d) mod 2 ^ 49) * 2 ^ 64 + uint (dec_low d)
      in if dec_comb d div 2 ^ 61 = 3 \<or> c \<ge> 10 ^ 34 then 0 else c)"

definition dec_exp10 :: "decimal128 \<Rightarrow> int" where
  "dec_exp10 d = dec_comb d div 2 ^ 49 - 6176"

text \<open>
  The number a decimal denotes in the binary integer (BID) encoding of IEEE 754-2008;
  a non-canonical coefficient counts as zero.
\<close>

definition dec_x :: "decimal128 \<Rightarrow> xnum" where
  "dec_x d =
     (if dec_comb d div 2 ^ 58 = 31 then XNaN
      else if dec_comb d div 2 ^ 58 = 30 then (if dec_sign d then XNegInf else XPosInf)
      else XFin ((if dec_sign d then - 1 else 1) * of_int (dec_coeff d) * pow10 (dec_exp10 d)))"

section \<open>Flags, rounding modes and entry points of the decimal library\<close>

type_synonym idec_flags = "32 word"

abbreviation (input) BID_INVALID_EXCEPTION :: idec_flags where "BID_INVALID_EXCEPTION \<equiv> 0x01"
abbreviation (input) BID_DENORMAL_EXCEPTION :: idec_flags where "BID_DENORMAL_EXCEPTION \<equiv> 0x02"
abbreviation (input) BID_ZERO_DIVIDE_EXCEPTION :: idec_flags where "BID_ZERO_DIVIDE_EXCEPTION \<equiv> 0x04"
abbreviation (input) BID_OVERFLOW_EXCEPTION :: idec_flags where "BID_OVERFLOW_EXCEPTION \<equiv> 0x08"
abbreviation (input) BID_UNDERFLOW_EXCEPTION :: idec_flags where "BID_UNDERFLOW_EXCEPTION \<equiv> 0x10"
abbreviation (input) BID_INEXACT_EXCEPTION :: idec_flags where "BID_INEXACT_EXCEPTION \<equiv> 0x20"

datatype Decimal128RoundingMode =
    Decimal128RoundingMode_NearestEven
  | Decimal128RoundingMode_Downward
  | Decimal128RoundingMode_Upward
  | Decimal128RoundingMode_TowardZero
  | Decimal128RoundingMode_NearestAway

text \<open>Unary and binary arithmetic entry points with a rounding mode.\<close>

datatype bid_fn1 =
    Bid128_exp | Bid128_sqrt | Bid128_log10 | Bid128_log | Bid128_sin | Bid128_cos | Bid128_tan
  | Bid128_sinh | Bid128_cosh | Bid128_tanh | Bid128_asin | Bid128_acos | Bid128_atan
  | Bid128_asinh | Bid128_acosh | Bid128_atanh | Bid128_round_integral_exact

datatype bid_fn2 =
    Bid128_add | Bid128_sub | Bid128_mul | Bid128_div | Bid128_pow | Bid128_atan2 | Bid128_quantize

record extern =
  bid128_isNaN :: "decimal128 \<Rightarrow> bool"
  bid128_isInf :: "decimal128 \<Rightarrow> bool"
  bid128_isFinite :: "decimal128 \<Rightarrow> bool"
  bid128_isZero :: "decimal128 \<Rightarrow> bool"
  bid128_quiet_equal :: "decimal128 \<Rightarrow> decimal128 \<Rightarrow> bool \<times> idec_flags"
  bid128_quiet_greater :: "decimal128 \<Rightarrow> decimal128 \<Rightarrow> bool \<times> idec_flags"
  bid128_from_int32 :: "int32 \<Rightarrow> decimal128"
  bid128_from_int64 :: "int64 \<Rightarrow> decimal128"
  bid128_to_int32_xint :: "decimal128 \<Rightarrow> int32 \<times> idec_flags"
  bid128_to_int32_xrnint :: "decimal128 \<Rightarrow> int32 \<times> idec_flags"
  bid128_to_int32_xceil :: "decimal128 \<Rightarrow> int32 \<times> idec_flags"
  bid128_to_int64_xint :: "decimal128 \<Rightarrow> int64 \<times> idec_flags"
  bid128_to_int64_xrnint :: "decimal128 \<Rightarrow> int64 \<times> idec_flags"
  bid128_to_int64_floor :: "decimal128 \<Rightarrow> int64 \<times> idec_flags"
  bid128_to_binary64 :: "decimal128 \<Rightarrow> Decimal128RoundingMode \<Rightarrow> double \<times> idec_flags"
  bid128_to_binary80 :: "decimal128 \<Rightarrow> Decimal128RoundingMode \<Rightarrow> xnum \<times> idec_flags"
  binary64_to_bid128 :: "double \<Rightarrow> Decimal128RoundingMode \<Rightarrow> decimal128 \<times> idec_flags"
  bid128_fmod :: "decimal128 \<Rightarrow> decimal128 \<Rightarrow> decimal128 \<times> idec_flags"
  bid128_round_integral_positive :: "decimal128 \<Rightarrow> decimal128 \<times> idec_flags"
  bid128_round_integral_negative :: "decimal128 \<Rightarrow> decimal128 \<times> idec_flags"
  bid128_abs :: "decimal128 \<Rightarrow> decimal128"
  bid128_fn1 :: "bid_fn1 \<Rightarrow> decimal128 \<Rightarrow> Decimal128RoundingMode \<Rightarrow> decimal128 \<times> idec_flags"
  bid128_fn2 ::
    "bid_fn2 \<Rightarrow> decimal128 \<Rightarrow> decimal128 \<Rightarrow> Decimal128RoundingMode \<Rightarrow> decimal128 \<times> idec_flags"
  bson_decimal128_to_string :: "decimal128 \<Rightarrow> string"
  bson_oid_compare :: "string \<Rightarrow> string \<Rightarrow> int"
  bson_oid_get_time_t :: "string \<Rightarrow> int64"
  bson_doc_data :: "bson_doc \<Rightarrow> string"
  BSON_ITER_HOLDS_NUMBER :: "bson_type \<Rightarrow> bool"
  bson_iter_find_w_len :: "string \<Rightarrow> bson_doc \<Rightarrow> nat option"
  pcre2_compile :: "string \<Rightarrow> uint32 \<Rightarrow> nat \<Rightarrow> (string \<Rightarrow> int) option"
  hash_search_find ::
    "(bson_value \<Rightarrow> uint32 result) \<Rightarrow> (bson_value \<Rightarrow> bson_value \<Rightarrow> int result)
       \<Rightarrow> bson_value list \<Rightarrow> bson_value \<Rightarrow> bool result"
  hash_search_element ::
    "(pgbsonelement \<Rightarrow> uint32) \<Rightarrow> (pgbsonelement \<Rightarrow> pgbsonelement \<Rightarrow> int)
       \<Rightarrow> pgbsonelement list \<Rightarrow> pgbsonelement \<Rightarrow> nat option"
  bson_uint32_to_string :: "uint32 \<Rightarrow> string"
  bson_init_from_json :: "string \<Rightarrow> bson_doc option"
  hex_encode :: "string \<Rightarrow> string"
  hex_decode :: "string \<Rightarrow> string result"
  ucol_strcollUTF8 :: "string \<Rightarrow> string \<Rightarrow> string \<Rightarrow> int"
  ucol_getSortKey :: "string \<Rightarrow> string \<Rightarrow> string"
  c_log10 :: "double \<Rightarrow> double"
  hash_bytes :: "string \<Rightarrow> uint32"
  hash_bytes_extended :: "string \<Rightarrow> uint64 \<Rightarrow> uint64"
  hash_bytes_uint32_extended :: "uint32 \<Rightarrow> uint64 \<Rightarrow> uint64"
  hash_combine :: "uint32 \<Rightarrow> uint32 \<Rightarrow> uint32"
  hash_combine64 :: "uint64 \<Rightarrow> uint64 \<Rightarrow> uint64"

text \<open>
  \<open>bson_iter_find_w_len\<close> advances an iterator to the next field with a given name; it is
  represented by the number of fields it skips.  \<open>hash_search_find\<close> is PostgreSQL's
  \<open>hash_search(..., HASH_FIND, ...)\<close> on a table created with a hash and a match callback, as a
  function of the keys stored in the table; \<open>hash_search_element\<close> is the search in a table of elements
  and gives the position of the entry it finds, the entries numbered as they were entered.
  \<open>bson_uint32_to_string\<close> writes the name of an array index, \<open>bson_init_from_json\<close> is libbson's reader of
  JSON, \<open>hex_encode\<close> and \<open>hex_decode\<close> are PostgreSQL's.  \<open>pcre2_compile\<close> gets the pattern, the option bits and
  the maximal pattern length of its context; the compiled pattern is represented by the return
  code of \<open>pcre2_match\<close> on a subject.
\<close>

fun first_index :: "('a \<Rightarrow> bool) \<Rightarrow> 'a list \<Rightarrow> nat option" where
  "first_index P [] = None"
| "first_index P (x # xs) = (if P x then Some 0 else map_option Suc (first_index P xs))"

text \<open>The decimal digits of a number.\<close>

fun dec_string :: "nat \<Rightarrow> string" where
  "dec_string n = (if n < 10 then [] else dec_string (n div 10)) @ [char_of (48 + n mod 10)]"

declare dec_string.simps [simp del]

section \<open>What the code relies on\<close>

text \<open>The exception test of \<^verbatim>\<open>decimal128.c\<close> that the laws speak about.\<close>

definition IsOperationInvalid :: "idec_flags \<Rightarrow> bool" where
  "IsOperationInvalid x \<longleftrightarrow> x AND BID_INVALID_EXCEPTION = BID_INVALID_EXCEPTION"

text \<open>
  A conversion to an integer type returns the integer if it fits and otherwise raises the
  invalid exception; \<open>f\<close> is the rounding to an integer.
\<close>

definition converts_to :: "(rat \<Rightarrow> int) \<Rightarrow> int \<Rightarrow> int \<Rightarrow> xnum \<Rightarrow> int \<Rightarrow> idec_flags \<Rightarrow> bool" where
  "converts_to f lo hi x r flags =
     (case x of
        XFin q \<Rightarrow> if lo \<le> f q \<and> f q \<le> hi then r = f q \<and> \<not> IsOperationInvalid flags
                  else IsOperationInvalid flags
      | _ \<Rightarrow> IsOperationInvalid flags)"

locale external_code =
  fixes E :: extern
  assumes isNaN_law: "bid128_isNaN E d \<longleftrightarrow> dec_x d = XNaN"
    and isInf_law: "bid128_isInf E d \<longleftrightarrow> dec_x d = XNegInf \<or> dec_x d = XPosInf"
    and isFinite_law: "bid128_isFinite E d \<longleftrightarrow> (\<exists>q. dec_x d = XFin q)"
    and isZero_law: "bid128_isZero E d \<longleftrightarrow> dec_x d = XFin 0"
    and quiet_equal_law: "dec_x a \<noteq> XNaN \<Longrightarrow> dec_x b \<noteq> XNaN \<Longrightarrow>
      fst (bid128_quiet_equal E a b) = (dec_x a = dec_x b)
        \<and> \<not> IsOperationInvalid (snd (bid128_quiet_equal E a b))"
    and quiet_greater_law: "dec_x a \<noteq> XNaN \<Longrightarrow> dec_x b \<noteq> XNaN \<Longrightarrow>
      fst (bid128_quiet_greater E a b) = x_less (dec_x b) (dec_x a)"
    and from_int32_law: "dec_x (bid128_from_int32 E i) = XFin (of_int (sint i))"
    and from_int64_law: "dec_x (bid128_from_int64 E j) = XFin (of_int (sint j))"
    and to_int64_xint_law:
      "converts_to trunc_rat INT64_MIN INT64_MAX (dec_x d)
         (sint (fst (bid128_to_int64_xint E d))) (snd (bid128_to_int64_xint E d))"
    and to_int64_xrnint_law:
      "converts_to round_half_even INT64_MIN INT64_MAX (dec_x d)
         (sint (fst (bid128_to_int64_xrnint E d))) (snd (bid128_to_int64_xrnint E d))"
    and to_int64_floor_law:
      "converts_to floor INT64_MIN INT64_MAX (dec_x d)
         (sint (fst (bid128_to_int64_floor E d))) (snd (bid128_to_int64_floor E d))"
    and to_int32_xint_law:
      "converts_to trunc_rat INT32_MIN INT32_MAX (dec_x d)
         (sint (fst (bid128_to_int32_xint E d))) (snd (bid128_to_int32_xint E d))"
    and to_int32_xrnint_law:
      "converts_to round_half_even INT32_MIN INT32_MAX (dec_x d)
         (sint (fst (bid128_to_int32_xrnint E d))) (snd (bid128_to_int32_xrnint E d))"
    and binary64_special_law: "(\<And>q. dbl_x x \<noteq> XFin q) \<Longrightarrow>
      dec_x (fst (binary64_to_bid128 E x m)) = dbl_x x"
    and binary64_finite_law: "dbl_x x = XFin q \<Longrightarrow>
      \<exists>r. dec_x (fst (binary64_to_bid128 E x Decimal128RoundingMode_NearestEven)) = XFin r
        \<and> \<bar>r - q\<bar> \<le> \<bar>q\<bar> / 10 ^ 30"
    and binary64_value_law: "dbl_x x = dbl_x y \<Longrightarrow>
      dec_x (fst (binary64_to_bid128 E x m)) = dec_x (fst (binary64_to_bid128 E y m))"
    and binary64_integer_law: "dbl_x x = XFin (of_int n) \<Longrightarrow> \<bar>n\<bar> < 10 ^ 34 \<Longrightarrow>
      dec_x (fst (binary64_to_bid128 E x Decimal128RoundingMode_NearestEven)) = XFin (of_int n)"
    and oid_compare_law: "length o1 = 12 \<Longrightarrow> length o2 = 12 \<Longrightarrow>
      sgn (bson_oid_compare E o1 o2) = sgn (memcmp o1 o2 12)"
    and find_law: "c_string k \<Longrightarrow> wf_doc doc \<Longrightarrow>
      bson_iter_find_w_len E k doc = first_index (\<lambda>e. fst e = k) doc"
    and hash_search_law:
      "(\<And>x. x = v \<or> x \<in> set stored \<Longrightarrow> h x = Inr (hv x)) \<Longrightarrow>
       (\<And>x. x \<in> set stored \<Longrightarrow> mf x v = Inr (mv x)) \<Longrightarrow>
         hash_search_find E h mf stored v = Inr (\<exists>x \<in> set stored. hv x = hv v \<and> mv x = 0)"
    and hash_element_found: "hash_search_element E hf mt entries elem = Some pos \<Longrightarrow>
      pos < length entries \<and> hf (entries ! pos) = hf elem \<and> mt (entries ! pos) elem = 0"
    and hash_element_absent: "hash_search_element E hf mt entries elem = None \<Longrightarrow> entry \<in> set entries \<Longrightarrow>
      hf entry = hf elem \<Longrightarrow> mt entry elem \<noteq> 0"
    and index_name_law: "bson_uint32_to_string E idx = dec_string (unat idx)"
    and hex_decode_law: "hex_decode E (hex_encode E bytes) = Inr bytes"
    and hex_encode_law: "length (hex_encode E bytes) = 2 * length bytes \<and> c_string (hex_encode E bytes)"
    and doc_data_law: "wf_doc d1 \<Longrightarrow> wf_doc d2 \<Longrightarrow>
      bson_doc_data E d1 = bson_doc_data E d2 \<Longrightarrow> d1 = d2"

end
