(* ===== verification/Decimal128.thy ===== *)
theory Decimal128
  imports Extern
begin

text \<open>
  \<^verbatim>\<open>pg_documentdb_core/src/types/decimal128.c\<close>: conversions, predicates, comparison and
  arithmetic of \<open>BSON_TYPE_DECIMAL128\<close> values over the Intel decimal library.

  \<open>BID_UINT128\<close> and \<open>bson_decimal128_t\<close> hold the same two 64-bit words and are one type here.
  An out-parameter \<open>bson_value_t *result\<close> is part of the returned pair.  The \<open>DEBUG1\<close> log
  messages (\<open>LogWith1Operand\<close>, \<open>LogWith2Operands\<close>) have no effect on the results and are left
  out.
\<close>

unbundle bit_operations_syntax

datatype Decimal128Result =
    Decimal128Result_Success
  | Decimal128Result_Invalid
  | Decimal128Result_Overflow
  | Decimal128Result_Underflow
  | Decimal128Result_DivideByZero
  | Decimal128Result_Inexact
  | Decimal128Result_Denormal
  | Decimal128Result_Unknown

datatype Decimal128MathOperation =
    Decimal128MathOperation_Add | Decimal128MathOperation_Subtract
  | Decimal128MathOperation_Multiply | Decimal128MathOperation_Divide
  | Decimal128MathOperation_Mod | Decimal128MathOperation_Ceil | Decimal128MathOperation_Floor
  | Decimal128MathOperation_Exp | Decimal128MathOperation_Sqrt | Decimal128MathOperation_Abs
  | Decimal128MathOperation_Log10 | Decimal128MathOperation_NaturalLogarithm
  | Decimal128MathOperation_Log | Decimal128MathOperation_Pow | Decimal128MathOperation_Round
  | Decimal128MathOperation_Trunc | Decimal128MathOperation_Sin | Decimal128MathOperation_Cos
  | Decimal128MathOperation_Tan | Decimal128MathOperation_Sinh | Decimal128MathOperation_Cosh
  | Decimal128MathOperation_Tanh | Decimal128MathOperation_Asin | Decimal128MathOperation_Acos
  | Decimal128MathOperation_Atan | Decimal128MathOperation_Atan2 | Decimal128MathOperation_Asinh
  | Decimal128MathOperation_Acosh | Decimal128MathOperation_Atanh

text \<open>From \<^verbatim>\<open>include/io/bsonvalue_utils.h\<close>.\<close>

datatype ConversionRoundingMode = ConversionRoundingMode_Floor | ConversionRoundingMode_NearestEven

abbreviation (input) Decimal128RoundingMode_Default :: Decimal128RoundingMode where
  "Decimal128RoundingMode_Default \<equiv> Decimal128RoundingMode_NearestEven"

abbreviation (input) INFINITY_MASK64 :: uint64 where "INFINITY_MASK64 \<equiv> 0x7800000000000000"
abbreviation (input) SINFINITY_MASK64 :: uint64 where "SINFINITY_MASK64 \<equiv> 0xf800000000000000"
abbreviation (input) NAN_MASK64 :: uint64 where "NAN_MASK64 \<equiv> 0x7c00000000000000"

text \<open>\<open>(BID128_EXP_BIAS + e) << BID128_EXP_BITS_OFFSET\<close>, in 64-bit arithmetic.\<close>

definition bid_exp_bits :: "int \<Rightarrow> uint64" where
  "bid_exp_bits e = push_bit 49 (of_int (6176 + e))"

section \<open>Exception flags\<close>

definition IsOperationDivideByZero :: "idec_flags \<Rightarrow> bool" where
  "IsOperationDivideByZero x \<longleftrightarrow> x AND BID_ZERO_DIVIDE_EXCEPTION = BID_ZERO_DIVIDE_EXCEPTION"

definition IsOperationOverflow :: "idec_flags \<Rightarrow> bool" where
  "IsOperationOverflow x \<longleftrightarrow> x AND BID_OVERFLOW_EXCEPTION = BID_OVERFLOW_EXCEPTION"

definition IsOperationUnderflow :: "idec_flags \<Rightarrow> bool" where
  "IsOperationUnderflow x \<longleftrightarrow> x AND BID_UNDERFLOW_EXCEPTION = BID_UNDERFLOW_EXCEPTION"

definition IsOperationInExact :: "idec_flags \<Rightarrow> bool" where
  "IsOperationInExact x \<longleftrightarrow> x AND BID_INEXACT_EXCEPTION = BID_INEXACT_EXCEPTION"

definition IsOperationSuccess :: "idec_flags \<Rightarrow> bool" where
  "IsOperationSuccess x \<longleftrightarrow> x = 0"

definition GetDecimal128ResultFromFlag :: "idec_flags \<Rightarrow> Decimal128Result" where
  "GetDecimal128ResultFromFlag flag0 =
     (let flag = (if flag0 AND BID_INEXACT_EXCEPTION \<noteq> 0 \<and> flag0 XOR BID_INEXACT_EXCEPTION \<noteq> 0
                  then flag0 AND NOT BID_INEXACT_EXCEPTION else flag0)
      in if flag = 0 then Decimal128Result_Success
         else if flag = BID_INVALID_EXCEPTION then Decimal128Result_Invalid
         else if flag = BID_INEXACT_EXCEPTION then Decimal128Result_Inexact
         else if flag = BID_OVERFLOW_EXCEPTION then Decimal128Result_Overflow
         else if flag = BID_UNDERFLOW_EXCEPTION then Decimal128Result_Underflow
         else if flag = BID_ZERO_DIVIDE_EXCEPTION then Decimal128Result_DivideByZero
         else if flag = BID_DENORMAL_EXCEPTION then Decimal128Result_Denormal
         else Decimal128Result_Unknown)"

section \<open>Access to the value\<close>

definition CheckDecimal128Type :: "bson_value \<Rightarrow> unit result" where
  "CheckDecimal128Type v =
     (if value_type v \<noteq> BSON_TYPE_DECIMAL128
      then raise_naming ERRCODE_INTERNAL_ERROR (value_type v) else Inr ())"

definition GetBIDUINT128FromBsonValue :: "bson_value \<Rightarrow> decimal128 result" where
  "GetBIDUINT128FromBsonValue v =
     ebind (CheckDecimal128Type v)
       (\<lambda>_. case v of BvDecimal128 d \<Rightarrow> Inr (Dec128 (dec_high d) (dec_low d)) | _ \<Rightarrow> Inl UnionMisread)"

definition GetBsonDecimal128FromBIDUINT128 :: "decimal128 \<Rightarrow> decimal128" where
  "GetBsonDecimal128FromBIDUINT128 bid = Dec128 (dec_high bid) (dec_low bid)"

text \<open>All three branches (infinity, NaN, out of range) report the same error code.\<close>

definition ThrowConversionFailureError :: "extern \<Rightarrow> decimal128 \<Rightarrow> 'a result" where
  "ThrowConversionFailureError E bid =
     (if bid128_isInf E bid then Inl (Ereport ERRCODE_DOCUMENTDB_CONVERSIONFAILURE)
      else if bid128_isNaN E bid then Inl (Ereport ERRCODE_DOCUMENTDB_CONVERSIONFAILURE)
      else Inl (Ereport ERRCODE_DOCUMENTDB_CONVERSIONFAILURE))"

section \<open>Conversions from decimal128\<close>

definition GetBsonDecimal128AsInt32 ::
    "extern \<Rightarrow> bson_value \<Rightarrow> ConversionRoundingMode \<Rightarrow> int32 result" where
  "GetBsonDecimal128AsInt32 E v roundingMode =
     ebind (GetBIDUINT128FromBsonValue v) (\<lambda>bid.
       let (r, flags) = (if roundingMode = ConversionRoundingMode_NearestEven
                         then bid128_to_int32_xrnint E bid else bid128_to_int32_xint E bid)
       in if \<not> IsOperationSuccess flags \<and> IsOperationInvalid flags
          then ThrowConversionFailureError E bid else Inr r)"

definition GetBsonDecimal128AsInt64 ::
    "extern \<Rightarrow> bson_value \<Rightarrow> ConversionRoundingMode \<Rightarrow> int64 result" where
  "GetBsonDecimal128AsInt64 E v roundingMode =
     ebind (GetBIDUINT128FromBsonValue v) (\<lambda>bid.
       let (r, flags) = (if roundingMode = ConversionRoundingMode_NearestEven
                         then bid128_to_int64_xrnint E bid else bid128_to_int64_xint E bid)
       in if \<not> IsOperationSuccess flags
          then (if IsOperationInvalid flags then ThrowConversionFailureError E bid else Inr r)
          else Inr r)"

definition GetBsonDecimal128AsDouble :: "extern \<Rightarrow> bson_value \<Rightarrow> double result" where
  "GetBsonDecimal128AsDouble E v =
     ebind (GetBIDUINT128FromBsonValue v) (\<lambda>bid.
       let (r, flags) = bid128_to_binary64 E bid Decimal128RoundingMode_Default
       in if \<not> IsOperationSuccess flags \<and> (IsOperationOverflow flags \<or> IsOperationUnderflow flags)
          then Inl (Ereport ERRCODE_DOCUMENTDB_CONVERSIONFAILURE) else Inr r)"

definition GetBsonDecimal128AsDoubleQuiet :: "extern \<Rightarrow> bson_value \<Rightarrow> double result" where
  "GetBsonDecimal128AsDoubleQuiet E v =
     ebind (GetBIDUINT128FromBsonValue v) (\<lambda>bid.
       Inr (fst (bid128_to_binary64 E bid Decimal128RoundingMode_Default)))"

definition GetBsonDecimal128AsLongDouble :: "extern \<Rightarrow> bson_value \<Rightarrow> xnum result" where
  "GetBsonDecimal128AsLongDouble E v =
     ebind (GetBIDUINT128FromBsonValue v) (\<lambda>bid.
       let (r, flags) = bid128_to_binary80 E bid Decimal128RoundingMode_Default
       in if \<not> IsOperationSuccess flags \<and> (IsOperationOverflow flags \<or> IsOperationUnderflow flags)
          then Inl (Ereport ERRCODE_DOCUMENTDB_CONVERSIONFAILURE) else Inr r)"

definition GetBsonDecimal128AsBool :: "extern \<Rightarrow> bson_value \<Rightarrow> bool result" where
  "GetBsonDecimal128AsBool E v =
     ebind (GetBIDUINT128FromBsonValue v) (\<lambda>bid. Inr (\<not> bid128_isZero E bid))"

definition GetBsonDecimal128AsString :: "extern \<Rightarrow> bson_value \<Rightarrow> string result" where
  "GetBsonDecimal128AsString E v =
     ebind (CheckDecimal128Type v)
       (\<lambda>_. case v of BvDecimal128 d \<Rightarrow> Inr (cstr (bson_decimal128_to_string E d)) | _ \<Rightarrow> Inl UnionMisread)"

section \<open>Conversion to decimal128\<close>

definition dbl_fabs :: "double \<Rightarrow> double" where
  "dbl_fabs d = Double (of_int (uint (dbl_bits d) mod 2 ^ 63))"

text \<open>\<open>(doubleVal == 0.0) ? 0 : (int) ceil(log10(fabs(doubleVal)))\<close>.\<close>

definition decimal_exponent :: "extern \<Rightarrow> double \<Rightarrow> int" where
  "decimal_exponent E d =
     (if x_eq (dbl_x d) (XFin 0) then 0
      else sint (x_to_int32 ceiling (dbl_x (c_log10 E (dbl_fabs d)))))"

text \<open>
  The double case of \<open>GetBsonValueAsDecimal128Core\<close>.  The comparison
  \<open>bidValue.w[BID_LOW_BITS] > (1E15 - 1)\<close> converts the 64-bit word to double, which keeps the
  order with the integer \<open>10 ^ 15 - 1\<close>.
\<close>

definition decimal128_from_double :: "extern \<Rightarrow> double \<Rightarrow> bool \<Rightarrow> decimal128" where
  "decimal128_from_double E d shouldQuantizeDouble =
     (let inexact = fst (binary64_to_bid128 E d Decimal128RoundingMode_Default)
      in if bid128_isInf E inexact \<or> bid128_isNaN E inexact \<or> \<not> shouldQuantizeDouble
         then inexact
         else let exp = decimal_exponent E d;
                  bidValue = fst (bid128_fn2 E Bid128_quantize inexact
                    (Dec128 (bid_exp_bits (exp - 15)) 1) Decimal128RoundingMode_Default)
              in if uint (dec_low bidValue) > 10 ^ 15 - 1
                 then fst (bid128_fn2 E Bid128_quantize inexact
                    (Dec128 (bid_exp_bits (exp - 14)) 1) Decimal128RoundingMode_Default)
                 else bidValue)"

text \<open>
  The \<open>BSON_TYPE_UTF8\<close> branch of the switch is unreachable: the guard at the top of the function
  refuses every type that is not a number, a boolean or a date.
\<close>

definition GetBsonValueAsDecimal128Core :: "extern \<Rightarrow> bson_value \<Rightarrow> bool \<Rightarrow> decimal128 result" where
  "GetBsonValueAsDecimal128Core E v shouldQuantizeDouble =
     (if \<not> BsonValueIsNumberOrBool v \<and> value_type v \<noteq> BSON_TYPE_DATE_TIME
      then Inl (Ereport ERRCODE_INTERNAL_ERROR)
      else case v of
             BvInt32 i \<Rightarrow> Inr (GetBsonDecimal128FromBIDUINT128 (bid128_from_int32 E i))
           | BvInt64 i \<Rightarrow> Inr (GetBsonDecimal128FromBIDUINT128 (bid128_from_int64 E i))
           | BvBool b \<Rightarrow>
               Inr (GetBsonDecimal128FromBIDUINT128 (Dec128 (bid_exp_bits 0) (if b then 1 else 0)))
           | BvDouble d \<Rightarrow>
               Inr (GetBsonDecimal128FromBIDUINT128 (decimal128_from_double E d shouldQuantizeDouble))
           | BvDateTime t \<Rightarrow> Inr (GetBsonDecimal128FromBIDUINT128 (bid128_from_int64 E t))
           | BvDecimal128 d \<Rightarrow> Inr d
           | _ \<Rightarrow> Inl (Ereport ERRCODE_DOCUMENTDB_BADVALUE))"

definition GetBsonValueAsDecimal128Quantized :: "extern \<Rightarrow> bson_value \<Rightarrow> decimal128 result" where
  "GetBsonValueAsDecimal128Quantized E v = GetBsonValueAsDecimal128Core E v True"

definition GetBsonValueAsDecimal128 :: "extern \<Rightarrow> bson_value \<Rightarrow> decimal128 result" where
  "GetBsonValueAsDecimal128 E v = GetBsonValueAsDecimal128Core E v False"

definition GetDecimal128FromInt64 :: "extern \<Rightarrow> int64 \<Rightarrow> decimal128" where
  "GetDecimal128FromInt64 E i = GetBsonDecimal128FromBIDUINT128 (bid128_from_int64 E i)"

section \<open>Predicates\<close>

definition IsDecimal128NaN :: "extern \<Rightarrow> bson_value \<Rightarrow> bool result" where
  "IsDecimal128NaN E v = ebind (GetBIDUINT128FromBsonValue v) (\<lambda>bid. Inr (bid128_isNaN E bid))"

text \<open>\<open>*isPositiveInfinity\<close> is written (\<open>Some\<close>) only when the value is infinite.\<close>

definition IsDecimal128Infinity :: "extern \<Rightarrow> bson_value \<Rightarrow> (bool \<times> bool option) result" where
  "IsDecimal128Infinity E v =
     ebind (GetBIDUINT128FromBsonValue v) (\<lambda>bid.
       Inr (if bid128_isInf E bid then (True, Some (dec_high bid \<noteq> SINFINITY_MASK64))
            else (False, None)))"

definition IsDecimal128Finite :: "extern \<Rightarrow> bson_value \<Rightarrow> bool result" where
  "IsDecimal128Finite E v = ebind (GetBIDUINT128FromBsonValue v) (\<lambda>bid. Inr (bid128_isFinite E bid))"

definition IsDecimal128Zero :: "extern \<Rightarrow> bson_value \<Rightarrow> bool result" where
  "IsDecimal128Zero E v = ebind (GetBIDUINT128FromBsonValue v) (\<lambda>bid. Inr (bid128_isZero E bid))"

text \<open>
  The setters overwrite the decimal member of the union and leave the type tag alone; on a
  value with another tag the result is no longer described by that tag.
\<close>

definition set_v_decimal128 :: "decimal128 \<Rightarrow> bson_value \<Rightarrow> bson_value result" where
  "set_v_decimal128 d v = (case v of BvDecimal128 _ \<Rightarrow> Inr (BvDecimal128 d) | _ \<Rightarrow> Inl UnionMisread)"

definition SetDecimal128NaN :: "bson_value \<Rightarrow> bson_value result" where
  "SetDecimal128NaN v = set_v_decimal128 (Dec128 NAN_MASK64 0) v"

definition SetDecimal128NegativeInfinity :: "bson_value \<Rightarrow> bson_value result" where
  "SetDecimal128NegativeInfinity v = set_v_decimal128 (Dec128 SINFINITY_MASK64 0) v"

definition SetDecimal128PositiveInfinity :: "bson_value \<Rightarrow> bson_value result" where
  "SetDecimal128PositiveInfinity v = set_v_decimal128 (Dec128 INFINITY_MASK64 0) v"

definition SetDecimal128Zero :: "bson_value \<Rightarrow> bson_value result" where
  "SetDecimal128Zero v = set_v_decimal128 (Dec128 (bid_exp_bits 0) 0) v"

definition IsDecimal128InInt64Range :: "extern \<Rightarrow> bson_value \<Rightarrow> bool result" where
  "IsDecimal128InInt64Range E v =
     ebind (IsDecimal128Finite E v) (\<lambda>fin.
       if \<not> fin then Inr False
       else ebind (GetBIDUINT128FromBsonValue v) (\<lambda>bid.
              Inr (\<not> IsOperationInvalid (snd (bid128_to_int64_xint E bid)))))"

definition IsDecimal128InInt32Range :: "extern \<Rightarrow> bson_value \<Rightarrow> bool result" where
  "IsDecimal128InInt32Range E v =
     ebind (IsDecimal128Finite E v) (\<lambda>fin.
       if \<not> fin then Inr False
       else ebind (GetBIDUINT128FromBsonValue v) (\<lambda>bid.
              Inr (\<not> IsOperationInvalid (snd (bid128_to_int32_xint E bid)))))"

definition IsDecimal128InDoubleRange :: "extern \<Rightarrow> bson_value \<Rightarrow> bool result" where
  "IsDecimal128InDoubleRange E v =
     ebind (GetBIDUINT128FromBsonValue v) (\<lambda>bid.
       let flags = snd (bid128_to_binary64 E bid Decimal128RoundingMode_Default)
       in Inr (\<not> (IsOperationInvalid flags \<or> IsOperationOverflow flags \<or> IsOperationUnderflow flags)))"

section \<open>Comparison\<close>

text \<open>The result and the exception flags after the call, from the flags before it.\<close>

definition BIDUINT128SignalingEqual ::
    "extern \<Rightarrow> decimal128 \<Rightarrow> decimal128 \<Rightarrow> idec_flags \<Rightarrow> bool \<times> idec_flags" where
  "BIDUINT128SignalingEqual E x y exceptionFlag =
     (let isXNaN = bid128_isNaN E x; isYNaN = bid128_isNaN E y
      in if isXNaN \<and> isYNaN then (True, exceptionFlag)
         else if isXNaN \<or> isYNaN then (False, exceptionFlag OR BID_INVALID_EXCEPTION)
         else let (r, flags) = bid128_quiet_equal E x y in (r, exceptionFlag OR flags))"

text \<open>Returns the order and \<open>*isComparisonValid\<close>.\<close>

definition CompareBsonDecimal128 ::
    "extern \<Rightarrow> bson_value \<Rightarrow> bson_value \<Rightarrow> (int \<times> bool) result" where
  "CompareBsonDecimal128 E left right =
     ebind (GetBIDUINT128FromBsonValue left) (\<lambda>leftBid.
     ebind (GetBIDUINT128FromBsonValue right) (\<lambda>rightBid.
       let (isEqual, my_fpsf) = BIDUINT128SignalingEqual E leftBid rightBid 0
       in if IsOperationInvalid my_fpsf
          then ebind (IsDecimal128NaN E left) (\<lambda>nan. Inr (if nan then -1 else 1, False))
          else if isEqual then Inr (0, True)
          else Inr (if fst (bid128_quiet_greater E leftBid rightBid) then 1 else -1, True)))"

text \<open>Returns the value and \<open>*isOverFlow\<close>, which the caller has initialised to false.\<close>

definition Decimal128ToInt64Floor :: "extern \<Rightarrow> bson_value \<Rightarrow> (int64 \<times> bool) result" where
  "Decimal128ToInt64Floor E v =
     ebind (GetBIDUINT128FromBsonValue v) (\<lambda>bid.
       let (r, flag) = bid128_to_int64_floor E bid
       in Inr (if IsOperationInvalid flag then (0, True) else (r, False)))"

definition IsDecimal128AFixedInteger :: "extern \<Rightarrow> bson_value \<Rightarrow> bool result" where
  "IsDecimal128AFixedInteger E v =
     (if value_type v \<noteq> BSON_TYPE_DECIMAL128 then Inr False
      else ebind (Decimal128ToInt64Floor E v) (\<lambda>(intval, isOverFlow).
        if isOverFlow then Inr False
        else ebind (CompareBsonDecimal128 E v (BvDecimal128 (GetDecimal128FromInt64 E intval)))
               (\<lambda>(cmp, isComparisonValid). Inr (cmp = 0))))"

section \<open>Arithmetic\<close>

text \<open>Each operation returns its status and the value stored in \<open>*result\<close>.\<close>

type_synonym dec_outcome = "(Decimal128Result \<times> bson_value) result"

definition dec_finish :: "decimal128 \<times> idec_flags \<Rightarrow> dec_outcome" where
  "dec_finish rf = (case rf of (resultBid, exceptionFlag) \<Rightarrow>
     Inr (GetDecimal128ResultFromFlag exceptionFlag,
          BvDecimal128 (GetBsonDecimal128FromBIDUINT128 resultBid)))"

text \<open>
  The precision a rounding quantizes to: \<open>exp\<close> digits stand before the decimal point, and the
  result must fit in 34 digits.  \<open>exp + precision\<close> is computed in 64 bits, \<open>34 - exp\<close> in 32.
\<close>

definition round_precision :: "extern \<Rightarrow> decimal128 \<Rightarrow> int64 \<Rightarrow> int64" where
  "round_precision E numberBid precision =
     (if bid128_isZero E numberBid then precision
      else let log10Bid = fst (bid128_fn1 E Bid128_log10 (bid128_abs E numberBid)
                                 Decimal128RoundingMode_NearestEven);
               exp = fst (bid128_to_int32_xceil E log10Bid)
           in if sint (of_int (sint exp) + precision) > 34 then of_int (sint (34 - exp))
              else precision)"

definition RoundOrTruncateDecimal128Number ::
    "extern \<Rightarrow> bson_value \<Rightarrow> int64 \<Rightarrow> Decimal128MathOperation \<Rightarrow> dec_outcome" where
  "RoundOrTruncateDecimal128Number E number precision operation =
     ebind (GetBIDUINT128FromBsonValue number) (\<lambda>numberBid.
       let roundMode = (if operation = Decimal128MathOperation_Round
                        then Decimal128RoundingMode_NearestEven else Decimal128RoundingMode_TowardZero)
       in dec_finish
            (if bid128_isInf E numberBid \<or> bid128_isNaN E numberBid then (numberBid, 0)
             else if precision = 0
             then bid128_fn1 E Bid128_round_integral_exact numberBid roundMode
             else bid128_fn2 E Bid128_quantize numberBid
                    (Dec128 (push_bit 49 (6176 - round_precision E numberBid precision)) 1)
                    roundMode))"

text \<open>
  \<open>Decimal128MathOperation_Log\<close> discards the flags of the two logarithms;
  \<open>Decimal128MathOperation_Pow\<close> accumulates the flags of the power and of the addition of zero.
\<close>

definition Decimal128MathematicalOperation2Operands ::
    "extern \<Rightarrow> bson_value \<Rightarrow> bson_value \<Rightarrow> Decimal128MathOperation \<Rightarrow> dec_outcome" where
  "Decimal128MathematicalOperation2Operands E x y operation =
     ebind (GetBIDUINT128FromBsonValue x) (\<lambda>xBid.
     ebind (GetBIDUINT128FromBsonValue y) (\<lambda>yBid.
       let even = Decimal128RoundingMode_NearestEven
       in case operation of
            Decimal128MathOperation_Add \<Rightarrow> dec_finish (bid128_fn2 E Bid128_add xBid yBid even)
          | Decimal128MathOperation_Subtract \<Rightarrow> dec_finish (bid128_fn2 E Bid128_sub xBid yBid even)
          | Decimal128MathOperation_Multiply \<Rightarrow> dec_finish (bid128_fn2 E Bid128_mul xBid yBid even)
          | Decimal128MathOperation_Divide \<Rightarrow> dec_finish (bid128_fn2 E Bid128_div xBid yBid even)
          | Decimal128MathOperation_Mod \<Rightarrow> dec_finish (bid128_fmod E xBid yBid)
          | Decimal128MathOperation_Log \<Rightarrow>
              dec_finish (bid128_fn2 E Bid128_div (fst (bid128_fn1 E Bid128_log10 xBid even))
                            (fst (bid128_fn1 E Bid128_log10 yBid even)) even)
          | Decimal128MathOperation_Pow \<Rightarrow>
              (let (powerBid, f1) = bid128_fn2 E Bid128_pow xBid yBid Decimal128RoundingMode_Downward;
                   (zBid, f2) = bid128_fn2 E Bid128_add powerBid (Dec128 0 0) even
               in dec_finish (zBid, f1 OR f2))
          | Decimal128MathOperation_Atan2 \<Rightarrow> dec_finish (bid128_fn2 E Bid128_atan2 xBid yBid even)
          | _ \<Rightarrow> Inl (Ereport ERRCODE_INTERNAL_ERROR)))"

definition Decimal128MathematicalOperation1Operand ::
    "extern \<Rightarrow> bson_value \<Rightarrow> Decimal128MathOperation \<Rightarrow> dec_outcome" where
  "Decimal128MathematicalOperation1Operand E v operation =
     ebind (GetBIDUINT128FromBsonValue v) (\<lambda>valueBid.
       let fn = (\<lambda>f. dec_finish (bid128_fn1 E f valueBid Decimal128RoundingMode_NearestEven))
       in case operation of
            Decimal128MathOperation_Ceil \<Rightarrow> dec_finish (bid128_round_integral_positive E valueBid)
          | Decimal128MathOperation_Floor \<Rightarrow> dec_finish (bid128_round_integral_negative E valueBid)
          | Decimal128MathOperation_Exp \<Rightarrow> fn Bid128_exp
          | Decimal128MathOperation_Sqrt \<Rightarrow> fn Bid128_sqrt
          | Decimal128MathOperation_Abs \<Rightarrow> dec_finish (bid128_abs E valueBid, 0)
          | Decimal128MathOperation_Log10 \<Rightarrow> fn Bid128_log10
          | Decimal128MathOperation_NaturalLogarithm \<Rightarrow> fn Bid128_log
          | Decimal128MathOperation_Sin \<Rightarrow> fn Bid128_sin
          | Decimal128MathOperation_Cos \<Rightarrow> fn Bid128_cos
          | Decimal128MathOperation_Tan \<Rightarrow> fn Bid128_tan
          | Decimal128MathOperation_Sinh \<Rightarrow> fn Bid128_sinh
          | Decimal128MathOperation_Cosh \<Rightarrow> fn Bid128_cosh
          | Decimal128MathOperation_Tanh \<Rightarrow> fn Bid128_tanh
          | Decimal128MathOperation_Asin \<Rightarrow> fn Bid128_asin
          | Decimal128MathOperation_Acos \<Rightarrow> fn Bid128_acos
          | Decimal128MathOperation_Atan \<Rightarrow> fn Bid128_atan
          | Decimal128MathOperation_Asinh \<Rightarrow> fn Bid128_asinh
          | Decimal128MathOperation_Acosh \<Rightarrow> fn Bid128_acosh
          | Decimal128MathOperation_Atanh \<Rightarrow> fn Bid128_atanh
          | _ \<Rightarrow> Inl (Ereport ERRCODE_INTERNAL_ERROR))"

definition CeilDecimal128Number :: "extern \<Rightarrow> bson_value \<Rightarrow> dec_outcome" where
  "CeilDecimal128Number E v = Decimal128MathematicalOperation1Operand E v Decimal128MathOperation_Ceil"

definition FloorDecimal128Number :: "extern \<Rightarrow> bson_value \<Rightarrow> dec_outcome" where
  "FloorDecimal128Number E v = Decimal128MathematicalOperation1Operand E v Decimal128MathOperation_Floor"

definition EulerExpDecimal128 :: "extern \<Rightarrow> bson_value \<Rightarrow> dec_outcome" where
  "EulerExpDecimal128 E v = Decimal128MathematicalOperation1Operand E v Decimal128MathOperation_Exp"

definition SqrtDecimal128Number :: "extern \<Rightarrow> bson_value \<Rightarrow> dec_outcome" where
  "SqrtDecimal128Number E v = Decimal128MathematicalOperation1Operand E v Decimal128MathOperation_Sqrt"

definition AbsDecimal128Number :: "extern \<Rightarrow> bson_value \<Rightarrow> dec_outcome" where
  "AbsDecimal128Number E v = Decimal128MathematicalOperation1Operand E v Decimal128MathOperation_Abs"

definition Log10Decimal128Number :: "extern \<Rightarrow> bson_value \<Rightarrow> dec_outcome" where
  "Log10Decimal128Number E v = Decimal128MathematicalOperation1Operand E v Decimal128MathOperation_Log10"

definition NaturalLogarithmDecimal128Number :: "extern \<Rightarrow> bson_value \<Rightarrow> dec_outcome" where
  "NaturalLogarithmDecimal128Number E v = Decimal128MathematicalOperation1Operand E v Decimal128MathOperation_NaturalLogarithm"

definition AcosDecimal128Number :: "extern \<Rightarrow> bson_value \<Rightarrow> dec_outcome" where
  "AcosDecimal128Number E v = Decimal128MathematicalOperation1Operand E v Decimal128MathOperation_Acos"

definition AcoshDecimal128Number :: "extern \<Rightarrow> bson_value \<Rightarrow> dec_outcome" where
  "AcoshDecimal128Number E v = Decimal128MathematicalOperation1Operand E v Decimal128MathOperation_Acosh"

definition AsinDecimal128Number :: "extern \<Rightarrow> bson_value \<Rightarrow> dec_outcome" where
  "AsinDecimal128Number E v = Decimal128MathematicalOperation1Operand E v Decimal128MathOperation_Asin"

definition AsinhDecimal128Number :: "extern \<Rightarrow> bson_value \<Rightarrow> dec_outcome" where
  "AsinhDecimal128Number E v = Decimal128MathematicalOperation1Operand E v Decimal128MathOperation_Asinh"

definition AtanDecimal128Number :: "extern \<Rightarrow> bson_value \<Rightarrow> dec_outcome" where
  "AtanDecimal128Number E v = Decimal128MathematicalOperation1Operand E v Decimal128MathOperation_Atan"

definition AtanhDecimal128Number :: "extern \<Rightarrow> bson_value \<Rightarrow> dec_outcome" where
  "AtanhDecimal128Number E v = Decimal128MathematicalOperation1Operand E v Decimal128MathOperation_Atanh"

definition CosDecimal128Number :: "extern \<Rightarrow> bson_value \<Rightarrow> dec_outcome" where
  "CosDecimal128Number E v = Decimal128MathematicalOperation1Operand E v Decimal128MathOperation_Cos"

definition CoshDecimal128Number :: "extern \<Rightarrow> bson_value \<Rightarrow> dec_outcome" where
  "CoshDecimal128Number E v = Decimal128MathematicalOperation1Operand E v Decimal128MathOperation_Cosh"

definition SinDecimal128Number :: "extern \<Rightarrow> bson_value \<Rightarrow> dec_outcome" where
  "SinDecimal128Number E v = Decimal128MathematicalOperation1Operand E v Decimal128MathOperation_Sin"

definition SinhDecimal128Number :: "extern \<Rightarrow> bson_value \<Rightarrow> dec_outcome" where
  "SinhDecimal128Number E v = Decimal128MathematicalOperation1Operand E v Decimal128MathOperation_Sinh"

definition TanDecimal128Number :: "extern \<Rightarrow> bson_value \<Rightarrow> dec_outcome" where
  "TanDecimal128Number E v = Decimal128MathematicalOperation1Operand E v Decimal128MathOperation_Tan"

definition TanhDecimal128Number :: "extern \<Rightarrow> bson_value \<Rightarrow> dec_outcome" where
  "TanhDecimal128Number E v = Decimal128MathematicalOperation1Operand E v Decimal128MathOperation_Tanh"

definition LogDecimal128Number :: "extern \<Rightarrow> bson_value \<Rightarrow> bson_value \<Rightarrow> dec_outcome" where
  "LogDecimal128Number E x y = Decimal128MathematicalOperation2Operands E x y Decimal128MathOperation_Log"

definition PowDecimal128Number :: "extern \<Rightarrow> bson_value \<Rightarrow> bson_value \<Rightarrow> dec_outcome" where
  "PowDecimal128Number E x y = Decimal128MathematicalOperation2Operands E x y Decimal128MathOperation_Pow"

definition MultiplyDecimal128Numbers :: "extern \<Rightarrow> bson_value \<Rightarrow> bson_value \<Rightarrow> dec_outcome" where
  "MultiplyDecimal128Numbers E x y = Decimal128MathematicalOperation2Operands E x y Decimal128MathOperation_Multiply"

definition AddDecimal128Numbers :: "extern \<Rightarrow> bson_value \<Rightarrow> bson_value \<Rightarrow> dec_outcome" where
  "AddDecimal128Numbers E x y = Decimal128MathematicalOperation2Operands E x y Decimal128MathOperation_Add"

definition SubtractDecimal128Numbers :: "extern \<Rightarrow> bson_value \<Rightarrow> bson_value \<Rightarrow> dec_outcome" where
  "SubtractDecimal128Numbers E x y = Decimal128MathematicalOperation2Operands E x y Decimal128MathOperation_Subtract"

definition DivideDecimal128Numbers :: "extern \<Rightarrow> bson_value \<Rightarrow> bson_value \<Rightarrow> dec_outcome" where
  "DivideDecimal128Numbers E x y = Decimal128MathematicalOperation2Operands E x y Decimal128MathOperation_Divide"

definition ModDecimal128Numbers :: "extern \<Rightarrow> bson_value \<Rightarrow> bson_value \<Rightarrow> dec_outcome" where
  "ModDecimal128Numbers E x y = Decimal128MathematicalOperation2Operands E x y Decimal128MathOperation_Mod"

definition Atan2Decimal128Numbers :: "extern \<Rightarrow> bson_value \<Rightarrow> bson_value \<Rightarrow> dec_outcome" where
  "Atan2Decimal128Numbers E x y = Decimal128MathematicalOperation2Operands E x y Decimal128MathOperation_Atan2"

definition RoundDecimal128Number :: "extern \<Rightarrow> bson_value \<Rightarrow> int64 \<Rightarrow> dec_outcome" where
  "RoundDecimal128Number E number precision =
     RoundOrTruncateDecimal128Number E number precision Decimal128MathOperation_Round"

definition TruncDecimal128Number :: "extern \<Rightarrow> bson_value \<Rightarrow> int64 \<Rightarrow> dec_outcome" where
  "TruncDecimal128Number E number precision =
     RoundOrTruncateDecimal128Number E number precision Decimal128MathOperation_Trunc"

section \<open>What the operations compute\<close>

lemma GetBIDUINT128_decimal [simp]: "GetBIDUINT128FromBsonValue (BvDecimal128 d) = Inr d"
  by (simp add: GetBIDUINT128FromBsonValue_def CheckDecimal128Type_def)

lemma GetBIDUINT128_other:
  "value_type v \<noteq> BSON_TYPE_DECIMAL128 \<Longrightarrow> \<exists>err. GetBIDUINT128FromBsonValue v = Inl err"
proof -
  assume "value_type v \<noteq> BSON_TYPE_DECIMAL128"
  moreover obtain err :: error
    where "(raise_naming ERRCODE_INTERNAL_ERROR (value_type v) :: unit result) = Inl err"
    using raise_naming_Inl by blast
  ultimately show ?thesis by (simp add: GetBIDUINT128FromBsonValue_def CheckDecimal128Type_def)
qed

lemma GetBsonDecimal128FromBIDUINT128_id [simp]: "GetBsonDecimal128FromBIDUINT128 d = d"
  by (simp add: GetBsonDecimal128FromBIDUINT128_def)

lemma IsOperationInvalid_simps [simp]:
  "IsOperationInvalid BID_INVALID_EXCEPTION" "\<not> IsOperationInvalid 0"
  by (simp_all add: IsOperationInvalid_def)

lemma invalid_not_success: "IsOperationInvalid f \<Longrightarrow> \<not> IsOperationSuccess f"
  by (auto simp: IsOperationSuccess_def)

lemma ThrowConversionFailureError_Inl [simp]:
  "ThrowConversionFailureError E bid = Inl (Ereport ERRCODE_DOCUMENTDB_CONVERSIONFAILURE)"
  by (simp add: ThrowConversionFailureError_def)

text \<open>The integer a conversion yields, or the error it raises.\<close>

definition converted :: "(rat \<Rightarrow> int) \<Rightarrow> int \<Rightarrow> int \<Rightarrow> xnum \<Rightarrow> int option" where
  "converted f lo hi x =
     (case x of XFin q \<Rightarrow> if lo \<le> f q \<and> f q \<le> hi then Some (f q) else None | _ \<Rightarrow> None)"

lemma converts_to_converted:
  "converts_to f lo hi x r flags \<Longrightarrow>
     converted f lo hi x = (if IsOperationInvalid flags then None else Some r)"
  by (auto simp: converts_to_def converted_def split: xnum.splits if_splits)

definition rounding_of :: "ConversionRoundingMode \<Rightarrow> rat \<Rightarrow> int" where
  "rounding_of m = (case m of ConversionRoundingMode_NearestEven \<Rightarrow> round_half_even
                            | ConversionRoundingMode_Floor \<Rightarrow> trunc_rat)"

definition or_conversion_failure :: "'a option \<Rightarrow> 'a result" where
  "or_conversion_failure x =
     (case x of Some y \<Rightarrow> Inr y | None \<Rightarrow> Inl (Ereport ERRCODE_DOCUMENTDB_CONVERSIONFAILURE))"

context external_code
begin

lemma decimal_as_int64:
  "map_sum id sint (GetBsonDecimal128AsInt64 E (BvDecimal128 d) m)
     = or_conversion_failure (converted (rounding_of m) INT64_MIN INT64_MAX (dec_x d))"
  by (cases m)
     (simp_all add: GetBsonDecimal128AsInt64_def or_conversion_failure_def rounding_of_def
        split_beta invalid_not_success to_int64_xint_law [THEN converts_to_converted]
        to_int64_xrnint_law [THEN converts_to_converted])

lemma decimal_as_int32:
  "map_sum id sint (GetBsonDecimal128AsInt32 E (BvDecimal128 d) m)
     = or_conversion_failure (converted (rounding_of m) INT32_MIN INT32_MAX (dec_x d))"
  by (cases m)
     (simp_all add: GetBsonDecimal128AsInt32_def or_conversion_failure_def rounding_of_def
        split_beta invalid_not_success to_int32_xint_law [THEN converts_to_converted]
        to_int32_xrnint_law [THEN converts_to_converted])

lemma decimal_in_int64_range:
  "IsDecimal128InInt64Range E (BvDecimal128 d)
     = Inr (converted trunc_rat INT64_MIN INT64_MAX (dec_x d) \<noteq> None)"
  using to_int64_xint_law [of d] isFinite_law [of d]
  by (auto simp: IsDecimal128InInt64Range_def IsDecimal128Finite_def converted_def converts_to_def
      split: xnum.splits if_splits)

lemma decimal_in_int32_range:
  "IsDecimal128InInt32Range E (BvDecimal128 d)
     = Inr (converted trunc_rat INT32_MIN INT32_MAX (dec_x d) \<noteq> None)"
  using to_int32_xint_law [of d] isFinite_law [of d]
  by (auto simp: IsDecimal128InInt32Range_def IsDecimal128Finite_def converted_def converts_to_def
      split: xnum.splits if_splits)

lemma compare_decimal128:
  "CompareBsonDecimal128 E (BvDecimal128 a) (BvDecimal128 b)
     = Inr (int_cmp (xnum_key (dec_x a)) (xnum_key (dec_x b)),
            (dec_x a = XNaN) = (dec_x b = XNaN))"
proof (cases "dec_x a = XNaN \<or> dec_x b = XNaN")
  case True
  then show ?thesis
    by (cases "dec_x a"; cases "dec_x b")
       (auto simp: CompareBsonDecimal128_def BIDUINT128SignalingEqual_def isNaN_law
          IsDecimal128NaN_def int_cmp_def)
next
  case False
  then have "\<not> IsOperationInvalid (snd (bid128_quiet_equal E a b))"
    "fst (bid128_quiet_equal E a b) = (dec_x a = dec_x b)"
    "fst (bid128_quiet_greater E a b) = (xnum_key (dec_x b) < xnum_key (dec_x a))"
    using quiet_equal_law [of a b] quiet_greater_law [of a b] by (auto simp: x_less_def)
  with False show ?thesis
    by (simp add: CompareBsonDecimal128_def BIDUINT128SignalingEqual_def isNaN_law split_beta
        int_cmp_def)
qed

lemma decimal_fixed_integer:
  "IsDecimal128AFixedInteger E (BvDecimal128 d)
     = Inr (\<exists>n. INT64_MIN \<le> n \<and> n \<le> INT64_MAX \<and> dec_x d = XFin (of_int n))"
proof -
  obtain r where r: "sint (fst (bid128_to_int64_floor E d)) = r" by simp
  let ?bad = "IsOperationInvalid (snd (bid128_to_int64_floor E d))"
  have "IsDecimal128AFixedInteger E (BvDecimal128 d) = Inr (\<not> ?bad \<and> dec_x d = XFin (of_int r))"
    by (simp add: IsDecimal128AFixedInteger_def Decimal128ToInt64Floor_def split_beta r
        compare_decimal128 GetDecimal128FromInt64_def from_int64_law del: xnum_key.simps of_int_sint)
  moreover have "\<not> ?bad \<and> dec_x d = XFin (of_int r)
      \<longleftrightarrow> (\<exists>n. INT64_MIN \<le> n \<and> n \<le> INT64_MAX \<and> dec_x d = XFin (of_int n))"
    (is "_ \<longleftrightarrow> ?int")
  proof
    assume "\<not> ?bad \<and> dec_x d = XFin (of_int r)"
    then show ?int
      using sint64_bounds [of "fst (bid128_to_int64_floor E d)"] unfolding r by (intro exI [of _ r]) auto
  next
    assume ?int
    then show "\<not> ?bad \<and> dec_x d = XFin (of_int r)"
      using to_int64_floor_law [of d] unfolding r by (auto simp: converts_to_def)
  qed
  ultimately show ?thesis by simp
qed

end

lemma flag_bit_cleared:
  fixes f :: "32 word"
  assumes "f AND m = 0"
  shows "(f OR m) AND m = m" "(f OR m) XOR m = f" "(f OR m) AND NOT m = f"
proof -
  have "\<not> (bit f n \<and> bit m n)" for n using assms by (metis bit_and_iff bit_0_eq bot_fun_def bot_bool_def)
  then show "(f OR m) XOR m = f" "(f OR m) AND NOT m = f"
    by (auto simp: bit_eq_iff bit_simps)
qed (auto simp: bit_eq_iff bit_simps)

text \<open>
  The inexact bit matters only when it is the only bit: any other exception is reported as if
  it were alone.
\<close>

lemma GetDecimal128ResultFromFlag_inexact:
  "f AND BID_INEXACT_EXCEPTION = 0 \<Longrightarrow>
     GetDecimal128ResultFromFlag (f OR BID_INEXACT_EXCEPTION)
       = (if f = 0 then Decimal128Result_Inexact else GetDecimal128ResultFromFlag f)"
  using flag_bit_cleared [of f BID_INEXACT_EXCEPTION]
  by (auto simp: GetDecimal128ResultFromFlag_def Let_def)

end
