(* ===== verification/Bson_Convert.thy ===== *)
theory Bson_Convert
  imports Decimal128
begin

text \<open>
  The value conversions and the integer, sign and special-value tests of
  \<^verbatim>\<open>pg_documentdb_core/src/query/bson_compare.c\<close> (\<open>BsonValueAs*\<close>, \<open>IsBsonValue*\<close>), and what
  they return in terms of the number a value denotes.
\<close>

unbundle bit_operations_syntax

section \<open>Integer tests\<close>

text \<open>C's \<open>a \<and> b\<close> on results that may raise: the second operand runs only if the first holds.\<close>

definition e_and :: "bool result \<Rightarrow> bool result \<Rightarrow> bool result" where
  "e_and a b = ebind a (\<lambda>x. if x then b else Inr False)"

definition IsBsonValue32BitInteger :: "extern \<Rightarrow> bson_value \<Rightarrow> bool \<Rightarrow> bool result" where
  "IsBsonValue32BitInteger E v checkFixedInteger =
     (case v of
        BvInt32 _ \<Rightarrow> Inr True
      | BvDouble d \<Rightarrow>
          Inr (x_le (dbl_x d) (XFin (of_int INT32_MAX)) \<and> x_le (XFin (of_int INT32_MIN)) (dbl_x d)
               \<and> (\<not> checkFixedInteger \<or> dbl_is_floor d))
      | BvInt64 i \<Rightarrow> let intVal = (of_int (sint i) :: int32) in Inr (sint intVal = sint i)
      | BvDecimal128 _ \<Rightarrow>
          e_and (IsDecimal128InInt32Range E v)
            (if \<not> checkFixedInteger then Inr True else IsDecimal128AFixedInteger E v)
      | _ \<Rightarrow> Inr False)"

definition IsBsonValue64BitIntegerCore :: "extern \<Rightarrow> bson_value \<Rightarrow> bool \<Rightarrow> bool \<Rightarrow> bool result" where
  "IsBsonValue64BitIntegerCore E v checkFixedInteger quantizeDoubleValue =
     (case v of
        BvInt32 _ \<Rightarrow> Inr True
      | BvInt64 _ \<Rightarrow> Inr True
      | BvDouble _ \<Rightarrow>
          ebind (if quantizeDoubleValue then GetBsonValueAsDecimal128Quantized E v
                 else GetBsonValueAsDecimal128 E v) (\<lambda>d.
            e_and (IsDecimal128InInt64Range E (BvDecimal128 d))
              (if \<not> checkFixedInteger then Inr True else IsDecimal128AFixedInteger E (BvDecimal128 d)))
      | BvDecimal128 _ \<Rightarrow>
          e_and (IsDecimal128InInt64Range E v)
            (if \<not> checkFixedInteger then Inr True else IsDecimal128AFixedInteger E v)
      | _ \<Rightarrow> Inr False)"

definition IsBsonValue64BitInteger :: "extern \<Rightarrow> bson_value \<Rightarrow> bool \<Rightarrow> bool result" where
  "IsBsonValue64BitInteger E v checkFixedInteger =
     IsBsonValue64BitIntegerCore E v checkFixedInteger True"

definition IsBsonValueUnquantized64BitInteger :: "extern \<Rightarrow> bson_value \<Rightarrow> bool \<Rightarrow> bool result" where
  "IsBsonValueUnquantized64BitInteger E v checkFixedInteger =
     IsBsonValue64BitIntegerCore E v checkFixedInteger False"

definition IsBsonValueFixedInteger :: "extern \<Rightarrow> bson_value \<Rightarrow> bool result" where
  "IsBsonValueFixedInteger E v =
     (case value_type v of
        BSON_TYPE_INT32 \<Rightarrow> Inr True
      | BSON_TYPE_INT64 \<Rightarrow> Inr True
      | BSON_TYPE_DOUBLE \<Rightarrow>
          ebind (GetBsonValueAsDecimal128 E v) (\<lambda>d. IsDecimal128AFixedInteger E (BvDecimal128 d))
      | BSON_TYPE_DECIMAL128 \<Rightarrow>
          ebind (GetBsonValueAsDecimal128 E v) (\<lambda>d. IsDecimal128AFixedInteger E (BvDecimal128 d))
      | _ \<Rightarrow> Inr False)"

definition IsBsonValueNegativeNumber :: "bson_value \<Rightarrow> bool" where
  "IsBsonValueNegativeNumber v =
     (if \<not> BsonTypeIsNumber (value_type v) then False
      else case v of
             BvInt32 i \<Rightarrow> sint i < 0
           | BvInt64 i \<Rightarrow> sint i < 0
           | BvDouble d \<Rightarrow> x_less (dbl_x d) (XFin 0)
           | BvDecimal128 d \<Rightarrow> dec_high d AND push_bit 63 1 > 0
           | _ \<Rightarrow> False)"

section \<open>Conversions\<close>

definition BsonValueAsDoubleCore :: "extern \<Rightarrow> bson_value \<Rightarrow> bool \<Rightarrow> double result" where
  "BsonValueAsDoubleCore E v quiet =
     (case v of
        BvBool b \<Rightarrow> Inr (dbl_of_int (if b then 1 else 0))
      | BvDouble d \<Rightarrow> Inr d
      | BvInt32 i \<Rightarrow> Inr (dbl_of_int (sint i))
      | BvInt64 i \<Rightarrow> Inr (dbl_of_int (sint i))
      | BvDecimal128 _ \<Rightarrow>
          if quiet then GetBsonDecimal128AsDoubleQuiet E v else GetBsonDecimal128AsDouble E v
      | BvDateTime t \<Rightarrow> Inr (dbl_of_int (sint t))
      | _ \<Rightarrow> Inr (dbl_of_int 0))"

definition BsonValueAsDouble :: "extern \<Rightarrow> bson_value \<Rightarrow> double result" where
  "BsonValueAsDouble E v = BsonValueAsDoubleCore E v False"

definition BsonValueAsDoubleQuiet :: "extern \<Rightarrow> bson_value \<Rightarrow> double result" where
  "BsonValueAsDoubleQuiet E v = BsonValueAsDoubleCore E v True"

definition IsBsonValueNaN :: "extern \<Rightarrow> bson_value \<Rightarrow> bool result" where
  "IsBsonValueNaN E v =
     (if value_type v = BSON_TYPE_DECIMAL128 then IsDecimal128NaN E v
      else if value_type v = BSON_TYPE_DOUBLE
      then ebind (BsonValueAsDouble E v) (\<lambda>d. Inr (isnan d))
      else Inr False)"

definition IsBsonValueInfinity :: "extern \<Rightarrow> bson_value \<Rightarrow> int result" where
  "IsBsonValueInfinity E v =
     (if value_type v = BSON_TYPE_DECIMAL128
      then ebind (IsDecimal128Infinity E v) (\<lambda>(inf, pos).
             Inr (if inf then (if pos = Some True then 1 else -1) else 0))
      else if value_type v = BSON_TYPE_DOUBLE
      then ebind (BsonValueAsDouble E v) (\<lambda>d.
             Inr (if x_eq (dbl_x d) XPosInf then 1 else if x_eq (dbl_x d) XNegInf then -1 else 0))
      else Inr 0)"

definition BsonValueAsInt64WithRoundingMode ::
    "extern \<Rightarrow> bson_value \<Rightarrow> ConversionRoundingMode \<Rightarrow> bool \<Rightarrow> int64 result" where
  "BsonValueAsInt64WithRoundingMode E v roundingMode throwIfFailed =
     ebind (if throwIfFailed
            then (if \<not> BsonValueIsNumber v
                  then raise_naming ERRCODE_DOCUMENTDB_LOCATION16004 (value_type v)
                  else ebind (IsBsonValue64BitInteger E v False) (\<lambda>ok.
                         if \<not> ok then Inl (Ereport ERRCODE_DOCUMENTDB_LOCATION31109) else Inr ()))
            else Inr ())
       (\<lambda>_. case v of
              BvBool b \<Rightarrow> Inr (if b then 1 else 0)
            | BvDouble d \<Rightarrow>
                Inr (if roundingMode = ConversionRoundingMode_NearestEven
                     then x_to_int64 round_away (dbl_x d) else x_to_int64 trunc_rat (dbl_x d))
            | BvInt64 i \<Rightarrow> Inr i
            | BvDateTime t \<Rightarrow> Inr t
            | BvInt32 i \<Rightarrow> Inr (of_int (sint i))
            | BvDecimal128 _ \<Rightarrow> GetBsonDecimal128AsInt64 E v roundingMode
            | _ \<Rightarrow> Inr 0)"

definition BsonValueAsInt64 :: "extern \<Rightarrow> bson_value \<Rightarrow> int64 result" where
  "BsonValueAsInt64 E v = BsonValueAsInt64WithRoundingMode E v ConversionRoundingMode_Floor False"

definition BsonValueAsInt32WithRoundingMode ::
    "extern \<Rightarrow> bson_value \<Rightarrow> ConversionRoundingMode \<Rightarrow> int32 result" where
  "BsonValueAsInt32WithRoundingMode E v roundingMode =
     (case v of
        BvBool b \<Rightarrow> Inr (if b then 1 else 0)
      | BvDouble d \<Rightarrow>
          Inr (if roundingMode = ConversionRoundingMode_NearestEven
               then x_to_int32 round_away (dbl_x d) else x_to_int32 trunc_rat (dbl_x d))
      | BvInt64 i \<Rightarrow> Inr (of_int (sint i))
      | BvInt32 i \<Rightarrow> Inr i
      | BvDecimal128 _ \<Rightarrow> GetBsonDecimal128AsInt32 E v roundingMode
      | _ \<Rightarrow> Inr 0)"

definition BsonValueAsInt32 :: "extern \<Rightarrow> bson_value \<Rightarrow> int32 result" where
  "BsonValueAsInt32 E v = BsonValueAsInt32WithRoundingMode E v ConversionRoundingMode_Floor"

definition BsonValueAsBool :: "extern \<Rightarrow> bson_value \<Rightarrow> bool result" where
  "BsonValueAsBool E v =
     (case v of
        BvBool b \<Rightarrow> Inr b
      | BvDouble d \<Rightarrow> Inr (\<not> x_eq (dbl_x d) (XFin 0))
      | BvInt32 i \<Rightarrow> Inr (i \<noteq> 0)
      | BvInt64 i \<Rightarrow> Inr (i \<noteq> 0)
      | BvDecimal128 _ \<Rightarrow> ebind (IsDecimal128Zero E v) (\<lambda>z. Inr (\<not> z))
      | BvNull \<Rightarrow> Inr False
      | BvEOD \<Rightarrow> Inr False
      | BvUndefined \<Rightarrow> Inr False
      | _ \<Rightarrow> Inr True)"

definition BsonValueAsDateTime :: "extern \<Rightarrow> bson_value \<Rightarrow> int64 result" where
  "BsonValueAsDateTime E v =
     (case v of
        BvDateTime t \<Rightarrow> Inr t
      | BvTimestamp ts inc \<Rightarrow> Inr (of_int (uint ts) * 1000)
      | BvOid oid \<Rightarrow> Inr (bson_oid_get_time_t E oid * 1000)
      | _ \<Rightarrow> raise_naming ERRCODE_DOCUMENTDB_LOCATION16006 (value_type v))"

definition BsonNumberAsLongDouble :: "extern \<Rightarrow> bson_value \<Rightarrow> xnum result" where
  "BsonNumberAsLongDouble E v =
     (case v of
        BvBool b \<Rightarrow> Inr (XFin (if b then 1 else 0))
      | BvDouble d \<Rightarrow> Inr (dbl_x d)
      | BvInt32 i \<Rightarrow> Inr (XFin (of_int (sint i)))
      | BvInt64 i \<Rightarrow> Inr (XFin (of_int (sint i)))
      | BvDecimal128 _ \<Rightarrow> GetBsonDecimal128AsLongDouble E v
      | _ \<Rightarrow> Inr (XFin 0))"

end
