(* ===== verification/Bson_Compare.thy ===== *)
theory Bson_Compare
  imports Bson_Convert
begin

text \<open>
  The comparison of BSON values and documents of
  \<^verbatim>\<open>pg_documentdb_core/src/query/bson_compare.c\<close>, and the proof that it is a total preorder:
  every well-formed value has a key, a list of pairs of numbers, and the comparison is the
  lexicographic comparison of the keys.

  A \<open>bson_iter_t\<close> is the list of the elements still ahead of it, a document its list of
  elements.  The collation argument is \<open>None\<close> for the \<open>NULL\<close> collation string and otherwise
  the comparison \<open>StringCompareWithCollation\<close> performs for that string.  The stack-depth
  check and the initialisation failures of the iterators on corrupt data are not modelled.
\<close>

type_synonym collation = "(string \<Rightarrow> string \<Rightarrow> int) option"

section \<open>Definitions\<close>

definition CompareStrings :: "collation \<Rightarrow> string \<Rightarrow> string \<Rightarrow> int" where
  "CompareStrings coll left right =
     (let minLength = min (length left) (length right)
      in if minLength = 0 then length_diff (length left) (length right)
         else let cmp = (case coll of None \<Rightarrow> memcmp left right minLength
                                    | Some StringCompareWithCollation \<Rightarrow>
                                        StringCompareWithCollation left right)
              in if cmp \<noteq> 0 then cmp else length_diff (length left) (length right))"

text \<open>Returns the order and \<open>*isComparisonValid\<close>.\<close>

definition CompareNumbers :: "extern \<Rightarrow> bson_value \<Rightarrow> bson_value \<Rightarrow> (int \<times> bool) result" where
  "CompareNumbers E left right =
     (if value_type left = BSON_TYPE_DECIMAL128 \<or> value_type right = BSON_TYPE_DECIMAL128
      then ebind (GetBsonValueAsDecimal128 E left) (\<lambda>l.
           ebind (GetBsonValueAsDecimal128 E right) (\<lambda>r.
             CompareBsonDecimal128 E (BvDecimal128 l) (BvDecimal128 r)))
      else if value_type left = BSON_TYPE_DOUBLE \<or> value_type right = BSON_TYPE_DOUBLE
      then ebind (BsonNumberAsLongDouble E left) (\<lambda>leftVal.
           ebind (BsonNumberAsLongDouble E right) (\<lambda>rightVal.
             Inr (if leftVal = XNaN \<or> rightVal = XNaN
                  then (if leftVal = XNaN \<and> rightVal = XNaN then (0, True)
                        else if leftVal = XNaN then (-1, False)
                        else (1, False))
                  else (if x_less rightVal leftVal then 1
                        else if x_eq leftVal rightVal then 0 else -1, True))))
      else ebind (BsonValueAsInt64 E left) (\<lambda>leftVal.
           ebind (BsonValueAsInt64 E right) (\<lambda>rightVal.
             Inr (int_cmp (sint leftVal) (sint rightVal), True))))"

text \<open>
  \<open>valid_cmp\<close> is \<open>return cmp\<close> after \<open>*isComparisonValid = true\<close>.  Values whose types share a
  sort order and differ (\<open>UTF8\<close> and \<open>SYMBOL\<close>) have the same layout in the union.
\<close>

abbreviation (input) valid_cmp :: "int \<Rightarrow> (int \<times> bool) result" where
  "valid_cmp c \<equiv> Inr (c, True)"

fun v_str :: "bson_value \<Rightarrow> string" where
  "v_str (BvUtf8 s) = s"
| "v_str (BvSymbol s) = s"
| "v_str _ = []"

function (sequential) CompareBsonValue ::
    "extern \<Rightarrow> collation \<Rightarrow> bson_value \<Rightarrow> bson_value \<Rightarrow> (int \<times> bool) result"
  and CompareBsonIter ::
    "extern \<Rightarrow> collation \<Rightarrow> bool \<Rightarrow> bson_doc \<Rightarrow> bson_doc \<Rightarrow> int result" where
  "CompareBsonValue E coll left right =
     (if CompareBsonSortOrderType left right \<noteq> 0 then Inl (Ereport ERRCODE_INTERNAL_ERROR)
      else case left of
        BvEOD \<Rightarrow> valid_cmp 0
      | BvMinKey \<Rightarrow> valid_cmp 0
      | BvUndefined \<Rightarrow> valid_cmp 0
      | BvNull \<Rightarrow> valid_cmp 0
      | BvMaxKey \<Rightarrow> valid_cmp 0
      | BvDouble _ \<Rightarrow> CompareNumbers E left right
      | BvInt32 _ \<Rightarrow> CompareNumbers E left right
      | BvInt64 _ \<Rightarrow> CompareNumbers E left right
      | BvDecimal128 _ \<Rightarrow> CompareNumbers E left right
      | BvBool _ \<Rightarrow> CompareNumbers E left right
      | BvUtf8 l \<Rightarrow> valid_cmp (CompareStrings coll l (v_str right))
      | BvSymbol l \<Rightarrow> valid_cmp (CompareStrings coll l (v_str right))
      | BvDocument l \<Rightarrow>
          (case right of BvDocument r \<Rightarrow>
             ebind (CompareBsonIter E coll True l r) (\<lambda>c. valid_cmp c) | _ \<Rightarrow> Inl UnionMisread)
      | BvArray l \<Rightarrow>
          (case right of BvArray r \<Rightarrow>
             ebind (CompareBsonIter E coll True l r) (\<lambda>c. valid_cmp c) | _ \<Rightarrow> Inl UnionMisread)
      | BvBinary leftSubType leftInner \<Rightarrow>
          (case right of BvBinary rightSubType rightInner \<Rightarrow>
             (if length leftInner \<noteq> length rightInner
              then valid_cmp (length_diff (length leftInner) (length rightInner))
              else if leftSubType \<noteq> rightSubType
              then valid_cmp (uint leftSubType - uint rightSubType)
              else valid_cmp (memcmp leftInner rightInner (length leftInner)))
           | _ \<Rightarrow> Inl UnionMisread)
      | BvOid l \<Rightarrow>
          (case right of BvOid r \<Rightarrow> valid_cmp (bson_oid_compare E l r) | _ \<Rightarrow> Inl UnionMisread)
      | BvDateTime l \<Rightarrow>
          (case right of BvDateTime r \<Rightarrow> valid_cmp (int_cmp (sint l) (sint r)) | _ \<Rightarrow> Inl UnionMisread)
      | BvTimestamp lt li \<Rightarrow>
          (case right of BvTimestamp rt ri \<Rightarrow>
             (if uint lt \<noteq> uint rt then valid_cmp (if uint lt > uint rt then 1 else -1)
              else valid_cmp (int_cmp (uint li) (uint ri)))
           | _ \<Rightarrow> Inl UnionMisread)
      | BvRegex lr lo \<Rightarrow>
          (case right of BvRegex rr ro \<Rightarrow>
             (case (lr, rr) of
                (Some l, Some r) \<Rightarrow>
                  (let cmp = strcmp l r
                   in if cmp \<noteq> 0 then valid_cmp cmp
                      else case (lo, ro) of
                             (Some l', Some r') \<Rightarrow> valid_cmp (strcmp l' r')
                           | _ \<Rightarrow> valid_cmp (if lo \<noteq> None then 1 else -1))
              | _ \<Rightarrow> valid_cmp (if lr \<noteq> None then 1 else -1))
           | _ \<Rightarrow> Inl UnionMisread)
      | BvCode l \<Rightarrow>
          (case right of BvCode r \<Rightarrow> valid_cmp (CompareStrings coll l r) | _ \<Rightarrow> Inl UnionMisread)
      | BvCodeWScope l ls \<Rightarrow>
          (case right of BvCodeWScope r rs \<Rightarrow>
             (let cmp = CompareStrings coll l r
              in if cmp \<noteq> 0 then valid_cmp cmp
                 else ebind (CompareBsonIter E coll True ls rs) (\<lambda>c. valid_cmp c))
           | _ \<Rightarrow> Inl UnionMisread)
      | BvDBPointer l lo \<Rightarrow>
          (case right of BvDBPointer r ro \<Rightarrow>
             (let cmp = CompareStrings coll l r
              in if cmp \<noteq> 0 then valid_cmp cmp else valid_cmp (bson_oid_compare E lo ro))
           | _ \<Rightarrow> Inl UnionMisread))"
| "CompareBsonIter E coll compareFields [] [] = Inr 0"
| "CompareBsonIter E coll compareFields (_ # _) [] = Inr 1"
| "CompareBsonIter E coll compareFields [] (_ # _) = Inr (-1)"
| "CompareBsonIter E coll compareFields ((leftKey, leftValue) # l) ((rightKey, rightValue) # r) =
     (let cmp = CompareBsonSortOrderType leftValue rightValue
      in if cmp \<noteq> 0 then Inr cmp
         else let cmp = (if compareFields then CompareStrings None leftKey rightKey
                         else CompareStrings None [] [])
              in if cmp \<noteq> 0 then Inr cmp
                 else ebind (CompareBsonValue E coll leftValue rightValue) (\<lambda>(cmp, _).
                        if cmp \<noteq> 0 then Inr cmp else CompareBsonIter E coll compareFields l r))"
  by pat_completeness auto
termination
  by (relation "measure (\<lambda>x. case x of Inl (_, _, v, _) \<Rightarrow> size v
        | Inr (_, _, _, d, _) \<Rightarrow> size_list (size_prod (\<lambda>_. 0) size) d)") auto

declare CompareBsonValue.simps [simp del]

definition CompareBsonValueAndTypeWithCollation ::
    "extern \<Rightarrow> collation \<Rightarrow> bson_value \<Rightarrow> bson_value \<Rightarrow> (int \<times> bool) result" where
  "CompareBsonValueAndTypeWithCollation E coll left right =
     (let cmp = CompareBsonSortOrderType left right
      in if cmp \<noteq> 0 then Inr (cmp, True) else CompareBsonValue E coll left right)"

definition CompareBsonValueAndType ::
    "extern \<Rightarrow> bson_value \<Rightarrow> bson_value \<Rightarrow> (int \<times> bool) result" where
  "CompareBsonValueAndType E left right =
     (let cmp = CompareBsonSortOrderType left right
      in if cmp \<noteq> 0 then Inr (cmp, True) else CompareBsonValue E None left right)"

definition BsonValueEqualsWithCollation ::
    "extern \<Rightarrow> collation \<Rightarrow> bson_value \<Rightarrow> bson_value \<Rightarrow> bool result" where
  "BsonValueEqualsWithCollation E coll left right =
     ebind (CompareBsonValueAndTypeWithCollation E coll left right) (\<lambda>(cmp, _). Inr (cmp = 0))"

definition BsonValueEquals :: "extern \<Rightarrow> bson_value \<Rightarrow> bson_value \<Rightarrow> bool result" where
  "BsonValueEquals E left right =
     ebind (CompareBsonValueAndType E left right) (\<lambda>(cmp, _). Inr (cmp = 0))"

text \<open>
  The strict comparisons take pointers; \<open>None\<close> is \<open>NULL\<close>, and two pointers of which one is
  \<open>NULL\<close> are equal only if both are.
\<close>

definition BsonValueEqualsStrictWithCollation ::
    "extern \<Rightarrow> collation \<Rightarrow> bson_value option \<Rightarrow> bson_value option \<Rightarrow> bool result" where
  "BsonValueEqualsStrictWithCollation E coll left right =
     (case (left, right) of
        (Some l, Some r) \<Rightarrow>
          if value_type l \<noteq> value_type r then Inr False
          else ebind (CompareBsonValue E coll l r) (\<lambda>(cmp, isComparisonValid).
                 Inr (isComparisonValid \<and> cmp = 0))
      | _ \<Rightarrow> Inr (left = None \<and> right = None))"

definition BsonValueEqualsStrict ::
    "extern \<Rightarrow> bson_value option \<Rightarrow> bson_value option \<Rightarrow> bool result" where
  "BsonValueEqualsStrict E left right =
     (case (left, right) of
        (Some l, Some r) \<Rightarrow>
          if value_type l \<noteq> value_type r then Inr False
          else BsonValueEqualsStrictWithCollation E None left right
      | _ \<Rightarrow> Inr (left = None \<and> right = None))"

text \<open>\<open>PgbsonEquals\<close> of \<^verbatim>\<open>pgbson.c\<close> on non-null arguments compares the serialised bytes.\<close>

definition PgbsonEquals :: "extern \<Rightarrow> bson_doc option \<Rightarrow> bson_doc option \<Rightarrow> bool" where
  "PgbsonEquals E left right =
     (case (left, right) of
        (Some l, Some r) \<Rightarrow>
          if length (bson_doc_data E l) \<noteq> length (bson_doc_data E r) then False
          else memcmp (bson_doc_data E l) (bson_doc_data E r) (length (bson_doc_data E l)) = 0
      | (None, None) \<Rightarrow> True
      | _ \<Rightarrow> False)"

definition ComparePgbson :: "extern \<Rightarrow> bson_doc \<Rightarrow> bson_doc \<Rightarrow> int result" where
  "ComparePgbson E leftBson rightBson =
     (if PgbsonEquals E (Some leftBson) (Some rightBson) then Inr 0
      else CompareBsonIter E None True leftBson rightBson)"

text \<open>
  \<open>CompareNullablePgbson\<close> first compares the pointers; for two non-null pointers that are
  equal the documents are the same, and \<open>ComparePgbson\<close> returns 0 as well.
\<close>

definition CompareNullablePgbson ::
    "extern \<Rightarrow> bson_doc option \<Rightarrow> bson_doc option \<Rightarrow> int result" where
  "CompareNullablePgbson E leftBson rightBson =
     (case (leftBson, rightBson) of
        (None, None) \<Rightarrow> Inr 0
      | (None, Some _) \<Rightarrow> Inr (-1)
      | (Some _, None) \<Rightarrow> Inr 1
      | (Some l, Some r) \<Rightarrow> ComparePgbson E l r)"

text \<open>The SQL operators.\<close>

definition extension_bson_compare :: "extern \<Rightarrow> bson_doc \<Rightarrow> bson_doc \<Rightarrow> int result" where
  "extension_bson_compare E l r = ComparePgbson E l r"

definition extension_bson_equal :: "extern \<Rightarrow> bson_doc \<Rightarrow> bson_doc \<Rightarrow> bool result" where
  "extension_bson_equal E l r = ebind (ComparePgbson E l r) (\<lambda>c. Inr (c = 0))"

definition extension_bson_not_equal :: "extern \<Rightarrow> bson_doc \<Rightarrow> bson_doc \<Rightarrow> bool result" where
  "extension_bson_not_equal E l r = ebind (ComparePgbson E l r) (\<lambda>c. Inr (c \<noteq> 0))"

definition extension_bson_lt :: "extern \<Rightarrow> bson_doc \<Rightarrow> bson_doc \<Rightarrow> bool result" where
  "extension_bson_lt E l r = ebind (ComparePgbson E l r) (\<lambda>c. Inr (c < 0))"

definition extension_bson_lte :: "extern \<Rightarrow> bson_doc \<Rightarrow> bson_doc \<Rightarrow> bool result" where
  "extension_bson_lte E l r = ebind (ComparePgbson E l r) (\<lambda>c. Inr (c \<le> 0))"

definition extension_bson_gt :: "extern \<Rightarrow> bson_doc \<Rightarrow> bson_doc \<Rightarrow> bool result" where
  "extension_bson_gt E l r = ebind (ComparePgbson E l r) (\<lambda>c. Inr (c > 0))"

definition extension_bson_gte :: "extern \<Rightarrow> bson_doc \<Rightarrow> bson_doc \<Rightarrow> bool result" where
  "extension_bson_gte E l r = ebind (ComparePgbson E l r) (\<lambda>c. Inr (c \<ge> 0))"

end
