(* ===== verification/Bson_Order.thy ===== *)
theory Bson_Order
  imports Bson_Compare
begin

text \<open>
  The order behind \<open>CompareBsonValue\<close>.  \<open>vkey\<close> and \<open>dkey\<close> give every value and every document
  a key, a list of pairs of a tag and a number; on well-formed values the comparison never
  raises and is the lexicographic comparison of the keys, hence a total preorder.
\<close>

section \<open>Keys\<close>

text \<open>
  The number the comparison sees: the exact value of an integer, a boolean or a decimal, and
  for a double the decimal it converts to.
\<close>

fun num_x :: "extern \<Rightarrow> bson_value \<Rightarrow> xnum" where
  "num_x E (BvDouble d) = dec_x (fst (binary64_to_bid128 E d Decimal128RoundingMode_NearestEven))"
| "num_x E (BvInt32 i) = XFin (of_int (sint i))"
| "num_x E (BvInt64 i) = XFin (of_int (sint i))"
| "num_x E (BvDecimal128 d) = dec_x d"
| "num_x E (BvBool b) = XFin (if b then 1 else 0)"
| "num_x E _ = XFin 0"

definition rank :: "bson_value \<Rightarrow> rat" where
  "rank v = of_int (GetSortOrderType (value_type v))"

fun vkey :: "extern \<Rightarrow> bson_value \<Rightarrow> key"
  and dkey :: "extern \<Rightarrow> bson_doc \<Rightarrow> key" where
  "vkey E BvEOD = []"
| "vkey E BvMinKey = []"
| "vkey E BvUndefined = []"
| "vkey E BvNull = []"
| "vkey E BvMaxKey = []"
| "vkey E (BvDouble d) = [xnum_key (num_x E (BvDouble d))]"
| "vkey E (BvInt32 i) = [xnum_key (num_x E (BvInt32 i))]"
| "vkey E (BvInt64 i) = [xnum_key (num_x E (BvInt64 i))]"
| "vkey E (BvDecimal128 d) = [xnum_key (num_x E (BvDecimal128 d))]"
| "vkey E (BvBool b) = [xnum_key (num_x E (BvBool b))]"
| "vkey E (BvUtf8 s) = str_key s"
| "vkey E (BvSymbol s) = str_key s"
| "vkey E (BvDocument d) = dkey E d"
| "vkey E (BvArray d) = dkey E d"
| "vkey E (BvBinary t s) = (0, of_nat (length s)) # (0, of_int (uint t)) # str_key s"
| "vkey E (BvOid s) = str_key s"
| "vkey E (BvDateTime t) = [(0, of_int (sint t))]"
| "vkey E (BvTimestamp t i) = [(0, of_int (uint t)), (0, of_int (uint i))]"
| "vkey E (BvRegex r t) = str_key (cstr (the r)) @ str_key (cstr (the t))"
| "vkey E (BvCode s) = str_key s"
| "vkey E (BvCodeWScope s d) = str_key s @ dkey E d"
| "vkey E (BvDBPointer s oid) = str_key s @ str_key oid"
| "dkey E [] = [(0, 0)]"
| "dkey E ((k, v) # d) = (1, rank v) # str_key k @ vkey E v @ dkey E d"

section \<open>Strings\<close>

lemma lexk_sgn [simp]: "lexk (sgn c) xs ys = lexk c xs ys"
  by (simp add: lexk_def sgn_if)

lemma lexk_0 [simp]: "lexk 0 xs ys = int_cmp xs ys"
  by (simp add: lexk_def)

lemma lexk_nonzero: "c \<noteq> 0 \<Longrightarrow> lexk c xs ys = sgn c"
  by (simp add: lexk_def)

lemma lexk_cong_sgn: "sgn c = sgn c' \<Longrightarrow> lexk c xs ys = lexk c' xs ys"
  by (metis lexk_sgn)

lemma memcmp_min:
  "sgn (strcmp_bytes a b) =
     sgn (if memcmp a b (min (length a) (length b)) \<noteq> 0 then memcmp a b (min (length a) (length b))
          else int (length a) - int (length b))"
  by (induction a b rule: strcmp_bytes.induct) auto

lemma CompareStrings_sgn:
  assumes "short a" "short b"
  shows "sgn (CompareStrings None a b) = sgn (strcmp_bytes a b)"
proof -
  have "length_diff (length a) (length b) = int (length a) - int (length b)"
    using assms by (simp add: short_def length_diff_small)
  then show ?thesis
    unfolding memcmp_min by (auto simp: CompareStrings_def Let_def)
qed

lemma CompareStrings_key:
  assumes "short a" "short b"
  shows "int_cmp (str_key a @ xs) (str_key b @ ys) = lexk (CompareStrings None a b) xs ys"
  unfolding strcmp_bytes_key by (rule lexk_cong_sgn) (simp add: CompareStrings_sgn assms)

lemma CompareStrings_empty [simp]: "CompareStrings coll [] [] = 0"
  by (simp add: CompareStrings_def length_diff_def)

lemma int_cmp_of_int: "int_cmp (of_int a :: rat) (of_int b) = int_cmp a b"
  by (simp add: int_cmp_def)

lemma int_cmp_pair: "int_cmp (n :: nat, a :: rat) (n, b) = int_cmp a b"
  by (auto simp: int_cmp_def)

section \<open>Numbers\<close>

definition is_num :: "bson_value \<Rightarrow> bool" where
  "is_num v \<longleftrightarrow> value_type v \<in> {BSON_TYPE_DOUBLE, BSON_TYPE_INT32, BSON_TYPE_INT64,
     BSON_TYPE_DECIMAL128, BSON_TYPE_BOOL}"

text \<open>The value before a double is converted to a decimal.\<close>

fun exact_x :: "bson_value \<Rightarrow> xnum" where
  "exact_x (BvDouble d) = dbl_x d"
| "exact_x (BvInt32 i) = XFin (of_int (sint i))"
| "exact_x (BvInt64 i) = XFin (of_int (sint i))"
| "exact_x (BvDecimal128 d) = dec_x d"
| "exact_x (BvBool b) = XFin (if b then 1 else 0)"
| "exact_x _ = XFin 0"

lemma is_num_cases:
  assumes "is_num v"
  obtains d where "v = BvDouble d" | i where "v = BvInt32 i" | i where "v = BvInt64 i"
    | d where "v = BvDecimal128 d" | b where "v = BvBool b"
  using assms by (cases v) (auto simp: is_num_def)

text \<open>A number that is not a decimal is a dyadic rational with a significand of 64 bits.\<close>

lemma exact_dyadic:
  assumes "is_num v" "value_type v \<noteq> BSON_TYPE_DECIMAL128" "exact_x v = XFin q"
  shows "\<exists>m e. q = of_int m * pow2 e \<and> \<bar>m\<bar> \<le> 2 ^ 63"
  using assms(1)
proof (cases rule: is_num_cases)
  case (1 d)
  then show ?thesis
    using dbl_x_finite [of d q] assms dbl_mant_bound [of d] by (intro exI conjI) (auto)
next
  case (2 i)
  then show ?thesis
    using assms sint32_bounds [of i] by (intro exI [of _ "sint i"] exI [of _ 0]) (auto simp: pow2_def)
next
  case (3 i)
  then show ?thesis
    using assms sint64_bounds [of i] by (intro exI [of _ "sint i"] exI [of _ 0]) (auto simp: pow2_def)
next
  case (4 d)
  with assms show ?thesis by simp
next
  case (5 b)
  then show ?thesis
    using assms by (intro exI [of _ "if b then 1 else 0"] exI [of _ 0]) (auto simp: pow2_def)
qed

lemma decimal_one: "dec_x (Dec128 (bid_exp_bits 0) 1) = XFin 1"
  by (simp add: dec_x_def dec_comb_def dec_coeff_def dec_sign_def dec_exp10_def pow10_def
      bid_exp_bits_def)

lemma decimal_zero: "dec_x (Dec128 (bid_exp_bits 0) 0) = XFin 0"
  by (simp add: dec_x_def dec_comb_def dec_coeff_def dec_sign_def dec_exp10_def pow10_def
      bid_exp_bits_def)

context external_code
begin

lemma num_special: "is_num v \<Longrightarrow> (\<And>q. exact_x v \<noteq> XFin q) \<Longrightarrow> num_x E v = exact_x v"
  by (erule is_num_cases) (auto intro: binary64_special_law)

lemma num_close:
  assumes "is_num v" "exact_x v = XFin q"
  shows "\<exists>r. num_x E v = XFin r \<and> \<bar>r - q\<bar> \<le> \<bar>q\<bar> / 10 ^ 30"
  using assms(1)
proof (cases rule: is_num_cases)
  case (1 d)
  then show ?thesis using binary64_finite_law [of d q] assms by simp
qed (use assms in auto)

lemma num_nan: "is_num v \<Longrightarrow> num_x E v = XNaN \<longleftrightarrow> exact_x v = XNaN"
  by (cases "exact_x v") (use num_special [of v] num_close [of v] in auto)

text \<open>
  Comparing the exact values of two numbers that are not decimals gives the same order as
  comparing the decimals they convert to.
\<close>

lemma num_key_finite_less:
  assumes "is_num l" "is_num r"
    and "value_type l \<noteq> BSON_TYPE_DECIMAL128" "value_type r \<noteq> BSON_TYPE_DECIMAL128"
    and "exact_x l = XFin a" "exact_x r = XFin b" "a < b"
  shows "xnum_key (num_x E l) < xnum_key (num_x E r)"
proof -
  obtain m e m' e' where a: "a = of_int m * pow2 e" "\<bar>m\<bar> \<le> 2 ^ 63"
    and b: "b = of_int m' * pow2 e'" "\<bar>m'\<bar> \<le> 2 ^ 63"
    using exact_dyadic [of l a] exact_dyadic [of r b] assms by metis
  obtain q s where q: "num_x E l = XFin q" "\<bar>q - a\<bar> \<le> \<bar>a\<bar> / 10 ^ 30"
    and s: "num_x E r = XFin s" "\<bar>s - b\<bar> \<le> \<bar>b\<bar> / 10 ^ 30"
    using num_close [of l a] num_close [of r b] assms by metis
  have "\<bar>a\<bar> + \<bar>b\<bar> \<le> (2 ^ 64 + 1) * \<bar>a - b\<bar>"
    using dyadic_gap [of m e m' e'] a b \<open>a < b\<close> by simp
  then have "q < s" using close_keeps_order \<open>a < b\<close> q(2) s(2) by blast
  with q(1) s(1) show ?thesis by simp
qed

lemma num_integer:
  assumes "is_num v" "exact_x v = XFin (of_int n)" "\<bar>n\<bar> < 10 ^ 34"
  shows "num_x E v = exact_x v"
  using assms(1)
proof (cases rule: is_num_cases)
  case (1 d)
  then show ?thesis using binary64_integer_law [of d n] assms by simp
qed (use assms in auto)

lemma num_double_or_integer:
  assumes "is_num v" "value_type v \<noteq> BSON_TYPE_DECIMAL128" "\<And>d. v \<noteq> BvDouble d"
  shows "\<exists>n. exact_x v = XFin (of_int n) \<and> \<bar>n\<bar> < 10 ^ 34"
  using assms(1)
proof (cases rule: is_num_cases)
  case (2 i)
  then show ?thesis using sint32_bounds [of i] by (intro exI [of _ "sint i"]) auto
next
  case (3 i)
  then show ?thesis using sint64_bounds [of i] by (intro exI [of _ "sint i"]) auto
next
  case (5 b)
  then show ?thesis by (intro exI [of _ "if b then 1 else 0"]) auto
qed (use assms in auto)

lemma num_key_eq:
  assumes "is_num l" "is_num r"
    and "value_type l \<noteq> BSON_TYPE_DECIMAL128" "value_type r \<noteq> BSON_TYPE_DECIMAL128"
    and eq: "exact_x l = exact_x r"
  shows "num_x E l = num_x E r"
proof (cases "\<exists>n. exact_x l = XFin (of_int n) \<and> \<bar>n\<bar> < 10 ^ 34")
  case True
  then show ?thesis using num_integer [of l] num_integer [of r] assms by auto
next
  case False
  then obtain d d' where "l = BvDouble d" "r = BvDouble d'"
    using num_double_or_integer [of l] num_double_or_integer [of r] assms by metis
  with eq show ?thesis using binary64_value_law [of d d'] by simp
qed

lemma num_key_less:
  assumes "is_num l" "is_num r"
    and "value_type l \<noteq> BSON_TYPE_DECIMAL128" "value_type r \<noteq> BSON_TYPE_DECIMAL128"
    and less: "xnum_key (exact_x l) < xnum_key (exact_x r)"
  shows "xnum_key (num_x E l) < xnum_key (num_x E r)"
proof (cases "\<exists>a b. exact_x l = XFin a \<and> exact_x r = XFin b")
  case True
  then show ?thesis using num_key_finite_less [of l r] assms by auto
next
  case False
  have "fst (xnum_key (num_x E v)) = fst (xnum_key (exact_x v))" if "is_num v" for v
    using num_special [OF that] num_close [OF that] by (cases "exact_x v") auto
  moreover have "fst (xnum_key (exact_x l)) < fst (xnum_key (exact_x r))"
    using False less by (cases "exact_x l"; cases "exact_x r") auto
  ultimately show ?thesis using assms(1,2) by (simp add: less_prod_def')
qed

lemma num_key_order:
  assumes "is_num l" "is_num r"
    and "value_type l \<noteq> BSON_TYPE_DECIMAL128" "value_type r \<noteq> BSON_TYPE_DECIMAL128"
  shows "int_cmp (xnum_key (num_x E l)) (xnum_key (num_x E r))
     = int_cmp (xnum_key (exact_x l)) (xnum_key (exact_x r))"
  using num_key_eq [OF assms] num_key_less [OF assms] num_key_less [OF assms(2,1,4,3)]
  by (cases "xnum_key (exact_x l)" "xnum_key (exact_x r)" rule: linorder_cases)
     (auto simp: int_cmp_def)

lemma GetBsonValueAsDecimal128_num:
  "is_num v \<Longrightarrow> \<exists>d. GetBsonValueAsDecimal128 E v = Inr d \<and> dec_x d = num_x E v"
  by (erule is_num_cases)
     (auto simp: GetBsonValueAsDecimal128_def GetBsonValueAsDecimal128Core_def
        BsonValueIsNumberOrBool_def from_int32_law from_int64_law decimal128_from_double_def
        decimal_one decimal_zero)

lemma BsonNumberAsLongDouble_num:
  "is_num v \<Longrightarrow> value_type v \<noteq> BSON_TYPE_DECIMAL128 \<Longrightarrow> BsonNumberAsLongDouble E v = Inr (exact_x v)"
  by (erule is_num_cases) (auto simp: BsonNumberAsLongDouble_def)

lemma BsonValueAsInt64_num:
  "is_num v \<Longrightarrow> value_type v \<notin> {BSON_TYPE_DECIMAL128, BSON_TYPE_DOUBLE} \<Longrightarrow>
     \<exists>i. BsonValueAsInt64 E v = Inr i \<and> exact_x v = XFin (of_int (sint i))"
  by (erule is_num_cases)
     (auto simp: BsonValueAsInt64_def BsonValueAsInt64WithRoundingMode_def int32_in_int64
       )

lemma CompareNumbers_key:
  assumes "is_num l" "is_num r"
  shows "CompareNumbers E l r
     = Inr (int_cmp (xnum_key (num_x E l)) (xnum_key (num_x E r)),
            (exact_x l = XNaN) = (exact_x r = XNaN))"
proof (cases "value_type l = BSON_TYPE_DECIMAL128 \<or> value_type r = BSON_TYPE_DECIMAL128")
  case True
  obtain d d' where "GetBsonValueAsDecimal128 E l = Inr d" "dec_x d = num_x E l"
    "GetBsonValueAsDecimal128 E r = Inr d'" "dec_x d' = num_x E r"
    using GetBsonValueAsDecimal128_num assms by metis
  with True show ?thesis
    using num_nan [of l] num_nan [of r] assms by (simp add: CompareNumbers_def compare_decimal128)
next
  case False
  then have ord: "int_cmp (xnum_key (num_x E l)) (xnum_key (num_x E r))
      = int_cmp (xnum_key (exact_x l)) (xnum_key (exact_x r))"
    using num_key_order assms by blast
  show ?thesis
  proof (cases "value_type l = BSON_TYPE_DOUBLE \<or> value_type r = BSON_TYPE_DOUBLE")
    case True
    with False show ?thesis
      unfolding ord by (cases "exact_x l"; cases "exact_x r")
        (auto simp: CompareNumbers_def BsonNumberAsLongDouble_num assms x_less_def x_eq_def int_cmp_def)
  next
    case not_double: False
    then obtain i j where "BsonValueAsInt64 E l = Inr i" "exact_x l = XFin (of_int (sint i))"
      "BsonValueAsInt64 E r = Inr j" "exact_x r = XFin (of_int (sint j))"
      using BsonValueAsInt64_num [of l] BsonValueAsInt64_num [of r] False assms by auto
    with False not_double show ?thesis
      unfolding ord by (simp add: CompareNumbers_def int_cmp_pair int_cmp_of_int)
  qed
qed

end

section \<open>Values and documents\<close>

text \<open>
  A comparison agrees with two keys if it returns and orders them in front of any continuation.
\<close>

definition key_agrees ::
  "(int \<times> bool) result \<Rightarrow> key \<Rightarrow> key \<Rightarrow> bool" where
  "key_agrees res k k' \<longleftrightarrow> (\<exists>c v. res = Inr (c, v) \<and> (\<forall>ys zs. int_cmp (k @ ys) (k' @ zs) = lexk c ys zs))"

definition iter_agrees :: "int result \<Rightarrow> key \<Rightarrow> key \<Rightarrow> bool" where
  "iter_agrees res k k' \<longleftrightarrow> (\<exists>c. res = Inr c \<and> (\<forall>ys zs. int_cmp (k @ ys) (k' @ zs) = lexk c ys zs))"

lemma same_rank: "CompareBsonSortOrderType l r = 0 \<longleftrightarrow> rank l = rank r"
  by (simp add: CompareBsonSortOrderType_def CompareSortOrderType_def rank_def)

lemma rank_order: "sgn (CompareBsonSortOrderType l r) = int_cmp (rank l) (rank r)"
  by (simp add: CompareBsonSortOrderType_def CompareSortOrderType_def rank_def int_cmp_def)

lemma key_agreesI:
  "(\<And>ys zs. int_cmp (k @ ys) (k' @ zs) = lexk c ys zs) \<Longrightarrow> key_agrees (Inr (c, v)) k k'"
  by (simp add: key_agrees_def)

lemma key_agrees_empty: "key_agrees (Inr (0, v)) [] []"
  by (rule key_agreesI) simp

lemma key_agrees_single: "key_agrees (Inr (int_cmp a b, v)) [a] [b]"
  by (rule key_agreesI) (simp add: int_cmp_Cons_lexk)

lemma key_agrees_string:
  "short a \<Longrightarrow> short b \<Longrightarrow> key_agrees (Inr (CompareStrings None a b, v)) (str_key a) (str_key b)"
  by (rule key_agreesI) (rule CompareStrings_key)

lemma key_agrees_doc:
  "iter_agrees res k k' \<Longrightarrow> key_agrees (ebind res (\<lambda>c. Inr (c, True))) k k'"
  by (auto simp: iter_agrees_def key_agrees_def)

text \<open>A first comparison decides unless it is 0; then the second one does.\<close>

lemma key_agrees_then:
  assumes "\<And>ys zs. int_cmp (k @ ys) (k' @ zs) = lexk c ys zs" and "key_agrees res m m'"
  shows "key_agrees (if c \<noteq> 0 then Inr (c, True) else res) (k @ m) (k' @ m')"
  using assms by (auto simp: key_agrees_def lexk_nonzero)

context external_code
begin

lemma oid_key:
  assumes "length a = 12" "length b = 12"
  shows "int_cmp (str_key a @ xs) (str_key b @ ys) = lexk (bson_oid_compare E a b) xs ys"
  using oid_compare_law [OF assms] memcmp_key [of a b xs ys] assms
  by (simp add: lexk_cong_sgn [of "bson_oid_compare E a b"])

lemma iter_agrees_dkey:
  assumes "\<And>v r. v \<in> snd ` set d \<Longrightarrow> rank v = rank r \<Longrightarrow> wf_value v \<Longrightarrow> wf_value r \<Longrightarrow>
      key_agrees (CompareBsonValue E None v r) (vkey E v) (vkey E r)"
  shows "wf_doc d \<Longrightarrow> wf_doc d' \<Longrightarrow>
     iter_agrees (CompareBsonIter E None True d d') (dkey E d) (dkey E d')"
  using assms
proof (induction d arbitrary: d')
  case Nil
  then show ?case by (cases d') (auto simp: iter_agrees_def int_cmp_Cons lexk_def)
next
  case (Cons e d)
  obtain k v where e: "e = (k, v)" by (cases e)
  show ?case
  proof (cases d')
    case Nil
    then show ?thesis using e by (auto simp: iter_agrees_def int_cmp_Cons lexk_def)
  next
    case (Cons e' r)
    obtain k' v' where e': "e' = (k', v')" by (cases e')
    have wf: "short k" "short k'" "wf_value v" "wf_value v'" "wf_doc d" "wf_doc r"
      using Cons.prems(1,2) Cons e e' by auto
    show ?thesis
    proof (cases "rank v = rank v'")
      case False
      then have "CompareBsonSortOrderType v v' \<noteq> 0" by (simp add: same_rank)
      then show ?thesis
        using rank_order [of v v'] False e e' Cons
        by (auto simp: iter_agrees_def Let_def lexk_nonzero int_cmp_Cons_lexk int_cmp_pair)
    next
      case True
      then obtain c b where c: "CompareBsonValue E None v v' = Inr (c, b)"
        "\<And>ys zs. int_cmp (vkey E v @ ys) (vkey E v' @ zs) = lexk c ys zs"
        using Cons.prems(3) [of v v'] wf e by (auto simp: key_agrees_def)
      obtain i where i: "CompareBsonIter E None True d r = Inr i"
        "\<And>ys zs. int_cmp (dkey E d @ ys) (dkey E r @ zs) = lexk i ys zs"
        using Cons.IH [of r] Cons.prems(3) wf e by (auto simp: iter_agrees_def)
      show ?thesis
        using True e e' Cons c i CompareStrings_key [of k k'] wf
        by (auto simp: iter_agrees_def Let_def same_rank int_cmp_Cons lexk_nonzero)
    qed
  qed
qed

lemma compare_num_key:
  assumes "rank l = rank r" "is_num l"
  shows "key_agrees (CompareBsonValue E None l r) (vkey E l) (vkey E r)"
proof -
  have "is_num r" using assms by (cases l; cases r) (auto simp: rank_def is_num_def)
  moreover have "CompareBsonValue E None l r = CompareNumbers E l r"
    using assms by (cases l) (auto simp: CompareBsonValue.simps same_rank is_num_def)
  moreover have "vkey E l = [xnum_key (num_x E l)]" "vkey E r = [xnum_key (num_x E r)]"
    using \<open>is_num l\<close> \<open>is_num r\<close> by (auto elim!: is_num_cases)
  ultimately show ?thesis
    using CompareNumbers_key [of l r] assms(2) by (simp add: key_agrees_single)
qed

lemma compare_string_key:
  assumes "rank l = rank r" "wf_value l" "wf_value r" "l = BvUtf8 s \<or> l = BvSymbol s"
  shows "key_agrees (CompareBsonValue E None l r) (vkey E l) (vkey E r)"
proof -
  obtain t where "r = BvUtf8 t \<or> r = BvSymbol t"
    using assms by (cases r) (auto simp: rank_def)
  then show ?thesis
    using assms by (auto simp: CompareBsonValue.simps same_rank intro: key_agrees_string)
qed

lemma int_cmp_Cons_pair:
  "int_cmp ((n, a) # xs) ((n, b) # ys) = (if a = b then int_cmp xs ys else int_cmp a b)"
  for a b :: rat and n :: nat
  by (auto simp: int_cmp_def)

lemma compare_binary_key:
  assumes "short a" "short b"
  shows "key_agrees (CompareBsonValue E None (BvBinary s a) (BvBinary t b))
     (vkey E (BvBinary s a)) (vkey E (BvBinary t b))"
proof (cases "length a = length b \<and> s = t")
  case True
  then show ?thesis
    using memcmp_key [of a b]
    by (auto simp: CompareBsonValue.simps same_rank rank_def int_cmp_Cons_pair intro: key_agreesI)
next
  case False
  have "sgn (length_diff (length a) (length b)) = int_cmp (of_nat (length a)) (rat_of_nat (length b))"
    using assms by (auto simp: short_def length_diff_small int_cmp_def)
  moreover have "sgn (uint s - uint t) = int_cmp (of_int (uint s)) (rat_of_int (uint t))"
    by (simp add: int_cmp_def)
  moreover have "length_diff (length a) (length b) \<noteq> 0" if "length a \<noteq> length b"
    using assms that by (simp add: short_def length_diff_small)
  moreover have "uint s \<noteq> uint t" if "s \<noteq> t" using that by (simp add: word_uint_eq_iff)
  ultimately show ?thesis
    using False
    by (auto simp: CompareBsonValue.simps same_rank rank_def key_agrees_def int_cmp_Cons_pair
        lexk_nonzero)
qed

lemma compare_regex_key:
  "key_agrees (CompareBsonValue E None (BvRegex (Some p) (Some q)) (BvRegex (Some p') (Some q')))
     (vkey E (BvRegex (Some p) (Some q))) (vkey E (BvRegex (Some p') (Some q')))"
  by (auto simp: CompareBsonValue.simps same_rank rank_def key_agrees_def strcmp_def
      strcmp_bytes_key lexk_nonzero Let_def)

lemma compare_timestamp_key:
  "key_agrees (CompareBsonValue E None (BvTimestamp t i) (BvTimestamp t' i'))
     (vkey E (BvTimestamp t i)) (vkey E (BvTimestamp t' i'))"
  by (auto simp: CompareBsonValue.simps same_rank rank_def key_agrees_def int_cmp_Cons_pair
      int_cmp_of_int lexk_def) (auto simp: int_cmp_def)

lemma compare_dbpointer_key:
  assumes "short s" "short t" "length x = 12" "length y = 12"
  shows "key_agrees (CompareBsonValue E None (BvDBPointer s x) (BvDBPointer t y))
     (vkey E (BvDBPointer s x)) (vkey E (BvDBPointer t y))"
  using CompareStrings_key [of s t] oid_key [of x y] assms
  by (auto simp: CompareBsonValue.simps same_rank rank_def key_agrees_def lexk_nonzero Let_def)

lemma compare_codewscope_key:
  assumes "short s" "short t" "iter_agrees (CompareBsonIter E None True d d') (dkey E d) (dkey E d')"
  shows "key_agrees (CompareBsonValue E None (BvCodeWScope s d) (BvCodeWScope t d'))
     (vkey E (BvCodeWScope s d)) (vkey E (BvCodeWScope t d'))"
  using CompareStrings_key [of s t] assms
  by (auto simp: CompareBsonValue.simps same_rank rank_def key_agrees_def iter_agrees_def
      lexk_nonzero Let_def)

lemma compare_trivial_key:
  assumes "rank l = rank r" "l \<in> {BvEOD, BvMinKey, BvUndefined, BvNull, BvMaxKey}"
  shows "key_agrees (CompareBsonValue E None l r) (vkey E l) (vkey E r)"
  using assms
  by (cases r) (auto simp: CompareBsonValue.simps same_rank rank_def intro: key_agrees_empty)

lemmas compare_leaf_simps = CompareBsonValue.simps same_rank rank_def wf_value.simps

lemma compare_value_key:
  "rank l = rank r \<Longrightarrow> wf_value l \<Longrightarrow> wf_value r \<Longrightarrow>
     key_agrees (CompareBsonValue E None l r) (vkey E l) (vkey E r)"
proof (induction l arbitrary: r)
  case (BvDocument d)
  then obtain d' where r: "r = BvDocument d'" by (cases r) (auto simp: rank_def)
  have "iter_agrees (CompareBsonIter E None True d d') (dkey E d) (dkey E d')"
    by (rule iter_agrees_dkey) (use BvDocument r in \<open>auto simp: snds.simps\<close>)
  then show ?case by (simp add: r CompareBsonValue.simps same_rank rank_def key_agrees_doc)
next
  case (BvArray d)
  then obtain d' where r: "r = BvArray d'" by (cases r) (auto simp: rank_def)
  have "iter_agrees (CompareBsonIter E None True d d') (dkey E d) (dkey E d')"
    by (rule iter_agrees_dkey) (use BvArray r in \<open>auto simp: snds.simps\<close>)
  then show ?case by (simp add: r CompareBsonValue.simps same_rank rank_def key_agrees_doc)
next
  case (BvCodeWScope s d)
  then obtain t d' where r: "r = BvCodeWScope t d'" by (cases r) (auto simp: rank_def)
  have "iter_agrees (CompareBsonIter E None True d d') (dkey E d) (dkey E d')"
    by (rule iter_agrees_dkey) (use BvCodeWScope r in \<open>auto simp: snds.simps\<close>)
  then show ?case using BvCodeWScope.prems r compare_codewscope_key by simp
next
  case (BvBinary s a)
  then show ?case
    by (cases r) (auto simp: rank_def simp del: vkey.simps intro: compare_binary_key)
next
  case (BvRegex p q)
  then show ?case
    by (cases r) (auto simp: rank_def simp del: vkey.simps intro: compare_regex_key split: option.splits)
next
  case (BvDBPointer s x)
  then show ?case
    by (cases r) (auto simp: rank_def simp del: vkey.simps intro: compare_dbpointer_key)
next
  case (BvTimestamp t i)
  then show ?case
    by (cases r) (auto simp: rank_def simp del: vkey.simps intro: compare_timestamp_key)
next
  case (BvUtf8 s)
  then show ?case using compare_string_key by blast
next
  case (BvSymbol s)
  then show ?case using compare_string_key by blast
next
  case (BvCode s)
  then show ?case by (cases r) (auto simp: compare_leaf_simps intro: key_agrees_string)
next
  case (BvOid s)
  then show ?case by (cases r) (auto simp: compare_leaf_simps oid_key intro: key_agreesI)
next
  case (BvDateTime t)
  then show ?case
    by (cases r) (auto simp: compare_leaf_simps int_cmp_Cons int_cmp_def lexk_def intro: key_agreesI)
qed (simp_all add: compare_num_key compare_trivial_key is_num_def del: vkey.simps)

lemma compare_iter_key:
  "wf_doc d \<Longrightarrow> wf_doc d' \<Longrightarrow>
     iter_agrees (CompareBsonIter E None True d d') (dkey E d) (dkey E d')"
  by (rule iter_agrees_dkey) (auto intro: compare_value_key)

end

text \<open>The key of a value of any type, and the order as a plain number.\<close>

definition full_key :: "extern \<Rightarrow> bson_value \<Rightarrow> key" where
  "full_key E v = (0, rank v) # vkey E v"

definition order_of :: "extern \<Rightarrow> bson_value \<Rightarrow> bson_value \<Rightarrow> int" where
  "order_of E l r = (case CompareBsonValueAndType E l r of Inr (c, _) \<Rightarrow> c | Inl _ \<Rightarrow> 0)"

definition doc_order_of :: "extern \<Rightarrow> bson_doc \<Rightarrow> bson_doc \<Rightarrow> int" where
  "doc_order_of E l r = (case ComparePgbson E l r of Inr c \<Rightarrow> c | Inl _ \<Rightarrow> 0)"

context external_code
begin

lemma compare_type_key:
  assumes "wf_value l" "wf_value r"
  shows "\<exists>c b. CompareBsonValueAndType E l r = Inr (c, b)
     \<and> sgn c = int_cmp (full_key E l) (full_key E r)"
proof (cases "rank l = rank r")
  case True
  then obtain c b where "CompareBsonValue E None l r = Inr (c, b)"
    "int_cmp (vkey E l) (vkey E r) = lexk c [] []"
    using compare_value_key [of l r] assms unfolding key_agrees_def by (metis append_Nil2)
  with True show ?thesis
    by (simp add: CompareBsonValueAndType_def same_rank full_key_def int_cmp_Cons_pair lexk_def)
next
  case False
  then show ?thesis
    using rank_order [of l r]
    by (auto simp: CompareBsonValueAndType_def same_rank full_key_def int_cmp_Cons_pair)
qed

lemma order_of_key:
  "wf_value l \<Longrightarrow> wf_value r \<Longrightarrow> sgn (order_of E l r) = int_cmp (full_key E l) (full_key E r)"
  using compare_type_key [of l r] by (auto simp: order_of_def)

lemma PgbsonEquals_same:
  assumes "wf_doc l" "wf_doc r"
  shows "PgbsonEquals E (Some l) (Some r) \<longleftrightarrow> l = r"
proof -
  have "memcmp a b (length a) = 0 \<longleftrightarrow> a = b" if "length a = length b" for a b
    using that by (induction a b rule: list_induct2) auto
  then show ?thesis using doc_data_law [OF assms] by (auto simp: PgbsonEquals_def)
qed

lemma compare_doc_key:
  assumes "wf_doc l" "wf_doc r"
  shows "\<exists>c. ComparePgbson E l r = Inr c \<and> sgn c = int_cmp (dkey E l) (dkey E r)"
proof (cases "l = r")
  case True
  then show ?thesis using PgbsonEquals_same assms by (simp add: ComparePgbson_def)
next
  case False
  then obtain c where "CompareBsonIter E None True l r = Inr c"
    "int_cmp (dkey E l) (dkey E r) = lexk c [] []"
    using compare_iter_key [OF assms] unfolding iter_agrees_def by (metis append_Nil2)
  with False show ?thesis
    using PgbsonEquals_same [OF assms] by (simp add: ComparePgbson_def lexk_def)
qed

lemma doc_order_of_key:
  "wf_doc l \<Longrightarrow> wf_doc r \<Longrightarrow> sgn (doc_order_of E l r) = int_cmp (dkey E l) (dkey E r)"
  using compare_doc_key [of l r] by (auto simp: doc_order_of_def)

end

text \<open>Both comparisons are three-way comparisons, with the consequences proved of these.\<close>

sublocale external_code \<subseteq> value_order: three_way wf_value "order_of E"
  by (rule three_way_by_key) (rule order_of_key)

sublocale external_code \<subseteq> doc_order: three_way wf_doc "doc_order_of E"
  by (rule three_way_by_key) (rule doc_order_of_key)

section \<open>Consequences\<close>

context external_code
begin

lemma compare_order_of:
  "wf_value l \<Longrightarrow> wf_value r \<Longrightarrow> \<exists>b. CompareBsonValueAndType E l r = Inr (order_of E l r, b)"
  using compare_type_key [of l r] by (auto simp: order_of_def)

lemmas order_flip = value_order.cmp_flip
lemmas order_trans = value_order.cmp_le_trans

lemma exact_keys:
  assumes "is_num l" "is_num r"
    and "value_type l = BSON_TYPE_DECIMAL128 \<Longrightarrow> value_type r \<noteq> BSON_TYPE_DOUBLE"
    and "value_type r = BSON_TYPE_DECIMAL128 \<Longrightarrow> value_type l \<noteq> BSON_TYPE_DOUBLE"
  shows "int_cmp (xnum_key (num_x E l)) (xnum_key (num_x E r))
     = int_cmp (xnum_key (exact_x l)) (xnum_key (exact_x r))"
proof (cases "value_type l = BSON_TYPE_DECIMAL128 \<or> value_type r = BSON_TYPE_DECIMAL128")
  case True
  have "num_x E v = exact_x v" if "is_num v" "value_type v \<noteq> BSON_TYPE_DOUBLE" for v
    using that by (cases v) (simp_all add: is_num_def)
  moreover have "value_type l \<noteq> BSON_TYPE_DOUBLE" "value_type r \<noteq> BSON_TYPE_DOUBLE"
    using True assms(3,4) by auto
  ultimately show ?thesis using assms(1,2) by simp
next
  case False
  with assms num_key_order show ?thesis by blast
qed

lemma compare_doc_same: "wf_doc d \<Longrightarrow> ComparePgbson E d d = Inr 0"
  using compare_doc_key [of d d] by (auto simp: sgn_if split: if_splits)

end

end
