(* ===== verification/Bson_Format.thy ===== *)
theory Bson_Format
  imports Bson_Types
begin

text \<open>
  The BSON binary format (bsonspec.org), as far as the modelled code depends on it: the
  serialisation of values and documents, and that it determines them.  The serialiser is the
  yardstick for the code that reads raw bytes, and the document bytes of the reference
  instance of the external code.
\<close>

section \<open>Little-endian integers\<close>

definition byte_of :: "int \<Rightarrow> char" where
  "byte_of i = char_of (nat (i mod 256))"

fun le :: "nat \<Rightarrow> int \<Rightarrow> string" where
  "le 0 i = []"
| "le (Suc n) i = byte_of i # le n (i div 256)"

fun un_le :: "string \<Rightarrow> int" where
  "un_le [] = 0"
| "un_le (c # cs) = byte_val c + 256 * un_le cs"

abbreviation (input) NUL :: char where "NUL \<equiv> CHR 0x00"

section \<open>Values and documents\<close>

text \<open>\<open>int32 (bytes*) "\x00"\<close>: a string with its length, which counts the terminator.\<close>

definition enc_string :: "string \<Rightarrow> string" where
  "enc_string s = le 4 (int (length s) + 1) @ s @ [NUL]"

fun enc_value :: "bson_value \<Rightarrow> string"
  and enc_doc :: "bson_doc \<Rightarrow> string"
  and enc_elements :: "bson_doc \<Rightarrow> string" where
  "enc_value (BvDouble d) = le 8 (uint (dbl_bits d))"
| "enc_value (BvUtf8 s) = enc_string s"
| "enc_value (BvDocument d) = enc_doc d"
| "enc_value (BvArray d) = enc_doc d"
| "enc_value (BvBinary t s) =
     (if t = 2 then le 4 (int (length s) + 4) @ byte_of (uint t) # le 4 (int (length s)) @ s
      else le 4 (int (length s)) @ byte_of (uint t) # s)"
| "enc_value (BvOid s) = s"
| "enc_value (BvBool b) = [byte_of (if b then 1 else 0)]"
| "enc_value (BvDateTime t) = le 8 (uint t)"
| "enc_value (BvRegex p q) = the p @ NUL # the q @ [NUL]"
| "enc_value (BvDBPointer s oid) = enc_string s @ oid"
| "enc_value (BvCode s) = enc_string s"
| "enc_value (BvSymbol s) = enc_string s"
| "enc_value (BvCodeWScope s d) =
     le 4 (int (length s) + 9 + int (length (enc_doc d))) @ enc_string s @ enc_doc d"
| "enc_value (BvInt32 i) = le 4 (uint i)"
| "enc_value (BvTimestamp t i) = le 4 (uint i) @ le 4 (uint t)"
| "enc_value (BvInt64 i) = le 8 (uint i)"
| "enc_value (BvDecimal128 d) = le 8 (uint (dec_low d)) @ le 8 (uint (dec_high d))"
| "enc_value _ = []"
| "enc_doc d = le 4 (int (length (enc_elements d)) + 5) @ enc_elements d @ [NUL]"
| "enc_elements [] = []"
| "enc_elements ((k, v) # d) =
     byte_of (bson_type_code (value_type v)) # k @ NUL # enc_value v @ enc_elements d"

section \<open>The format determines the document\<close>

lemma byte_val_byte_of [simp]: "byte_val (byte_of i) = i mod 256"
  by (simp add: byte_val_def byte_of_def)

lemma byte_of_eq: "byte_of i = byte_of j \<longleftrightarrow> i mod 256 = j mod 256"
  using byte_val_inj [of "byte_of i" "byte_of j"] by simp

lemma byte_of_NUL: "byte_of i = NUL \<longleftrightarrow> i mod 256 = 0"
proof -
  have "byte_val NUL = 0" by (simp add: byte_val_def)
  then show ?thesis using byte_val_inj [of "byte_of i" NUL] by simp
qed

lemma byte_of_word: "byte_of (uint (b :: 8 word)) = byte_of (uint c) \<longleftrightarrow> b = c"
  using uint_lt2p [of b] uint_lt2p [of c] by (simp add: byte_of_eq word_uint_eq_iff)

lemma length_le [simp]: "length (le n i) = n"
  by (induction n arbitrary: i) auto

lemma un_le_le: "un_le (le n i) = i mod 256 ^ n"
proof (induction n arbitrary: i)
  case (Suc n)
  have "i mod (256 * 256 ^ n) = 256 * (i div 256 mod 256 ^ n) + i mod 256"
    by (rule zmod_zmult2_eq) simp
  with Suc show ?case by simp
qed simp

lemma le_inj:
  assumes "le n i @ x = le n j @ y" "i \<in> {0..<256 ^ n}" "j \<in> {0..<256 ^ n}"
  shows "i = j" "x = y"
proof -
  have "le n i = le n j" and xy: "x = y" using assms(1) by auto
  then have "i mod 256 ^ n = j mod 256 ^ n" by (metis un_le_le)
  with assms(2,3) show "i = j" by simp
  show "x = y" by (rule xy)
qed

lemma le_word [simp]:
  "le 4 (uint i) = le 4 (uint j) \<longleftrightarrow> i = j" "le 8 (uint k) = le 8 (uint l) \<longleftrightarrow> k = l"
  for i j :: "32 word" and k l :: "64 word"
proof -
  have "uint i \<in> {0..<256 ^ 4}" "uint j \<in> {0..<256 ^ 4}" "uint k \<in> {0..<256 ^ 8}" "uint l \<in> {0..<256 ^ 8}"
    using uint_lt2p [of i] uint_lt2p [of j] uint_lt2p [of k] uint_lt2p [of l] by simp_all
  then show "le 4 (uint i) = le 4 (uint j) \<longleftrightarrow> i = j" "le 8 (uint k) = le 8 (uint l) \<longleftrightarrow> k = l"
    using le_inj(1) [of 4 "uint i" "[]" "uint j" "[]"] le_inj(1) [of 8 "uint k" "[]" "uint l" "[]"]
    by (auto simp: word_uint_eq_iff)
qed

lemma short_range:
  "short s \<Longrightarrow> int (length s) \<in> {0..<256 ^ 4}" "short s \<Longrightarrow> int (length s) + 1 \<in> {0..<256 ^ 4}"
  "short s \<Longrightarrow> int (length s) + 4 \<in> {0..<256 ^ 4}"
  by (simp_all add: short_def)

lemma cstring_split:
  assumes "a @ NUL # x = b @ NUL # y" "c_string a" "c_string b"
  shows "a = b \<and> x = y"
  using assms
proof (induction a arbitrary: b)
  case Nil
  then show ?case by (cases b) (auto simp: c_string_def byte_val_def)
next
  case (Cons c a)
  then show ?case by (cases b) (auto simp: c_string_def byte_val_def)
qed

lemma enc_string_inj:
  assumes "enc_string s @ x = enc_string t @ y" "short s" "short t"
  shows "s = t \<and> x = y"
proof -
  have eq: "le 4 (int (length s) + 1) @ s @ NUL # x = le 4 (int (length t) + 1) @ t @ NUL # y"
    using assms(1) by (simp add: enc_string_def)
  note l = le_inj [OF eq short_range(2) [OF assms(2)] short_range(2) [OF assms(3)]]
  from l(1) have "length s = length t" by simp
  with l(2) show ?thesis by simp
qed

lemma enc_binary_inj:
  assumes "enc_value (BvBinary b s) @ x = enc_value (BvBinary c t) @ y" "short s" "short t"
  shows "b = c \<and> s = t \<and> x = y"
proof -
  let ?f = "\<lambda>t s. int (length s) + (if t = (2 :: 8 word) then 4 else 0)"
  let ?g = "\<lambda>t s. (if t = (2 :: 8 word) then le 4 (int (length s)) else []) @ s"
  have "enc_value (BvBinary t s) = le 4 (?f t s) @ byte_of (uint t) # ?g t s" for t s by simp
  with assms(1) have eq:
    "le 4 (?f b s) @ byte_of (uint b) # ?g b s @ x = le 4 (?f c t) @ byte_of (uint c) # ?g c t @ y"
    by (simp del: enc_value.simps)
  have "?f b s \<in> {0..<256 ^ 4}" "?f c t \<in> {0..<256 ^ 4}"
    using assms(2,3) by (simp_all add: short_def)
  note l = le_inj [OF eq this]
  from l(2) have "b = c" by (simp add: byte_of_word)
  with l(1) have "length s = length t" by simp
  with l(2) \<open>b = c\<close> show ?thesis by (auto split: if_splits)
qed

lemma type_byte_inj: "byte_of (bson_type_code s) = byte_of (bson_type_code t) \<longleftrightarrow> s = t"
  by (cases s; cases t) (simp_all add: byte_of_eq)

lemma type_byte_not_NUL: "v \<noteq> BvEOD \<Longrightarrow> byte_of (bson_type_code (value_type v)) \<noteq> NUL"
  by (cases v) (simp_all add: byte_of_NUL)

definition prefix_free :: "bson_value \<Rightarrow> bool" where
  "prefix_free v \<longleftrightarrow> (\<forall>w x y. value_type v = value_type w \<longrightarrow> wf_value v \<longrightarrow> wf_value w \<longrightarrow>
     enc_value v @ x = enc_value w @ y \<longrightarrow> v = w \<and> x = y)"

lemma enc_elements_inj:
  assumes "\<And>v. v \<in> snd ` set d \<Longrightarrow> prefix_free v"
    and "wf_doc d" "wf_doc d'" "enc_elements d @ NUL # x = enc_elements d' @ NUL # y"
  shows "d = d' \<and> x = y"
  using assms
proof (induction d arbitrary: d')
  case Nil
  then show ?case
    using type_byte_not_NUL by (cases d') fastforce+
next
  case (Cons e d)
  obtain k v where e: "e = (k, v)" by (cases e)
  show ?case
  proof (cases d')
    case Nil
    then show ?thesis using Cons.prems type_byte_not_NUL [of v] e by auto
  next
    case (Cons e' r)
    obtain k' v' where e': "e' = (k', v')" by (cases e')
    have wf: "c_string k" "c_string k'" "wf_value v" "wf_value v'" "wf_doc d" "wf_doc r"
      using Cons.prems(2,3) Cons e e' by auto
    have ty: "value_type v = value_type v'"
      and "k @ NUL # enc_value v @ enc_elements d @ NUL # x
         = k' @ NUL # enc_value v' @ enc_elements r @ NUL # y"
      using Cons.prems(4) Cons e e' by (auto simp: type_byte_inj)
    from cstring_split [OF this(2) wf(1,2)] have "k = k'"
      and *: "enc_value v @ enc_elements d @ NUL # x = enc_value v' @ enc_elements r @ NUL # y" by auto
    moreover have "prefix_free v" using Cons.prems(1) e by simp
    with ty wf * have "v = v'" "enc_elements d @ NUL # x = enc_elements r @ NUL # y"
      unfolding prefix_free_def by blast+
    moreover have "d = r \<and> x = y"
      using Cons.IH [of r] Cons.prems(1) wf(5,6) calculation by simp
    ultimately show ?thesis using Cons e e' by simp
  qed
qed

lemma enc_doc_inj:
  assumes "\<And>v. v \<in> snd ` set d \<Longrightarrow> prefix_free v"
    and "wf_doc d" "wf_doc d'" "enc_doc d @ x = enc_doc d' @ y"
  shows "d = d' \<and> x = y"
proof -
  have "enc_elements d @ NUL # x = enc_elements d' @ NUL # y"
    using assms(4) by simp
  then show ?thesis using enc_elements_inj assms by blast
qed

lemma prefix_free_atom:
  assumes "\<And>w x y. value_type v = value_type w \<Longrightarrow> wf_value v \<Longrightarrow> wf_value w \<Longrightarrow>
     enc_value v @ x = enc_value w @ y \<Longrightarrow> v = w \<and> x = y"
  shows "prefix_free v"
  using assms unfolding prefix_free_def by blast

lemma prefix_free_le:
  "prefix_free (BvInt32 i)" "prefix_free (BvInt64 j)" "prefix_free (BvDateTime j)"
  "prefix_free (BvDouble d)" "prefix_free (BvTimestamp t u)" "prefix_free (BvDecimal128 q)"
  by (rule prefix_free_atom; case_tac w; auto intro: double.expand decimal128.expand)+

lemma prefix_free_string:
  "prefix_free (BvUtf8 s)" "prefix_free (BvSymbol s)" "prefix_free (BvCode s)"
  by (rule prefix_free_atom; case_tac w; auto dest: enc_string_inj)+

lemma prefix_free_small:
  "prefix_free BvEOD" "prefix_free BvUndefined" "prefix_free BvNull" "prefix_free BvMaxKey"
  "prefix_free BvMinKey" "prefix_free (BvBool b)" "prefix_free (BvOid s)"
  by (rule prefix_free_atom; case_tac w; auto simp: byte_of_eq split: if_splits)+

lemma prefix_free_docs:
  assumes "\<And>v. v \<in> snd ` set d \<Longrightarrow> prefix_free v"
  shows "prefix_free (BvDocument d)" "prefix_free (BvArray d)" "prefix_free (BvCodeWScope s d)"
proof -
  show "prefix_free (BvDocument d)"
  proof (rule prefix_free_atom)
    fix w x y
    assume *: "value_type (BvDocument d) = value_type w" "wf_value (BvDocument d)" "wf_value w"
      "enc_value (BvDocument d) @ x = enc_value w @ y"
    from *(1) obtain d' where w: "w = BvDocument d'" by (cases w) auto
    have "d = d' \<and> x = y"
    proof (rule enc_doc_inj [OF assms])
      show "wf_doc d" "wf_doc d'" using *(2,3) w by simp_all
      show "enc_doc d @ x = enc_doc d' @ y" using *(4) w by (simp only: enc_value.simps)
    qed
    with w show "BvDocument d = w \<and> x = y" by simp
  qed
  show "prefix_free (BvArray d)"
  proof (rule prefix_free_atom)
    fix w x y
    assume *: "value_type (BvArray d) = value_type w" "wf_value (BvArray d)" "wf_value w"
      "enc_value (BvArray d) @ x = enc_value w @ y"
    from *(1) obtain d' where w: "w = BvArray d'" by (cases w) auto
    have "d = d' \<and> x = y"
    proof (rule enc_doc_inj [OF assms])
      show "wf_doc d" "wf_doc d'" using *(2,3) w by simp_all
      show "enc_doc d @ x = enc_doc d' @ y" using *(4) w by (simp only: enc_value.simps)
    qed
    with w show "BvArray d = w \<and> x = y" by simp
  qed
  show "prefix_free (BvCodeWScope s d)"
  proof (rule prefix_free_atom)
    fix w x y
    assume *: "value_type (BvCodeWScope s d) = value_type w" "wf_value (BvCodeWScope s d)"
      "wf_value w" "enc_value (BvCodeWScope s d) @ x = enc_value w @ y"
    from *(1) obtain t d' where w: "w = BvCodeWScope t d'" by (cases w) auto
    have "short s" "short t" "wf_doc d" "wf_doc d'" using *(2,3) w by simp_all
    have "enc_string s @ enc_doc d @ x = enc_string t @ enc_doc d' @ y"
      using *(4) w by (simp del: enc_doc.simps)
    from enc_string_inj [OF this \<open>short s\<close> \<open>short t\<close>]
    have st: "s = t" and eq: "enc_doc d @ x = enc_doc d' @ y" by simp_all
    have "d = d' \<and> x = y"
      by (rule enc_doc_inj [OF assms \<open>wf_doc d\<close> \<open>wf_doc d'\<close> eq])
    with w st show "BvCodeWScope s d = w \<and> x = y" by simp
  qed
qed

lemma prefix_free_binary: "prefix_free (BvBinary b s)"
  by (rule prefix_free_atom; case_tac w; auto simp del: enc_value.simps dest!: enc_binary_inj)

lemma prefix_free_dbpointer: "prefix_free (BvDBPointer s oid)"
  by (rule prefix_free_atom; case_tac w; auto dest!: enc_string_inj)

lemma prefix_free_regex: "prefix_free (BvRegex p q)"
proof (rule prefix_free_atom)
  fix w x y
  assume *: "value_type (BvRegex p q) = value_type w" "wf_value (BvRegex p q)" "wf_value w"
    "enc_value (BvRegex p q) @ x = enc_value w @ y"
  from * obtain a b c d where [simp]: "p = Some a" "q = Some b" "w = BvRegex (Some c) (Some d)"
    and "c_string a" "c_string b" "c_string c" "c_string d"
    by (cases w) (auto split: option.splits)
  then have "a = c \<and> b @ NUL # x = d @ NUL # y"
    using *(4) cstring_split [of a "b @ NUL # x" c "d @ NUL # y"] by simp
  then show "BvRegex p q = w \<and> x = y"
    using cstring_split [of b x d y] \<open>c_string b\<close> \<open>c_string d\<close> by simp
qed

lemma prefix_free_value: "prefix_free v"
proof (induction v)
  case (BvDocument d)
  show ?case by (rule prefix_free_docs) (use BvDocument in \<open>auto simp: snds.simps\<close>)
next
  case (BvArray d)
  show ?case by (rule prefix_free_docs) (use BvArray in \<open>auto simp: snds.simps\<close>)
next
  case (BvCodeWScope s d)
  show ?case by (rule prefix_free_docs) (use BvCodeWScope in \<open>auto simp: snds.simps\<close>)
qed (simp_all add: prefix_free_le prefix_free_string prefix_free_small prefix_free_binary
      prefix_free_dbpointer prefix_free_regex)

theorem enc_doc_determines: "wf_doc d \<Longrightarrow> wf_doc d' \<Longrightarrow> enc_doc d = enc_doc d' \<Longrightarrow> d = d'"
  using enc_doc_inj [of d d' "[]" "[]"] prefix_free_value by simp

end
