(* ===== verification/Bid_Reference.thy ===== *)
theory Bid_Reference
  imports Extern Bson_Format
begin

text \<open>
  An instance of the external code: decimal arithmetic in the BID encoding by exact rational
  computation and rounding to 34 digits, object ids as 12 bytes, documents in the BSON format.
  It satisfies the laws of \<open>external_code\<close>, so the hypotheses of the theorems can hold, and
  it runs, so the witnesses evaluate the model with it.

  The functions no law speaks about (the transcendental functions, the decimal printer, the
  hash functions) are simple stand-ins.
\<close>

unbundle bit_operations_syntax

section \<open>Powers of ten\<close>

function ilog10 :: "int \<Rightarrow> int" where
  "ilog10 n = (if n < 10 then 0 else 1 + ilog10 (n div 10))"
  by pat_completeness auto
termination
  by (relation "measure nat") auto

declare ilog10.simps [simp del]

definition flog10 :: "rat \<Rightarrow> int" where
  "flog10 q =
     (let (a, b) = quotient_of q; k = ilog10 a - ilog10 b
      in if q < pow10 k then k - 1 else k)"

section \<open>Encoding and rounding\<close>

definition dec_enc :: "bool \<Rightarrow> int \<Rightarrow> int \<Rightarrow> decimal128" where
  "dec_enc s c e =
     Dec128 (of_int ((if s then 2 ^ 63 else 0) + (e + 6176) * 2 ^ 49 + c div 2 ^ 64)) (of_int (c mod 2 ^ 64))"

definition dec_nan :: decimal128 where
  "dec_nan = Dec128 0x7c00000000000000 0"

definition dec_inf :: "bool \<Rightarrow> decimal128" where
  "dec_inf s = Dec128 (if s then 0xf800000000000000 else 0x7800000000000000) 0"

text \<open>Coefficient \<open>c \<le> 10 ^ 34\<close> and exponent, with the carry into the exponent.\<close>

definition dec_pack :: "bool \<Rightarrow> int \<Rightarrow> int \<Rightarrow> decimal128" where
  "dec_pack s c e =
     (let (c, e) = (if c = 10 ^ 34 then (10 ^ 33, e + 1) else (c, e))
      in if 6111 < e then dec_inf s else if e < - 6176 then dec_enc s 0 0 else dec_enc s c e)"

definition dec_of_rat :: "rat \<Rightarrow> decimal128" where
  "dec_of_rat q =
     (if q = 0 then dec_enc False 0 0
      else let e = flog10 \<bar>q\<bar> - 33
           in dec_pack (q < 0) (round_half_even (\<bar>q\<bar> / pow10 e)) e)"

definition dec_of_x :: "xnum \<Rightarrow> decimal128" where
  "dec_of_x x = (case x of XNaN \<Rightarrow> dec_nan | XNegInf \<Rightarrow> dec_inf True | XPosInf \<Rightarrow> dec_inf False
                         | XFin q \<Rightarrow> dec_of_rat q)"

definition inexact_flag :: "xnum \<Rightarrow> decimal128 \<Rightarrow> idec_flags" where
  "inexact_flag x d = (if dec_x d = x then 0 else BID_INEXACT_EXCEPTION)"

definition rounded :: "xnum \<Rightarrow> decimal128 \<times> idec_flags" where
  "rounded x = (dec_of_x x, inexact_flag x (dec_of_x x))"

definition invalid_result :: "decimal128 \<times> idec_flags" where
  "invalid_result = (dec_nan, BID_INVALID_EXCEPTION)"

definition ref_to_int64 :: "(rat \<Rightarrow> int) \<Rightarrow> decimal128 \<Rightarrow> int64 \<times> idec_flags" where
  "ref_to_int64 f d =
     (case dec_x d of
        XFin q \<Rightarrow> if INT64_MIN \<le> f q \<and> f q \<le> INT64_MAX then (of_int (f q), 0)
                  else (of_int INT64_MIN, BID_INVALID_EXCEPTION)
      | _ \<Rightarrow> (of_int INT64_MIN, BID_INVALID_EXCEPTION))"

definition ref_to_int32 :: "(rat \<Rightarrow> int) \<Rightarrow> decimal128 \<Rightarrow> int32 \<times> idec_flags" where
  "ref_to_int32 f d =
     (case dec_x d of
        XFin q \<Rightarrow> if INT32_MIN \<le> f q \<and> f q \<le> INT32_MAX then (of_int (f q), 0)
                  else (of_int INT32_MIN, BID_INVALID_EXCEPTION)
      | _ \<Rightarrow> (of_int INT32_MIN, BID_INVALID_EXCEPTION))"

definition ref_to_binary64 :: "decimal128 \<Rightarrow> Decimal128RoundingMode \<Rightarrow> double \<times> idec_flags" where
  "ref_to_binary64 d m =
     (case dec_x d of
        XNaN \<Rightarrow> (dbl_nan, 0)
      | XNegInf \<Rightarrow> (dbl_inf True, 0)
      | XPosInf \<Rightarrow> (dbl_inf False, 0)
      | XFin q \<Rightarrow> let r = dbl_of_rat q
                  in (r, if isinf r then BID_OVERFLOW_EXCEPTION OR BID_INEXACT_EXCEPTION
                         else if dbl_x r = XFin q then 0
                         else if \<bar>q\<bar> < pow2 (- 1022) then BID_UNDERFLOW_EXCEPTION OR BID_INEXACT_EXCEPTION
                         else BID_INEXACT_EXCEPTION))"

text \<open>Exact arithmetic on finite operands; everything else is refused.\<close>

definition ref_arith :: "(rat \<Rightarrow> rat \<Rightarrow> rat) \<Rightarrow> decimal128 \<Rightarrow> decimal128 \<Rightarrow> decimal128 \<times> idec_flags" where
  "ref_arith f a b =
     (case (dec_x a, dec_x b) of (XFin p, XFin q) \<Rightarrow> rounded (XFin (f p q)) | _ \<Rightarrow> invalid_result)"

definition ref_div :: "decimal128 \<Rightarrow> decimal128 \<Rightarrow> decimal128 \<times> idec_flags" where
  "ref_div a b =
     (if dec_x b = XFin 0 \<and> dec_x a \<noteq> XFin 0
      then (dec_inf (dec_sign a \<noteq> dec_sign b), BID_ZERO_DIVIDE_EXCEPTION)
      else if dec_x b = XFin 0 then invalid_result
      else ref_arith (/) a b)"

definition ref_quantize ::
    "Decimal128RoundingMode \<Rightarrow> decimal128 \<Rightarrow> decimal128 \<Rightarrow> decimal128 \<times> idec_flags" where
  "ref_quantize m a b =
     (case (dec_x a, dec_x b) of
        (XFin p, XFin _) \<Rightarrow>
          let e = dec_exp10 b;
              s = \<bar>p\<bar> / pow10 e;
              c = (if m = Decimal128RoundingMode_TowardZero then \<lfloor>s\<rfloor> else round_half_even s)
          in if c < 10 ^ 34
             then (dec_enc (dec_sign a) c e, if of_int c = s then 0 else BID_INEXACT_EXCEPTION)
             else invalid_result
      | _ \<Rightarrow> invalid_result)"

fun ref_fn2 :: "bid_fn2 \<Rightarrow> decimal128 \<Rightarrow> decimal128 \<Rightarrow> Decimal128RoundingMode \<Rightarrow> decimal128 \<times> idec_flags" where
  "ref_fn2 Bid128_add a b m = ref_arith (+) a b"
| "ref_fn2 Bid128_sub a b m = ref_arith (-) a b"
| "ref_fn2 Bid128_mul a b m = ref_arith (*) a b"
| "ref_fn2 Bid128_div a b m = ref_div a b"
| "ref_fn2 Bid128_quantize a b m = ref_quantize m a b"
| "ref_fn2 _ a b m = invalid_result"

definition ref_integral :: "(rat \<Rightarrow> int) \<Rightarrow> decimal128 \<Rightarrow> decimal128 \<times> idec_flags" where
  "ref_integral f d = (case dec_x d of XFin q \<Rightarrow> rounded (XFin (of_int (f q))) | _ \<Rightarrow> (d, 0))"

fun ref_fn1 :: "bid_fn1 \<Rightarrow> decimal128 \<Rightarrow> Decimal128RoundingMode \<Rightarrow> decimal128 \<times> idec_flags" where
  "ref_fn1 Bid128_round_integral_exact d m =
     ref_integral (if m = Decimal128RoundingMode_TowardZero then trunc_rat else round_half_even) d"
| "ref_fn1 _ d m = invalid_result"

text \<open>A logarithm that is right up to the fraction: \<open>floor\<close> and \<open>ceil\<close> of it are exact.\<close>

definition ref_log10 :: "double \<Rightarrow> double" where
  "ref_log10 d =
     (case dbl_x d of
        XFin q \<Rightarrow> if q \<le> 0 then dbl_nan
                  else if q = pow10 (flog10 q) then dbl_of_int (flog10 q)
                  else dbl_of_rat (of_int (flog10 q) + 1 / 2)
      | _ \<Rightarrow> d)"

definition ref_hash :: "string \<Rightarrow> int" where
  "ref_hash s = foldl (\<lambda>h c. (h * 31 + byte_val c) mod 2 ^ 32) 17 s"

fun ref_hash_search ::
    "(bson_value \<Rightarrow> uint32 result) \<Rightarrow> (bson_value \<Rightarrow> bson_value \<Rightarrow> int result)
       \<Rightarrow> bson_value list \<Rightarrow> bson_value \<Rightarrow> bool result" where
  "ref_hash_search h m [] k = ebind (h k) (\<lambda>_. Inr False)"
| "ref_hash_search h m (x # xs) k =
     ebind (h k) (\<lambda>b. ebind (h x) (\<lambda>a.
       if a \<noteq> b then ref_hash_search h m xs k
       else ebind (m x k) (\<lambda>c. if c = 0 then Inr True else ref_hash_search h m xs k)))"

definition hex_digit :: "nat \<Rightarrow> char" where
  "hex_digit n = char_of (if n < 10 then 48 + n else 87 + n)"

definition hex_val :: "char \<Rightarrow> nat" where
  "hex_val c = (let n = of_char c in if n < 58 then n - 48 else n - 87)"

fun ref_hex_decode :: "string \<Rightarrow> string result" where
  "ref_hex_decode [] = Inr []"
| "ref_hex_decode [_] = Inl (Ereport ERRCODE_INVALID_PARAMETER_VALUE)"
| "ref_hex_decode (a # b # s) =
     (if \<exists>m < 16. \<exists>n < 16. a = hex_digit m \<and> b = hex_digit n
      then ebind (ref_hex_decode s) (\<lambda>r. Inr (char_of (16 * hex_val a + hex_val b) # r))
      else Inl (Ereport ERRCODE_INVALID_PARAMETER_VALUE))"

definition ref_hex_encode :: "string \<Rightarrow> string" where
  "ref_hex_encode s = concat (map (\<lambda>c. [hex_digit (of_char c div 16), hex_digit (of_char c mod 16)]) s)"

definition ref_extern :: extern where
  "ref_extern = \<lparr>
     bid128_isNaN = (\<lambda>d. dec_x d = XNaN),
     bid128_isInf = (\<lambda>d. dec_x d = XNegInf \<or> dec_x d = XPosInf),
     bid128_isFinite = (\<lambda>d. case dec_x d of XFin _ \<Rightarrow> True | _ \<Rightarrow> False),
     bid128_isZero = (\<lambda>d. dec_x d = XFin 0),
     bid128_quiet_equal = (\<lambda>a b. (x_eq (dec_x a) (dec_x b), 0)),
     bid128_quiet_greater = (\<lambda>a b. (x_less (dec_x b) (dec_x a), 0)),
     bid128_from_int32 = (\<lambda>i. dec_enc (sint i < 0) \<bar>sint i\<bar> 0),
     bid128_from_int64 = (\<lambda>i. dec_enc (sint i < 0) \<bar>sint i\<bar> 0),
     bid128_to_int32_xint = ref_to_int32 trunc_rat,
     bid128_to_int32_xrnint = ref_to_int32 round_half_even,
     bid128_to_int32_xceil = ref_to_int32 ceiling,
     bid128_to_int64_xint = ref_to_int64 trunc_rat,
     bid128_to_int64_xrnint = ref_to_int64 round_half_even,
     bid128_to_int64_floor = ref_to_int64 floor,
     bid128_to_binary64 = ref_to_binary64,
     bid128_to_binary80 = (\<lambda>d m. (dec_x d, 0)),
     binary64_to_bid128 = (\<lambda>d m. rounded (dbl_x d)),
     bid128_fmod = (\<lambda>a b. if dec_x b = XFin 0 then invalid_result
                           else ref_arith (\<lambda>p q. p - q * of_int (trunc_rat (p / q))) a b),
     bid128_round_integral_positive = ref_integral ceiling,
     bid128_round_integral_negative = ref_integral floor,
     bid128_abs = (\<lambda>d. Dec128 (of_int (dec_comb d)) (dec_low d)),
     bid128_fn1 = ref_fn1,
     bid128_fn2 = ref_fn2,
     bson_decimal128_to_string = (\<lambda>d. []),
     bson_oid_compare = (\<lambda>a b. memcmp a b 12),
     bson_oid_get_time_t = (\<lambda>s. of_int (un_le (rev (take 4 s)))),
     bson_doc_data = enc_doc,
     BSON_ITER_HOLDS_NUMBER = (\<lambda>t. t \<in> {BSON_TYPE_INT32, BSON_TYPE_INT64, BSON_TYPE_DOUBLE}),
     bson_iter_find_w_len = (\<lambda>k. first_index (\<lambda>e. fst e = k)),
     pcre2_compile = (\<lambda>p opts n. if length p > n then None else Some (\<lambda>s. if p = s then 1 else -1)),
     hash_search_find = ref_hash_search,
     hash_search_element = (\<lambda>h m entries e. first_index (\<lambda>x. h x = h e \<and> m x e = 0) entries),
     bson_uint32_to_string = (\<lambda>n. dec_string (unat n)),
     bson_init_from_json = (\<lambda>_. None),
     hex_encode = ref_hex_encode,
     hex_decode = ref_hex_decode,
     ucol_strcollUTF8 = (\<lambda>c. strcmp_bytes),
     ucol_getSortKey = (\<lambda>c s. s),
     c_log10 = ref_log10,
     hash_bytes = (\<lambda>s. of_int (ref_hash s)),
     hash_bytes_extended = (\<lambda>s seed. of_int (ref_hash s) + seed),
     hash_bytes_uint32_extended = (\<lambda>k seed. of_int (ref_hash (le 4 (uint k))) + seed),
     hash_combine = (\<lambda>a b. a * 33 + b),
     hash_combine64 = (\<lambda>a b. a * 33 + b) \<rparr>"

section \<open>The encoding\<close>

lemma place_value:
  fixes k h B :: int
  assumes "0 \<le> h" "h < B"
  shows "(k * B + h) div B = k" "(k * B + h) mod B = h"
  using assms by simp_all

lemma dec_fields:
  fixes c e :: int
  assumes "0 \<le> c" "c < 10 ^ 34" "- 6176 \<le> e" "e \<le> 6111"
  defines "X \<equiv> (e + 6176) * 2 ^ 49 + c div 2 ^ 64"
  shows "0 \<le> X" "X < 12288 * 2 ^ 49" "X div 2 ^ 49 = e + 6176" "X mod 2 ^ 49 = c div 2 ^ 64"
    "X div 2 ^ 58 < 24" "X div 2 ^ 61 < 3"
proof -
  have hi: "0 \<le> c div 2 ^ 64" "c div 2 ^ 64 < 2 ^ 49" using assms by auto
  then show X: "0 \<le> X" "X < 12288 * 2 ^ 49" using assms(3,4) by (auto simp: X_def)
  show "X div 2 ^ 49 = e + 6176" "X mod 2 ^ 49 = c div 2 ^ 64"
    unfolding X_def by (rule place_value [OF hi])+
  show "X div 2 ^ 58 < 24" "X div 2 ^ 61 < 3" using X by auto
qed

lemma dec_x_enc:
  assumes "0 \<le> c" "c < 10 ^ 34" "- 6176 \<le> e" "e \<le> 6111"
  shows "dec_x (dec_enc s c e) = XFin ((if s then - 1 else 1) * of_int c * pow10 e)"
proof -
  define X where "X = (e + 6176) * 2 ^ 49 + c div 2 ^ 64"
  note X = dec_fields [OF assms, folded X_def]
  define k :: int where "k = (if s then 1 else 0)"
  define d where "d = dec_enc s c e"
  have X63: "X < 2 ^ 63" using X(2) by simp
  have d: "d = Dec128 (of_int (k * 2 ^ 63 + X)) (of_int (c mod 2 ^ 64))"
    unfolding d_def dec_enc_def X_def k_def
    by (cases s) (simp_all only: if_True if_False mult_1 mult_zero_left add_0 add.assoc)
  have "uint (dec_high d) = k * 2 ^ 63 + X" "uint (dec_low d) = c mod 2 ^ 64"
    unfolding d decimal128.sel using X(1) X63 by (intro uint_of_int64; simp add: k_def)+
  moreover have "(k * 2 ^ 63 + X) mod 2 ^ 63 = X" by (rule place_value [OF X(1) X63])
  moreover have "(k * 2 ^ 63 + X) mod 2 ^ 49 = X mod 2 ^ 49"
  proof -
    have "k * 2 ^ 63 + X = X + (k * 2 ^ 14) * 2 ^ 49" by simp
    then show ?thesis by (simp only: mod_mult_self1)
  qed
  moreover have "2 ^ 63 \<le> k * 2 ^ 63 + X \<longleftrightarrow> s" using X(1) X63 by (simp add: k_def)
  moreover have "c div 2 ^ 64 * 2 ^ 64 + c mod 2 ^ 64 = c" by simp
  ultimately have "dec_comb d = X" "dec_sign d \<longleftrightarrow> s"
    "(uint (dec_high d) mod 2 ^ 49) * 2 ^ 64 + uint (dec_low d) = c"
    using X(4) by (simp_all only: dec_comb_def dec_sign_def)
  then show ?thesis
    using X(3,5,6) assms(2) unfolding d_def [symmetric]
    by (auto simp add: dec_x_def dec_coeff_def dec_exp10_def Let_def)
qed

lemma dec_x_special:
  "dec_x dec_nan = XNaN" "dec_x (dec_inf True) = XNegInf" "dec_x (dec_inf False) = XPosInf"
  by (simp_all add: dec_x_def dec_comb_def dec_sign_def dec_nan_def dec_inf_def)

section \<open>Logarithm and rounding\<close>

lemma pow10_pos [simp]: "0 < pow10 e"
  by (simp add: pow10_def)

lemma pow10_nonzero [simp]: "pow10 e \<noteq> 0" "0 \<le> pow10 e"
  using pow10_pos [of e] by linarith+

lemma pow10_Suc: "pow10 (e + 1) = 10 * pow10 e"
proof (cases "0 \<le> e")
  case True
  then show ?thesis by (simp add: pow10_def nat_add_distrib)
next
  case False
  then have "nat (- e) = Suc (nat (- (e + 1)))" by simp
  with False show ?thesis by (cases "e = - 1") (auto simp: pow10_def)
qed

lemma pow10_add_nat: "pow10 (e + int n) = pow10 e * 10 ^ n"
proof (induction n)
  case (Suc n)
  have "pow10 (e + int (Suc n)) = pow10 ((e + int n) + 1)" by (simp add: algebra_simps)
  then show ?case using Suc by (simp add: pow10_Suc del: of_nat_Suc)
qed simp

lemma pow10_mono: "i \<le> j \<Longrightarrow> pow10 i \<le> pow10 j"
  using pow10_add_nat [of i "nat (j - i)"] mult_left_mono [of 1 "10 ^ nat (j - i)" "pow10 i"] by simp

lemma pow10_less_imp: "pow10 i < pow10 j \<Longrightarrow> i < j"
  using pow10_mono [of j i] by force

lemma pow10_diff: "pow10 (i - j) = pow10 i / pow10 j"
proof (cases "j \<le> i")
  case True
  then show ?thesis using pow10_add_nat [of j "nat (i - j)"] pow10_add_nat [of 0 "nat (i - j)"]
    by (simp add: pow10_def [of 0])
next
  case False
  then have "pow10 j = pow10 i * 10 ^ nat (j - i)" using pow10_add_nat [of i "nat (j - i)"] by simp
  moreover have "pow10 (i - j) * 10 ^ nat (j - i) = 1"
    using pow10_add_nat [of "i - j" "nat (j - i)"] False by (simp add: pow10_def [of 0])
  ultimately show ?thesis by (simp add: field_simps)
qed

lemma ilog10_int:
  "0 < n \<Longrightarrow> 0 \<le> ilog10 n \<and> 10 ^ nat (ilog10 n) \<le> n \<and> n < 10 * 10 ^ nat (ilog10 n)"
proof (induction n rule: ilog10.induct)
  case (1 n)
  show ?case
  proof (cases "n < 10")
    case True
    then have "ilog10 n = 0" by (subst ilog10.simps) simp
    with True 1 show ?thesis by simp
  next
    case False
    define m where "m = ilog10 (n div 10)"
    define P where "P = (10 :: int) ^ nat m"
    have "0 \<le> m" "P \<le> n div 10" "n div 10 < 10 * P"
      using 1 False by (auto simp: m_def P_def)
    then have "10 * P \<le> n" "n < 10 * (10 * P)" by linarith+
    moreover have "ilog10 n = 1 + m" unfolding m_def using False by (subst ilog10.simps) simp
    moreover have "(10 :: int) ^ nat (1 + m) = 10 * P" using \<open>0 \<le> m\<close> by (simp add: P_def nat_add_distrib)
    ultimately show ?thesis using \<open>0 \<le> m\<close> by simp
  qed
qed

lemma ilog10_spec:
  assumes "0 < n"
  shows "0 \<le> ilog10 n" "pow10 (ilog10 n) \<le> of_int n" "of_int n < pow10 (ilog10 n + 1)"
proof -
  have "of_int (10 ^ nat (ilog10 n)) \<le> (of_int n :: rat)" "(of_int n :: rat) < of_int (10 * 10 ^ nat (ilog10 n))"
    using ilog10_int [OF assms] by (simp_all only: of_int_le_iff of_int_less_iff)
  then show "0 \<le> ilog10 n" "pow10 (ilog10 n) \<le> of_int n" "of_int n < pow10 (ilog10 n + 1)"
    using ilog10_int [OF assms] by (simp_all add: pow10_Suc) (simp_all add: pow10_def)
qed

lemma flog10_spec:
  assumes "0 < q"
  shows "pow10 (flog10 q) \<le> q" "q < pow10 (flog10 q + 1)"
proof -
  obtain a b where ab: "quotient_of q = (a, b)" by (cases "quotient_of q")
  then have b: "0 < b" "q = of_int a / of_int b"
    using quotient_of_denom_pos quotient_of_div by auto
  with assms have a: "0 < a" by (simp add: zero_less_divide_iff)
  let ?i = "ilog10 a" and ?j = "ilog10 b"
  note A = ilog10_spec [OF a] and B = ilog10_spec [OF b(1)]
  have "q < pow10 (?i + 1) / pow10 ?j"
    unfolding b(2) using A B b a by (intro frac_less) auto
  then have up: "q < pow10 (?i - ?j + 1)" by (simp add: pow10_Suc pow10_diff)
  have "pow10 ?i / pow10 (?j + 1) < q"
    unfolding b(2) using A B b a by (intro frac_less2) auto
  then have low: "pow10 (?i - ?j - 1) \<le> q"
    using pow10_diff [of ?i "?j + 1"] by (simp add: algebra_simps)
  show "pow10 (flog10 q) \<le> q" "q < pow10 (flog10 q + 1)"
    using up low by (auto simp: flog10_def ab Let_def)
qed

lemma round_half_even_error: "\<bar>of_int (round_half_even s) - s\<bar> \<le> 1 / 2"
proof -
  have "of_int \<lfloor>s\<rfloor> \<le> s" "s < of_int \<lfloor>s\<rfloor> + 1" by linarith+
  then show ?thesis by (auto simp: round_half_even_def Let_def abs_le_iff)
qed

lemma round_half_even_int [simp]: "round_half_even (of_int n) = n"
  by (simp add: round_half_even_def)

lemma round_half_even_bounds:
  "of_int lo \<le> s \<Longrightarrow> lo \<le> round_half_even s" "s \<le> of_int hi \<Longrightarrow> round_half_even s \<le> hi"
proof -
  note err = round_half_even_error [of s]
  show "lo \<le> round_half_even s" if "of_int lo \<le> s"
  proof -
    have "(of_int lo :: rat) < of_int (round_half_even s + 1)" using err that unfolding abs_le_iff by simp
    then show ?thesis by (simp only: of_int_less_iff)
  qed
  show "round_half_even s \<le> hi" if "s \<le> of_int hi"
  proof -
    have "(of_int (round_half_even s) :: rat) < of_int (hi + 1)" using err that unfolding abs_le_iff by simp
    then show ?thesis by (simp only: of_int_less_iff)
  qed
qed

lemma dec_x_pack:
  assumes "0 \<le> c" "c \<le> 10 ^ 34" "- 6176 \<le> e" "e \<le> 6110"
  shows "dec_x (dec_pack s c e) = XFin ((if s then - 1 else 1) * of_int c * pow10 e)"
proof (cases "c = 10 ^ 34")
  case True
  have "dec_x (dec_enc s (10 ^ 33) (e + 1)) = XFin ((if s then - 1 else 1) * of_int (10 ^ 33) * pow10 (e + 1))"
    using assms by (intro dec_x_enc) auto
  with True assms show ?thesis by (auto simp: dec_pack_def pow10_Suc)
next
  case False
  with assms have "dec_x (dec_enc s c e) = XFin ((if s then - 1 else 1) * of_int c * pow10 e)"
    by (intro dec_x_enc) auto
  with False assms show ?thesis by (simp add: dec_pack_def)
qed

lemma dec_of_rat_spec:
  assumes "q \<noteq> 0" and e: "e = flog10 \<bar>q\<bar> - 33" "- 6176 \<le> e" "e \<le> 6110"
  shows "dec_x (dec_of_rat q)
       = XFin ((if q < 0 then - 1 else 1) * of_int (round_half_even (\<bar>q\<bar> / pow10 e)) * pow10 e)"
    and "10 ^ 33 * pow10 e \<le> \<bar>q\<bar>" "\<bar>q\<bar> < 10 ^ 34 * pow10 e"
proof -
  have "pow10 (flog10 \<bar>q\<bar>) = pow10 e * 10 ^ 33" "pow10 (flog10 \<bar>q\<bar> + 1) = pow10 e * 10 ^ 34"
    using pow10_add_nat [of e 33] pow10_add_nat [of e 34] e(1) by (simp_all add: add.commute)
  then show b: "10 ^ 33 * pow10 e \<le> \<bar>q\<bar>" "\<bar>q\<bar> < 10 ^ 34 * pow10 e"
    using flog10_spec [of "\<bar>q\<bar>"] \<open>q \<noteq> 0\<close> by (simp_all add: mult.commute)
  have "of_int 0 \<le> \<bar>q\<bar> / pow10 e" "\<bar>q\<bar> / pow10 e \<le> of_int (10 ^ 34)"
    using b(2) by (simp_all add: divide_le_eq)
  from round_half_even_bounds(1) [OF this(1)] round_half_even_bounds(2) [OF this(2)]
  show "dec_x (dec_of_rat q)
       = XFin ((if q < 0 then - 1 else 1) * of_int (round_half_even (\<bar>q\<bar> / pow10 e)) * pow10 e)"
    using dec_x_pack e assms(1) by (simp add: dec_of_rat_def Let_def)
qed

lemma dec_of_rat_close:
  assumes "q \<noteq> 0" "- 6176 \<le> flog10 \<bar>q\<bar> - 33" "flog10 \<bar>q\<bar> - 33 \<le> 6110"
  shows "\<exists>r. dec_x (dec_of_rat q) = XFin r \<and> \<bar>r - q\<bar> \<le> \<bar>q\<bar> / 10 ^ 30"
proof -
  define e where "e = flog10 \<bar>q\<bar> - 33"
  note sp = dec_of_rat_spec [OF assms(1) e_def, folded e_def] assms(2,3) [folded e_def]
  define m where "m = (of_int (round_half_even (\<bar>q\<bar> / pow10 e)) :: rat)"
  have "\<bar>m - \<bar>q\<bar> / pow10 e\<bar> * pow10 e \<le> 1 / 2 * pow10 e"
    unfolding m_def by (intro mult_right_mono round_half_even_error) simp
  moreover have "\<bar>m - \<bar>q\<bar> / pow10 e\<bar> * pow10 e = \<bar>m * pow10 e - \<bar>q\<bar>\<bar>"
    using abs_mult_pos [of "pow10 e" "m - \<bar>q\<bar> / pow10 e"] by (simp add: left_diff_distrib)
  moreover have "1 / 2 * pow10 e \<le> \<bar>q\<bar> / 10 ^ 30"
  proof -
    have "10 ^ 33 * pow10 e \<le> \<bar>q\<bar>" using sp by simp
    then show ?thesis using pow10_pos [of e] by (simp add: field_simps)
  qed
  ultimately have "\<bar>m * pow10 e - \<bar>q\<bar>\<bar> \<le> \<bar>q\<bar> / 10 ^ 30" by (metis order_trans)
  moreover have "\<bar>(if q < 0 then - 1 else 1) * m * pow10 e - q\<bar> = \<bar>m * pow10 e - \<bar>q\<bar>\<bar>"
    by (simp add: abs_if)
  ultimately show ?thesis using sp by (auto simp: m_def)
qed

lemma dec_of_rat_integer:
  assumes "\<bar>n\<bar> < 10 ^ 34"
  shows "dec_x (dec_of_rat (of_int n)) = XFin (of_int n)"
proof (cases "n = 0")
  case True
  then show ?thesis using dec_x_enc [of 0 0 False] by (simp add: dec_of_rat_def)
next
  case False
  define q where "q = rat_of_int n"
  define e where "e = flog10 \<bar>q\<bar> - 33"
  have q: "1 \<le> \<bar>q\<bar>" "\<bar>q\<bar> < 10 ^ 34"
  proof -
    have "(of_int 1 :: rat) \<le> of_int \<bar>n\<bar>" "(of_int \<bar>n\<bar> :: rat) < of_int (10 ^ 34)"
      using False assms by (simp_all only: of_int_le_iff of_int_less_iff)
    then show "1 \<le> \<bar>q\<bar>" "\<bar>q\<bar> < 10 ^ 34" by (simp_all add: q_def)
  qed
  have "pow10 (flog10 \<bar>q\<bar>) < pow10 34" "pow10 0 < pow10 (flog10 \<bar>q\<bar> + 1)"
    using flog10_spec [of "\<bar>q\<bar>"] q unfolding pow10_def [of 34] pow10_def [of 0]
    by (auto simp del: zero_less_abs_iff)
  then have "flog10 \<bar>q\<bar> < 34" "0 < flog10 \<bar>q\<bar> + 1" by (blast intro: pow10_less_imp)+
  then have e: "- 33 \<le> e" "e \<le> 0" by (simp_all add: e_def)
  have "\<bar>q\<bar> / pow10 e = of_int (\<bar>n\<bar> * 10 ^ nat (- e))"
    using e by (simp add: q_def pow10_def)
  then have "of_int (round_half_even (\<bar>q\<bar> / pow10 e)) * pow10 e = \<bar>q\<bar>"
    by (metis round_half_even_int nonzero_divide_eq_eq pow10_nonzero(1))
  then show ?thesis
    using dec_of_rat_spec(1) [of q e] e False by (simp add: e_def q_def mult.assoc)
qed

section \<open>Doubles are in range\<close>

lemma pow2_mono: "i \<le> j \<Longrightarrow> pow2 i \<le> pow2 j"
  using pow2_add_nat [of i "nat (j - i)"] mult_left_mono [of 1 "2 ^ nat (j - i)" "pow2 i"] by simp

lemma finite_double_exp2:
  assumes "dbl_x d = XFin q"
  shows "- 1074 \<le> dbl_exp2 d" "dbl_exp2 d \<le> 971"
proof -
  have "dbl_expo d < 2048" "0 \<le> dbl_expo d" by (simp_all add: dbl_expo_def)
  moreover have "dbl_expo d \<noteq> 2047" using assms by (auto simp: dbl_x_def isnan_def isinf_def split: if_splits)
  ultimately show "- 1074 \<le> dbl_exp2 d" "dbl_exp2 d \<le> 971" by (auto simp: dbl_exp2_def)
qed

lemma finite_double_bounds:
  assumes "dbl_x d = XFin q" "q \<noteq> 0"
  shows "pow10 (- 400) \<le> \<bar>q\<bar>" "\<bar>q\<bar> < pow10 400"
proof -
  note e = finite_double_exp2 [OF assms(1)]
  have q: "\<bar>q\<bar> = of_int \<bar>dbl_mant d\<bar> * pow2 (dbl_exp2 d)"
    using dbl_x_finite [OF assms(1)] by (simp add: abs_mult)
  have "dbl_mant d \<noteq> 0" using dbl_x_finite [OF assms(1)] assms(2) by auto
  then have "1 \<le> \<bar>dbl_mant d\<bar>" by simp
  then have m: "(1 :: rat) \<le> of_int \<bar>dbl_mant d\<bar>" by (metis of_int_1_le_iff)
  have M: "(of_int \<bar>dbl_mant d\<bar> :: rat) < 2 ^ 53"
    using dbl_mant_bound [of d] by (metis of_int_less_numeral_power_cancel_iff)
  have "pow10 (- 400) \<le> 1 * pow2 (- 1074)" by (simp add: pow10_def pow2_def)
  also have "\<dots> \<le> \<bar>q\<bar>" unfolding q by (intro mult_mono pow2_mono m e(1)) simp_all
  finally show "pow10 (- 400) \<le> \<bar>q\<bar>" .
  have "\<bar>q\<bar> \<le> 2 ^ 53 * pow2 971" unfolding q using M by (intro mult_mono pow2_mono e(2)) simp_all
  also have "\<dots> < pow10 400" by (simp add: pow10_def pow2_def)
  finally show "\<bar>q\<bar> < pow10 400" .
qed

lemma double_log10_range:
  assumes "dbl_x d = XFin q" "q \<noteq> 0"
  shows "- 6176 \<le> flog10 \<bar>q\<bar> - 33" "flog10 \<bar>q\<bar> - 33 \<le> 6110"
proof -
  have q: "0 < \<bar>q\<bar>" using assms(2) by simp
  note b = finite_double_bounds [OF assms] and f = flog10_spec [OF q]
  from b(1) f(2) have "pow10 (- 400) < pow10 (flog10 \<bar>q\<bar> + 1)" by (rule le_less_trans)
  from f(1) b(2) have "pow10 (flog10 \<bar>q\<bar>) < pow10 400" by (rule le_less_trans)
  from pow10_less_imp [OF this] pow10_less_imp [OF \<open>pow10 (- 400) < _\<close>]
  show "- 6176 \<le> flog10 \<bar>q\<bar> - 33" "flog10 \<bar>q\<bar> - 33 \<le> 6110" by simp_all
qed

section \<open>The laws hold\<close>

lemma ref_binary64_close:
  assumes "dbl_x d = XFin q"
  shows "\<exists>r. dec_x (dec_of_rat q) = XFin r \<and> \<bar>r - q\<bar> \<le> \<bar>q\<bar> / 10 ^ 30"
proof (cases "q = 0")
  case True
  then show ?thesis using dec_of_rat_integer [of 0] by simp
next
  case False
  then show ?thesis using dec_of_rat_close double_log10_range [OF assms] by blast
qed

lemma ref_from_int:
  "\<bar>i\<bar> < 10 ^ 34 \<Longrightarrow> dec_x (dec_enc (i < 0) \<bar>i\<bar> 0) = XFin (of_int i)"
  using dec_x_enc [of "\<bar>i\<bar>" 0 "i < 0"] by (simp add: pow10_def)

lemma ref_to_int64_law:
  "converts_to f INT64_MIN INT64_MAX (dec_x d) (sint (fst (ref_to_int64 f d))) (snd (ref_to_int64 f d))"
  by (auto simp: converts_to_def ref_to_int64_def IsOperationInvalid_def sint_of_int64
      split: xnum.splits)

lemma ref_to_int32_law:
  "converts_to f INT32_MIN INT32_MAX (dec_x d) (sint (fst (ref_to_int32 f d))) (snd (ref_to_int32 f d))"
  by (auto simp: converts_to_def ref_to_int32_def IsOperationInvalid_def sint_of_int32
      split: xnum.splits)

lemma ref_hash_search_law:
  "(\<And>x. x = k \<or> x \<in> set stored \<Longrightarrow> h x = Inr (hv x)) \<Longrightarrow>
   (\<And>x. x \<in> set stored \<Longrightarrow> m x k = Inr (mv x)) \<Longrightarrow>
     ref_hash_search h m stored k = Inr (\<exists>x \<in> set stored. hv x = hv k \<and> mv x = 0)"
proof (induction stored)
  case Nil
  then show ?case by (simp add: Nil(1) [of k])
next
  case (Cons y ys)
  have k: "h k = Inr (hv k)" and y: "h y = Inr (hv y)" and my: "m y k = Inr (mv y)"
    by (rule Cons.prems; simp)+
  have "ref_hash_search h m ys k = Inr (\<exists>x \<in> set ys. hv x = hv k \<and> mv x = 0)"
    by (rule Cons.IH; rule Cons.prems) auto
  then show ?case by (simp add: k y my)
qed

lemma first_index_Some: "first_index P xs = Some i \<Longrightarrow> i < length xs \<and> P (xs ! i)"
  by (induction xs arbitrary: i) (auto split: if_splits)

lemma first_index_None: "first_index P xs = None \<longleftrightarrow> (\<forall>x \<in> set xs. \<not> P x)"
  by (induction xs) auto

lemma hex_val_digit: "n < 16 \<Longrightarrow> hex_val (hex_digit n) = n"
  by (auto simp: hex_val_def hex_digit_def Let_def)

lemma of_char_div_16: "(of_char c :: nat) div 16 < 16"
  by (simp add: less_mult_imp_div_less)

lemma ref_hex_roundtrip: "ref_hex_decode (ref_hex_encode s) = Inr s"
proof (induction s)
  case (Cons c s)
  let ?m = "of_char c div 16 :: nat" and ?n = "of_char c mod 16 :: nat"
  have digits: "\<exists>m < 16. \<exists>n < 16. hex_digit ?m = hex_digit m \<and> hex_digit ?n = hex_digit n"
    by (rule exI [of _ ?m], rule conjI [OF of_char_div_16], rule exI [of _ ?n]) simp
  have "char_of (16 * hex_val (hex_digit ?m) + hex_val (hex_digit ?n)) = c"
    by (simp add: hex_val_digit of_char_div_16)
  with digits Cons show ?case by (simp add: ref_hex_encode_def)
qed (simp add: ref_hex_encode_def)

lemma ref_hex_text: "length (ref_hex_encode s) = 2 * length s \<and> c_string (ref_hex_encode s)"
proof (induction s)
  case (Cons c s)
  have "byte_val (hex_digit n) \<noteq> 0" if "n < 16" for n using that by (simp add: hex_digit_def byte_val_def)
  then show ?case using Cons of_char_div_16 by (auto simp: ref_hex_encode_def c_string_def)
qed (simp add: ref_hex_encode_def c_string_def)

interpretation ref: external_code ref_extern
proof
  show "hex_decode ref_extern (hex_encode ref_extern s) = Inr s"
    "length (hex_encode ref_extern s) = 2 * length s \<and> c_string (hex_encode ref_extern s)" for s
    using ref_hex_roundtrip ref_hex_text by (simp_all add: ref_extern_def)
next
  fix h :: "pgbsonelement \<Rightarrow> uint32" and m :: "pgbsonelement \<Rightarrow> pgbsonelement \<Rightarrow> int" and entries e i x
  show "i < length entries \<and> h (entries ! i) = h e \<and> m (entries ! i) e = 0"
    if "hash_search_element ref_extern h m entries e = Some i"
    using that first_index_Some by (fastforce simp: ref_extern_def)
  show "m x e \<noteq> 0" if "hash_search_element ref_extern h m entries e = None" "x \<in> set entries" "h x = h e"
    using that by (auto simp: ref_extern_def first_index_None)
  show "bson_uint32_to_string ref_extern n = dec_string (unat n)" for n by (simp add: ref_extern_def)
next
  fix h :: "bson_value \<Rightarrow> uint32 result" and m :: "bson_value \<Rightarrow> bson_value \<Rightarrow> int result" and hv mv stored k
  assume "\<And>x. x = k \<or> x \<in> set stored \<Longrightarrow> h x = Inr (hv x)"
    "\<And>x. x \<in> set stored \<Longrightarrow> m x k = Inr (mv x)"
  then show "hash_search_find ref_extern h m stored k = Inr (\<exists>x \<in> set stored. hv x = hv k \<and> mv x = 0)"
    unfolding ref_extern_def extern.simps by (rule ref_hash_search_law)
next
  fix x :: double and q :: rat and m
  show "dec_x (fst (binary64_to_bid128 ref_extern x m)) = dbl_x x" if "\<And>q. dbl_x x \<noteq> XFin q"
    using that by (auto simp: ref_extern_def rounded_def dec_of_x_def dec_x_special simp del: dbl_x_nan
        split: xnum.splits)
  show "\<exists>r. dec_x (fst (binary64_to_bid128 ref_extern x Decimal128RoundingMode_NearestEven)) = XFin r
      \<and> \<bar>r - q\<bar> \<le> \<bar>q\<bar> / 10 ^ 30" if "dbl_x x = XFin q"
    using ref_binary64_close [OF that] that by (simp add: ref_extern_def rounded_def dec_of_x_def)
next
  fix i :: int32 and j :: int64
  show "dec_x (bid128_from_int32 ref_extern i) = XFin (of_int (sint i))"
    "dec_x (bid128_from_int64 ref_extern j) = XFin (of_int (sint j))"
    using ref_from_int [of "sint i"] ref_from_int [of "sint j"] sint32_bounds [of i] sint64_bounds [of j]
    by (simp_all add: ref_extern_def)
qed (auto simp: ref_extern_def x_eq_def x_less_def IsOperationInvalid_def ref_to_int64_law ref_to_int32_law
       rounded_def dec_of_x_def dec_of_rat_integer enc_doc_determines simp del: enc_doc.simps split: xnum.splits)

lemmas ref_laws = ref.external_code_axioms

end
