(* ===== verification/Pgbson_Element.thy ===== *)
theory Pgbson_Element
  imports Extern Bson_Format
begin

text \<open>
  \<^verbatim>\<open>pg_documentdb_core/src/io/pgbsonelement.c\<close>: the single field of a document as a
  \<open>pgbsonelement\<close>.  The functions on iterators see a document as the list of its elements; the
  unsafe variant \<open>FillPgbsonElementUnsafe\<close> parses the bytes of the document and is modelled on
  bytes.  \<open>EnableCollation\<close> is a configuration flag of the server and an argument here.
\<close>

section \<open>Elements from iterators\<close>

type_synonym bson_element = "string \<times> bson_value"

definition BsonIterToPgbsonElement :: "bson_element \<Rightarrow> pgbsonelement" where
  "BsonIterToPgbsonElement e = \<lparr> path = fst e, bsonValue = snd e \<rparr>"

definition BsonIterToSinglePgbsonElement :: "bool \<Rightarrow> bson_doc \<Rightarrow> pgbsonelement result" where
  "BsonIterToSinglePgbsonElement EnableCollation iterator =
     (case iterator of
        [] \<Rightarrow> Inl (Ereport ERRCODE_DOCUMENTDB_BADVALUE)
      | e # rest \<Rightarrow>
          if rest \<noteq> [] \<and> \<not> (EnableCollation \<and> strcmp (fst (hd rest)) ''collation'' = 0)
          then Inl (Ereport ERRCODE_DOCUMENTDB_BADVALUE)
          else Inr (BsonIterToPgbsonElement e))"

definition PgbsonToSinglePgbsonElement :: "bool \<Rightarrow> bson_doc \<Rightarrow> pgbsonelement result" where
  "PgbsonToSinglePgbsonElement EnableCollation bson = BsonIterToSinglePgbsonElement EnableCollation bson"

text \<open>\<open>bson_iter_utf8\<close> of libbson: the string of a UTF-8 value, \<open>NULL\<close> for another type.\<close>

definition bson_iter_utf8 :: "bson_element \<Rightarrow> string option" where
  "bson_iter_utf8 e = (case snd e of BvUtf8 s \<Rightarrow> Some s | _ \<Rightarrow> None)"

definition PgbsonToSinglePgbsonElementWithCollation ::
    "bson_doc \<Rightarrow> (pgbsonelement \<times> string option) result" where
  "PgbsonToSinglePgbsonElementWithCollation bson =
     (case bson of
        [] \<Rightarrow> Inl (Ereport ERRCODE_DOCUMENTDB_BADVALUE)
      | [e] \<Rightarrow> Inr (BsonIterToPgbsonElement e, None)
      | e # c # rest \<Rightarrow>
          if strcmp (fst c) ''collation'' \<noteq> 0 then Inl (Ereport ERRCODE_DOCUMENTDB_BADVALUE)
          else if rest \<noteq> [] then Inl (Ereport ERRCODE_DOCUMENTDB_BADVALUE)
          else Inr (BsonIterToPgbsonElement e, bson_iter_utf8 c))"

text \<open>
  The \<open>Try\<close> functions return whether they succeeded and what they stored in \<open>*element\<close>; with
  more than one field the element is stored and the result is false.
\<close>

definition TryGetSinglePgbsonElementFromBsonIterator ::
    "bson_doc \<Rightarrow> bool \<times> pgbsonelement option" where
  "TryGetSinglePgbsonElementFromBsonIterator iterator =
     (case iterator of
        [] \<Rightarrow> (False, None)
      | e # rest \<Rightarrow> (rest = [], Some (BsonIterToPgbsonElement e)))"

definition TryGetSinglePgbsonElementFromPgbson :: "bson_doc \<Rightarrow> bool \<times> pgbsonelement option" where
  "TryGetSinglePgbsonElementFromPgbson bson = TryGetSinglePgbsonElementFromBsonIterator bson"

text \<open>
  These two read \<open>v_doc\<close> without looking at the type, which is right for documents and arrays.
\<close>

definition v_doc :: "bson_value \<Rightarrow> bson_doc result" where
  "v_doc v = (case v of BvDocument d \<Rightarrow> Inr d | BvArray d \<Rightarrow> Inr d | _ \<Rightarrow> Inl UnionMisread)"

definition BsonValueToPgbsonElement :: "bson_value \<Rightarrow> pgbsonelement result" where
  "BsonValueToPgbsonElement v =
     ebind (v_doc v) (\<lambda>d.
       case d of [] \<Rightarrow> Inl (Ereport ERRCODE_INTERNAL_ERROR)
               | e # _ \<Rightarrow> Inr (BsonIterToPgbsonElement e))"

definition TryGetBsonValueToPgbsonElement :: "bson_value \<Rightarrow> pgbsonelement option result" where
  "TryGetBsonValueToPgbsonElement v =
     ebind (v_doc v) (\<lambda>d.
       case d of [] \<Rightarrow> Inr None | e # _ \<Rightarrow> Inr (Some (BsonIterToPgbsonElement e)))"

definition PgbsonElementToPgbson :: "pgbsonelement \<Rightarrow> bson_doc" where
  "PgbsonElementToPgbson element = [(path element, bsonValue element)]"

section \<open>Elements from bytes\<close>

text \<open>
  A \<open>bson_value_t\<close> as the byte-level code fills it: strings and documents are ranges of the
  buffer.
\<close>

datatype raw_value =
    RvDateTime int64 | RvDouble "64 word" | RvInt64 int64 | RvInt32 int32
  | RvTimestamp uint32 uint32 | RvCode string | RvSymbol string | RvUtf8 string
  | RvBinary int string | RvArray string | RvDocument string | RvOid string | RvBool bool
  | RvRegex string string | RvDBPointer string string | RvCodeWScope string string
  | RvDecimal128 uint64 uint64 | RvMaxKey | RvMinKey | RvNull | RvUndefined

text \<open>Reads at an offset of the buffer, in the byte order of a little-endian machine.\<close>

definition rd :: "string \<Rightarrow> int \<Rightarrow> int \<Rightarrow> string result" where
  "rd buf off n =
     (if 0 \<le> off \<and> 0 \<le> n \<and> off + n \<le> int (length buf)
      then Inr (take (nat n) (drop (nat off) buf)) else Inl BufferOverread)"

definition rd_u :: "string \<Rightarrow> int \<Rightarrow> int \<Rightarrow> int result" where
  "rd_u buf off n = ebind (rd buf off n) (\<lambda>bs. Inr (un_le bs))"

definition rd_int32 :: "string \<Rightarrow> int \<Rightarrow> int result" where
  "rd_int32 buf off = ebind (rd_u buf off 4) (\<lambda>u. Inr (sint (of_int u :: int32)))"

definition rd_cstring :: "string \<Rightarrow> int \<Rightarrow> string result" where
  "rd_cstring buf off =
     (if 0 \<le> off \<and> NUL \<in> set (drop (nat off) buf)
      then Inr (takeWhile (\<lambda>c. c \<noteq> NUL) (drop (nat off) buf)) else Inl BufferOverread)"

text \<open>
  \<open>if (lengthLeft < n) return false;\<close> followed by the rest of the branch; \<open>n\<close> is computed in
  32 bits.  The value the code stores is a range of the buffer; a range that leaves the buffer
  is a \<open>BufferOverread\<close>.
\<close>

definition need :: "int \<Rightarrow> int \<Rightarrow> 'a option result \<Rightarrow> 'a option result" where
  "need lengthLeft n k = (if lengthLeft < sint (of_int n :: int32) then Inr None else k)"

definition fill_value ::
    "string \<Rightarrow> int \<Rightarrow> int \<Rightarrow> bson_type \<Rightarrow> raw_value option result" where
  "fill_value buf data lengthLeft t =
     (case t of
        BSON_TYPE_DATE_TIME \<Rightarrow>
          need lengthLeft 8 (ebind (rd_u buf data 8) (\<lambda>u. Inr (Some (RvDateTime (of_int u)))))
      | BSON_TYPE_DOUBLE \<Rightarrow>
          need lengthLeft 8 (ebind (rd_u buf data 8) (\<lambda>u. Inr (Some (RvDouble (of_int u)))))
      | BSON_TYPE_INT64 \<Rightarrow>
          need lengthLeft 8 (ebind (rd_u buf data 8) (\<lambda>u. Inr (Some (RvInt64 (of_int u)))))
      | BSON_TYPE_TIMESTAMP \<Rightarrow>
          need lengthLeft 8
            (ebind (rd_u buf data 4) (\<lambda>ts. ebind (rd_u buf (data + 4) 4) (\<lambda>inc.
               Inr (Some (RvTimestamp (of_int ts) (of_int inc))))))
      | BSON_TYPE_CODE \<Rightarrow>
          need lengthLeft 4 (ebind (rd_int32 buf data) (\<lambda>codeLength.
            need lengthLeft (codeLength + 4)
              (ebind (rd buf (data + 4) (codeLength - 1)) (\<lambda>s. Inr (Some (RvCode s))))))
      | BSON_TYPE_SYMBOL \<Rightarrow>
          need lengthLeft 4 (ebind (rd_int32 buf data) (\<lambda>symbolLength.
            need lengthLeft (symbolLength + 4)
              (ebind (rd buf (data + 4) (symbolLength - 1)) (\<lambda>s. Inr (Some (RvSymbol s))))))
      | BSON_TYPE_UTF8 \<Rightarrow>
          need lengthLeft 4 (ebind (rd_int32 buf data) (\<lambda>utf8Length.
            need lengthLeft (utf8Length + 4)
              (ebind (rd buf (data + 4) (utf8Length - 1)) (\<lambda>s. Inr (Some (RvUtf8 s))))))
      | BSON_TYPE_BINARY \<Rightarrow>
          need lengthLeft 4 (ebind (rd_int32 buf data) (\<lambda>binaryLength.
            need lengthLeft (4 + binaryLength + 1)
              (ebind (rd_u buf (data + 4) 1) (\<lambda>subtype.
                 if subtype = 2
                 then ebind (rd buf (data + 9) (binaryLength - 4)) (\<lambda>s. Inr (Some (RvBinary subtype s)))
                 else ebind (rd buf (data + 5) binaryLength) (\<lambda>s. Inr (Some (RvBinary subtype s)))))))
      | BSON_TYPE_ARRAY \<Rightarrow>
          need lengthLeft 4 (ebind (rd_int32 buf data) (\<lambda>docLength.
            need lengthLeft docLength
              (ebind (rd buf data docLength) (\<lambda>s. Inr (Some (RvArray s))))))
      | BSON_TYPE_DOCUMENT \<Rightarrow>
          need lengthLeft 4 (ebind (rd_int32 buf data) (\<lambda>docLength.
            need lengthLeft docLength
              (ebind (rd buf data docLength) (\<lambda>s. Inr (Some (RvDocument s))))))
      | BSON_TYPE_OID \<Rightarrow>
          need lengthLeft 12 (ebind (rd buf data 12) (\<lambda>s. Inr (Some (RvOid s))))
      | BSON_TYPE_BOOL \<Rightarrow>
          need lengthLeft 1 (ebind (rd_u buf data 1) (\<lambda>u. Inr (Some (RvBool (u \<noteq> 0)))))
      | BSON_TYPE_REGEX \<Rightarrow>
          need lengthLeft 2 (ebind (rd_cstring buf data) (\<lambda>regex.
            need lengthLeft (int (length regex) + 2)
              (ebind (rd_cstring buf (data + int (length regex) + 1)) (\<lambda>options.
                 Inr (Some (RvRegex regex options))))))
      | BSON_TYPE_DBPOINTER \<Rightarrow>
          need lengthLeft 4 (ebind (rd_int32 buf data) (\<lambda>utf8Length.
            need lengthLeft (utf8Length + 4)
              (ebind (rd buf (data + 4) (utf8Length - 1)) (\<lambda>collection.
                 need lengthLeft (utf8Length + 4 + 12)
                   (ebind (rd buf (data + 4) 12) (\<lambda>oid. Inr (Some (RvDBPointer collection oid))))))))
      | BSON_TYPE_CODEWSCOPE \<Rightarrow>
          need lengthLeft 4 (ebind (rd_int32 buf data) (\<lambda>totalcodeLength.
            need lengthLeft (totalcodeLength + 4)
              (ebind (rd_int32 buf (data + 4)) (\<lambda>codeLength.
                 need totalcodeLength codeLength
                   (ebind (rd buf (data + 8) codeLength) (\<lambda>code.
                    ebind (rd_int32 buf (data + 8 + codeLength + 1)) (\<lambda>docLength.
                      need totalcodeLength docLength
                        (ebind (rd buf (data + 8 + codeLength + 1) docLength) (\<lambda>scope.
                           Inr (Some (RvCodeWScope code scope)))))))))))
      | BSON_TYPE_INT32 \<Rightarrow>
          need lengthLeft 4 (ebind (rd_u buf data 4) (\<lambda>u. Inr (Some (RvInt32 (of_int u)))))
      | BSON_TYPE_DECIMAL128 \<Rightarrow>
          need lengthLeft 16 (ebind (rd_u buf data 8) (\<lambda>low. ebind (rd_u buf (data + 8) 8) (\<lambda>high.
            Inr (Some (RvDecimal128 (of_int high) (of_int low))))))
      | BSON_TYPE_MAXKEY \<Rightarrow> Inr (Some RvMaxKey)
      | BSON_TYPE_MINKEY \<Rightarrow> Inr (Some RvMinKey)
      | BSON_TYPE_NULL \<Rightarrow> Inr (Some RvNull)
      | BSON_TYPE_UNDEFINED \<Rightarrow> Inr (Some RvUndefined)
      | _ \<Rightarrow> Inr None)"

text \<open>
  \<open>None\<close> is the result false.  \<open>length - pathLength - 5\<close> is computed in 32 bits.  A type byte
  that is no BSON type takes the \<open>default\<close> branch.
\<close>

definition FillPgbsonElementUnsafe :: "string \<Rightarrow> (string \<times> raw_value) option result" where
  "FillPgbsonElementUnsafe buf =
     (if length buf < 5 then Inl (Ereport ERRCODE_INTERNAL_ERROR)
      else ebind (rd_u buf 0 4) (\<lambda>len.
           ebind (rd_u buf 4 1) (\<lambda>typeByte.
           ebind (rd_cstring buf 5) (\<lambda>key.
             let data = 5 + int (length key) + 1;
                 lengthLeft = sint (of_int (len - int (length key) - 5) :: int32)
             in case bson_type_of_code typeByte of
                  None \<Rightarrow> Inr None
                | Some t \<Rightarrow> ebind (fill_value buf data lengthLeft t) (\<lambda>v.
                    Inr (map_option (\<lambda>x. (key, x)) v))))))"

definition BsonValueToPgbsonElementUnsafe :: "extern \<Rightarrow> bson_value \<Rightarrow> (string \<times> raw_value) result" where
  "BsonValueToPgbsonElementUnsafe E v =
     (case v of
        BvDocument d \<Rightarrow>
          ebind (FillPgbsonElementUnsafe (bson_doc_data E d)) (\<lambda>r.
            case r of None \<Rightarrow> Inl (Ereport ERRCODE_DOCUMENTDB_BADVALUE) | Some e \<Rightarrow> Inr e)
      | _ \<Rightarrow> Inl (Ereport ERRCODE_DOCUMENTDB_BADVALUE))"

section \<open>Reading back the format\<close>

lemma rd_at:
  "off = int (length a) \<Longrightarrow> n = int (length b) \<Longrightarrow> rd (a @ b @ c) off n = Inr b"
  by (simp add: rd_def)

lemma rd_u_at:
  "off = int (length a) \<Longrightarrow> n = int m \<Longrightarrow> rd_u (a @ le m i @ c) off n = Inr (i mod 256 ^ m)"
  by (simp add: rd_u_def rd_at un_le_le)

lemma rd_u_byte_at:
  "off = int (length a) \<Longrightarrow> rd_u (a @ byte_of i # c) off 1 = Inr (i mod 256)"
  using rd_u_at [of off a 1 1 i c] by simp

lemma rd_int32_at:
  "off = int (length a) \<Longrightarrow> 0 \<le> i \<Longrightarrow> i < 2 ^ 31 \<Longrightarrow> rd_int32 (a @ le 4 i @ c) off = Inr i"
  by (simp add: rd_int32_def rd_u_at sint_of_int32)

lemma rd_cstring_at:
  assumes "off = int (length a)" "c_string s"
  shows "rd_cstring (a @ s @ NUL # c) off = Inr s"
proof -
  have "x \<noteq> NUL" if "x \<in> set s" for x
    using assms(2) that by (auto simp: c_string_def byte_val_def)
  then show ?thesis using assms(1) by (simp add: rd_cstring_def takeWhile_tail)
qed

lemma need_ok: "n \<le> l \<Longrightarrow> INT32_MIN \<le> n \<Longrightarrow> n \<le> INT32_MAX \<Longrightarrow> need l n k = k"
  by (simp add: need_def sint_of_int32)

lemma need_false: "l < n \<Longrightarrow> INT32_MIN \<le> n \<Longrightarrow> n \<le> INT32_MAX \<Longrightarrow> need l n k = Inr None"
  by (simp add: need_def sint_of_int32)

text \<open>The value a correct reader stores for a value of a document.\<close>

fun raw_of :: "bson_value \<Rightarrow> raw_value" where
  "raw_of (BvDouble d) = RvDouble (dbl_bits d)"
| "raw_of (BvUtf8 s) = RvUtf8 s"
| "raw_of (BvDocument d) = RvDocument (enc_doc d)"
| "raw_of (BvArray d) = RvArray (enc_doc d)"
| "raw_of (BvBinary t s) = RvBinary (uint t) s"
| "raw_of (BvOid s) = RvOid s"
| "raw_of (BvBool b) = RvBool b"
| "raw_of (BvDateTime t) = RvDateTime t"
| "raw_of (BvRegex p q) = RvRegex (the p) (the q)"
| "raw_of (BvDBPointer s oid) = RvDBPointer s oid"
| "raw_of (BvCode s) = RvCode s"
| "raw_of (BvSymbol s) = RvSymbol s"
| "raw_of (BvCodeWScope s d) = RvCodeWScope s (enc_doc d)"
| "raw_of (BvInt32 i) = RvInt32 i"
| "raw_of (BvTimestamp t i) = RvTimestamp t i"
| "raw_of (BvInt64 i) = RvInt64 i"
| "raw_of (BvDecimal128 d) = RvDecimal128 (dec_high d) (dec_low d)"
| "raw_of BvMaxKey = RvMaxKey"
| "raw_of BvMinKey = RvMinKey"
| "raw_of BvUndefined = RvUndefined"
| "raw_of _ = RvNull"

lemma FillPgbsonElementUnsafe_single:
  assumes "c_string k" "v \<noteq> BvEOD" "length (enc_doc [(k, v)]) < 2 ^ 31"
  defines "pre \<equiv> le 4 (int (length k) + int (length (enc_value v)) + 7)
      @ byte_of (bson_type_code (value_type v)) # k @ [NUL]"
  shows "FillPgbsonElementUnsafe (enc_doc [(k, v)]) =
     ebind (fill_value (pre @ enc_value v @ [NUL]) (int (length pre)) (int (length (enc_value v)) + 2)
             (value_type v)) (\<lambda>x. Inr (map_option (\<lambda>r. (k, r)) x))"
proof -
  let ?L = "int (length k) + int (length (enc_value v)) + 7"
  let ?B = "pre @ enc_value v @ [NUL]"
  have enc: "enc_doc [(k, v)] = ?B" by (simp add: pre_def add.commute)
  have L: "?L < 2 ^ 31" using assms(3) unfolding enc by (simp add: pre_def)
  have "rd_u ?B 0 4 = Inr ?L"
    using rd_u_at [of 0 "[]" 4 4 ?L] L by (simp add: pre_def)
  moreover have "rd_u ?B 4 1 = Inr (bson_type_code (value_type v))"
    using rd_u_byte_at [of 4 "le 4 ?L" "bson_type_code (value_type v)"]
    by (cases v) (simp_all add: pre_def)
  moreover have "rd_cstring ?B 5 = Inr k"
    using rd_cstring_at [of 5 "le 4 ?L @ [byte_of (bson_type_code (value_type v))]" k] assms(1)
    by (simp add: pre_def)
  moreover have "sint (of_int (?L - int (length k) - 5) :: int32) = int (length (enc_value v)) + 2"
    using L by (subst sint_of_int32) simp_all
  moreover have "bson_type_of_code (bson_type_code (value_type v)) = Some (value_type v)"
    by (simp add: bson_type_of_code_Some)
  moreover have "5 + int (length k) + 1 = int (length pre)" "\<not> length ?B < 5" by (simp_all add: pre_def)
  ultimately show ?thesis unfolding enc by (simp add: FillPgbsonElementUnsafe_def Let_def)
qed

text \<open>
  The three types the byte-level reader gets wrong: it takes the words of a timestamp in the
  wrong order, reads the object id of a DBPointer from the start of its collection name, and
  refuses every code with scope.
\<close>

fun read_value :: "bson_value \<Rightarrow> raw_value option" where
  "read_value (BvTimestamp t i) = Some (RvTimestamp i t)"
| "read_value (BvDBPointer s oid) = Some (RvDBPointer s (take 12 (s @ NUL # oid)))"
| "read_value (BvCodeWScope s d) = None"
| "read_value v = Some (raw_of v)"

text \<open>The same reads behind a first field \<open>x\<close> of the value.\<close>

lemma rd_at2:
  "off = int (length a) + int (length x) \<Longrightarrow> n = int (length b) \<Longrightarrow> rd (a @ x @ b @ c) off n = Inr b"
  using rd_at [of off "a @ x" n b c] by simp

lemma rd_u_at2:
  "off = int (length a) + int (length x) \<Longrightarrow> n = int m \<Longrightarrow>
     rd_u (a @ x @ le m i @ c) off n = Inr (i mod 256 ^ m)"
  using rd_u_at [of off "a @ x" n m i c] by simp

lemma rd_cstring_at2:
  "off = int (length a) + int (length x) + 1 \<Longrightarrow> c_string s \<Longrightarrow>
     rd_cstring (a @ x @ y # s @ NUL # c) off = Inr s"
  using rd_cstring_at [of off "a @ x @ [y]" s c] by simp

lemma enc_string_reads:
  assumes "short s" "int (length s) + 1 < 2 ^ 31"
  shows "rd_int32 (pre @ enc_string s @ c) (int (length pre)) = Inr (int (length s) + 1)"
    "rd (pre @ enc_string s @ c) (int (length pre) + 4) (int (length s)) = Inr s"
  using rd_int32_at [of "int (length pre)" pre "int (length s) + 1" "s @ NUL # c"]
    rd_at2 [of "int (length pre) + 4" pre "le 4 (int (length s) + 1)" "int (length s)" s "NUL # c"] assms
  by (simp_all add: enc_string_def)

lemma fill_value_strings:
  assumes "short s" "int (length s) + 7 < 2 ^ 31"
  shows "fill_value (pre @ enc_string s @ [NUL]) (int (length pre)) (int (length (enc_string s)) + 2)
       BSON_TYPE_UTF8 = Inr (Some (RvUtf8 s))"
    "fill_value (pre @ enc_string s @ [NUL]) (int (length pre)) (int (length (enc_string s)) + 2)
       BSON_TYPE_SYMBOL = Inr (Some (RvSymbol s))"
    "fill_value (pre @ enc_string s @ [NUL]) (int (length pre)) (int (length (enc_string s)) + 2)
       BSON_TYPE_CODE = Inr (Some (RvCode s))"
  using enc_string_reads [of s pre "[NUL]"] assms
  by (simp_all add: fill_value_def need_ok enc_string_def)

lemma fill_value_doc:
  assumes "int (length (enc_doc d)) + 7 < 2 ^ 31"
  shows "fill_value (pre @ enc_doc d @ [NUL]) (int (length pre)) (int (length (enc_doc d)) + 2)
       BSON_TYPE_DOCUMENT = Inr (Some (RvDocument (enc_doc d)))"
    "fill_value (pre @ enc_doc d @ [NUL]) (int (length pre)) (int (length (enc_doc d)) + 2)
       BSON_TYPE_ARRAY = Inr (Some (RvArray (enc_doc d)))"
proof -
  let ?n = "int (length (enc_doc d))"
  have "?n = int (length (enc_elements d)) + 5" by simp
  then have "rd_int32 (pre @ enc_doc d @ [NUL]) (int (length pre)) = Inr ?n"
    using rd_int32_at [of "int (length pre)" pre ?n "enc_elements d @ [NUL, NUL]"] assms
    by (simp add: add.commute)
  moreover have "rd (pre @ enc_doc d @ [NUL]) (int (length pre)) ?n = Inr (enc_doc d)"
    by (rule rd_at) simp_all
  moreover have "4 \<le> ?n + 2" by simp
  ultimately show "fill_value (pre @ enc_doc d @ [NUL]) (int (length pre)) (?n + 2)
       BSON_TYPE_DOCUMENT = Inr (Some (RvDocument (enc_doc d)))"
    "fill_value (pre @ enc_doc d @ [NUL]) (int (length pre)) (?n + 2)
       BSON_TYPE_ARRAY = Inr (Some (RvArray (enc_doc d)))"
    using assms by (simp_all add: fill_value_def need_ok del: enc_doc.simps)
qed

lemma fill_value_binary:
  assumes "short s" "int (length s) + 12 < 2 ^ 31"
  shows "fill_value (pre @ enc_value (BvBinary t s) @ [NUL]) (int (length pre))
     (int (length (enc_value (BvBinary t s))) + 2) BSON_TYPE_BINARY = Inr (Some (RvBinary (uint t) s))"
proof (cases "t = 2")
  case True
  let ?x = "le 4 (int (length s) + 4)" and ?y = "le 4 (int (length s))"
  have "rd_int32 (pre @ ?x @ byte_of 2 # ?y @ s @ [NUL]) (int (length pre)) = Inr (int (length s) + 4)"
    using assms by (intro rd_int32_at) simp_all
  moreover have "rd_u (pre @ ?x @ byte_of 2 # ?y @ s @ [NUL]) (int (length pre) + 4) 1 = Inr 2"
    using rd_u_byte_at [of _ "pre @ ?x"] by simp
  moreover have "rd (pre @ ?x @ byte_of 2 # ?y @ s @ [NUL]) (int (length pre) + 9) (int (length s)) = Inr s"
    using rd_at2 [of "int (length pre) + 9" pre "?x @ byte_of 2 # ?y" "int (length s)" s "[NUL]"] by simp
  ultimately show ?thesis using True assms by (simp add: fill_value_def need_ok)
next
  case False
  let ?x = "le 4 (int (length s))"
  have "uint t mod 256 = uint t" "uint t \<noteq> 2"
    using uint_lt2p [of t] False by (simp_all add: word_uint_eq_iff)
  moreover have "rd_int32 (pre @ ?x @ byte_of (uint t) # s @ [NUL]) (int (length pre)) = Inr (int (length s))"
    using assms by (intro rd_int32_at) simp_all
  moreover have "rd_u (pre @ ?x @ byte_of (uint t) # s @ [NUL]) (int (length pre) + 4) 1 = Inr (uint t mod 256)"
    using rd_u_byte_at [of _ "pre @ ?x"] by simp
  moreover have "rd (pre @ ?x @ byte_of (uint t) # s @ [NUL]) (int (length pre) + 5) (int (length s)) = Inr s"
    using rd_at2 [of "int (length pre) + 5" pre "?x @ [byte_of (uint t)]" "int (length s)" s "[NUL]"] by simp
  ultimately show ?thesis using False assms by (simp add: fill_value_def need_ok)
qed

lemma fill_value_words:
  "fill_value (pre @ le 8 (uint i) @ [NUL]) (int (length pre)) 10 BSON_TYPE_DOUBLE = Inr (Some (RvDouble i))"
  "fill_value (pre @ le 8 (uint i) @ [NUL]) (int (length pre)) 10 BSON_TYPE_INT64 = Inr (Some (RvInt64 i))"
  "fill_value (pre @ le 8 (uint i) @ [NUL]) (int (length pre)) 10 BSON_TYPE_DATE_TIME = Inr (Some (RvDateTime i))"
  "fill_value (pre @ le 4 (uint j) @ [NUL]) (int (length pre)) 6 BSON_TYPE_INT32 = Inr (Some (RvInt32 j))"
  for i :: int64 and j :: int32
  using rd_u_at [of "int (length pre)" pre 8 8 "uint i" "[NUL]"] uint_lt2p [of i]
    rd_u_at [of "int (length pre)" pre 4 4 "uint j" "[NUL]"] uint_lt2p [of j]
  by (simp_all add: fill_value_def need_ok)

lemma uint_mod_bytes:
  "uint (i :: uint32) mod 256 ^ 4 = uint i" "uint (j :: uint64) mod 256 ^ 8 = uint j"
  using uint_lt2p [of i] uint_lt2p [of j] by (auto intro!: mod_pos_pos_trivial)

lemma fill_value_timestamp:
  "fill_value (pre @ (le 4 (uint i) @ le 4 (uint t)) @ [NUL]) (int (length pre)) 10 BSON_TYPE_TIMESTAMP
     = Inr (Some (RvTimestamp i t))" for i t :: uint32
proof -
  let ?B = "pre @ le 4 (uint i) @ le 4 (uint t) @ [NUL]"
  have "rd_u ?B (int (length pre)) 4 = Inr (uint i)" "rd_u ?B (int (length pre) + 4) 4 = Inr (uint t)"
    by (subst rd_u_at rd_u_at2; simp only: length_le of_nat_numeral uint_mod_bytes)+
  then show ?thesis by (simp add: fill_value_def need_ok)
qed

lemma fill_value_decimal128:
  "fill_value (pre @ (le 8 (uint lo) @ le 8 (uint hi)) @ [NUL]) (int (length pre)) 18 BSON_TYPE_DECIMAL128
     = Inr (Some (RvDecimal128 hi lo))" for lo hi :: uint64
proof -
  let ?B = "pre @ le 8 (uint lo) @ le 8 (uint hi) @ [NUL]"
  have "rd_u ?B (int (length pre)) 8 = Inr (uint lo)" "rd_u ?B (int (length pre) + 8) 8 = Inr (uint hi)"
    by (subst rd_u_at rd_u_at2; simp only: length_le of_nat_numeral uint_mod_bytes)+
  then show ?thesis by (simp add: fill_value_def need_ok)
qed

lemma fill_value_regex:
  assumes "c_string p" "c_string q" "int (length p) + int (length q) + 9 < 2 ^ 31"
  shows "fill_value (pre @ (p @ NUL # q @ [NUL]) @ [NUL]) (int (length pre))
     (int (length (p @ NUL # q @ [NUL])) + 2) BSON_TYPE_REGEX = Inr (Some (RvRegex p q))"
  using rd_cstring_at [of "int (length pre)" pre p "q @ [NUL, NUL]"]
    rd_cstring_at2 [of "int (length pre) + int (length p) + 1" pre p q NUL "[NUL]"] assms
  by (simp add: fill_value_def need_ok)

lemma fill_value_dbpointer:
  assumes "short s" "length oid = 12" "int (length s) + 24 < 2 ^ 31"
  shows "fill_value (pre @ (enc_string s @ oid) @ [NUL]) (int (length pre))
     (int (length (enc_string s @ oid)) + 2) BSON_TYPE_DBPOINTER
     = Inr (Some (RvDBPointer s (take 12 (s @ NUL # oid))))"
proof -
  let ?r = "s @ NUL # oid @ [NUL]"
  let ?B = "pre @ le 4 (int (length s) + 1) @ ?r"
  have "take 12 ?r @ drop 12 ?r = ?r" by (rule append_take_drop_id)
  moreover have "12 = int (length (take 12 ?r))" using assms(2) by simp
  ultimately have "rd ?B (int (length pre) + 4) 12 = Inr (take 12 ?r)"
    using rd_at2 [of "int (length pre) + 4" pre "le 4 (int (length s) + 1)" 12 "take 12 ?r" "drop 12 ?r"]
    by (simp del: take_append drop_append)
  moreover have "take 12 ?r = take 12 (s @ NUL # oid)"
    using take_append [of 12 "s @ NUL # oid" "[NUL]"] assms(2) by (simp only: append_assoc append_Cons append_Nil) simp
  moreover have "rd_int32 ?B (int (length pre)) = Inr (int (length s) + 1)"
    "rd ?B (int (length pre) + 4) (int (length s)) = Inr s"
    using enc_string_reads [of s pre "oid @ [NUL]"] assms by (simp_all add: enc_string_def)
  ultimately show ?thesis
    using assms by (simp add: fill_value_def need_ok enc_string_def del: take_append)
qed

lemma fill_value_codewscope:
  assumes "int (length (enc_value (BvCodeWScope s d))) + 7 < 2 ^ 31"
  shows "fill_value (pre @ enc_value (BvCodeWScope s d) @ [NUL]) (int (length pre))
     (int (length (enc_value (BvCodeWScope s d))) + 2) BSON_TYPE_CODEWSCOPE = Inr None"
proof -
  let ?n = "int (length s) + 9 + int (length (enc_doc d))"
  have n: "int (length (enc_value (BvCodeWScope s d))) = ?n" by (simp add: enc_string_def)
  have "rd_int32 (pre @ enc_value (BvCodeWScope s d) @ [NUL]) (int (length pre)) = Inr ?n"
    using rd_int32_at [of "int (length pre)" pre ?n "enc_string s @ enc_doc d @ [NUL]"] assms n
    by (simp del: enc_doc.simps)
  then show ?thesis
    using assms unfolding n by (simp add: fill_value_def need_ok need_false del: enc_doc.simps enc_value.simps)
qed

lemma fill_value_read:
  assumes "wf_value v" "v \<noteq> BvEOD" "length (enc_value v) + 7 < 2 ^ 31"
  shows "fill_value (pre @ enc_value v @ [NUL]) (int (length pre)) (int (length (enc_value v)) + 2)
     (value_type v) = Inr (read_value v)"
proof (cases v)
  case (BvRegex p q)
  then show ?thesis using assms fill_value_regex [of "the p" "the q" pre] by (auto split: option.splits)
next
  case (BvBinary t s)
  then have "int (length s) + 12 < 2 ^ 31" using assms by (simp split: if_splits)
  with BvBinary assms show ?thesis using fill_value_binary [of s pre t] by (simp del: enc_value.simps)
next
  case (BvBool b)
  then show ?thesis
    using rd_u_byte_at [of "int (length pre)" pre "if b then 1 else 0" "[NUL]"]
    by (simp add: fill_value_def need_ok)
next
  case (BvOid s)
  then show ?thesis
    using assms(1) rd_at [of "int (length pre)" pre 12 s "[NUL]"] by (simp add: fill_value_def need_ok)
next
  case (BvCodeWScope s d)
  then show ?thesis using assms fill_value_codewscope [of s d pre] by (simp del: enc_value.simps)
next
  case (BvDocument d)
  then show ?thesis using assms fill_value_doc [of d pre] by (simp del: enc_doc.simps)
next
  case (BvArray d)
  then show ?thesis using assms fill_value_doc [of d pre] by (simp del: enc_doc.simps)
next
  case (BvDBPointer s oid)
  then have "short s" "length oid = 12" "int (length s) + 24 < 2 ^ 31"
    using assms by (simp_all add: enc_string_def)
  with BvDBPointer show ?thesis using fill_value_dbpointer [of s oid pre] by simp
next
  case (BvUtf8 s)
  then show ?thesis using assms fill_value_strings [of s pre] by (simp add: enc_string_def)
next
  case (BvSymbol s)
  then show ?thesis using assms fill_value_strings [of s pre] by (simp add: enc_string_def)
next
  case (BvCode s)
  then show ?thesis using assms fill_value_strings [of s pre] by (simp add: enc_string_def)
next
  case (BvTimestamp t i)
  then show ?thesis using fill_value_timestamp [of pre i t] by simp
next
  case (BvDecimal128 d)
  then show ?thesis using fill_value_decimal128 [of pre "dec_low d" "dec_high d"] by simp
next
  case (BvDouble i)
  then show ?thesis using fill_value_words(1) [of pre "dbl_bits i"] by simp
next
  case (BvInt64 i)
  then show ?thesis using fill_value_words(2) [of pre "i"] by simp
next
  case (BvDateTime i)
  then show ?thesis using fill_value_words(3) [of pre "i"] by simp
next
  case (BvInt32 i)
  then show ?thesis using fill_value_words(4) [of pre i] by simp
qed (use assms(2) in \<open>simp_all add: fill_value_def\<close>)

lemma FillPgbsonElementUnsafe_reads:
  assumes "wf_doc [(k, v)]" "length (enc_doc [(k, v)]) < 2 ^ 31"
  shows "FillPgbsonElementUnsafe (enc_doc [(k, v)]) = Inr (map_option (\<lambda>r. (k, r)) (read_value v))"
proof -
  have len: "length (enc_value v) + 7 < 2 ^ 31" using assms(2) by simp
  have "c_string k" and wf: "wf_value v" "v \<noteq> BvEOD" using assms(1) by simp_all
  note single = FillPgbsonElementUnsafe_single [OF \<open>c_string k\<close> wf(2) assms(2)]
  show ?thesis unfolding single fill_value_read [OF wf len] by (rule ebind_simps)
qed

lemma FillPgbsonElementUnsafe_empty: "FillPgbsonElementUnsafe (enc_doc []) = Inl BufferOverread"
  by (simp add: FillPgbsonElementUnsafe_def rd_u_def rd_cstring_def rd_def numeral_eq_Suc)

end
