(* ===== verification/Pgbson_Arith.thy ===== *)
theory Pgbson_Arith
  imports Bson_Compare Pgbson_Element "HOL-Library.Signed_Division"
begin

text \<open>
  The arithmetic on BSON numbers of \<^verbatim>\<open>pg_documentdb_core/src/io/pgbson_utils.c\<close> and the range test
  \<open>bson_in_range_numeric\<close> of \<^verbatim>\<open>bson_compare.c\<close>.

  The functions update a value in place; the model returns the new value.  The out-parameter
  \<open>overflowedFromInt64\<close> is \<open>None\<close> on the paths that do not write it.
\<close>

unbundle bit_operations_syntax

section \<open>Addition\<close>

definition stored :: "dec_outcome \<Rightarrow> bson_value result" where
  "stored r = ebind r (\<lambda>(_, v). Inr v)"

definition AddDoubleToValue :: "extern \<Rightarrow> bson_value \<Rightarrow> double \<Rightarrow> bson_value result" where
  "AddDoubleToValue E current x =
     (if value_type current = BSON_TYPE_DECIMAL128
      then ebind (GetBsonValueAsDecimal128Quantized E (BvDouble x)) (\<lambda>d.
             stored (AddDecimal128Numbers E current (BvDecimal128 d)))
      else ebind (BsonValueAsDouble E current) (\<lambda>c. Inr (BvDouble (dbl_add c x))))"

definition AddInt64ToValue ::
    "extern \<Rightarrow> bson_value \<Rightarrow> int64 \<Rightarrow> (bson_value \<times> bool option) result" where
  "AddInt64ToValue E current i =
     (if value_type current = BSON_TYPE_DOUBLE
      then ebind (AddDoubleToValue E current (dbl_of_int (sint i))) (\<lambda>v. Inr (v, Some False))
      else if value_type current = BSON_TYPE_DECIMAL128
      then ebind (GetBsonValueAsDecimal128Quantized E (BvInt64 i)) (\<lambda>d.
           ebind (stored (AddDecimal128Numbers E current (BvDecimal128 d))) (\<lambda>v. Inr (v, Some False)))
      else ebind (BsonValueAsInt64 E current) (\<lambda>currentSum.
             if (sint i > 0 \<and> sint currentSum > sint (of_int INT64_MAX - i))
                \<or> (sint i < 0 \<and> sint currentSum < sint (of_int INT64_MIN - i))
             then ebind (AddDoubleToValue E current (dbl_of_int (sint i))) (\<lambda>v. Inr (v, Some True))
             else Inr (BvInt64 (currentSum + i), Some False)))"

definition AddInt32ToValue ::
    "extern \<Rightarrow> bson_value \<Rightarrow> int32 \<Rightarrow> (bson_value \<times> bool option) result" where
  "AddInt32ToValue E current i =
     (if value_type current = BSON_TYPE_DOUBLE
      then ebind (AddDoubleToValue E current (dbl_of_int (sint i))) (\<lambda>v. Inr (v, None))
      else if value_type current = BSON_TYPE_INT64
      then AddInt64ToValue E current (of_int (sint i))
      else if value_type current = BSON_TYPE_DECIMAL128
      then ebind (GetBsonValueAsDecimal128Quantized E (BvInt32 i)) (\<lambda>d.
           ebind (stored (AddDecimal128Numbers E current (BvDecimal128 d))) (\<lambda>v. Inr (v, None)))
      else ebind (BsonValueAsInt64 E current) (\<lambda>c.
             let currentValue = c + of_int (sint i)
             in if sint currentValue > INT32_MAX \<or> sint currentValue < INT32_MIN
                then Inr (BvInt64 currentValue, None)
                else Inr (BvInt32 (of_int (sint currentValue)), None)))"

definition AddDecimal128ToValue :: "extern \<Rightarrow> bson_value \<Rightarrow> bson_value \<Rightarrow> bson_value result" where
  "AddDecimal128ToValue E current x =
     ebind (GetBsonValueAsDecimal128Quantized E current) (\<lambda>c.
       stored (AddDecimal128Numbers E (BvDecimal128 c) x))"

definition SubtractDecimal128FromValue :: "extern \<Rightarrow> bson_value \<Rightarrow> bson_value \<Rightarrow> bson_value result" where
  "SubtractDecimal128FromValue E current x =
     ebind (GetBsonValueAsDecimal128Quantized E current) (\<lambda>c.
       stored (SubtractDecimal128Numbers E (BvDecimal128 c) x))"

text \<open>The result: whether the types were supported, the new state, \<open>*overflowedFromInt64\<close>.\<close>

type_synonym arith_outcome = "(bool \<times> bson_value \<times> bool option) result"

definition AddNumberToBsonValue :: "extern \<Rightarrow> bson_value \<Rightarrow> bson_value \<Rightarrow> arith_outcome" where
  "AddNumberToBsonValue E state number =
     (if \<not> BsonValueIsNumberOrBool state then Inr (False, state, None)
      else case number of
             BvInt64 i \<Rightarrow> ebind (AddInt64ToValue E state i) (\<lambda>(v, ov). Inr (True, v, ov))
           | BvInt32 i \<Rightarrow> ebind (AddInt32ToValue E state i) (\<lambda>(v, ov). Inr (True, v, ov))
           | BvDouble d \<Rightarrow> ebind (AddDoubleToValue E state d) (\<lambda>v. Inr (True, v, None))
           | BvDecimal128 _ \<Rightarrow> ebind (AddDecimal128ToValue E state number) (\<lambda>v. Inr (True, v, None))
           | _ \<Rightarrow> Inr (False, state, None))"

definition SubtractNumberFromBsonValue :: "extern \<Rightarrow> bson_value \<Rightarrow> bson_value \<Rightarrow> arith_outcome" where
  "SubtractNumberFromBsonValue E state subtrahend =
     (if \<not> BsonValueIsNumberOrBool state then Inr (False, state, None)
      else case subtrahend of
             BvInt64 i \<Rightarrow> ebind (AddInt64ToValue E state (- i)) (\<lambda>(v, ov). Inr (True, v, ov))
           | BvInt32 i \<Rightarrow> ebind (AddInt32ToValue E state (- i)) (\<lambda>(v, ov). Inr (True, v, ov))
           | BvDouble d \<Rightarrow> ebind (AddDoubleToValue E state (dbl_neg d)) (\<lambda>v. Inr (True, v, None))
           | BvDecimal128 _ \<Rightarrow>
               ebind (SubtractDecimal128FromValue E state subtrahend) (\<lambda>v. Inr (True, v, None))
           | _ \<Rightarrow> Inr (False, state, None))"

section \<open>Division, multiplication, bitwise operations\<close>

definition DivideBsonValueNumbers :: "extern \<Rightarrow> bson_value \<Rightarrow> bson_value \<Rightarrow> (bool \<times> bson_value) result" where
  "DivideBsonValueNumbers E dividend divisor =
     (if \<not> BsonValueIsNumberOrBool dividend \<or> \<not> BsonValueIsNumberOrBool divisor
      then Inr (False, dividend)
      else if value_type dividend = BSON_TYPE_DECIMAL128 \<or> value_type divisor = BSON_TYPE_DECIMAL128
      then ebind (if value_type divisor = BSON_TYPE_DECIMAL128
                  then ebind (GetBsonValueAsDecimal128Quantized E dividend) (\<lambda>d.
                         Inr (BvDecimal128 d, divisor))
                  else ebind (GetBsonValueAsDecimal128Quantized E divisor) (\<lambda>d.
                         Inr (dividend, BvDecimal128 d)))
             (\<lambda>(dividend128, divisor128).
                ebind (IsDecimal128Zero E divisor128) (\<lambda>zero.
                  if zero then Inl (Ereport ERRCODE_DOCUMENTDB_BADVALUE)
                  else ebind (stored (DivideDecimal128Numbers E dividend128 divisor128)) (\<lambda>v.
                         Inr (True, v))))
      else ebind (BsonValueAsDouble E dividend) (\<lambda>dividendDouble.
           ebind (BsonValueAsDouble E divisor) (\<lambda>divisorDouble.
             if x_eq (dbl_x divisorDouble) (XFin 0) then Inl (Ereport ERRCODE_DOCUMENTDB_BADVALUE)
             else Inr (True, BvDouble (dbl_div dividendDouble divisorDouble)))))"

text \<open>
  The last branch reads \<open>v_int32\<close> of both values; the callers have checked that no other types
  arrive there.  A value of type \<open>BSON_TYPE_EOD\<close> is a \<open>bson_value_t\<close> initialized to zero, so its
  \<open>v_int32\<close> is 0.
\<close>

fun v_int32 :: "bson_value \<Rightarrow> int32 result" where
  "v_int32 (BvInt32 i) = Inr i"
| "v_int32 BvEOD = Inr 0"
| "v_int32 _ = Inl UnionMisread"

definition bitwise_op ::
    "(int64 \<Rightarrow> int64 \<Rightarrow> int64) \<Rightarrow> (int32 \<Rightarrow> int32 \<Rightarrow> int32) \<Rightarrow> extern \<Rightarrow> bson_value \<Rightarrow> bson_value
       \<Rightarrow> bson_value result" where
  "bitwise_op f64 f32 E state number =
     (if value_type state = BSON_TYPE_INT64 \<or> value_type number = BSON_TYPE_INT64
      then ebind (BsonValueAsInt64 E state) (\<lambda>a.
           ebind (BsonValueAsInt64 E number) (\<lambda>b. Inr (BvInt64 (f64 a b))))
      else ebind (v_int32 state) (\<lambda>a. ebind (v_int32 number) (\<lambda>b. Inr (BvInt32 (f32 a b)))))"

definition BitwiseAndToBsonValue :: "extern \<Rightarrow> bson_value \<Rightarrow> bson_value \<Rightarrow> bson_value result" where
  "BitwiseAndToBsonValue = bitwise_op (AND) (AND)"

definition BitwiseOrToBsonValue :: "extern \<Rightarrow> bson_value \<Rightarrow> bson_value \<Rightarrow> bson_value result" where
  "BitwiseOrToBsonValue = bitwise_op (OR) (OR)"

definition BitwiseXorToBsonValue :: "extern \<Rightarrow> bson_value \<Rightarrow> bson_value \<Rightarrow> bson_value result" where
  "BitwiseXorToBsonValue = bitwise_op (XOR) (XOR)"

text \<open>C's signed 64-bit division: truncating, with a trap if the quotient does not fit.\<close>

definition c_div64 :: "int64 \<Rightarrow> int64 \<Rightarrow> int64 result" where
  "c_div64 a b =
     (if sint b = 0 \<or> sint a sdiv sint b > INT64_MAX then Inl TrapDivide
      else Inr (of_int (sint a sdiv sint b)))"

definition MultiplyWithFactorAndUpdate ::
    "extern \<Rightarrow> bson_value \<Rightarrow> bson_value \<Rightarrow> bool \<Rightarrow> (bool \<times> bson_value) result" where
  "MultiplyWithFactorAndUpdate E state factor convertInt64OverflowToDouble =
     (if \<not> BsonValueIsNumber state \<or> \<not> BsonValueIsNumber factor then Inr (False, state)
      else if value_type state = BSON_TYPE_DECIMAL128 \<or> value_type factor = BSON_TYPE_DECIMAL128
      then ebind (GetBsonValueAsDecimal128Quantized E state) (\<lambda>s.
           ebind (GetBsonValueAsDecimal128Quantized E factor) (\<lambda>f.
           ebind (stored (MultiplyDecimal128Numbers E (BvDecimal128 s) (BvDecimal128 f))) (\<lambda>v.
             Inr (True, v))))
      else if value_type state = BSON_TYPE_DOUBLE \<or> value_type factor = BSON_TYPE_DOUBLE
      then ebind (BsonValueAsDouble E state) (\<lambda>a. ebind (BsonValueAsDouble E factor) (\<lambda>b.
             Inr (True, BvDouble (dbl_mul a b))))
      else if value_type state = BSON_TYPE_INT64 \<or> value_type factor = BSON_TYPE_INT64
      then ebind (BsonValueAsInt64 E state) (\<lambda>a. ebind (BsonValueAsInt64 E factor) (\<lambda>b.
             let product = a * b
             in ebind (if product \<noteq> 0 then ebind (c_div64 product b) (\<lambda>q. Inr (a \<noteq> q)) else Inr False)
                  (\<lambda>overflow.
                     if overflow
                     then (if convertInt64OverflowToDouble
                           then ebind (BsonValueAsDouble E state) (\<lambda>x.
                                ebind (BsonValueAsDouble E factor) (\<lambda>y.
                                  Inr (True, BvDouble (dbl_mul x y))))
                           else Inr (False, state))
                     else Inr (True, BvInt64 product))))
      else ebind (BsonValueAsInt64 E state) (\<lambda>a. ebind (BsonValueAsInt64 E factor) (\<lambda>b.
             let product = a * b
             in if sint product < INT32_MIN \<or> sint product > INT32_MAX
                then Inr (True, BvInt64 product)
                else Inr (True, BvInt32 (of_int (sint product))))))"

section \<open>Arrays and fields\<close>

text \<open>The result and \<open>*numElements\<close>, the number of numbers before the first other element.\<close>

fun number_array_loop :: "extern \<Rightarrow> bson_doc \<Rightarrow> int32 \<Rightarrow> bool \<times> int32" where
  "number_array_loop E [] numElements = (True, numElements)"
| "number_array_loop E ((_, v) # rest) numElements =
     (if \<not> BSON_ITER_HOLDS_NUMBER E (value_type v) then (False, numElements)
      else number_array_loop E rest (numElements + 1))"

definition BsonValueHoldsNumberArray :: "extern \<Rightarrow> bson_value \<Rightarrow> (bool \<times> int32) result" where
  "BsonValueHoldsNumberArray E currentValue =
     (case currentValue of BvArray d \<Rightarrow> Inr (number_array_loop E d 0)
                         | _ \<Rightarrow> Inl (Ereport ERRCODE_DOCUMENTDB_BADVALUE))"

definition BsonValueDocumentDecomposeFields :: "bson_value \<Rightarrow> bson_doc list result" where
  "BsonValueDocumentDecomposeFields document =
     (case document of
        BvDocument d \<Rightarrow> Inr (map (\<lambda>e. PgbsonElementToPgbson (BsonIterToPgbsonElement e)) d)
      | _ \<Rightarrow> raise_naming ERRCODE_DOCUMENTDB_INTERNALERROR (value_type document))"

definition PgbsonDecomposeFields :: "bson_doc \<Rightarrow> bson_doc list result" where
  "PgbsonDecomposeFields document = BsonValueDocumentDecomposeFields (BvDocument document)"

section \<open>The range test\<close>

definition bson_in_range_numeric ::
    "extern \<Rightarrow> bson_doc \<Rightarrow> bson_doc \<Rightarrow> bson_doc \<Rightarrow> bool \<Rightarrow> bool result" where
  "bson_in_range_numeric E val base offset lessArg =
     (case (TryGetSinglePgbsonElementFromPgbson val, TryGetSinglePgbsonElementFromPgbson base,
            TryGetSinglePgbsonElementFromPgbson offset) of
        ((True, Some valElement), (True, Some baseElement), (True, Some offsetElement)) \<Rightarrow>
          (let vt = value_type (bsonValue valElement); bt = value_type (bsonValue baseElement)
           in if \<not> BsonTypeIsNumber vt \<or> \<not> BsonTypeIsNumber bt
              then raise_naming ERRCODE_DOCUMENTDB_LOCATION5429414
                     (if BsonTypeIsNumber vt then bt else vt)
              else ebind (AddNumberToBsonValue E (bsonValue baseElement) (bsonValue offsetElement))
                     (\<lambda>(_, sum, _).
                        ebind (CompareBsonValue E None (bsonValue valElement) sum) (\<lambda>(result, _).
                          Inr (if lessArg then result \<le> 0 else result \<ge> 0))))
      | _ \<Rightarrow> Inl (Ereport ERRCODE_DOCUMENTDB_INTERNALERROR))"

section \<open>Integer arithmetic\<close>

text \<open>The integer an integral state (an \<open>int32\<close>, an \<open>int64\<close> or a boolean) denotes.\<close>

fun int_val :: "bson_value \<Rightarrow> int" where
  "int_val (BvInt32 i) = sint i"
| "int_val (BvInt64 i) = sint i"
| "int_val (BvBool b) = (if b then 1 else 0)"
| "int_val _ = 0"

fun is_integral :: "bson_value \<Rightarrow> bool" where
  "is_integral (BvInt32 i) = True"
| "is_integral (BvInt64 i) = True"
| "is_integral (BvBool b) = True"
| "is_integral _ = False"

definition int64_range :: "int \<Rightarrow> bool" where
  "int64_range n \<longleftrightarrow> INT64_MIN \<le> n \<and> n \<le> INT64_MAX"

definition int32_range :: "int \<Rightarrow> bool" where
  "int32_range n \<longleftrightarrow> INT32_MIN \<le> n \<and> n \<le> INT32_MAX"

text \<open>The smallest of the two integer types that holds a sum or product of 32-bit operands.\<close>

definition narrow :: "int \<Rightarrow> bson_value" where
  "narrow n = (if int32_range n then BvInt32 (of_int n) else BvInt64 (of_int n))"

lemma is_integral_cases:
  assumes "is_integral v"
  obtains i where "v = BvInt32 i" | i where "v = BvInt64 i" | b where "v = BvBool b"
  using assms by (cases v) auto

lemma int_val_range: "is_integral v \<Longrightarrow> int64_range (int_val v)"
proof (erule is_integral_cases)
  fix i assume "v = BvInt32 i"
  then show ?thesis using sint32_bounds [of i] by (simp add: int64_range_def)
next
  fix i assume "v = BvInt64 i"
  then show ?thesis using sint64_bounds [of i] by (simp add: int64_range_def)
qed (simp add: int64_range_def)

lemma int_val_range32: "is_integral v \<Longrightarrow> value_type v \<noteq> BSON_TYPE_INT64 \<Longrightarrow> int32_range (int_val v)"
proof (erule is_integral_cases)
  fix i assume "v = BvInt32 i"
  then show ?thesis using sint32_bounds [of i] by (simp add: int32_range_def)
qed (simp_all add: int32_range_def)

lemma int_val_narrow: "int64_range n \<Longrightarrow> int_val (narrow n) = n"
  by (simp add: narrow_def int64_range_def int32_range_def sint_of_int64 sint_of_int32)

lemma BsonValueAsInt64_integral:
  "is_integral v \<Longrightarrow> BsonValueAsInt64 E v = Inr (of_int (int_val v))"
  by (cases v) (simp_all add: BsonValueAsInt64_def BsonValueAsInt64WithRoundingMode_def)

lemma BsonValueAsDouble_integral:
  "is_integral v \<Longrightarrow> BsonValueAsDouble E v = Inr (dbl_of_int (int_val v))"
  by (cases v) (simp_all add: BsonValueAsDouble_def BsonValueAsDoubleCore_def)

lemma sint_of_range: "int64_range n \<Longrightarrow> sint (of_int n :: int64) = n"
  by (simp add: int64_range_def sint_of_int64)

lemma integral_type:
  "is_integral v \<Longrightarrow> value_type v \<in> {BSON_TYPE_INT32, BSON_TYPE_INT64, BSON_TYPE_BOOL}"
  by (cases v) simp_all

text \<open>The overflow test of \<open>AddInt64ToValue\<close> decides whether the sum fits.\<close>

lemma add_overflow_test:
  assumes "int64_range a" "int64_range b"
  shows "(b > 0 \<and> a > sint (of_int INT64_MAX - of_int b :: int64))
       \<or> (b < 0 \<and> a < sint (of_int INT64_MIN - of_int b :: int64)) \<longleftrightarrow> \<not> int64_range (a + b)"
proof -
  have "sint (of_int INT64_MAX - of_int b :: int64) = INT64_MAX - b" if "b > 0"
    using sint_of_int64 [of "INT64_MAX - b"] that assms(2) by (simp add: int64_range_def)
  moreover have "sint (of_int INT64_MIN - of_int b :: int64) = INT64_MIN - b" if "b < 0"
    using sint_of_int64 [of "INT64_MIN - b"] that assms(2) by (simp add: int64_range_def)
  ultimately show ?thesis using assms by (auto simp: int64_range_def)
qed

lemma AddInt64ToValue_integral:
  assumes "is_integral s"
  shows "AddInt64ToValue E s i =
     (if int64_range (int_val s + sint i) then Inr (BvInt64 (of_int (int_val s + sint i)), Some False)
      else Inr (BvDouble (dbl_add (dbl_of_int (int_val s)) (dbl_of_int (sint i))), Some True))"
proof -
  have i: "int64_range (sint i)" using sint64_bounds [of i] by (simp add: int64_range_def)
  note test = add_overflow_test [OF int_val_range [OF assms] i, simplified of_int_word_same]
  show ?thesis
    using assms integral_type [OF assms] test sint_of_range [OF int_val_range [OF assms]]
    by (auto simp: AddInt64ToValue_def AddDoubleToValue_def BsonValueAsInt64_integral
        BsonValueAsDouble_integral)
qed

lemma AddInt32ToValue_integral:
  assumes "is_integral s" "value_type s \<noteq> BSON_TYPE_INT64"
  shows "AddInt32ToValue E s i = Inr (narrow (int_val s + sint i), None)"
proof -
  have "int64_range (int_val s + sint i)"
    using int_val_range32 [OF assms] sint32_bounds [of i] by (simp add: int32_range_def int64_range_def)
  then have "sint (of_int (int_val s) + of_int (sint i) :: int64) = int_val s + sint i"
    using sint_of_range [of "int_val s + sint i"] by simp
  then show ?thesis
    using assms integral_type [OF assms(1)]
    by (auto simp: AddInt32ToValue_def BsonValueAsInt64_integral narrow_def int32_range_def Let_def)
qed

lemma integral_is_number: "is_integral v \<Longrightarrow> BsonValueIsNumberOrBool v"
  by (erule is_integral_cases) (simp_all add: BsonValueIsNumberOrBool_def)

text \<open>
  What adding two integers yields: the sum in the narrowest type the operand types allow, or,
  when it does not fit in 64 bits, the double sum with the overflow flag set.
\<close>

definition integer_sum :: "bson_value \<Rightarrow> int \<Rightarrow> bool \<Rightarrow> bson_value \<times> bool option" where
  "integer_sum s n wide =
     (if \<not> wide \<and> value_type s \<noteq> BSON_TYPE_INT64 then (narrow (int_val s + n), None)
      else if int64_range (int_val s + n) then (BvInt64 (of_int (int_val s + n)), Some False)
      else (BvDouble (dbl_add (dbl_of_int (int_val s)) (dbl_of_int n)), Some True))"

lemma AddInt_integral:
  assumes "is_integral s"
  shows "AddInt64ToValue E s i = Inr (integer_sum s (sint i) True)"
    "AddInt32ToValue E s j = Inr (integer_sum s (sint j) False)"
proof -
  show "AddInt64ToValue E s i = Inr (integer_sum s (sint i) True)"
    using assms by (simp add: AddInt64ToValue_integral integer_sum_def)
  show "AddInt32ToValue E s j = Inr (integer_sum s (sint j) False)"
  proof (cases "value_type s = BSON_TYPE_INT64")
    case True
    then have "AddInt32ToValue E s j = AddInt64ToValue E s (of_int (sint j))"
      by (simp add: AddInt32ToValue_def)
    with True assms show ?thesis by (simp add: AddInt64ToValue_integral int32_in_int64 integer_sum_def)
  next
    case False
    with assms show ?thesis by (simp add: AddInt32ToValue_integral integer_sum_def)
  qed
qed

lemma AddNumber_integral:
  assumes "is_integral s"
  shows "AddNumberToBsonValue E s (BvInt64 i) = Inr (True, integer_sum s (sint i) True)"
    "AddNumberToBsonValue E s (BvInt32 j) = Inr (True, integer_sum s (sint j) False)"
  using assms by (simp_all add: AddNumberToBsonValue_def integral_is_number AddInt_integral split_beta)

lemma sint_minus_int64: "sint i \<noteq> INT64_MIN \<Longrightarrow> sint (- i) = - sint i" for i :: int64
  using sint_of_int64 [of "- sint i"] sint64_bounds [of i] by simp

lemma sint_minus_int32: "sint i \<noteq> INT32_MIN \<Longrightarrow> sint (- i) = - sint i" for i :: int32
  using sint_of_int32 [of "- sint i"] sint32_bounds [of i] by simp

lemma SubtractNumber_integral:
  assumes "is_integral s"
  shows "SubtractNumberFromBsonValue E s (BvInt64 i) = Inr (True, integer_sum s (sint (- i)) True)"
    "SubtractNumberFromBsonValue E s (BvInt32 j) = Inr (True, integer_sum s (sint (- j)) False)"
  using assms by (simp_all add: SubtractNumberFromBsonValue_def integral_is_number AddInt_integral split_beta)

text \<open>
  The division test of the 64-bit product: if the wrapped product divides back to the other
  factor, it is the product.
\<close>

lemma wrapped_eq: "\<exists>k. sint (of_int x :: int64) = x + k * 2 ^ 64"
proof -
  have "(of_int (sint (of_int x :: int64)) :: int64) = of_int x" by simp
  then have "take_bit 64 (sint (of_int x :: int64)) = take_bit 64 x"
    unfolding word_of_int_eq_iff by simp
  then have "sint (of_int x :: int64) mod 2 ^ 64 = x mod 2 ^ 64" by (simp only: take_bit_eq_mod)
  then have "2 ^ 64 dvd sint (of_int x :: int64) - x" by (simp only: mod_eq_dvd_iff)
  then obtain k where "sint (of_int x :: int64) - x = 2 ^ 64 * k" by (elim dvdE)
  then have "sint (of_int x :: int64) = x + k * 2 ^ 64" by simp
  then show ?thesis by blast
qed

lemma divides_back:
  fixes a b p k :: int
  assumes "p = a * b + k * 2 ^ 64" "p sdiv b = a" "b \<noteq> 0" "\<bar>b\<bar> \<le> 2 ^ 63"
  shows "p = a * b"
proof -
  have "\<bar>p smod b\<bar> < \<bar>b\<bar>" using assms(3) by (simp add: signed_modulo_int_def abs_mult)
  moreover have "p smod b = k * 2 ^ 64"
    using sdiv_mult_smod_eq [of p b] assms(1,2) by simp
  ultimately have "\<bar>k\<bar> * 2 ^ 64 < 2 ^ 64" using assms(4) by (simp add: abs_mult)
  then have "k = 0" by simp
  with assms(1) show ?thesis by simp
qed

lemma mult_sdiv: "b \<noteq> 0 \<Longrightarrow> a * b sdiv b = a" for a b :: int
  by (simp add: signed_divide_int_def abs_mult sgn_mult mult_ac abs_mult_sgn)

lemma sdiv_half: "b \<notin> {-1, 0, 1} \<Longrightarrow> \<bar>p sdiv b\<bar> \<le> \<bar>p\<bar> div 2" for p b :: int
proof -
  assume "b \<notin> {-1, 0, 1}"
  then have "\<bar>p\<bar> div \<bar>b\<bar> \<le> \<bar>p\<bar> div 2" by (intro zdiv_mono2) auto
  moreover have "\<bar>p sdiv b\<bar> \<le> \<bar>p\<bar> div \<bar>b\<bar>"
    by (simp add: signed_divide_int_def abs_mult sgn_if pos_imp_zdiv_nonneg_iff)
  ultimately show ?thesis by simp
qed

lemma c_div64_product:
  assumes "int64_range a" "int64_range b" and p: "p = (of_int a * of_int b :: int64)" "p \<noteq> 0"
    and no_trap: "\<not> (a = INT64_MIN \<and> b = -1)"
  shows "c_div64 p (of_int b) = Inr (of_int a) \<longleftrightarrow> int64_range (a * b)"
    "\<exists>q. c_div64 p (of_int b) = Inr q"
proof -
  have b: "sint (of_int b :: int64) = b" using assms(2) by (rule sint_of_range)
  have "b \<noteq> 0" using p by auto
  obtain k where k: "sint p = a * b + k * 2 ^ 64"
    using wrapped_eq [of "a * b"] p(1) by auto
  have fit: "sint p sdiv b \<le> INT64_MAX \<and> INT64_MIN \<le> sint p sdiv b"
  proof (cases "b = -1")
    case True
    have "sint p = - a" if "a \<noteq> INT64_MIN"
      using sint_of_int64 [of "- a"] that assms(1) p(1) True by (simp add: int64_range_def)
    with True no_trap assms(1) show ?thesis by (simp add: int64_range_def)
  next
    case False
    show ?thesis
    proof (cases "b = 1")
      case True
      then show ?thesis using sint64_bounds [of p] by simp
    next
      case neq: False
      have "\<bar>sint p sdiv b\<bar> \<le> \<bar>sint p\<bar> div 2" using False neq \<open>b \<noteq> 0\<close> by (intro sdiv_half) auto
      then show ?thesis using sint64_bounds [of p] by linarith
    qed
  qed
  then show "\<exists>q. c_div64 p (of_int b) = Inr q"
    using \<open>b \<noteq> 0\<close> by (simp add: c_div64_def b)
  have "c_div64 p (of_int b) = Inr (of_int a) \<longleftrightarrow> sint p sdiv b = a"
  proof -
    have "(of_int (sint p sdiv b) :: int64) = of_int a \<longleftrightarrow> sint p sdiv b = a"
      using fit sint_of_range [OF assms(1)] sint_of_range [of "sint p sdiv b"]
      unfolding int64_range_def by metis
    with fit \<open>b \<noteq> 0\<close> show ?thesis by (simp add: c_div64_def b)
  qed
  also have "\<dots> \<longleftrightarrow> int64_range (a * b)"
  proof
    assume "sint p sdiv b = a"
    moreover have "\<bar>b\<bar> \<le> 2 ^ 63" using assms(2) by (simp add: int64_range_def abs_le_iff)
    ultimately have "sint p = a * b" using divides_back [OF k] \<open>b \<noteq> 0\<close> by blast
    then show "int64_range (a * b)" using sint64_bounds [of p] by (simp add: int64_range_def)
  next
    assume "int64_range (a * b)"
    then have "sint p = a * b" using sint_of_range [of "a * b"] p(1) by simp
    then show "sint p sdiv b = a" using \<open>b \<noteq> 0\<close> by (simp add: mult_sdiv)
  qed
  finally show "c_div64 p (of_int b) = Inr (of_int a) \<longleftrightarrow> int64_range (a * b)" .
qed

text \<open>
  What multiplying two integers yields.  The two defects of the overflow test show as the
  second and the third branch: a product that wraps to zero passes for exact, and the division
  of the test traps on the least 64-bit integer times \<open>-1\<close>.
\<close>

definition integer_product :: "bson_value \<Rightarrow> bson_value \<Rightarrow> bool \<Rightarrow> (bool \<times> bson_value) result" where
  "integer_product s f conv =
     (let a = int_val s; b = int_val f
      in if value_type s = BSON_TYPE_INT32 \<and> value_type f = BSON_TYPE_INT32 then Inr (True, narrow (a * b))
         else if a * b mod 2 ^ 64 = 0 then Inr (True, BvInt64 0)
         else if a = INT64_MIN \<and> b = -1 then Inl TrapDivide
         else if int64_range (a * b) then Inr (True, BvInt64 (of_int (a * b)))
         else if conv then Inr (True, BvDouble (dbl_mul (dbl_of_int a) (dbl_of_int b)))
         else Inr (False, s))"

definition is_int :: "bson_value \<Rightarrow> bool" where
  "is_int v \<longleftrightarrow> value_type v = BSON_TYPE_INT32 \<or> value_type v = BSON_TYPE_INT64"

lemma is_int_integral: "is_int v \<Longrightarrow> is_integral v"
  by (cases v) (simp_all add: is_int_def)

lemma is_int_number: "is_int v \<Longrightarrow> BsonValueIsNumber v"
  by (cases v) (simp_all add: is_int_def BsonValueIsNumber_def)

lemma product_zero: "(of_int a * of_int b :: int64) = 0 \<longleftrightarrow> a * b mod 2 ^ 64 = 0"
proof -
  have "(of_int a * of_int b :: int64) = 0 \<longleftrightarrow> (of_int (a * b) :: int64) = of_int 0" by simp
  also have "\<dots> \<longleftrightarrow> a * b mod 2 ^ 64 = 0"
    unfolding word_of_int_eq_iff by (simp add: take_bit_eq_mod)
  finally show ?thesis .
qed

lemma trap_product: "c_div64 (of_int INT64_MIN * of_int (-1)) (of_int (-1)) = Inl TrapDivide"
  by (simp add: c_div64_def signed_divide_int_def)

lemma int32_product_range: "int32_range a \<Longrightarrow> int32_range b \<Longrightarrow> int64_range (a * b)"
proof -
  assume "int32_range a" "int32_range b"
  then have "\<bar>a\<bar> \<le> 2 ^ 31" "\<bar>b\<bar> \<le> 2 ^ 31" by (simp_all add: int32_range_def abs_le_iff)
  then have "\<bar>a * b\<bar> \<le> 2 ^ 31 * 2 ^ 31" unfolding abs_mult by (intro mult_mono) simp_all
  then show ?thesis by (simp add: int64_range_def abs_le_iff)
qed

lemma MultiplyWithFactor_integers:
  assumes "is_int s" "is_int f"
  shows "MultiplyWithFactorAndUpdate E s f conv = integer_product s f conv"
proof -
  note int = assms [THEN is_int_integral]
  note conv = int [THEN BsonValueAsInt64_integral] int [THEN BsonValueAsDouble_integral]
  note range = int [THEN int_val_range]
  have ty: "value_type s \<notin> {BSON_TYPE_DECIMAL128, BSON_TYPE_DOUBLE}"
    "value_type f \<notin> {BSON_TYPE_DECIMAL128, BSON_TYPE_DOUBLE}" using assms by (auto simp: is_int_def)
  show ?thesis
  proof (cases "value_type s = BSON_TYPE_INT32 \<and> value_type f = BSON_TYPE_INT32")
    case True
    then have "int64_range (int_val s * int_val f)"
      using int32_product_range int_val_range32 [OF int(1)] int_val_range32 [OF int(2)] by simp
    then have "sint (of_int (int_val s) * of_int (int_val f) :: int64) = int_val s * int_val f"
      using sint_of_range [of "int_val s * int_val f"] by simp
    with True ty assms show ?thesis
      by (auto simp: MultiplyWithFactorAndUpdate_def integer_product_def is_int_number conv
          narrow_def int32_range_def Let_def)
  next
    case False
    then have wide: "value_type s = BSON_TYPE_INT64 \<or> value_type f = BSON_TYPE_INT64"
      using assms by (auto simp: is_int_def)
    note div = c_div64_product [OF range refl]
    show ?thesis
    proof (cases "int_val s * int_val f mod 2 ^ 64 = 0 \<or> int_val s = INT64_MIN \<and> int_val f = -1")
      case True
      with False wide ty assms trap_product show ?thesis
        by (auto simp: MultiplyWithFactorAndUpdate_def integer_product_def is_int_number conv
            product_zero Let_def)
    next
      case ok: False
      then have nz: "(of_int (int_val s) * of_int (int_val f) :: int64) \<noteq> 0"
        and nt: "\<not> (int_val s = INT64_MIN \<and> int_val f = -1)" by (simp_all add: product_zero)
      from div(2) [OF nz nt] obtain q where
        q: "c_div64 (of_int (int_val s) * of_int (int_val f)) (of_int (int_val f)) = Inr q" by blast
      from div(1) [OF nz nt] have "q = of_int (int_val s) \<longleftrightarrow> int64_range (int_val s * int_val f)"
        unfolding q by simp
      with False wide ok nz q ty assms show ?thesis
        by (auto simp: MultiplyWithFactorAndUpdate_def integer_product_def is_int_number conv Let_def)
    qed
  qed
qed

text \<open>The sum of an integer value and an integer of 64 (\<open>wide\<close>) or 32 bits.\<close>

lemma integer_sum_exact:
  assumes "is_integral s" "\<not> wide \<longrightarrow> int32_range n" "(v, ov) = integer_sum s n wide"
  shows "(int64_range (int_val s + n) \<longrightarrow> is_int v \<and> int_val v = int_val s + n)
    \<and> (value_type v = BSON_TYPE_INT32 \<longleftrightarrow> \<not> wide \<and> value_type s \<noteq> BSON_TYPE_INT64 \<and> int32_range (int_val s + n))
    \<and> (\<not> int64_range (int_val s + n) \<longrightarrow>
          v = BvDouble (dbl_add (dbl_of_int (int_val s)) (dbl_of_int n)) \<and> ov = Some True)"
proof (cases "\<not> wide \<and> value_type s \<noteq> BSON_TYPE_INT64")
  case True
  then have "int64_range (int_val s + n)"
    using assms(2) int_val_range32 [OF assms(1)] by (auto simp: int32_range_def int64_range_def)
  moreover have "v = narrow (int_val s + n)" using True assms(3) by (simp add: integer_sum_def)
  moreover have "is_int (narrow m)" "value_type (narrow m) = BSON_TYPE_INT32 \<longleftrightarrow> int32_range m" for m
    by (simp_all add: narrow_def is_int_def)
  ultimately show ?thesis using True by (simp add: int_val_narrow)
next
  case False
  then have "v = BvInt64 (of_int (int_val s + n)) \<and> int64_range (int_val s + n)
      \<or> v = BvDouble (dbl_add (dbl_of_int (int_val s)) (dbl_of_int n)) \<and> ov = Some True \<and> \<not> int64_range (int_val s + n)"
    using assms(3) by (simp add: integer_sum_def split: if_splits)
  with False show ?thesis by (auto simp: is_int_def sint_of_range simp del: of_int_add)
qed

lemma integer_operand:
  assumes "is_int a"
  obtains wide where "wide = (value_type a = BSON_TYPE_INT64)" "wide \<or> int32_range (int_val a)"
    "\<And>E s. is_integral s \<Longrightarrow> AddNumberToBsonValue E s a = Inr (True, integer_sum s (int_val a) wide)"
  using assms AddNumber_integral int_val_range32 [OF is_int_integral [OF assms]]
  by (cases a) (auto simp: is_int_def)

lemma integer_subtrahend:
  assumes "is_int a" "a \<noteq> BvInt64 (of_int INT64_MIN)" "a \<noteq> BvInt32 (of_int INT32_MIN)" "is_integral s"
  obtains wide where "wide \<or> int32_range (- int_val a)"
    "\<And>E. SubtractNumberFromBsonValue E s a = Inr (True, integer_sum s (- int_val a) wide)"
proof (cases a)
  case (BvInt32 j)
  then have "sint j \<noteq> INT32_MIN" using assms(3) sint_inj [of j "of_int INT32_MIN"] by simp
  with BvInt32 assms(4) sint32_bounds [of j] show ?thesis
    by (intro that [of False]) (simp_all add: SubtractNumber_integral sint_minus_int32 int32_range_def)
next
  case (BvInt64 i)
  then have "sint i \<noteq> INT64_MIN" using assms(2) sint_inj [of i "of_int INT64_MIN"] by simp
  with BvInt64 assms(4) show ?thesis
    by (intro that [of True]) (simp_all add: SubtractNumber_integral sint_minus_int64)
qed (use assms in \<open>simp_all add: is_int_def\<close>)

end
