(* ===== verification/Bson_Hash.thy ===== *)
theory Bson_Hash
  imports Bson_Order Bson_Format
begin

text \<open>
  The hash functions of \<^verbatim>\<open>pg_documentdb_core/src/query/bson_hash.c\<close> and the hash-table
  callbacks of \<^verbatim>\<open>src/utils/hashset_utils.c\<close>.

  The code hashes the memory of its variables; the model writes these bytes out, least
  significant byte first.  PostgreSQL's hash functions are parameters.  The two places that
  take the length or the bytes from the wrong member of the value (the \<open>code_len\<close> of a
  \<open>CODEWSCOPE\<close>, the pointer of a \<open>REGEX\<close>) read unspecified data and are \<open>UnionMisread\<close>.

  What is shown: values that compare as equal have the same comparable hash, for values without
  doubles whose decimals are integers; \<open>BsonValueHashUint32\<close> keeps the same contract only on
  scalars.
\<close>

section \<open>Memory images\<close>

definition mem_int :: "int \<Rightarrow> string" where "mem_int i = le 4 i"
definition mem_int64 :: "int64 \<Rightarrow> string" where "mem_int64 i = le 8 (uint i)"
definition mem_double :: "double \<Rightarrow> string" where "mem_double d = le 8 (uint (dbl_bits d))"
definition mem_bool :: "bool \<Rightarrow> string" where "mem_bool b = [byte_of (if b then 1 else 0)]"
definition mem_decimal :: "decimal128 \<Rightarrow> string" where
  "mem_decimal d = le 8 (uint (dec_low d)) @ le 8 (uint (dec_high d))"
definition mem_timestamp :: "uint32 \<Rightarrow> uint32 \<Rightarrow> string" where
  "mem_timestamp t i = le 4 (uint t) @ le 4 (uint i)"

section \<open>Hashes that agree with the comparison\<close>

type_synonym hash_bytes_func = "string \<Rightarrow> int64 \<Rightarrow> uint64"
type_synonym hash_combine_func = "uint64 \<Rightarrow> uint64 \<Rightarrow> uint64"

definition HashBytesUint32AsUint64 :: "extern \<Rightarrow> hash_bytes_func" where
  "HashBytesUint32AsUint64 E bytes seed = of_int (uint (hash_bytes E bytes))"

definition HashCombineUint32AsUint64 :: "extern \<Rightarrow> hash_combine_func" where
  "HashCombineUint32AsUint64 E left right =
     of_int (uint (hash_combine E (of_int (uint left)) (of_int (uint right))))"

definition HashBytesUint64 :: "extern \<Rightarrow> hash_bytes_func" where
  "HashBytesUint64 E bytes seed = hash_bytes_extended E bytes seed"

definition type_hash :: "hash_bytes_func \<Rightarrow> int64 \<Rightarrow> bson_type \<Rightarrow> uint64" where
  "type_hash hb seed t = hb (mem_int (bson_type_code t)) seed"

text \<open>The branch for numbers that are 64-bit integers, shared by the integer and the other types.\<close>

definition int64_hash ::
    "extern \<Rightarrow> hash_bytes_func \<Rightarrow> hash_combine_func \<Rightarrow> int64 \<Rightarrow> bson_value \<Rightarrow> uint64 result" where
  "int64_hash E hb hc seed v =
     ebind (BsonValueAsInt64 E v) (\<lambda>int64Value.
       Inr (hc (type_hash hb seed BSON_TYPE_INT64) (hb (mem_int64 int64Value) seed)))"

function (sequential) HashBsonValueCompare ::
    "extern \<Rightarrow> hash_bytes_func \<Rightarrow> hash_combine_func \<Rightarrow> int64 \<Rightarrow> bson_value \<Rightarrow> uint64 result"
  and BsonHashCompare ::
    "extern \<Rightarrow> hash_bytes_func \<Rightarrow> hash_combine_func \<Rightarrow> int64 \<Rightarrow> uint64 \<Rightarrow> bson_doc \<Rightarrow> uint64 result" where
  "HashBsonValueCompare E hb hc seed v =
     (let typeHash = type_hash hb seed (value_type v)
      in case v of
           BvEOD \<Rightarrow> Inr (type_hash hb seed BSON_TYPE_MINKEY)
         | BvMinKey \<Rightarrow> Inr (type_hash hb seed BSON_TYPE_MINKEY)
         | BvUndefined \<Rightarrow> Inr (type_hash hb seed BSON_TYPE_UNDEFINED)
         | BvNull \<Rightarrow> Inr (type_hash hb seed BSON_TYPE_UNDEFINED)
         | BvInt32 _ \<Rightarrow> int64_hash E hb hc seed v
         | BvInt64 _ \<Rightarrow> int64_hash E hb hc seed v
         | BvDouble _ \<Rightarrow>
             ebind (IsBsonValue64BitInteger E v True) (\<lambda>isInt.
               if isInt then int64_hash E hb hc seed v
               else ebind (GetBsonValueAsDecimal128 E v) (\<lambda>decimalValue.
                      Inr (hc (type_hash hb seed BSON_TYPE_INT64) (hb (mem_decimal decimalValue) seed))))
         | BvDecimal128 _ \<Rightarrow>
             ebind (IsBsonValue64BitInteger E v True) (\<lambda>isInt.
               if isInt then int64_hash E hb hc seed v
               else ebind (GetBsonValueAsDecimal128 E v) (\<lambda>decimalValue.
                      Inr (hc (type_hash hb seed BSON_TYPE_INT64) (hb (mem_decimal decimalValue) seed))))
         | BvUtf8 s \<Rightarrow> Inr (hc (type_hash hb seed BSON_TYPE_UTF8) (hb s seed))
         | BvSymbol s \<Rightarrow> Inr (hc (type_hash hb seed BSON_TYPE_UTF8) (hb s seed))
         | BvDocument d \<Rightarrow> ebind (BsonHashCompare E hb hc seed 0 d) (\<lambda>h. Inr (hc typeHash h))
         | BvArray d \<Rightarrow> ebind (BsonHashCompare E hb hc seed 0 d) (\<lambda>h. Inr (hc typeHash h))
         | BvBinary subtype data \<Rightarrow>
             Inr (hc (hc typeHash (hb (mem_int (uint subtype)) seed)) (hb data seed))
         | BvOid bytes \<Rightarrow> Inr (hc typeHash (hb bytes seed))
         | BvBool b \<Rightarrow> Inr (hc typeHash (hb (mem_bool b) seed))
         | BvDateTime t \<Rightarrow> Inr (hc typeHash (hb (mem_int64 t) seed))
         | BvTimestamp t i \<Rightarrow>
             Inr (hc (hc typeHash (hb (mem_int (uint i)) seed)) (hb (mem_int (uint t)) seed))
         | BvRegex r opts \<Rightarrow>
             (let h = (case r of None \<Rightarrow> typeHash | Some s \<Rightarrow> hc typeHash (hb (cstr s) seed))
              in Inr (case opts of None \<Rightarrow> h | Some s \<Rightarrow> hc h (hb (cstr s) seed)))
         | BvDBPointer s oid \<Rightarrow> Inr (hc (hc typeHash (hb s seed)) (hb oid seed))
         | BvCode s \<Rightarrow> Inr (hc typeHash (hb s seed))
         | BvCodeWScope _ _ \<Rightarrow> Inl UnionMisread
         | BvMaxKey \<Rightarrow> Inr typeHash)"
| "BsonHashCompare E hb hc seed hashValue [] = Inr hashValue"
| "BsonHashCompare E hb hc seed hashValue ((key, v) # es) =
     (let hashValue = hc hashValue (hb key seed)
      in ebind (HashBsonValueCompare E hb hc seed v) (\<lambda>valueHash.
           BsonHashCompare E hb hc seed (hc hashValue valueHash) es))"
  by pat_completeness auto
termination
  by (relation "measure (\<lambda>x. case x of Inl (_, _, _, _, v) \<Rightarrow> size v
        | Inr (_, _, _, _, _, d) \<Rightarrow> size_list (size_prod (\<lambda>_. 0) size) d)") auto

declare HashBsonValueCompare.simps [simp del]

definition extension_bson_hash_int4 :: "extern \<Rightarrow> bson_doc \<Rightarrow> uint32 result" where
  "extension_bson_hash_int4 E bson =
     ebind (BsonHashCompare E (HashBytesUint32AsUint64 E) (HashCombineUint32AsUint64 E) 0 0 bson)
       (\<lambda>h. Inr (of_int (uint h)))"

definition extension_bson_hash_int8 :: "extern \<Rightarrow> bson_doc \<Rightarrow> int64 \<Rightarrow> uint64 result" where
  "extension_bson_hash_int8 E bson seed =
     BsonHashCompare E (HashBytesUint64 E) (hash_combine64 E) seed 0 bson"

definition HashBsonComparableExtended :: "extern \<Rightarrow> bson_doc \<Rightarrow> int64 \<Rightarrow> uint64 result" where
  "HashBsonComparableExtended E bsonIterValue seed =
     BsonHashCompare E (HashBytesUint64 E) (hash_combine64 E) seed 0 bsonIterValue"

definition HashBsonComparable :: "extern \<Rightarrow> bson_doc \<Rightarrow> uint32 \<Rightarrow> uint32 result" where
  "HashBsonComparable E bsonIterValue seed =
     ebind (BsonHashCompare E (HashBytesUint32AsUint64 E) (HashCombineUint32AsUint64 E)
              (of_int (uint seed)) 0 bsonIterValue) (\<lambda>h. Inr (of_int (uint h)))"

definition HashBsonValueComparableExtended :: "extern \<Rightarrow> bson_value \<Rightarrow> int64 \<Rightarrow> uint64 result" where
  "HashBsonValueComparableExtended E v seed =
     HashBsonValueCompare E (HashBytesUint64 E) (hash_combine64 E) seed v"

definition HashBsonValueComparable :: "extern \<Rightarrow> bson_value \<Rightarrow> uint32 \<Rightarrow> uint32 result" where
  "HashBsonValueComparable E v seed =
     ebind (HashBsonValueCompare E (HashBytesUint32AsUint64 E) (HashCombineUint32AsUint64 E)
              (of_int (uint seed)) v) (\<lambda>h. Inr (of_int (uint h)))"

section \<open>Hashes of the stored bytes\<close>

definition HashNumber :: "extern \<Rightarrow> double \<Rightarrow> int64 \<Rightarrow> uint64" where
  "HashNumber E number seed = hash_bytes_extended E (mem_double number) seed"

definition BsonValueHash :: "extern \<Rightarrow> bson_value \<Rightarrow> int64 \<Rightarrow> int64 result" where
  "BsonValueHash E v seed =
     (let hashType = (if value_type v \<in> {BSON_TYPE_INT32, BSON_TYPE_INT64} then BSON_TYPE_DOUBLE
                      else value_type v);
          hashValue = hash_bytes_uint32_extended E (of_int (bson_type_code hashType)) seed
      in case v of
           BvEOD \<Rightarrow> Inr hashValue
         | BvMinKey \<Rightarrow> Inr hashValue
         | BvUndefined \<Rightarrow> Inr hashValue
         | BvNull \<Rightarrow> Inr hashValue
         | BvMaxKey \<Rightarrow> Inr hashValue
         | BvBool b \<Rightarrow> Inr (hash_bytes_uint32_extended E (if b then 1 else 0) hashValue)
         | BvInt32 i \<Rightarrow> Inr (HashNumber E (dbl_of_int (sint i)) hashValue)
         | BvInt64 i \<Rightarrow> Inr (HashNumber E (dbl_of_int (sint i)) hashValue)
         | BvDouble d \<Rightarrow> Inr (HashNumber E d hashValue)
         | BvDateTime t \<Rightarrow> Inr (hash_bytes_extended E (mem_int64 t) hashValue)
         | BvTimestamp t i \<Rightarrow> Inr (hash_bytes_extended E (mem_timestamp t i) hashValue)
         | BvOid bytes \<Rightarrow> Inr (hash_bytes_extended E bytes hashValue)
         | BvDecimal128 d \<Rightarrow> Inr (hash_bytes_extended E (mem_decimal d) hashValue)
         | BvUtf8 s \<Rightarrow> Inr (hash_bytes_extended E s hashValue)
         | BvArray d \<Rightarrow> Inr (hash_bytes_extended E (bson_doc_data E d) hashValue)
         | BvDocument d \<Rightarrow> Inr (hash_bytes_extended E (bson_doc_data E d) hashValue)
         | BvSymbol s \<Rightarrow> Inr (hash_bytes_extended E s hashValue)
         | BvBinary _ data \<Rightarrow> Inr (hash_bytes_extended E data hashValue)
         | BvRegex r _ \<Rightarrow>
             (case r of None \<Rightarrow> Inl NullDereference
                      | Some s \<Rightarrow> Inr (hash_bytes_extended E (cstr s) hashValue))
         | BvDBPointer s _ \<Rightarrow> Inr (hash_bytes_extended E s hashValue)
         | BvCode s \<Rightarrow> Inr (hash_bytes_extended E s hashValue)
         | BvCodeWScope s _ \<Rightarrow> Inr (hash_bytes_extended E s hashValue))"

text \<open>
  For a decimal that is not an integer the code hashes \<open>sizeof(v_utf8.len)\<close> bytes, the low four
  bytes of its low word.
\<close>

definition BsonValueHashUint32 :: "extern \<Rightarrow> bson_value \<Rightarrow> uint32 result" where
  "BsonValueHashUint32 E v =
     (let hash_int64 = ebind (BsonValueAsInt64 E v) (\<lambda>i. Inr (hash_bytes E (mem_int64 i)))
      in case v of
           BvBool b \<Rightarrow> Inr (hash_bytes E (mem_bool b))
         | BvInt32 _ \<Rightarrow> hash_int64
         | BvInt64 _ \<Rightarrow> hash_int64
         | BvDouble d \<Rightarrow>
             if isnan d then Inr 1
             else ebind (IsBsonValue64BitInteger E v True) (\<lambda>isInt.
                    if isInt then hash_int64 else Inr (hash_bytes E (mem_double d)))
         | BvDecimal128 d \<Rightarrow>
             ebind (IsDecimal128NaN E v) (\<lambda>nan.
               if nan then Inr 1
               else ebind (IsBsonValue64BitInteger E v True) (\<lambda>isInt.
                      if isInt then hash_int64 else Inr (hash_bytes E (take 4 (mem_decimal d)))))
         | BvUtf8 s \<Rightarrow> Inr (hash_bytes E s)
         | BvDocument d \<Rightarrow> Inr (hash_bytes E (bson_doc_data E d))
         | BvArray d \<Rightarrow> Inr (hash_bytes E (bson_doc_data E d))
         | BvBinary _ data \<Rightarrow> Inr (hash_bytes E data)
         | BvDateTime t \<Rightarrow> Inr (hash_bytes E (mem_int64 t))
         | BvTimestamp t i \<Rightarrow> Inr (hash_bytes E (mem_timestamp t i))
         | BvOid bytes \<Rightarrow> Inr (hash_bytes E bytes)
         | BvRegex _ _ \<Rightarrow> Inl UnionMisread
         | BvCode s \<Rightarrow> Inr (hash_bytes E s)
         | BvCodeWScope _ _ \<Rightarrow> Inl UnionMisread
         | BvSymbol s \<Rightarrow> Inr (hash_bytes E s)
         | BvDBPointer s _ \<Rightarrow> Inr (hash_bytes E s)
         | _ \<Rightarrow> Inr 0)"

section \<open>Hash-table callbacks\<close>

text \<open>
  \<open>BsonValueHashFuncCore\<close> adds to \<open>*hashValue\<close>; here it returns what it adds.  The collation
  argument is the collation string if one is applicable.
\<close>

fun BsonValueHashFuncCore :: "extern \<Rightarrow> string option \<Rightarrow> bson_value \<Rightarrow> uint32 result"
  and hash_elements :: "extern \<Rightarrow> string \<Rightarrow> bson_doc \<Rightarrow> uint32 result" where
  "BsonValueHashFuncCore E None v = BsonValueHashUint32 E v"
| "BsonValueHashFuncCore E (Some c) (BvUtf8 s) = Inr (hash_bytes E (cstr (ucol_getSortKey E c s)))"
| "BsonValueHashFuncCore E (Some c) (BvDocument d) = hash_elements E c d"
| "BsonValueHashFuncCore E (Some c) (BvArray d) = hash_elements E c d"
| "BsonValueHashFuncCore E (Some c) v = BsonValueHashUint32 E v"
| "hash_elements E c [] = Inr 0"
| "hash_elements E c ((_, v) # es) =
     ebind (BsonValueHashFuncCore E (Some c) v) (\<lambda>h.
     ebind (hash_elements E c es) (\<lambda>h'. Inr (h + h')))"

definition BsonValueHashFunc :: "extern \<Rightarrow> bson_value \<Rightarrow> uint32 result" where
  "BsonValueHashFunc E v = BsonValueHashFuncCore E None v"

lemma BsonValueHashFunc_plain: "BsonValueHashFunc E v = BsonValueHashUint32 E v"
  by (simp add: BsonValueHashFunc_def)

definition BsonValueWithCollationHashFunc :: "extern \<Rightarrow> string \<Rightarrow> bson_value \<Rightarrow> uint32 result" where
  "BsonValueWithCollationHashFunc E collationString v = BsonValueHashFuncCore E (Some collationString) v"

definition BsonValueWithCollationHashEntryCompareFunc ::
    "extern \<Rightarrow> string \<Rightarrow> bson_value \<Rightarrow> bson_value \<Rightarrow> int result" where
  "BsonValueWithCollationHashEntryCompareFunc E collationString l r =
     ebind (CompareBsonValueAndTypeWithCollation E (Some (ucol_strcollUTF8 E collationString)) l r)
       (\<lambda>(cmp, _). Inr (if cmp \<noteq> 0 then 1 else 0))"

definition BsonValueHashEntryCompareFunc :: "extern \<Rightarrow> bson_value \<Rightarrow> bson_value \<Rightarrow> int result" where
  "BsonValueHashEntryCompareFunc E l r =
     ebind (CompareBsonValueAndType E l r) (\<lambda>(cmp, _). Inr cmp)"

text \<open>
  The sets of \<open>bson_value_t\<close> keys: \<open>HASH_ENTER\<close> stores a key unless the table has one that
  matches.  A table is the list of its keys.
\<close>

definition bson_set_find :: "extern \<Rightarrow> bson_value list \<Rightarrow> bson_value \<Rightarrow> bool result" where
  "bson_set_find E stored v =
     hash_search_find E (BsonValueHashFunc E) (BsonValueHashEntryCompareFunc E) stored v"

definition bson_set_enter :: "extern \<Rightarrow> bson_value list \<Rightarrow> bson_value \<Rightarrow> bson_value list result" where
  "bson_set_enter E stored v =
     ebind (bson_set_find E stored v) (\<lambda>found. Inr (if found then stored else stored @ [v]))"

text \<open>The sets of values under a collation; every key of a table has the same collation string.\<close>

definition collation_set_find :: "extern \<Rightarrow> string \<Rightarrow> bson_value list \<Rightarrow> bson_value \<Rightarrow> bool result" where
  "collation_set_find E c stored v =
     hash_search_find E (BsonValueWithCollationHashFunc E c)
       (BsonValueWithCollationHashEntryCompareFunc E c) stored v"

definition collation_set_enter :: "extern \<Rightarrow> string \<Rightarrow> bson_value list \<Rightarrow> bson_value \<Rightarrow> bson_value list result" where
  "collation_set_enter E c stored v =
     ebind (collation_set_find E c stored v) (\<lambda>found. Inr (if found then stored else stored @ [v]))"

section \<open>Equal values have equal hashes\<close>

fun hash_plain :: "bson_value \<Rightarrow> bool"
  and hash_plain_doc :: "bson_doc \<Rightarrow> bool" where
  "hash_plain (BvDouble _) = False"
| "hash_plain (BvDecimal128 d) =
     (case dec_x d of XFin q \<Rightarrow> of_int \<lfloor>q\<rfloor> = q \<and> INT64_MIN \<le> \<lfloor>q\<rfloor> \<and> \<lfloor>q\<rfloor> \<le> INT64_MAX | _ \<Rightarrow> False)"
| "hash_plain (BvCodeWScope _ _) = False"
| "hash_plain (BvDocument d) = hash_plain_doc d"
| "hash_plain (BvArray d) = hash_plain_doc d"
| "hash_plain _ = True"
| "hash_plain_doc [] = True"
| "hash_plain_doc ((k, v) # d) = (hash_plain v \<and> hash_plain_doc d)"

lemma str_key_append_inj: "str_key a @ xs = str_key b @ ys \<longleftrightarrow> a = b \<and> xs = ys"
  by (induction a arbitrary: b; case_tac b) auto

lemma str_key_inj: "str_key a = str_key b \<longleftrightarrow> a = b"
  using str_key_append_inj [of a "[]" b "[]"] by simp

lemma plain_integer:
  assumes "hash_plain (BvDecimal128 d)"
  obtains n where "dec_x d = XFin (of_int n)" "INT64_MIN \<le> n" "n \<le> INT64_MAX"
  using assms by (auto split: xnum.splits)

context external_code
begin

lemma plain_number:
  assumes "is_num v" "hash_plain v" "value_type v \<noteq> BSON_TYPE_BOOL"
  shows "\<exists>i. num_x E v = XFin (of_int (sint i)) \<and> BsonValueAsInt64 E v = Inr i
    \<and> (value_type v = BSON_TYPE_DECIMAL128 \<longrightarrow> IsBsonValue64BitInteger E v True = Inr True)"
  using assms(1)
proof (cases rule: is_num_cases)
  case (4 d)
  with assms(2) obtain n where n: "dec_x d = XFin (of_int n)" "INT64_MIN \<le> n" "n \<le> INT64_MAX"
    using plain_integer by blast
  have "map_sum id sint (BsonValueAsInt64 E v) = Inr n"
    using decimal_as_int64 [of d ConversionRoundingMode_Floor] n 4
    by (simp add: BsonValueAsInt64_def BsonValueAsInt64WithRoundingMode_def converted_def rounding_of_def
        or_conversion_failure_def trunc_rat_def)
  then obtain i where i: "BsonValueAsInt64 E v = Inr i" "sint i = n"
    by (cases "BsonValueAsInt64 E v") auto
  have "IsBsonValue64BitInteger E v True = Inr True"
    using n 4 by (auto simp: IsBsonValue64BitInteger_def IsBsonValue64BitIntegerCore_def e_and_def
        decimal_in_int64_range decimal_fixed_integer converted_def trunc_rat_def)
  with i n 4 show ?thesis by simp
next
  case (2 i)
  then show ?thesis
    by (simp add: BsonValueAsInt64_def BsonValueAsInt64WithRoundingMode_def int32_in_int64)
next
  case (3 i)
  then show ?thesis
    by (simp add: BsonValueAsInt64_def BsonValueAsInt64WithRoundingMode_def)
qed (use assms(2,3) in simp_all)

lemma hash_number:
  assumes "is_num l" "is_num r" "hash_plain l" "hash_plain r"
    "value_type l \<noteq> BSON_TYPE_BOOL" "value_type r \<noteq> BSON_TYPE_BOOL" "num_x E l = num_x E r"
  shows "\<exists>h. HashBsonValueCompare E hb hc seed l = Inr h \<and> HashBsonValueCompare E hb hc seed r = Inr h"
proof -
  have hash: "HashBsonValueCompare E hb hc seed v = Inr (hc (type_hash hb seed BSON_TYPE_INT64) (hb (mem_int64 i) seed))"
    if "is_num v" "hash_plain v" "value_type v \<noteq> BSON_TYPE_BOOL" "num_x E v = XFin (of_int (sint i))" for v i
  proof -
    note v = that(1-3)
    obtain j where j: "num_x E v = XFin (of_int (sint j))" "BsonValueAsInt64 E v = Inr j"
      "value_type v = BSON_TYPE_DECIMAL128 \<Longrightarrow> IsBsonValue64BitInteger E v True = Inr True"
      using plain_number [OF v] by blast
    with that(4) have "sint i = sint j" by simp
    then have "i = j" by (simp only: sint_inj)
    with j that(1-3) show ?thesis
      by (elim is_num_cases) (auto simp: HashBsonValueCompare.simps int64_hash_def Let_def)
  qed
  obtain i :: int64 where "num_x E l = XFin (of_int (sint i))" using plain_number [OF assms(1,3,5)] by blast
  with hash [of l i] hash [of r i] assms show ?thesis by simp
qed

lemma num_same_rank:
  "is_num l \<Longrightarrow> value_type l \<noteq> BSON_TYPE_BOOL \<Longrightarrow> rank l = rank r \<Longrightarrow>
     is_num r \<and> value_type r \<noteq> BSON_TYPE_BOOL"
  by (elim is_num_cases; cases "value_type r") (simp_all add: rank_def is_num_def)

lemma num_vkey: "is_num l \<Longrightarrow> vkey E l = [xnum_key (num_x E l)]"
  by (erule is_num_cases) simp_all

lemma hash_leaf:
  assumes "rank l = rank r" "vkey E l = vkey E r" "wf_value l" "wf_value r" "hash_plain l" "hash_plain r"
    and leaf: "\<And>d. l \<noteq> BvDocument d" "\<And>d. l \<noteq> BvArray d"
  shows "\<exists>h. HashBsonValueCompare E hb hc seed l = Inr h \<and> HashBsonValueCompare E hb hc seed r = Inr h"
proof (cases "is_num l \<and> value_type l \<noteq> BSON_TYPE_BOOL")
  case True
  then have r: "is_num r" "value_type r \<noteq> BSON_TYPE_BOOL" using num_same_rank assms(1) by blast+
  with True have "num_x E l = num_x E r"
    using assms(2) num_vkey [of l] num_vkey [of r] by simp
  then show ?thesis using hash_number True r assms by blast
next
  case False
  note sort = assms(1) [unfolded rank_def of_int_eq_iff, THEN sort_type_cases]
  show ?thesis
  proof (cases "value_type l = value_type r")
    case True
    show ?thesis
      using True [symmetric] False leaf assms
      by (cases l)
         (auto simp: value_of_type HashBsonValueCompare.simps str_key_inj str_key_append_inj sint_inj is_num_def Let_def
            split: option.splits if_splits)
  next
    case types: False
    with sort False have "{value_type l, value_type r} \<subseteq> {BSON_TYPE_UTF8, BSON_TYPE_SYMBOL}
      \<or> {value_type l, value_type r} \<subseteq> {BSON_TYPE_NULL, BSON_TYPE_UNDEFINED}
      \<or> {value_type l, value_type r} \<subseteq> {BSON_TYPE_EOD, BSON_TYPE_MINKEY}"
      by (auto simp: is_num_def)
    then show ?thesis
      using types assms(2)
      by (auto simp: value_of_type HashBsonValueCompare.simps str_key_inj)
  qed
qed

lemma compare_zero_key:
  assumes "rank l = rank r" "wf_value l" "wf_value r" "CompareBsonValue E None l r = Inr (0, b)"
  shows "vkey E l = vkey E r"
proof -
  obtain c v where "CompareBsonValue E None l r = Inr (c, v)"
    and cmp: "\<And>ys zs. int_cmp (vkey E l @ ys) (vkey E r @ zs) = lexk c ys zs"
    using compare_value_key [OF assms(1-3)] unfolding key_agrees_def by blast
  then have "c = 0" using assms(4) by simp
  with cmp [of "[]" "[]"] show ?thesis by simp
qed

lemma compare_iter_zero:
  assumes "wf_doc d" "wf_doc d'" "dkey E d = dkey E d'"
  shows "CompareBsonIter E None True d d' = Inr 0"
proof -
  obtain c where c: "CompareBsonIter E None True d d' = Inr c"
    and cmp: "\<And>ys zs. int_cmp (dkey E d @ ys) (dkey E d' @ zs) = lexk c ys zs"
    using compare_iter_key [OF assms(1,2)] unfolding iter_agrees_def by blast
  have "lexk c [] [] = 0" using cmp [of "[]" "[]"] assms(3) by simp
  then show ?thesis using c by (simp add: lexk_def sgn_if split: if_splits)
qed

lemma hash_iter:
  assumes "\<And>v r. v \<in> snd ` set d \<Longrightarrow> rank v = rank r \<Longrightarrow> wf_value v \<Longrightarrow> wf_value r \<Longrightarrow>
      hash_plain v \<Longrightarrow> hash_plain r \<Longrightarrow> vkey E v = vkey E r \<Longrightarrow>
      \<exists>h. HashBsonValueCompare E hb hc seed v = Inr h \<and> HashBsonValueCompare E hb hc seed r = Inr h"
  shows "wf_doc d \<Longrightarrow> wf_doc d' \<Longrightarrow> hash_plain_doc d \<Longrightarrow> hash_plain_doc d' \<Longrightarrow>
     CompareBsonIter E None True d d' = Inr 0 \<Longrightarrow>
     \<exists>h. BsonHashCompare E hb hc seed h0 d = Inr h \<and> BsonHashCompare E hb hc seed h0 d' = Inr h"
  using assms
proof (induction d arbitrary: d' h0)
  case Nil
  then show ?case by (cases d') auto
next
  case (Cons e d)
  obtain k v where e: "e = (k, v)" by (cases e)
  from Cons.prems(5) e obtain e' r where "d' = e' # r" by (cases d') auto
  then obtain k' v' where d': "d' = (k', v') # r" by (cases e') auto
  have cmp: "rank v = rank v'" "CompareStrings None k k' = 0" "\<exists>b. CompareBsonValue E None v v' = Inr (0, b)"
    "CompareBsonIter E None True d r = Inr 0"
    using Cons.prems(5) unfolding e d'
    by (auto simp: Let_def same_rank ebind_Inr_iff split: if_splits)
  have wf: "wf_value v" "wf_value v'" "wf_doc d" "wf_doc r" "short k" "short k'" "hash_plain v" "hash_plain v'"
    "hash_plain_doc d" "hash_plain_doc r" using Cons.prems(1-4) e d' by auto
  have "k = k'" using CompareStrings_sgn [of k k'] wf cmp(2) by (simp add: sgn_if split: if_splits)
  obtain h where h: "HashBsonValueCompare E hb hc seed v = Inr h" "HashBsonValueCompare E hb hc seed v' = Inr h"
    using Cons.prems(6) [of v v'] cmp wf e compare_zero_key by fastforce
  have "\<exists>h. BsonHashCompare E hb hc seed h1 d = Inr h \<and> BsonHashCompare E hb hc seed h1 r = Inr h" for h1
    by (rule Cons.IH) (use wf cmp(4) Cons.prems(6) in auto)
  then show ?case using e d' h \<open>k = k'\<close> by (simp add: Let_def)
qed

lemma hash_agrees_key:
  "rank l = rank r \<Longrightarrow> wf_value l \<Longrightarrow> wf_value r \<Longrightarrow> hash_plain l \<Longrightarrow> hash_plain r \<Longrightarrow>
     vkey E l = vkey E r \<Longrightarrow>
     \<exists>h. HashBsonValueCompare E hb hc seed l = Inr h \<and> HashBsonValueCompare E hb hc seed r = Inr h"
proof (induction l arbitrary: r)
  case (BvDocument d)
  then obtain d' where r: "r = BvDocument d'" by (cases r) (auto simp: rank_def)
  have "\<exists>h. BsonHashCompare E hb hc seed 0 d = Inr h \<and> BsonHashCompare E hb hc seed 0 d' = Inr h"
    by (rule hash_iter) (use BvDocument r compare_iter_zero in \<open>auto simp: snds.simps\<close>)
  then show ?case by (auto simp: r HashBsonValueCompare.simps)
next
  case (BvArray d)
  then obtain d' where r: "r = BvArray d'" by (cases r) (auto simp: rank_def)
  have "\<exists>h. BsonHashCompare E hb hc seed 0 d = Inr h \<and> BsonHashCompare E hb hc seed 0 d' = Inr h"
    by (rule hash_iter) (use BvArray r compare_iter_zero in \<open>auto simp: snds.simps\<close>)
  then show ?case by (auto simp: r HashBsonValueCompare.simps)
qed (rule hash_leaf; simp)+

lemma hash_agrees:
  assumes "wf_value l" "wf_value r" "hash_plain l" "hash_plain r" "CompareBsonValueAndType E l r = Inr (0, b)"
  shows "\<exists>h. HashBsonValueCompare E hb hc seed l = Inr h \<and> HashBsonValueCompare E hb hc seed r = Inr h"
proof -
  have "rank l = rank r" "CompareBsonValue E None l r = Inr (0, b)"
    using assms(5) by (auto simp: CompareBsonValueAndType_def same_rank Let_def split: if_splits)
  with assms(1-4) compare_zero_key hash_agrees_key show ?thesis by blast
qed

end

text \<open>The scalars on which the hash of the hash tables agrees with the comparison.\<close>

definition set_plain :: "bson_value \<Rightarrow> bool" where
  "set_plain v \<longleftrightarrow> hash_plain v \<and> value_type v \<notin> {BSON_TYPE_DOCUMENT, BSON_TYPE_ARRAY, BSON_TYPE_REGEX}"

context external_code
begin

lemma set_hash_number:
  assumes "is_num v" "hash_plain v" "value_type v \<noteq> BSON_TYPE_BOOL" "num_x E v = XFin (of_int (sint (i :: int64)))"
  shows "BsonValueHashUint32 E v = Inr (hash_bytes E (mem_int64 i))"
proof -
  obtain j where j: "num_x E v = XFin (of_int (sint j))" "BsonValueAsInt64 E v = Inr j"
    "value_type v = BSON_TYPE_DECIMAL128 \<Longrightarrow> IsBsonValue64BitInteger E v True = Inr True"
    using plain_number [OF assms(1-3)] by blast
  with assms(4) have "sint i = sint j" by simp
  then have "i = j" by (simp only: sint_inj)
  with j assms show ?thesis
    by (elim is_num_cases) (auto simp: BsonValueHashUint32_def IsDecimal128NaN_def isNaN_law)
qed

lemma set_hash_agrees:
  assumes "rank l = rank r" "vkey E l = vkey E r" "wf_value l" "wf_value r" "set_plain l" "set_plain r"
  shows "\<exists>h. BsonValueHashUint32 E l = Inr h \<and> BsonValueHashUint32 E r = Inr h"
proof (cases "is_num l \<and> value_type l \<noteq> BSON_TYPE_BOOL")
  case True
  then have r: "is_num r" "value_type r \<noteq> BSON_TYPE_BOOL" using num_same_rank assms(1) by blast+
  with True have eq: "num_x E l = num_x E r"
    using assms(2) num_vkey [of l] num_vkey [of r] by simp
  have plain: "hash_plain l" "hash_plain r" using assms by (simp_all add: set_plain_def)
  obtain i :: int64 where "num_x E l = XFin (of_int (sint i))" using plain_number [of l] True plain by blast
  with set_hash_number [of l i] set_hash_number [of r i] True r plain eq show ?thesis by simp
next
  case False
  note sort = assms(1) [unfolded rank_def of_int_eq_iff, THEN sort_type_cases]
  show ?thesis
  proof (cases "value_type l = value_type r")
    case True
    show ?thesis
      using True [symmetric] False assms
      by (cases l)
         (auto simp: value_of_type set_plain_def BsonValueHashUint32_def str_key_inj str_key_append_inj
            sint_inj mem_timestamp_def is_num_def split: if_splits)
  next
    case types: False
    with sort False have "{value_type l, value_type r} \<subseteq> {BSON_TYPE_UTF8, BSON_TYPE_SYMBOL}
      \<or> {value_type l, value_type r} \<subseteq> {BSON_TYPE_NULL, BSON_TYPE_UNDEFINED}
      \<or> {value_type l, value_type r} \<subseteq> {BSON_TYPE_EOD, BSON_TYPE_MINKEY}"
      by (auto simp: is_num_def)
    then show ?thesis
      using types assms(2) by (auto simp: value_of_type BsonValueHashUint32_def str_key_inj)
  qed
qed

lemma order_zero_key:
  assumes "wf_value l" "wf_value r"
  shows "order_of E l r = 0 \<longleftrightarrow> rank l = rank r \<and> vkey E l = vkey E r"
proof -
  have "order_of E l r = 0 \<longleftrightarrow> sgn (order_of E l r) = 0" by (simp add: sgn_if)
  then show ?thesis by (simp add: order_of_key [OF assms] full_key_def)
qed

lemma BsonValueHashEntryCompareFunc_order:
  "wf_value l \<Longrightarrow> wf_value r \<Longrightarrow> BsonValueHashEntryCompareFunc E l r = Inr (order_of E l r)"
  using compare_type_key [of l r] by (auto simp: BsonValueHashEntryCompareFunc_def order_of_def)

text \<open>A set of scalars finds a scalar exactly if it holds an equal one.\<close>

definition in_set :: "bson_value list \<Rightarrow> bson_value \<Rightarrow> bool" where
  "in_set xs v \<longleftrightarrow> (\<exists>x \<in> set xs. order_of E x v = 0)"

lemma bson_set_find_spec:
  assumes "\<forall>x \<in> set stored. wf_value x \<and> set_plain x" "wf_value v" "set_plain v"
  shows "bson_set_find E stored v = Inr (in_set stored v)"
proof -
  obtain hv where hv: "BsonValueHashFunc E x = Inr (hv x)" if "wf_value x" "set_plain x" for x
    using set_hash_agrees [of x x for x] unfolding BsonValueHashFunc_plain by metis
  have agree: "hv x = hv v" if "x \<in> set stored" "order_of E x v = 0" for x
    using that assms set_hash_agrees [of x v] hv [of x] hv [of v]
    by (auto simp: order_zero_key BsonValueHashFunc_plain)
  have "bson_set_find E stored v = Inr (\<exists>x \<in> set stored. hv x = hv v \<and> order_of E x v = 0)"
    unfolding bson_set_find_def
    by (rule hash_search_law) (use assms hv BsonValueHashEntryCompareFunc_order in auto)
  with agree show ?thesis unfolding in_set_def by auto
qed

lemma bson_set_enter_spec:
  assumes "\<forall>x \<in> set stored. wf_value x \<and> set_plain x" "wf_value v" "set_plain v"
  shows "\<exists>stored'. bson_set_enter E stored v = Inr stored' \<and> (\<forall>x \<in> set stored'. wf_value x \<and> set_plain x)
     \<and> (\<forall>w. wf_value w \<longrightarrow> in_set stored' w = (in_set stored w \<or> order_of E v w = 0))"
proof (cases "in_set stored v")
  case True
  then obtain x where x: "x \<in> set stored" "order_of E x v = 0" by (auto simp: in_set_def)
  have "in_set stored w" if "wf_value w" "order_of E v w = 0" for w
    using x that assms value_order.cmp_eq_trans [of x v w] by (auto simp: in_set_def)
  with True assms show ?thesis by (auto simp: bson_set_enter_def bson_set_find_spec)
next
  case False
  with assms show ?thesis by (auto simp: bson_set_enter_def bson_set_find_spec in_set_def)
qed

end

end
