(* ===== verification/Pcre_Regex.thy ===== *)
theory Pcre_Regex
  imports String_View Extern
begin

text \<open>
  Regular expressions: \<^verbatim>\<open>pg_documentdb_core/src/types/pcre_regex.c\<close>, around the PCRE2 library
  (\<open>pcre2_compile\<close>), and \<open>CompareRegexTextMatch\<close> of \<^verbatim>\<open>query/bson_text_ops.c\<close>.  The library's
  constants have the values of its header.  Allocation of the contexts, the match data and the
  JIT stack is not modelled.
\<close>

definition PCRE2_CASELESS :: uint32 where "PCRE2_CASELESS = 0x8"
definition PCRE2_DOTALL :: uint32 where "PCRE2_DOTALL = 0x20"
definition PCRE2_EXTENDED :: uint32 where "PCRE2_EXTENDED = 0x80"
definition PCRE2_MULTILINE :: uint32 where "PCRE2_MULTILINE = 0x400"
definition PCRE2_NO_AUTO_CAPTURE :: uint32 where "PCRE2_NO_AUTO_CAPTURE = 0x2000"
definition PCRE2_UTF :: uint32 where "PCRE2_UTF = 0x80000"
definition PCRE2_ERROR_RECURSIONLIMIT :: int where "PCRE2_ERROR_RECURSIONLIMIT = -53"

definition REGEX_MAX_PATTERN_LENGTH :: nat where "REGEX_MAX_PATTERN_LENGTH = 32761"
definition REGEX_MAX_PATTERN_LENGTH_AGGREGATION :: nat where "REGEX_MAX_PATTERN_LENGTH_AGGREGATION = 32764"

type_synonym PcreData = "string \<Rightarrow> int"

unbundle bit_operations_syntax

definition option_bit :: "char \<Rightarrow> uint32" where
  "option_bit c =
     (if c = CHR ''i'' then PCRE2_CASELESS
      else if c = CHR ''s'' then PCRE2_DOTALL
      else if c = CHR ''m'' then PCRE2_MULTILINE
      else if c = CHR ''x'' then PCRE2_EXTENDED
      else 0)"

fun options_loop :: "string \<Rightarrow> uint32 \<Rightarrow> uint32" where
  "options_loop [] compileOptions = compileOptions"
| "options_loop (c # cs) compileOptions = options_loop cs (compileOptions OR option_bit c)"

definition ProcessRegexCompileOptions :: "string option \<Rightarrow> uint32" where
  "ProcessRegexCompileOptions options =
     (case options of None \<Rightarrow> PCRE2_UTF | Some s \<Rightarrow> options_loop (cstr s) PCRE2_UTF)"

fun valid_options_loop :: "string \<Rightarrow> bool" where
  "valid_options_loop [] = True"
| "valid_options_loop (c # cs) = (if c \<in> set ''ismxu'' then valid_options_loop cs else False)"

definition IsValidRegexOptions :: "string option \<Rightarrow> bool" where
  "IsValidRegexOptions options = (case options of None \<Rightarrow> True | Some s \<Rightarrow> valid_options_loop (cstr s))"

definition RegexCompileCore :: "extern \<Rightarrow> string \<Rightarrow> string option \<Rightarrow> nat \<Rightarrow> uint32 \<Rightarrow> PcreData option" where
  "RegexCompileCore E regexPatternStr options maxPatternLength compileOptions =
     pcre2_compile E (cstr regexPatternStr) (compileOptions OR ProcessRegexCompileOptions options) maxPatternLength"

definition RegexCompile :: "extern \<Rightarrow> string \<Rightarrow> string option \<Rightarrow> PcreData result" where
  "RegexCompile E regexPatternStr options =
     (case RegexCompileCore E regexPatternStr options REGEX_MAX_PATTERN_LENGTH PCRE2_NO_AUTO_CAPTURE of
        None \<Rightarrow> Inl (Ereport ERRCODE_DOCUMENTDB_LOCATION51091)
      | Some pcreData \<Rightarrow> Inr pcreData)"

definition RegexCompileDuringPlanning :: "extern \<Rightarrow> string \<Rightarrow> string option \<Rightarrow> unit result" where
  "RegexCompileDuringPlanning E regexPatternStr options =
     (case RegexCompileCore E regexPatternStr options REGEX_MAX_PATTERN_LENGTH PCRE2_NO_AUTO_CAPTURE of
        None \<Rightarrow> Inl (Ereport ERRCODE_DOCUMENTDB_LOCATION51091)
      | Some pcreData \<Rightarrow> Inr ())"

definition RegexCompileForAggregation :: "extern \<Rightarrow> string \<Rightarrow> string option \<Rightarrow> bool \<Rightarrow> PcreData result" where
  "RegexCompileForAggregation E regexPatternStr options enableNoAutoCapture =
     (case RegexCompileCore E regexPatternStr options REGEX_MAX_PATTERN_LENGTH_AGGREGATION
             (if enableNoAutoCapture then PCRE2_NO_AUTO_CAPTURE else 0) of
        None \<Rightarrow> Inl (Ereport ERRCODE_DOCUMENTDB_LOCATION51111)
      | Some pcreData \<Rightarrow> Inr pcreData)"

definition PcreRegexExecute :: "PcreData \<Rightarrow> string \<Rightarrow> bool result" where
  "PcreRegexExecute pcreData subject =
     (let returnCode = pcreData subject
      in if returnCode = PCRE2_ERROR_RECURSIONLIMIT then Inl (Ereport ERRCODE_DOCUMENTDB_LOCATION51156)
         else Inr (\<not> returnCode < 0))"

text \<open>The pointers of a regular expression value, and \<open>options\<close> of \<open>RegexData\<close>, may be null.\<close>

definition deref :: "'a option \<Rightarrow> 'a result" where
  "deref p = (case p of None \<Rightarrow> Inl NullDereference | Some x \<Rightarrow> Inr x)"

lemma deref_Some [simp]: "deref (Some x) = Inr x"
  by (simp add: deref_def)

record RegexData =
  rx_regex :: string
  rx_options :: "string option"
  rx_pcreData :: PcreData

definition CompareRegexTextMatch :: "bson_value \<Rightarrow> RegexData \<Rightarrow> bool result" where
  "CompareRegexTextMatch docBsonVal regexData =
     (case docBsonVal of
        BvRegex regex options \<Rightarrow>
          ebind (deref regex) (\<lambda>regex.
            if strcmp regex (rx_regex regexData) = 0
            then ebind (deref options) (\<lambda>options.
                 ebind (deref (rx_options regexData)) (\<lambda>opts.
                   Inr (strcmp options opts = 0)))
            else Inr False)
      | BvUtf8 s \<Rightarrow> PcreRegexExecute (rx_pcreData regexData) s
      | _ \<Rightarrow> Inr False)"

section \<open>Options\<close>

lemma options_loop_bits:
  "bit (options_loop cs w) n \<longleftrightarrow> bit w n \<or> (\<exists>c \<in> set cs. bit (option_bit c) n)"
  by (induction cs arbitrary: w) (auto simp: bit_or_iff)

text \<open>The compiled bits depend on the set of letters only: their order and repetition do not matter.\<close>

lemma options_set:
  assumes "set (cstr a) \<inter> set ''ismx'' = set (cstr b) \<inter> set ''ismx''"
  shows "ProcessRegexCompileOptions (Some a) = ProcessRegexCompileOptions (Some b)"
proof -
  have other: "option_bit c = 0" if "c \<notin> set ''ismx''" for c
    using that by (simp add: option_bit_def)
  have "(\<exists>c \<in> set (cstr a). bit (option_bit c) n) \<longleftrightarrow> (\<exists>c \<in> set (cstr b). bit (option_bit c) n)" for n
    using assms other by (metis IntE IntI bit_0_eq bot_apply bot_bool_def)
  then show ?thesis
    by (intro bit_eqI) (simp add: ProcessRegexCompileOptions_def options_loop_bits)
qed

lemma valid_options: "IsValidRegexOptions (Some s) \<longleftrightarrow> set (cstr s) \<subseteq> set ''ismxu''"
proof -
  have "valid_options_loop cs \<longleftrightarrow> set cs \<subseteq> set ''ismxu''" for cs by (induction cs) auto
  then show ?thesis by (simp add: IsValidRegexOptions_def)
qed

text \<open>A pattern accepted when the query is planned is accepted when it runs.\<close>

lemma planning_agrees: "RegexCompileDuringPlanning E p opts = ebind (RegexCompile E p opts) (\<lambda>_. Inr ())"
  by (simp add: RegexCompileDuringPlanning_def RegexCompile_def split: option.splits)

end
