(* ===== verification/Bsonquery_Compare.thy ===== *)
theory Bsonquery_Compare
  imports Bson_Order
begin

text \<open>
  \<^verbatim>\<open>pg_documentdb_core/src/query/bsonquery_compare.c\<close>: the comparison of \<open>bsonquery\<close> values, documents
  with one field and, when collations are enabled, an optional second field \<open>collation\<close>.  The
  comparison returns its result and the flag \<open>isComparisonValid\<close>.  The flag \<open>EnableCollation\<close> of the
  server is an argument.  A value read from an iterator is used after the iterator moved on; its
  contents lie in the document and do not change.
\<close>

section \<open>The comparison\<close>

definition CheckCollationType :: "bson_value \<Rightarrow> unit result" where
  "CheckCollationType v =
     (if value_type v \<noteq> BSON_TYPE_UTF8
      then ebind (BsonTypeName (value_type v)) (\<lambda>_. Inl (Ereport ERRCODE_DOCUMENTDB_BADVALUE))
      else Inr ())"

definition ThrowUnexpectedFieldError :: "'a result" where
  "ThrowUnexpectedFieldError = Inl (Ereport ERRCODE_DOCUMENTDB_INTERNALERROR)"

text \<open>The fields after the first, of which at least one side has one.\<close>

definition compare_query_collations :: "bson_doc \<Rightarrow> bson_doc \<Rightarrow> (int \<times> bool) result" where
  "compare_query_collations leftIter rightIter =
     (if leftIter \<noteq> [] \<and> strcmp (fst (hd leftIter)) ''collation'' \<noteq> 0
         \<or> rightIter \<noteq> [] \<and> strcmp (fst (hd rightIter)) ''collation'' \<noteq> 0
      then ThrowUnexpectedFieldError
      else if leftIter \<noteq> [] \<and> rightIter \<noteq> []
      then ebind (CheckCollationType (snd (hd leftIter))) (\<lambda>_.
           ebind (CheckCollationType (snd (hd rightIter))) (\<lambda>_.
             Inr (CompareStrings None (v_str (snd (hd leftIter))) (v_str (snd (hd rightIter))), False)))
      else Inr (if leftIter \<noteq> [] then 1 else - 1, False))"

text \<open>The only field of both sides.\<close>

definition compare_query_fields :: "extern \<Rightarrow> string \<times> bson_value \<Rightarrow> string \<times> bson_value \<Rightarrow> (int \<times> bool) result" where
  "compare_query_fields E left right =
     (let cmp = CompareStrings None (fst left) (fst right);
          leftValue = snd left; rightValue = snd right;
          leftType = value_type leftValue; rightType = value_type rightValue
      in if cmp \<noteq> 0 then Inr (cmp, False)
         else if leftType = BSON_TYPE_MINKEY \<and> rightType = BSON_TYPE_NULL then Inr (1, True)
         else if leftType = BSON_TYPE_NULL \<and> rightType = BSON_TYPE_MINKEY then Inr (- 1, True)
         else if leftType = BSON_TYPE_MINKEY \<or> leftType = BSON_TYPE_MAXKEY
                 \<or> rightType = BSON_TYPE_MINKEY \<or> rightType = BSON_TYPE_MAXKEY
         then ebind (CompareBsonValueAndType E leftValue rightValue) (\<lambda>(c, _). Inr (c, True))
         else let cmp = CompareSortOrderType leftType rightType
              in if cmp \<noteq> 0 then Inr (cmp, False)
                 else ebind (CompareBsonValueAndType E leftValue rightValue) (\<lambda>(c, _). Inr (c, True)))"

definition ComparePgbsonQuery :: "extern \<Rightarrow> bool \<Rightarrow> bson_doc \<Rightarrow> bson_doc \<Rightarrow> (int \<times> bool) result" where
  "ComparePgbsonQuery E EnableCollation leftBson rightBson =
     (if PgbsonEquals E (Some leftBson) (Some rightBson) then Inr (0, True)
      else case (leftBson, rightBson) of
             ([], []) \<Rightarrow> Inr (0, True)
           | (_ # _, []) \<Rightarrow> Inr (1, False)
           | ([], _ # _) \<Rightarrow> Inr (- 1, False)
           | (left # leftIter, right # rightIter) \<Rightarrow>
               if EnableCollation \<and> (leftIter \<noteq> [] \<or> rightIter \<noteq> [])
               then compare_query_collations leftIter rightIter
               else if leftIter \<noteq> [] \<or> rightIter \<noteq> [] then ThrowUnexpectedFieldError
               else compare_query_fields E left right)"

section \<open>The SQL functions\<close>

definition bsonquery_compare :: "extern \<Rightarrow> bool \<Rightarrow> bson_doc \<Rightarrow> bson_doc \<Rightarrow> int result" where
  "bsonquery_compare E ec l r = ebind (ComparePgbsonQuery E ec l r) (\<lambda>(c, _). Inr c)"

definition bsonquery_equal :: "extern \<Rightarrow> bool \<Rightarrow> bson_doc \<Rightarrow> bson_doc \<Rightarrow> bool result" where
  "bsonquery_equal E ec l r = ebind (ComparePgbsonQuery E ec l r) (\<lambda>(c, valid). Inr (valid \<and> c = 0))"

definition bsonquery_not_equal :: "extern \<Rightarrow> bool \<Rightarrow> bson_doc \<Rightarrow> bson_doc \<Rightarrow> bool result" where
  "bsonquery_not_equal E ec l r = ebind (ComparePgbsonQuery E ec l r) (\<lambda>(c, valid). Inr (valid \<and> c \<noteq> 0))"

definition bsonquery_gt :: "extern \<Rightarrow> bool \<Rightarrow> bson_doc \<Rightarrow> bson_doc \<Rightarrow> bool result" where
  "bsonquery_gt E ec l r = ebind (ComparePgbsonQuery E ec l r) (\<lambda>(c, valid). Inr (valid \<and> c > 0))"

definition bsonquery_gte :: "extern \<Rightarrow> bool \<Rightarrow> bson_doc \<Rightarrow> bson_doc \<Rightarrow> bool result" where
  "bsonquery_gte E ec l r = ebind (ComparePgbsonQuery E ec l r) (\<lambda>(c, valid). Inr (valid \<and> c \<ge> 0))"

definition bsonquery_lt :: "extern \<Rightarrow> bool \<Rightarrow> bson_doc \<Rightarrow> bson_doc \<Rightarrow> bool result" where
  "bsonquery_lt E ec l r = ebind (ComparePgbsonQuery E ec l r) (\<lambda>(c, valid). Inr (valid \<and> c < 0))"

definition bsonquery_lte :: "extern \<Rightarrow> bool \<Rightarrow> bson_doc \<Rightarrow> bson_doc \<Rightarrow> bool result" where
  "bsonquery_lte E ec l r = ebind (ComparePgbsonQuery E ec l r) (\<lambda>(c, valid). Inr (valid \<and> c \<le> 0))"

lemmas bsonquery_defs = bsonquery_compare_def bsonquery_equal_def bsonquery_not_equal_def
  bsonquery_gt_def bsonquery_gte_def bsonquery_lt_def bsonquery_lte_def

section \<open>Which operands are comparable, and how\<close>

definition key_bound :: "bson_value \<Rightarrow> bool" where
  "key_bound v \<longleftrightarrow> v = BvMinKey \<or> v = BvMaxKey"

definition query_comparable :: "bson_value \<Rightarrow> bson_value \<Rightarrow> bool" where
  "query_comparable v w \<longleftrightarrow> rank v = rank w \<or> key_bound v \<or> key_bound w"

text \<open>The order of values, except that null is below MinKey.\<close>

definition query_order :: "extern \<Rightarrow> bson_value \<Rightarrow> bson_value \<Rightarrow> int" where
  "query_order E v w =
     (if v = BvMinKey \<and> w = BvNull then 1
      else if v = BvNull \<and> w = BvMinKey then - 1
      else order_of E v w)"

lemma value_type_special:
  "value_type v = BSON_TYPE_MINKEY \<longleftrightarrow> v = BvMinKey" "value_type v = BSON_TYPE_MAXKEY \<longleftrightarrow> v = BvMaxKey"
  "value_type v = BSON_TYPE_NULL \<longleftrightarrow> v = BvNull"
  by (cases v; simp)+

lemma CompareStrings_zero: "short a \<Longrightarrow> short b \<Longrightarrow> CompareStrings None a b = 0 \<longleftrightarrow> a = b"
  using CompareStrings_sgn [of a b] by (metis sgn_0_0 strcmp_bytes_eq_0)

context external_code
begin

lemma query_order_self: "wf_value v \<Longrightarrow> query_order E v v = 0"
  using order_of_key [of v v] by (auto simp: query_order_def sgn_if split: if_splits)

lemma compare_single_queries:
  assumes "wf_doc [(p, v)]" "wf_doc [(q, w)]"
  shows "\<exists>c. ComparePgbsonQuery E ec [(p, v)] [(q, w)] = Inr (c, p = q \<and> query_comparable v w)
    \<and> (p = q \<and> query_comparable v w \<longrightarrow> c = query_order E v w)"
proof (cases "p = q \<and> v = w")
  case True
  then have "ComparePgbsonQuery E ec [(p, v)] [(q, w)] = Inr (0, True)"
    using PgbsonEquals_same [OF assms] by (simp add: ComparePgbsonQuery_def)
  with True assms query_order_self [of v] show ?thesis by (simp add: query_comparable_def)
next
  case False
  then have run: "ComparePgbsonQuery E ec [(p, v)] [(q, w)] = compare_query_fields E (p, v) (q, w)"
    using PgbsonEquals_same [OF assms] by (auto simp: ComparePgbsonQuery_def)
  have wf: "wf_value v" "wf_value w" "short p" "short q" using assms by simp_all
  obtain b where b: "CompareBsonValueAndType E v w = Inr (order_of E v w, b)"
    using compare_order_of wf by blast
  have sort: "CompareSortOrderType (value_type v) (value_type w) = 0 \<longleftrightarrow> rank v = rank w"
    using same_rank [of v w] by (simp add: CompareBsonSortOrderType_def)
  have key: "CompareStrings None p q = 0 \<longleftrightarrow> p = q" using CompareStrings_zero wf(3,4) .
  show ?thesis
  proof (cases "p = q")
    case True
    then have "CompareStrings None p q = 0" using key by simp
    then have "compare_query_fields E (p, v) (q, w)
      = Inr (if query_comparable v w then query_order E v w
             else CompareSortOrderType (value_type v) (value_type w), query_comparable v w)"
      by (auto simp: compare_query_fields_def Let_def value_type_special query_comparable_def
          query_order_def key_bound_def sort b)
    with True run show ?thesis by simp
  next
    case False
    with key show ?thesis unfolding run by (simp add: compare_query_fields_def Let_def)
  qed
qed

end

end
