(* ===== verification/Bson_Deduplicate.thy ===== *)
theory Bson_Deduplicate
  imports String_View Bson_Hash Pgbson_Element Bsonquery_Compare
begin

text \<open>
  The hash sets of elements and of string views (\<^verbatim>\<open>pg_documentdb_core/src/utils/hashset_utils.c\<close>) and
  the removal of duplicate fields that uses them (\<^verbatim>\<open>pg_documentdb_core/src/io/bson_deduplicate.c\<close>).

  The hash table of a document is the list of its entries in the order they were entered, which is
  the order of \<open>hashEntryList\<close>.  Writing to a document appends a field; that a document outgrows the
  format is not modelled.
\<close>

section \<open>The hash sets\<close>

definition PgbsonElementHashEntryHashFunc :: "extern \<Rightarrow> pgbsonelement \<Rightarrow> uint32" where
  "PgbsonElementHashEntryHashFunc E e = hash_bytes E (path e)"

definition PgbsonElementHashEntryCompareFunc :: "pgbsonelement \<Rightarrow> pgbsonelement \<Rightarrow> int" where
  "PgbsonElementHashEntryCompareFunc e1 e2 =
     (let minLength = min (length (path e1)) (length (path e2));
          res = strncmp (path e1) (path e2) minLength
      in if res = 0 then length_diff (length (path e1)) (length (path e2)) else res)"

definition PgbsonElementOrderedHashEntryFunc :: "extern \<Rightarrow> pgbsonelement \<Rightarrow> uint32" where
  "PgbsonElementOrderedHashEntryFunc E e = hash_bytes E (path e)"

definition PgbsonElementOrderedHashCompareFunc :: "pgbsonelement \<Rightarrow> pgbsonelement \<Rightarrow> int" where
  "PgbsonElementOrderedHashCompareFunc e1 e2 =
     (let minPathLength = min (length (path e1)) (length (path e2));
          res = strncmp (path e1) (path e2) minPathLength
      in if res = 0 then length_diff (length (path e1)) (length (path e2)) else res)"

definition StringViewHashEntryHashFunc :: "extern \<Rightarrow> StringView \<Rightarrow> uint32" where
  "StringViewHashEntryHashFunc E v = hash_bytes E (sv_bytes v)"

definition StringViewHashEntryCompareFunc :: "StringView \<Rightarrow> StringView \<Rightarrow> int" where
  "StringViewHashEntryCompareFunc l r = CompareStringView l r"

section \<open>Removing duplicate fields\<close>

text \<open>The first loop: \<open>HASH_ENTER\<close>, then the entry gets the element just read.\<close>

definition enter_element :: "extern \<Rightarrow> pgbsonelement list \<Rightarrow> pgbsonelement \<Rightarrow> pgbsonelement list" where
  "enter_element E entries e =
     (case hash_search_element E (PgbsonElementHashEntryHashFunc E) PgbsonElementHashEntryCompareFunc entries e of
        Some i \<Rightarrow> entries[i := e]
      | None \<Rightarrow> entries @ [e])"

fun collect_entries :: "extern \<Rightarrow> pgbsonelement list \<Rightarrow> bson_doc \<Rightarrow> pgbsonelement list" where
  "collect_entries E entries [] = entries"
| "collect_entries E entries (e # es) =
     collect_entries E (enter_element E entries (BsonIterToPgbsonElement e)) es"

lemma set_enter_element: "set (enter_element E entries e) \<subseteq> insert e (set entries)"
  using set_update_subset_insert by (fastforce simp: enter_element_def split: option.splits)

lemma set_collect_entries:
  "set (collect_entries E entries d) \<subseteq> set entries \<union> BsonIterToPgbsonElement ` set d"
  by (induction d arbitrary: entries) (use set_enter_element in fastforce)+

lemma size_element:
  assumes "x \<in> set (collect_entries E [] d)"
  shows "size (bsonValue x) < size_list (size_prod (\<lambda>_. 0) size) d"
proof -
  obtain k v where "(k, v) \<in> set d" "bsonValue x = v"
    using assms set_collect_entries [of E "[]" d] by (force simp: BsonIterToPgbsonElement_def)
  then show ?thesis by (auto intro: size_list_estimation)
qed

function (sequential) PgbsonDeduplicateFieldsHandleDocumentIter :: "extern \<Rightarrow> bson_doc \<Rightarrow> bson_doc"
  and deduplicate_value :: "extern \<Rightarrow> bson_value \<Rightarrow> bson_value"
  and PgbsonDeduplicateFieldsRecurseArrayElements :: "extern \<Rightarrow> uint32 \<Rightarrow> bson_doc \<Rightarrow> bson_doc" where
  "PgbsonDeduplicateFieldsHandleDocumentIter E d =
     map (\<lambda>e. (path e, deduplicate_value E (bsonValue e))) (collect_entries E [] d)"
| "deduplicate_value E (BvDocument d) = BvDocument (PgbsonDeduplicateFieldsHandleDocumentIter E d)"
| "deduplicate_value E (BvArray d) = BvArray (PgbsonDeduplicateFieldsRecurseArrayElements E 0 d)"
| "deduplicate_value E v = v"
| "PgbsonDeduplicateFieldsRecurseArrayElements E index [] = []"
| "PgbsonDeduplicateFieldsRecurseArrayElements E index ((_, v) # es) =
     (bson_uint32_to_string E index, deduplicate_value E v)
       # PgbsonDeduplicateFieldsRecurseArrayElements E (index + 1) es"
  by pat_completeness auto
termination
  by (relation "measure (\<lambda>x. case x of
        Inl (_, d) \<Rightarrow> size_list (size_prod (\<lambda>_. 0) size) d
      | Inr (Inl (_, v)) \<Rightarrow> size v
      | Inr (Inr (_, _, d)) \<Rightarrow> size_list (size_prod (\<lambda>_. 0) size) d)")
    (auto dest: size_element)

definition PgbsonDeduplicateFields :: "extern \<Rightarrow> bson_doc \<Rightarrow> bson_doc" where
  "PgbsonDeduplicateFields E document = PgbsonDeduplicateFieldsHandleDocumentIter E document"

definition bson_deduplicate_fields :: "extern \<Rightarrow> bson_doc option \<Rightarrow> bson_doc result" where
  "bson_deduplicate_fields E document =
     (case document of None \<Rightarrow> Inl (Ereport ERRCODE_INTERNAL_ERROR)
      | Some d \<Rightarrow> Inr (PgbsonDeduplicateFields E d))"

declare PgbsonDeduplicateFieldsHandleDocumentIter.simps [simp del]

section \<open>The entries of the table\<close>

definition entry :: "pgbsonelement \<Rightarrow> string \<times> bson_value" where
  "entry e = (path e, bsonValue e)"

definition plain_path :: "pgbsonelement \<Rightarrow> bool" where
  "plain_path e \<longleftrightarrow> short (path e) \<and> c_string (path e)"

lemma entry_simps [simp]:
  "entry (BsonIterToPgbsonElement x) = x" "fst (entry e) = path e" "path (BsonIterToPgbsonElement x) = fst x"
  by (simp_all add: entry_def BsonIterToPgbsonElement_def)

lemma strncmp_min:
  assumes "c_string a" "c_string b" "strncmp a b (min (length a) (length b)) = 0" "length a = length b"
  shows "a = b"
  using assms cstr_c_string [of a] cstr_c_string [of b] by (simp add: strncmp_def)

lemma element_compare:
  assumes "plain_path a" "plain_path b"
  shows "PgbsonElementHashEntryCompareFunc a b = 0 \<longleftrightarrow> path a = path b"
proof -
  have "length_diff (length (path a)) (length (path b)) = int (length (path a)) - int (length (path b))"
    using assms by (simp add: plain_path_def short_def length_diff_small)
  then show ?thesis
    using assms strncmp_min [of "path a" "path b"]
    by (auto simp: PgbsonElementHashEntryCompareFunc_def Let_def plain_path_def strncmp_def)
qed

lemma map_of_update:
  assumes "distinct (map fst xs)" "i < length xs" "fst (xs ! i) = fst x"
  shows "map_of (xs[i := x]) = (map_of xs)(fst x \<mapsto> snd x)"
  using assms
proof (induction xs arbitrary: i)
  case (Cons y ys)
  show ?case
  proof (cases i)
    case (Suc j)
    then have "fst y \<noteq> fst x" using Cons.prems by (metis distinct.simps(2) length_Cons length_map list.map(2)
          nat_neq_iff not_less_eq nth_Cons_Suc nth_map nth_mem)
    with Suc Cons show ?thesis by (auto simp: fun_eq_iff)
  qed (use Cons.prems in \<open>auto simp: fun_eq_iff\<close>)
qed simp

definition add_key :: "string list \<Rightarrow> string \<Rightarrow> string list" where
  "add_key ks k = (if k \<in> set ks then ks else ks @ [k])"

lemma add_keys: "foldl add_key [] ks = rev (remdups (rev ks))"
  by (induction ks rule: rev_induct) (auto simp: add_key_def)

section \<open>Documents without duplicates\<close>

text \<open>No document inside has two fields of one name, and the arrays have the names of their indices.\<close>

definition index_names :: "uint32 \<Rightarrow> nat \<Rightarrow> string list" where
  "index_names start n = map (\<lambda>i. dec_string (unat (start + of_nat i))) [0..<n]"

fun tidy_value :: "bson_value \<Rightarrow> bool"
  and tidy_values :: "bson_doc \<Rightarrow> bool" where
  "tidy_value (BvDocument d) = (distinct (map fst d) \<and> tidy_values d)"
| "tidy_value (BvArray d) = (map fst d = index_names 0 (length d) \<and> tidy_values d)"
| "tidy_value _ = True"
| "tidy_values [] = True"
| "tidy_values ((_, v) # d) = (tidy_value v \<and> tidy_values d)"

lemma tidy_values_iff: "tidy_values d \<longleftrightarrow> (\<forall>(k, v) \<in> set d. tidy_value v)"
  by (induction d) auto

lemma wf_doc_iff: "wf_doc d \<longleftrightarrow> (\<forall>(k, v) \<in> set d. short k \<and> c_string k \<and> v \<noteq> BvEOD \<and> wf_value v)"
  by (induction d) auto

lemma index_names_Suc: "index_names i (Suc n) = dec_string (unat i) # index_names (i + 1) n"
  by (simp add: index_names_def upt_conv_Cons map_Suc_upt [symmetric] del: upt_Suc map_Suc_upt) (simp add: ac_simps)

lemma dec_string_bytes: "c \<in> set (dec_string n) \<Longrightarrow> 48 \<le> byte_val c"
proof (induction n rule: dec_string.induct)
  case (1 n)
  have "byte_val (char_of (48 + n mod 10)) = int (48 + n mod 10)" by (simp add: byte_val_def)
  with 1 show ?case by (subst (asm) (2) dec_string.simps) (auto split: if_splits)
qed

lemma dec_string_length: "length (dec_string n) \<le> Suc (n div 10)"
proof (induction n rule: dec_string.induct)
  case (1 n)
  then show ?case by (subst dec_string.simps) auto
qed

lemma index_name_wf: "short (dec_string (unat (i :: uint32))) \<and> c_string (dec_string (unat i))"
proof
  have "unat i < 2 ^ 32" using unsigned_less [of i, where 'a = nat] by simp
  then have "Suc (unat i div 10) < 2 ^ 31" by simp
  then show "short (dec_string (unat i))"
    unfolding short_def using dec_string_length [of "unat i"] by (rule le_less_trans [rotated])
  show "c_string (dec_string (unat i))" using dec_string_bytes [of _ "unat i"] by (force simp: c_string_def)
qed

context external_code
begin

lemma enter_element:
  assumes "distinct (map path es)" "\<forall>x \<in> set es. plain_path x" "plain_path e"
  shows "map path (enter_element E es e) = add_key (map path es) (path e)
    \<and> map_of (map entry (enter_element E es e)) = (map_of (map entry es))(path e \<mapsto> bsonValue e)"
proof (cases "hash_search_element E (PgbsonElementHashEntryHashFunc E) PgbsonElementHashEntryCompareFunc es e")
  case None
  have absent: "path x \<noteq> path e" if "x \<in> set es" for x
    using hash_element_absent [OF None that] element_compare [of x e] that assms
    by (auto simp: PgbsonElementHashEntryHashFunc_def)
  then have "path e \<notin> path ` set es" by fastforce
  moreover from this have "map_of (map entry es) (path e) = None" by (simp add: map_of_eq_None_iff image_image)
  ultimately show ?thesis
    using None by (auto simp: enter_element_def add_key_def map_add_def fun_eq_iff entry_def split: option.splits)
next
  case (Some i)
  have i: "i < length es" "path (es ! i) = path e"
    using hash_element_found [OF Some] element_compare [of "es ! i" e] assms by auto
  then have "map path (es[i := e]) = map path es" by (metis list_update_id map_update nth_map)
  moreover have "map_of ((map entry es)[i := entry e]) = (map_of (map entry es))(path e \<mapsto> bsonValue e)"
    using map_of_update [of "map entry es" i "entry e"] i assms(1) by (simp add: comp_def) (simp add: entry_def)
  moreover have "path e \<in> set (map path es)" using i by (metis length_map nth_map nth_mem)
  ultimately show ?thesis using Some by (simp add: enter_element_def add_key_def map_update)
qed

lemma collect_entries:
  assumes "distinct (map path es)" "\<forall>x \<in> set es. plain_path x" "wf_doc d"
  shows "map path (collect_entries E es d) = foldl add_key (map path es) (map fst d)
    \<and> map_of (map entry (collect_entries E es d)) = map_of (map entry es) ++ map_of (rev d)"
  using assms
proof (induction d arbitrary: es)
  case (Cons x d)
  obtain k v where x: "x = (k, v)" by (cases x)
  let ?e = "BsonIterToPgbsonElement x"
  have e: "plain_path ?e" using Cons.prems(3) x by (simp add: plain_path_def)
  note step = enter_element [OF Cons.prems(1,2) e]
  have "distinct (map path (enter_element E es ?e))" using step Cons.prems(1) by (simp add: add_key_def)
  moreover have "\<forall>y \<in> set (enter_element E es ?e). plain_path y"
    using set_enter_element [of E es ?e] Cons.prems(2) e by blast
  ultimately show ?case
    using Cons.IH [of "enter_element E es ?e"] Cons.prems(3) step x
    by (simp add: map_add_assoc [symmetric]) (simp add: BsonIterToPgbsonElement_def map_add_def fun_eq_iff)
qed simp

lemma deduplicate_keys:
  "wf_doc d \<Longrightarrow> map fst (PgbsonDeduplicateFields E d) = rev (remdups (rev (map fst d)))"
  using collect_entries [of "[]" d]
  by (simp add: PgbsonDeduplicateFields_def PgbsonDeduplicateFieldsHandleDocumentIter.simps comp_def add_keys)

lemma deduplicate_lookup:
  assumes "wf_doc d"
  shows "map_of (PgbsonDeduplicateFields E d) k = map_option (deduplicate_value E) (map_of (rev d) k)"
proof -
  have "PgbsonDeduplicateFields E d = map (\<lambda>(k, v). (k, deduplicate_value E v)) (map entry (collect_entries E [] d))"
    by (simp add: PgbsonDeduplicateFields_def PgbsonDeduplicateFieldsHandleDocumentIter.simps entry_def)
  then show ?thesis using collect_entries [of "[]" d] assms by (simp only: map_of_map) simp
qed

end

lemmas deduplicate_induct =
  PgbsonDeduplicateFieldsHandleDocumentIter_deduplicate_value_PgbsonDeduplicateFieldsRecurseArrayElements.induct

lemma collected: "e \<in> set (collect_entries E [] d) \<Longrightarrow> (path e, bsonValue e) \<in> set d"
  using set_collect_entries [of E "[]" d] by (auto simp: BsonIterToPgbsonElement_def)

lemma wf_deduplicate:
  "external_code E \<Longrightarrow> wf_doc d \<Longrightarrow> wf_doc (PgbsonDeduplicateFieldsHandleDocumentIter E d)"
  "external_code E \<Longrightarrow> wf_value v \<Longrightarrow>
     wf_value (deduplicate_value E v) \<and> (v \<noteq> BvEOD \<longrightarrow> deduplicate_value E v \<noteq> BvEOD)"
  "external_code E \<Longrightarrow> wf_doc a \<Longrightarrow> wf_doc (PgbsonDeduplicateFieldsRecurseArrayElements E i a)"
proof (induction E d and E v and E i a rule: deduplicate_induct)
  case (1 E d)
  have "wf_value (bsonValue e) \<and> bsonValue e \<noteq> BvEOD \<and> short (path e) \<and> c_string (path e)"
    if "e \<in> set (collect_entries E [] d)" for e
    using collected [OF that] 1(3) unfolding wf_doc_iff by blast
  then show ?case
    using 1(1,2) unfolding PgbsonDeduplicateFieldsHandleDocumentIter.simps wf_doc_iff by auto
qed (simp_all add: external_code.index_name_law index_name_wf)

lemma tidy_deduplicate:
  "external_code E \<Longrightarrow> wf_doc d \<Longrightarrow> tidy_value (BvDocument (PgbsonDeduplicateFieldsHandleDocumentIter E d))"
  "external_code E \<Longrightarrow> wf_value v \<Longrightarrow> tidy_value (deduplicate_value E v)"
  "external_code E \<Longrightarrow> wf_doc a \<Longrightarrow> tidy_values (PgbsonDeduplicateFieldsRecurseArrayElements E i a)
    \<and> map fst (PgbsonDeduplicateFieldsRecurseArrayElements E i a) = index_names i (length a)
    \<and> length (PgbsonDeduplicateFieldsRecurseArrayElements E i a) = length a"
proof (induction E d and E v and E i a rule: deduplicate_induct)
  case (1 E d)
  have "wf_value (bsonValue e)" if "e \<in> set (collect_entries E [] d)" for e
    using collected [OF that] 1(3) unfolding wf_doc_iff by blast
  then have "tidy_values (PgbsonDeduplicateFieldsHandleDocumentIter E d)"
    using 1(1,2) unfolding PgbsonDeduplicateFieldsHandleDocumentIter.simps tidy_values_iff by auto
  moreover have "distinct (map fst (PgbsonDeduplicateFieldsHandleDocumentIter E d))"
    using external_code.deduplicate_keys [OF 1(2,3)] by (simp add: PgbsonDeduplicateFields_def)
  ultimately show ?case by simp
qed (simp_all add: external_code.index_name_law index_names_Suc, simp add: index_names_def)

lemma collect_distinct:
  assumes "external_code E" "distinct (map path es @ map fst d)" "\<forall>x \<in> set es. plain_path x" "wf_doc d"
  shows "collect_entries E es d = es @ map BsonIterToPgbsonElement d"
  using assms(2-)
proof (induction d arbitrary: es)
  case (Cons x d)
  obtain k v where x: "x = (k, v)" by (cases x)
  let ?e = "BsonIterToPgbsonElement x"
  have e: "plain_path ?e" using Cons.prems(3) x by (simp add: plain_path_def)
  have "map path (enter_element E es ?e) = map path es @ [fst x]"
    using external_code.enter_element [OF assms(1) _ Cons.prems(2) e] Cons.prems(1) by (simp add: add_key_def)
  then have "length (enter_element E es ?e) = Suc (length es)" by (metis length_append_singleton length_map)
  then have "enter_element E es ?e = es @ [?e]" by (auto simp: enter_element_def split: option.splits)
  then show ?case using Cons.IH [of "es @ [?e]"] Cons.prems e x by simp
qed simp

lemma deduplicate_tidy:
  "external_code E \<Longrightarrow> wf_doc d \<Longrightarrow> tidy_value (BvDocument d) \<Longrightarrow> PgbsonDeduplicateFieldsHandleDocumentIter E d = d"
  "external_code E \<Longrightarrow> wf_value v \<Longrightarrow> tidy_value v \<Longrightarrow> deduplicate_value E v = v"
  "external_code E \<Longrightarrow> wf_doc a \<Longrightarrow> tidy_values a \<Longrightarrow> map fst a = index_names i (length a) \<Longrightarrow>
     PgbsonDeduplicateFieldsRecurseArrayElements E i a = a"
proof (induction E d and E v and E i a rule: deduplicate_induct)
  case (1 E d)
  have entries: "collect_entries E [] d = map BsonIterToPgbsonElement d"
    using collect_distinct [OF 1(2), of "[]" d] 1(3,4) by simp
  have "deduplicate_value E v = v" if "(k, v) \<in> set d" for k v
  proof -
    have "BsonIterToPgbsonElement (k, v) \<in> set (collect_entries E [] d)" using that entries by auto
    moreover have "wf_value v" "tidy_value v" using that 1(3,4) by (auto simp: wf_doc_iff tidy_values_iff)
    ultimately show ?thesis using 1(1) [of "BsonIterToPgbsonElement (k, v)"] 1(2)
      by (simp add: BsonIterToPgbsonElement_def)
  qed
  then show ?case
    unfolding PgbsonDeduplicateFieldsHandleDocumentIter.simps entries
    by (auto simp: BsonIterToPgbsonElement_def intro!: map_idI)
qed (simp_all add: external_code.index_name_law index_names_Suc)

end
