(* ===== verification/Bson_Text.thy ===== *)
theory Bson_Text
  imports String_View Pgbson_Element
begin

text \<open>
  The text forms of documents and of sequences of documents: the hexadecimal functions of
  \<^verbatim>\<open>pg_documentdb_core/src/io/pgbson.c\<close> with the SQL functions of \<^verbatim>\<open>io/bson_io.c\<close> that call them, and
  \<^verbatim>\<open>pg_documentdb_core/src/io/pgbsonsequence.c\<close>.  Documents and sequences are their bytes here.  The length of the
  text is a \<open>uint32_t\<close>, so subtracting the length of the prefix wraps.  Writing canonical JSON, reading a sequence
  back into documents and the receive functions are not modelled.
\<close>

section \<open>Hexadecimal text\<close>

definition BsonHexPrefix :: string where "BsonHexPrefix = ''BSONHEX''"
definition BsonSeqHexPrefix :: string where "BsonSeqHexPrefix = ''SEQHEX''"

definition IsBsonHexadecimalString :: "string \<Rightarrow> bool" where
  "IsBsonHexadecimalString s \<longleftrightarrow> cstr s \<noteq> [] \<and> hd s = hd BsonHexPrefix"

definition IsBsonSequenceHexadecimalString :: "string \<Rightarrow> bool" where
  "IsBsonSequenceHexadecimalString s \<longleftrightarrow> cstr s \<noteq> [] \<and> hd s = hd BsonSeqHexPrefix"

text \<open>The readers of both types have the same body, with their own prefix.\<close>

definition init_from_hex :: "extern \<Rightarrow> string \<Rightarrow> string \<Rightarrow> string result" where
  "init_from_hex E prefix hexString =
     (let hexStringLength = (int (strlen hexString) - int (length prefix)) mod 2 ^ 32
      in if hexStringLength = 0 \<or> hexStringLength mod 2 \<noteq> 0 then Inl (Ereport ERRCODE_DOCUMENTDB_BADVALUE)
         else if strncmp hexString prefix (length prefix) \<noteq> 0 then Inl (Ereport ERRCODE_DOCUMENTDB_BADVALUE)
         else hex_decode E (take (nat hexStringLength) (drop (length prefix) hexString)))"

definition PgbsonInitFromHexadecimalString :: "extern \<Rightarrow> string \<Rightarrow> string result" where
  "PgbsonInitFromHexadecimalString E s = init_from_hex E BsonHexPrefix s"

definition PgbsonSequenceInitFromHexadecimalString :: "extern \<Rightarrow> string \<Rightarrow> string result" where
  "PgbsonSequenceInitFromHexadecimalString E s = init_from_hex E BsonSeqHexPrefix s"

definition PgbsonToHexadecimalString :: "extern \<Rightarrow> string \<Rightarrow> string" where
  "PgbsonToHexadecimalString E bytes = BsonHexPrefix @ hex_encode E bytes"

definition PgbsonSequenceToHexadecimalString :: "extern \<Rightarrow> string \<Rightarrow> string" where
  "PgbsonSequenceToHexadecimalString E bytes = BsonSeqHexPrefix @ hex_encode E bytes"

section \<open>JSON text\<close>

definition PgbsonInitFromJson :: "extern \<Rightarrow> string \<Rightarrow> bson_doc result" where
  "PgbsonInitFromJson E jsonString =
     (case bson_init_from_json E jsonString of
        None \<Rightarrow> Inl (Ereport ERRCODE_DOCUMENTDB_BADVALUE) | Some d \<Rightarrow> Inr d)"

fun write_sequence :: "extern \<Rightarrow> bson_doc \<Rightarrow> string result" where
  "write_sequence E [] = Inr []"
| "write_sequence E ((_, currentValue) # es) =
     (case currentValue of
        BvDocument d \<Rightarrow> ebind (write_sequence E es) (\<lambda>buf. Inr (bson_doc_data E d @ buf))
      | _ \<Rightarrow> ebind (BsonTypeName (value_type currentValue)) (\<lambda>_. Inl (Ereport ERRCODE_DOCUMENTDB_BADVALUE)))"

definition PgbsonSequenceInitFromJson :: "extern \<Rightarrow> bool \<Rightarrow> string \<Rightarrow> string result" where
  "PgbsonSequenceInitFromJson E EnableCollation jsonString =
     ebind (PgbsonInitFromJson E jsonString) (\<lambda>bson.
     ebind (PgbsonToSinglePgbsonElement EnableCollation bson) (\<lambda>element.
       case bsonValue element of
         BvArray a \<Rightarrow> write_sequence E a
       | v \<Rightarrow> ebind (BsonTypeName (value_type v)) (\<lambda>_. Inl (Ereport ERRCODE_DOCUMENTDB_BADVALUE))))"

section \<open>The SQL functions\<close>

definition bson_in :: "extern \<Rightarrow> string option \<Rightarrow> string option result" where
  "bson_in E arg =
     (case arg of
        None \<Rightarrow> Inr None
      | Some s \<Rightarrow>
          if IsBsonHexadecimalString s then ebind (PgbsonInitFromHexadecimalString E s) (\<lambda>b. Inr (Some b))
          else ebind (PgbsonInitFromJson E s) (\<lambda>d. Inr (Some (bson_doc_data E d))))"

definition bson_to_bson_hex :: "extern \<Rightarrow> string \<Rightarrow> string" where
  "bson_to_bson_hex E bson = PgbsonToHexadecimalString E bson"

definition bson_hex_to_bson :: "extern \<Rightarrow> string \<Rightarrow> string result" where
  "bson_hex_to_bson E hexString = PgbsonInitFromHexadecimalString E hexString"

definition bsonsequence_out :: "extern \<Rightarrow> string \<Rightarrow> string" where
  "bsonsequence_out E arg = PgbsonSequenceToHexadecimalString E arg"

definition bsonsequence_in :: "extern \<Rightarrow> bool \<Rightarrow> string option \<Rightarrow> string option result" where
  "bsonsequence_in E EnableCollation arg =
     (case arg of
        None \<Rightarrow> Inr None
      | Some s \<Rightarrow>
          if IsBsonSequenceHexadecimalString s
          then ebind (PgbsonSequenceInitFromHexadecimalString E s) (\<lambda>b. Inr (Some b))
          else ebind (PgbsonSequenceInitFromJson E EnableCollation s) (\<lambda>b. Inr (Some b)))"

definition bson_to_bsonsequence :: "extern \<Rightarrow> bson_doc \<Rightarrow> string" where
  "bson_to_bsonsequence E bson = bson_doc_data E bson"

section \<open>Reading back\<close>

context external_code
begin

lemma read_hex:
  assumes "c_string pre" "2 * length b + length pre < 2 ^ 32"
  shows "init_from_hex E pre (pre @ hex_encode E b) =
    (if b = [] then Inl (Ereport ERRCODE_DOCUMENTDB_BADVALUE) else Inr b)"
proof -
  have hex: "length (hex_encode E b) = 2 * length b" "c_string (hex_encode E b)" using hex_encode_law by blast+
  then have "c_string (pre @ hex_encode E b)" using assms(1) by (auto simp: c_string_def)
  then have "strlen (pre @ hex_encode E b) = length pre + 2 * length b"
    using hex(1) by (simp add: strlen_def cstr_c_string)
  then have "(int (strlen (pre @ hex_encode E b)) - int (length pre)) mod 2 ^ 32 = int (2 * length b)"
    using assms(2) by simp
  moreover have "strncmp (pre @ hex_encode E b) pre (length pre) = 0" by (simp add: strncmp_def)
  ultimately show ?thesis using hex(1) hex_decode_law [of b] by (simp add: init_from_hex_def Let_def)
qed

end

end
