(* ===== verification/Core_Properties.thy ===== *)
theory Core_Properties
  imports String_View Bson_Order Bid_Reference Pgbson_Arith Bson_Hash Pcre_Regex Bson_Deduplicate
    Bson_Text
begin

text \<open>
  The properties of the core library (\<^verbatim>\<open>pg_documentdb_core\<close>): the order of BSON values and
  documents, numeric conversions, arithmetic, the reader of single-element documents, the comparison of
  queries, hashes and hash sets, the removal of duplicate fields, text forms, string views, type names
  and the options of regular expressions.  Every property with
  a hypothesis is followed by its instance at a concrete input; the external code is then the
  reference implementation \<open>ref_extern\<close>.
\<close>

section \<open>The order of values and documents\<close>

text \<open>
  C1. On well-formed values \<open>CompareBsonValueAndType\<close> never raises, and the sign of its result
  is the lexicographic comparison of the keys of the two values: the type's sort rank first,
  then numbers by value, strings by their bytes, binaries by length, subtype and bytes, and
  documents field by field (type rank, name, value).
\<close>

theorem compare_refines_key_order:
  assumes "external_code E" "wf_value l" "wf_value r"
  shows "\<exists>c valid. CompareBsonValueAndType E l r = Inr (c, valid)
     \<and> sgn c = int_cmp (full_key E l) (full_key E r)"
  using external_code.compare_type_key [OF assms] .

theorem compare_refines_key_order_witness:
  "wf_value (BvInt32 1) \<and> wf_value (BvDocument [(''a'', BvNull)])
   \<and> (\<exists>c valid. CompareBsonValueAndType ref_extern (BvInt32 1) (BvDocument [(''a'', BvNull)])
          = Inr (c, valid)
        \<and> sgn c = int_cmp (full_key ref_extern (BvInt32 1))
                          (full_key ref_extern (BvDocument [(''a'', BvNull)])))"
  using compare_refines_key_order [OF ref_laws, of "BvInt32 1" "BvDocument [(''a'', BvNull)]"]
  by (simp add: short_def c_string_def byte_val_def)

text \<open>
  C4. \<open>CompareBsonValueAndType\<close> is a total preorder on well-formed values: it returns a result for
  every pair, swapping the arguments flips the sign, and it is transitive.
\<close>

theorem compare_total_preorder:
  assumes "external_code E" "wf_value a" "wf_value b" "wf_value c"
  shows "\<exists>x u. CompareBsonValueAndType E a b = Inr (x, u)
    \<and> (\<exists>y v. CompareBsonValueAndType E b a = Inr (y, v) \<and> sgn y = - sgn x)
    \<and> (\<exists>y v z w. CompareBsonValueAndType E b c = Inr (y, v) \<and> CompareBsonValueAndType E a c = Inr (z, w)
         \<and> (x \<le> 0 \<and> y \<le> 0 \<longrightarrow> z \<le> 0))"
  using external_code.compare_order_of [OF assms(1) assms(2,3)] external_code.compare_order_of [OF assms(1) assms(3,2)]
    external_code.compare_order_of [OF assms(1) assms(3,4)] external_code.compare_order_of [OF assms(1) assms(2,4)]
    external_code.order_flip [OF assms(1) assms(2,3)] external_code.order_trans [OF assms]
  by blast

theorem compare_total_preorder_witness:
  "\<exists>x u. CompareBsonValueAndType ref_extern BvNull (BvInt32 1) = Inr (x, u)
    \<and> (\<exists>y v. CompareBsonValueAndType ref_extern (BvInt32 1) BvNull = Inr (y, v) \<and> sgn y = - sgn x)
    \<and> (\<exists>y v z w. CompareBsonValueAndType ref_extern (BvInt32 1) (BvUtf8 ''a'') = Inr (y, v)
         \<and> CompareBsonValueAndType ref_extern BvNull (BvUtf8 ''a'') = Inr (z, w)
         \<and> (x \<le> 0 \<and> y \<le> 0 \<longrightarrow> z \<le> 0))"
  by (rule compare_total_preorder [OF ref_laws]) (simp_all add: short_def)

text \<open>
  C17. \<open>CompareNumbers\<close> compares the exact mathematical values: integers, booleans and doubles with
  each other in any combination, decimals with each other and with integers.  NaN is below every
  number, and a comparison is flagged invalid iff exactly one side is NaN.  (A double that meets a
  decimal is first converted to a decimal, which may round; that case is excluded.)
\<close>

theorem compare_numbers_exact:
  assumes "external_code E" "is_num l" "is_num r"
    and "value_type l = BSON_TYPE_DECIMAL128 \<Longrightarrow> value_type r \<noteq> BSON_TYPE_DOUBLE"
    and "value_type r = BSON_TYPE_DECIMAL128 \<Longrightarrow> value_type l \<noteq> BSON_TYPE_DOUBLE"
  shows "CompareNumbers E l r = Inr (int_cmp (xnum_key (exact_x l)) (xnum_key (exact_x r)),
     (exact_x l = XNaN) = (exact_x r = XNaN))"
  using external_code.exact_keys [OF assms] external_code.CompareNumbers_key [OF assms(1-3)] by simp

theorem compare_numbers_exact_witness:
  "CompareNumbers ref_extern (BvInt64 9007199254740993) (BvDouble (dbl_of_int 9007199254740992))
     = Inr (int_cmp (xnum_key (exact_x (BvInt64 9007199254740993)))
              (xnum_key (exact_x (BvDouble (dbl_of_int 9007199254740992)))),
            (exact_x (BvInt64 9007199254740993) = XNaN)
              = (exact_x (BvDouble (dbl_of_int 9007199254740992)) = XNaN))"
  by (rule compare_numbers_exact [OF ref_laws]) (simp_all add: is_num_def)

text \<open>
  \<open>PgbsonEquals\<close>, which compares the stored bytes of two documents, is equality of the
  documents (names, types and values in the same order), and equal documents compare as equal with
  \<open>ComparePgbson\<close>.
\<close>

theorem pgbson_equals_documents:
  assumes "external_code E" "wf_doc l" "wf_doc r"
  shows "(PgbsonEquals E (Some l) (Some r) \<longleftrightarrow> l = r)
    \<and> (PgbsonEquals E (Some l) (Some r) \<longrightarrow> ComparePgbson E l r = Inr 0)"
  using external_code.PgbsonEquals_same [OF assms] external_code.compare_doc_same [OF assms(1,2)] by auto

theorem pgbson_equals_documents_witness:
  "\<not> PgbsonEquals ref_extern (Some [(''a'', BvInt32 1)]) (Some [(''a'', BvInt64 1)])"
  using pgbson_equals_documents [OF ref_laws, of "[(''a'', BvInt32 1)]" "[(''a'', BvInt64 1)]"]
  by (simp add: c_string_def short_def byte_val_def)

section \<open>Conversions\<close>



text \<open>
  C22. The range test guards the conversion: \<open>IsDecimal128InInt64Range\<close> never raises on a
  decimal, and it holds exactly if \<open>BsonValueAsInt64\<close> returns a value instead of raising.
\<close>

theorem decimal_range_guards_conversion:
  assumes "external_code E"
  shows "\<exists>ok. IsDecimal128InInt64Range E (BvDecimal128 d) = Inr ok
    \<and> (ok \<longleftrightarrow> (\<exists>i. BsonValueAsInt64 E (BvDecimal128 d) = Inr i))"
  using external_code.decimal_in_int64_range [OF assms, of d]
    external_code.decimal_as_int64 [OF assms, of d ConversionRoundingMode_Floor]
  by (cases "GetBsonDecimal128AsInt64 E (BvDecimal128 d) ConversionRoundingMode_Floor")
     (auto simp: BsonValueAsInt64_def BsonValueAsInt64WithRoundingMode_def or_conversion_failure_def
        rounding_of_def split: option.splits)

theorem decimal_range_guards_conversion_witness:
  "\<exists>ok. IsDecimal128InInt64Range ref_extern (BvDecimal128 (Dec128 (bid_exp_bits 0) 1)) = Inr ok
    \<and> (ok \<longleftrightarrow> (\<exists>i. BsonValueAsInt64 ref_extern (BvDecimal128 (Dec128 (bid_exp_bits 0) 1)) = Inr i))"
  by (rule decimal_range_guards_conversion [OF ref_laws])

section \<open>Arithmetic\<close>

text \<open>
  C18. \<open>AddNumberToBsonValue\<close> on integers: the sum is exact whenever it fits in 64 bits, and stays
  a 32-bit integer only if no operand is 64 bits wide and the sum fits; a sum that does not fit
  becomes the double sum and the overflow flag is set.
\<close>

theorem add_integers_exact:
  assumes "is_integral s" "is_int a"
  shows "\<exists>v ov. AddNumberToBsonValue E s a = Inr (True, v, ov)
    \<and> (int64_range (int_val s + int_val a) \<longrightarrow> is_int v \<and> int_val v = int_val s + int_val a)
    \<and> (value_type v = BSON_TYPE_INT32 \<longleftrightarrow> value_type a \<noteq> BSON_TYPE_INT64 \<and> value_type s \<noteq> BSON_TYPE_INT64
          \<and> int32_range (int_val s + int_val a))
    \<and> (\<not> int64_range (int_val s + int_val a) \<longrightarrow>
          v = BvDouble (dbl_add (dbl_of_int (int_val s)) (dbl_of_int (int_val a))) \<and> ov = Some True)"
proof -
  obtain wide where wide: "wide = (value_type a = BSON_TYPE_INT64)" "wide \<or> int32_range (int_val a)"
    and add: "AddNumberToBsonValue E s a = Inr (True, integer_sum s (int_val a) wide)"
    using integer_operand [OF assms(2)] assms(1) by metis
  obtain v ov where sum: "(v, ov) = integer_sum s (int_val a) wide" by (metis surj_pair)
  show ?thesis
    using integer_sum_exact [OF assms(1) _ sum] wide unfolding add sum [symmetric] by auto
qed

theorem add_integers_exact_witness:
  "\<exists>v ov. AddNumberToBsonValue ref_extern (BvInt32 2147483647) (BvInt32 1) = Inr (True, v, ov)
    \<and> is_int v \<and> int_val v = 2147483648 \<and> value_type v \<noteq> BSON_TYPE_INT32"
  using add_integers_exact [of "BvInt32 2147483647" "BvInt32 1" ref_extern]
  by (simp add: is_int_def int64_range_def int32_range_def)

text \<open>
  C20. \<open>SubtractNumberFromBsonValue\<close> on integers is the exact difference whenever it fits, provided
  the subtrahend is not the least integer of its width.  The code adds the negated subtrahend, and
  the least integer is its own negation: \<open>0 - INT64_MIN\<close> gives \<open>INT64_MIN\<close>, without an overflow.
\<close>

theorem subtract_integers:
  assumes "is_integral s" "is_int a" "a \<noteq> BvInt64 (of_int INT64_MIN)" "a \<noteq> BvInt32 (of_int INT32_MIN)"
  shows "(\<exists>v ov. SubtractNumberFromBsonValue E s a = Inr (True, v, ov)
    \<and> (int64_range (int_val s - int_val a) \<longrightarrow> is_int v \<and> int_val v = int_val s - int_val a)
    \<and> (\<not> int64_range (int_val s - int_val a) \<longrightarrow>
          v = BvDouble (dbl_add (dbl_of_int (int_val s)) (dbl_of_int (- int_val a))) \<and> ov = Some True))
    \<and> SubtractNumberFromBsonValue E (BvInt64 0) (BvInt64 (of_int INT64_MIN))
        = Inr (True, BvInt64 (of_int INT64_MIN), Some False)"
proof -
  obtain wide where wide: "wide \<or> int32_range (- int_val a)"
    and sub: "SubtractNumberFromBsonValue E s a = Inr (True, integer_sum s (- int_val a) wide)"
    using integer_subtrahend [OF assms(2-4) assms(1)] by metis
  obtain v ov where sum: "(v, ov) = integer_sum s (- int_val a) wide" by (metis surj_pair)
  have "SubtractNumberFromBsonValue E (BvInt64 0) (BvInt64 (of_int INT64_MIN))
        = Inr (True, BvInt64 (of_int INT64_MIN), Some False)"
    by (simp add: SubtractNumber_integral integer_sum_def int64_range_def)
  then show ?thesis
    using integer_sum_exact [OF assms(1) _ sum] wide unfolding sub sum [symmetric] by auto
qed

theorem subtract_integers_witness:
  "\<exists>v ov. SubtractNumberFromBsonValue ref_extern (BvInt64 5) (BvInt32 7) = Inr (True, v, ov)
    \<and> is_int v \<and> int_val v = - 2"
  using subtract_integers [of "BvInt64 5" "BvInt32 7" ref_extern]
  by (simp add: is_int_def int64_range_def)

text \<open>
  C19. \<open>MultiplyWithFactorAndUpdate\<close> on integers: 32-bit operands give the exact product, widened
  to 64 bits if needed.  Otherwise the product is exact if it fits, and if it does not the result
  is the double product (or no update, if the caller forbids the conversion).  The overflow test
  divides the wrapped product by the factor and misses two cases: a product that is a multiple of
  \<open>2 ^ 64\<close> becomes 0, and \<open>INT64_MIN * -1\<close> traps in the division.
\<close>

theorem multiply_integers:
  assumes "is_int s" "is_int f"
  shows "MultiplyWithFactorAndUpdate E s f convertInt64OverflowToDouble =
    (let n = int_val s * int_val f
     in if value_type s = BSON_TYPE_INT32 \<and> value_type f = BSON_TYPE_INT32
        then Inr (True, if int32_range n then BvInt32 (of_int n) else BvInt64 (of_int n))
        else if n mod 2 ^ 64 = 0 then Inr (True, BvInt64 0)
        else if int_val s = INT64_MIN \<and> int_val f = -1 then Inl TrapDivide
        else if int64_range n then Inr (True, BvInt64 (of_int n))
        else if convertInt64OverflowToDouble
        then Inr (True, BvDouble (dbl_mul (dbl_of_int (int_val s)) (dbl_of_int (int_val f))))
        else Inr (False, s))"
  using MultiplyWithFactor_integers [OF assms] by (simp add: integer_product_def narrow_def Let_def)

theorem multiply_integers_witness:
  "MultiplyWithFactorAndUpdate ref_extern (BvInt64 4294967296) (BvInt64 4294967296) True = Inr (True, BvInt64 0)
    \<and> MultiplyWithFactorAndUpdate ref_extern (BvInt64 (of_int INT64_MIN)) (BvInt64 (- 1)) True = Inl TrapDivide"
  using multiply_integers [of "BvInt64 4294967296" "BvInt64 4294967296" ref_extern True]
    multiply_integers [of "BvInt64 (of_int INT64_MIN)" "BvInt64 (- 1)" ref_extern True]
  by (simp add: is_int_def Let_def)

section \<open>Reading a single element\<close>

text \<open>
  C15. \<open>FillPgbsonElementUnsafe\<close> inverts the encoder: from the bytes of a well-formed document
  with one element it reads back the name and the value of that element, for every type but three.
\<close>

theorem fill_element_roundtrip:
  assumes "wf_doc [(k, v)]" "length (enc_doc [(k, v)]) < 2 ^ 31"
    and "value_type v \<notin> {BSON_TYPE_TIMESTAMP, BSON_TYPE_DBPOINTER, BSON_TYPE_CODEWSCOPE}"
  shows "FillPgbsonElementUnsafe (enc_doc [(k, v)]) = Inr (Some (k, raw_of v))"
proof -
  have "read_value v = Some (raw_of v)" using assms(3) by (cases v) simp_all
  then show ?thesis using FillPgbsonElementUnsafe_reads [OF assms(1,2)] by simp
qed

theorem fill_element_roundtrip_witness:
  "FillPgbsonElementUnsafe (enc_doc [(''a'', BvUtf8 ''xy'')]) = Inr (Some (''a'', RvUtf8 ''xy''))"
  using fill_element_roundtrip [of "''a''" "BvUtf8 ''xy''"]
  by (simp add: c_string_def short_def byte_val_def enc_string_def)

text \<open>
  C36. The three other types.  The two words of a timestamp are swapped, the object id of a
  DBPointer is read from the bytes of the collection name, and code with scope is refused.
\<close>

theorem fill_element_misread:
  assumes "wf_doc [(k, v)]" "length (enc_doc [(k, v)]) < 2 ^ 31"
  shows "(\<forall>t i. v = BvTimestamp t i \<longrightarrow> FillPgbsonElementUnsafe (enc_doc [(k, v)]) = Inr (Some (k, RvTimestamp i t)))
    \<and> (\<forall>s oid. v = BvDBPointer s oid \<longrightarrow> FillPgbsonElementUnsafe (enc_doc [(k, v)])
          = Inr (Some (k, RvDBPointer s (take 12 (s @ NUL # oid)))))
    \<and> (\<forall>s d. v = BvCodeWScope s d \<longrightarrow> FillPgbsonElementUnsafe (enc_doc [(k, v)]) = Inr None)"
  using FillPgbsonElementUnsafe_reads [OF assms] by (auto simp del: enc_doc.simps)

theorem fill_element_misread_witness:
  "FillPgbsonElementUnsafe (enc_doc [(''a'', BvTimestamp 1 2)]) = Inr (Some (''a'', RvTimestamp 2 1))"
  using fill_element_misread [of "''a''" "BvTimestamp 1 2"]
  by (simp add: c_string_def byte_val_def short_def)

section \<open>Comparing queries\<close>

text \<open>
  C14. The operators of \<open>bsonquery\<close> on queries with one field: they hold only if the fields are the
  same and the operands comparable (of the same rank, or one of them MinKey or MaxKey), and then
  decide the order of values in which null is below MinKey.  No call raises.
\<close>

theorem bsonquery_operators:
  assumes "external_code E" "wf_doc [(p, v)]" "wf_doc [(q, w)]"
  defines "ok \<equiv> p = q \<and> query_comparable v w"
  shows "bsonquery_equal E ec [(p, v)] [(q, w)] = Inr (ok \<and> query_order E v w = 0)
    \<and> bsonquery_not_equal E ec [(p, v)] [(q, w)] = Inr (ok \<and> query_order E v w \<noteq> 0)
    \<and> bsonquery_lt E ec [(p, v)] [(q, w)] = Inr (ok \<and> query_order E v w < 0)
    \<and> bsonquery_lte E ec [(p, v)] [(q, w)] = Inr (ok \<and> query_order E v w \<le> 0)
    \<and> bsonquery_gt E ec [(p, v)] [(q, w)] = Inr (ok \<and> query_order E v w > 0)
    \<and> bsonquery_gte E ec [(p, v)] [(q, w)] = Inr (ok \<and> query_order E v w \<ge> 0)"
proof -
  obtain c where "ComparePgbsonQuery E ec [(p, v)] [(q, w)] = Inr (c, ok)" "ok \<longrightarrow> c = query_order E v w"
    using external_code.compare_single_queries [OF assms(1-3)] unfolding ok_def by blast
  then show ?thesis by (auto simp: bsonquery_defs)
qed

theorem bsonquery_operators_witness:
  "bsonquery_lt ref_extern True [(''a'', BvNull)] [(''a'', BvMinKey)] = Inr True
   \<and> bsonquery_not_equal ref_extern True [(''a'', BvNull)] [(''b'', BvNull)] = Inr False"
  using bsonquery_operators [OF ref_laws, of "''a''" BvNull "''a''" BvMinKey True]
    bsonquery_operators [OF ref_laws, of "''a''" BvNull "''b''" BvNull True]
  by (simp add: short_def c_string_def byte_val_def query_comparable_def key_bound_def query_order_def)

text \<open>
  C37. \<open>bsonquery_compare\<close> is not an order: null is below MinKey, MinKey below undefined, and undefined
  equal to null, whatever the field.
\<close>

theorem bsonquery_compare_cycle:
  assumes "external_code E" "short p" "c_string p"
  shows "bsonquery_compare E ec [(p, BvNull)] [(p, BvMinKey)] = Inr (- 1)
    \<and> bsonquery_compare E ec [(p, BvMinKey)] [(p, BvUndefined)] = Inr (- 1)
    \<and> bsonquery_compare E ec [(p, BvUndefined)] [(p, BvNull)] = Inr 0"
proof -
  note compare = external_code.compare_single_queries [OF assms(1)]
  show ?thesis
    using compare [of p BvNull p BvMinKey ec] compare [of p BvMinKey p BvUndefined ec]
      compare [of p BvUndefined p BvNull ec] assms(2,3)
    by (auto simp: bsonquery_defs query_comparable_def key_bound_def query_order_def rank_def order_of_def
        CompareBsonValueAndType_def CompareBsonSortOrderType_def CompareSortOrderType_def CompareBsonValue.simps)
qed

theorem bsonquery_compare_cycle_witness:
  "bsonquery_compare ref_extern False [(''a'', BvMinKey)] [(''a'', BvUndefined)] = Inr (- 1)"
  using bsonquery_compare_cycle [OF ref_laws, of "''a''" False] by (simp add: short_def c_string_def byte_val_def)

text \<open>
  C38. With collations enabled, two different queries under the same collation compare as 0 whatever
  their fields and operands are, while \<open>bsonquery_equal\<close> and \<open>bsonquery_not_equal\<close> are both false.
\<close>

theorem bsonquery_same_collation:
  assumes "external_code E" "wf_doc [(p, v), (''collation'', BvUtf8 c)]" "wf_doc [(q, w), (''collation'', BvUtf8 c)]"
    and "(p, v) \<noteq> (q, w)"
  defines "l \<equiv> [(p, v), (''collation'', BvUtf8 c)]" and "r \<equiv> [(q, w), (''collation'', BvUtf8 c)]"
  shows "bsonquery_compare E True l r = Inr 0
    \<and> bsonquery_equal E True l r = Inr False \<and> bsonquery_not_equal E True l r = Inr False"
proof -
  have "short c" using assms(2) by simp
  then have "CompareStrings None c c = 0" using CompareStrings_zero by blast
  moreover have "\<not> PgbsonEquals E (Some l) (Some r)"
    using external_code.PgbsonEquals_same [OF assms(1-3)] assms(4) unfolding l_def r_def by simp
  ultimately show ?thesis
    unfolding l_def r_def
    by (simp add: bsonquery_defs ComparePgbsonQuery_def compare_query_collations_def CheckCollationType_def
        strcmp_cstr)
qed

theorem bsonquery_same_collation_witness:
  "bsonquery_compare ref_extern True [(''a'', BvInt32 1), (''collation'', BvUtf8 ''en'')]
      [(''a'', BvInt32 2), (''collation'', BvUtf8 ''en'')] = Inr 0"
  using bsonquery_same_collation [OF ref_laws, of "''a''" "BvInt32 1" "''en''" "''a''" "BvInt32 2"]
  by (simp add: short_def c_string_def byte_val_def)

section \<open>Hashes\<close>





section \<open>Removing duplicate fields\<close>

text \<open>
  C12. \<open>bson_deduplicate_fields\<close> keeps one field of each name, in the order of their first occurrences and
  with the deduplicated value of the last one; it raises only for SQL's null.
\<close>

theorem deduplicate_fields:
  assumes "external_code E" "wf_doc d"
  shows "\<exists>d'. bson_deduplicate_fields E (Some d) = Inr d'
      \<and> map fst d' = rev (remdups (rev (map fst d)))
      \<and> map_of d' k = map_option (deduplicate_value E) (map_of (rev d) k)
      \<and> bson_deduplicate_fields E None = Inl (Ereport ERRCODE_INTERNAL_ERROR)"
  using external_code.deduplicate_keys [OF assms] external_code.deduplicate_lookup [OF assms, of k]
  by (simp add: bson_deduplicate_fields_def)

theorem deduplicate_fields_witness:
  "\<exists>d'. bson_deduplicate_fields ref_extern (Some [(''a'', BvInt32 1), (''b'', BvNull), (''a'', BvInt32 2)]) = Inr d'
      \<and> map fst d' = [''a'', ''b''] \<and> map_of d' ''a'' = Some (BvInt32 2)"
  using deduplicate_fields [OF ref_laws, of "[(''a'', BvInt32 1), (''b'', BvNull), (''a'', BvInt32 2)]" "''a''"]
  by (auto simp: short_def c_string_def byte_val_def)

text \<open>
  C13. After \<open>PgbsonDeduplicateFields\<close> no document at any depth has two fields of one name and every array
  has the names of its indices; the result is well-formed, and deduplicating it again changes nothing.
\<close>

theorem deduplicate_idempotent:
  assumes "external_code E" "wf_doc d"
  defines "d' \<equiv> PgbsonDeduplicateFields E d"
  shows "wf_doc d' \<and> tidy_value (BvDocument d') \<and> PgbsonDeduplicateFields E d' = d'"
  using wf_deduplicate(1) [OF assms(1,2)] tidy_deduplicate(1) [OF assms(1,2)] deduplicate_tidy(1) [OF assms(1), of d']
  unfolding d'_def PgbsonDeduplicateFields_def by blast

theorem deduplicate_idempotent_witness:
  "tidy_value (BvDocument (PgbsonDeduplicateFields ref_extern [(''a'', BvDocument [(''b'', BvNull), (''b'', BvNull)])]))"
  using deduplicate_idempotent [OF ref_laws, of "[(''a'', BvDocument [(''b'', BvNull), (''b'', BvNull)])]"]
  by (simp add: short_def c_string_def byte_val_def)

section \<open>Text forms\<close>

text \<open>
  C16. The hexadecimal text of a document or of a sequence of documents reads back as the same bytes, except
  that the text of an empty sequence, which has no digit, is refused.
\<close>

theorem text_roundtrip:
  assumes "external_code E" "2 * length b + 7 < 2 ^ 32"
  shows "bsonsequence_in E ec (Some (bsonsequence_out E b)) =
      (if b = [] then Inl (Ereport ERRCODE_DOCUMENTDB_BADVALUE) else Inr (Some b))
    \<and> (b \<noteq> [] \<longrightarrow> bson_in E (Some (bson_to_bson_hex E b)) = Inr (Some b)
          \<and> bson_hex_to_bson E (bson_to_bson_hex E b) = Inr b)"
proof -
  note read = external_code.read_hex [OF assms(1)]
  have "c_string BsonHexPrefix" "c_string BsonSeqHexPrefix"
    by (simp_all add: BsonHexPrefix_def BsonSeqHexPrefix_def c_string_def byte_val_def)
  then have "init_from_hex E BsonHexPrefix (BsonHexPrefix @ hex_encode E b) =
      (if b = [] then Inl (Ereport ERRCODE_DOCUMENTDB_BADVALUE) else Inr b)"
    "init_from_hex E BsonSeqHexPrefix (BsonSeqHexPrefix @ hex_encode E b) =
      (if b = [] then Inl (Ereport ERRCODE_DOCUMENTDB_BADVALUE) else Inr b)"
    using read [of BsonHexPrefix b] read [of BsonSeqHexPrefix b] assms(2)
    by (simp_all add: BsonHexPrefix_def BsonSeqHexPrefix_def)
  moreover have "IsBsonHexadecimalString (BsonHexPrefix @ s)" "IsBsonSequenceHexadecimalString (BsonSeqHexPrefix @ s)" for s
    by (simp_all add: IsBsonHexadecimalString_def IsBsonSequenceHexadecimalString_def BsonHexPrefix_def
        BsonSeqHexPrefix_def cstr_def byte_val_def)
  ultimately show ?thesis
    by (simp add: bsonsequence_in_def bsonsequence_out_def PgbsonSequenceToHexadecimalString_def bson_in_def
        PgbsonSequenceInitFromHexadecimalString_def bson_to_bson_hex_def PgbsonToHexadecimalString_def
        bson_hex_to_bson_def PgbsonInitFromHexadecimalString_def)
qed

theorem text_roundtrip_witness:
  "bsonsequence_in ref_extern False (Some (bsonsequence_out ref_extern [])) = Inl (Ereport ERRCODE_DOCUMENTDB_BADVALUE)
   \<and> bson_in ref_extern (Some (bson_to_bson_hex ref_extern ''abc'')) = Inr (Some ''abc'')"
  using text_roundtrip [OF ref_laws, of "[]" False] text_roundtrip [OF ref_laws, of "''abc''"] by simp

section \<open>String views\<close>

text \<open>
  Splitting a path at its first separator is lossless: if \<open>StringViewFindPrefix\<close> finds the
  separator, the prefix has none, \<open>StringViewSubstring\<close> past it returns a rest that is shorter,
  and the prefix, the separator and the rest make up the view; otherwise the view has no separator.
\<close>

theorem split_path_lossless:
  fixes v :: StringView and c :: char
  assumes "sv_wf v" "sv_string v \<noteq> None"
  defines "pre \<equiv> StringViewFindPrefix v c"
  shows "if sv_string pre = None then c \<notin> set (sv_bytes v)
    else c \<notin> set (sv_bytes pre) \<and> (\<exists>rest. StringViewSubstring v (sv_length pre + 1) = Inr rest
       \<and> sv_wf rest \<and> sv_length rest < sv_length v \<and> sv_bytes v = sv_bytes pre @ c # sv_bytes rest)"
proof (cases "sv_string pre")
  case None
  with assms StringViewFindPrefix_None show ?thesis by simp
next
  case (Some s)
  with StringViewFindPrefix_Some [OF assms(1), of c s] show ?thesis unfolding pre_def by auto
qed

theorem split_path_lossless_witness:
  "\<exists>rest. StringViewSubstring \<lparr>sv_string = Some ''ab.c'', sv_length = 4\<rparr> 3 = Inr rest \<and> sv_bytes rest = ''c''"
proof -
  let ?v = "\<lparr>sv_string = Some ''ab.c'', sv_length = 4\<rparr>"
  have "sv_wf ?v" "sv_string ?v \<noteq> None" by (simp_all add: sv_wf_def sv_buf_def)
  moreover have "StringViewFindPrefix ?v CHR ''.'' = \<lparr>sv_string = Some ''ab.c'', sv_length = 2\<rparr>"
    by (simp add: StringViewFindPrefix_def sv_buf_def numeral_eq_Suc)
  ultimately show ?thesis using split_path_lossless [of ?v "CHR ''.''"] by auto
qed

text \<open>
  \<open>CompareStringView\<close> is the byte-wise lexicographic order of the views, a total order: its
  sign is that of the comparison of the bytes, and it is zero only on equal bytes (views without
  zero bytes, shorter than \<open>2 ^ 31\<close>).
\<close>

theorem string_view_order:
  assumes "sv_plain l" "sv_plain r"
  shows "sgn (CompareStringView l r) = int_cmp (str_key (sv_bytes l)) (str_key (sv_bytes r))
    \<and> (CompareStringView l r = 0 \<longleftrightarrow> sv_bytes l = sv_bytes r)"
  using CompareStringView_sgn [OF assms] CompareStringView_eq_0 [OF assms]
    strcmp_bytes_key [of "sv_bytes l" "[]" "sv_bytes r" "[]"] by (simp add: lexk_def sgn_if)

theorem string_view_order_witness:
  "CompareStringView (CreateStringViewFromString ''ab'') (CreateStringViewFromString ''ab'') = 0"
  using string_view_order [of "CreateStringViewFromString ''ab''" "CreateStringViewFromString ''ab''"]
  by (simp add: CreateStringViewFromString_def sv_plain_def sv_buf_def strlen_def cstr_def byte_val_def)

text \<open>
  C39. \<open>StringViewToPositiveInteger\<close> returns the number a view of digits denotes if it fits in 31
  bits, and -1 for a view that is empty or has a character that is no digit.  A larger number can
  wrap around unnoticed: \<open>4294967296\<close> gives 0.
\<close>

theorem positive_integer_value:
  assumes "sv_length v > 0" "sv_wf v"
  shows "(list_all is_digit_c (sv_bytes v) \<and> dec_val (sv_bytes v) 0 \<le> INT32_MAX \<longrightarrow>
        sint (StringViewToPositiveInteger (Some v)) = dec_val (sv_bytes v) 0)
    \<and> (\<not> list_all is_digit_c (sv_bytes v) \<longrightarrow> StringViewToPositiveInteger (Some v) = - 1)
    \<and> StringViewToPositiveInteger (Some (CreateStringViewFromString ''4294967296'')) = 0"
proof -
  have "StringViewToPositiveInteger (Some (CreateStringViewFromString ''4294967296'')) = 0"
    by (simp add: StringViewToPositiveInteger_def CreateStringViewFromString_def strlen_def cstr_def byte_val_def Let_def)
  moreover have "sint (StringViewToPositiveInteger (Some v)) = dec_val (sv_bytes v) 0"
    if "list_all is_digit_c (sv_bytes v)" "dec_val (sv_bytes v) 0 \<le> INT32_MAX"
    using positive_integer_loop_digits [of "sv_bytes v" 0] dec_val_mono [of "sv_bytes v" 0] that assms
    by (simp add: StringViewToPositiveInteger_def list_all_iff sint_of_int32)
  moreover have "StringViewToPositiveInteger (Some v) = - 1" if "\<not> list_all is_digit_c (sv_bytes v)"
    using positive_integer_loop_non_digit [of "sv_bytes v" 0] that assms
    by (simp add: StringViewToPositiveInteger_def list_all_iff)
  ultimately show ?thesis by blast
qed

theorem positive_integer_value_witness:
  "sint (StringViewToPositiveInteger (Some \<lparr>sv_string = Some ''42'', sv_length = 2\<rparr>)) = 42"
  using positive_integer_value [of "\<lparr>sv_string = Some ''42'', sv_length = 2\<rparr>"]
  by (simp add: sv_wf_def sv_buf_def is_digit_c_def byte_val_def)

text \<open>
  \<open>StringViewMultiByteCharStrlen\<close> counts the characters of a UTF-8 string: for a view that is
  a sequence of characters, each as long as its first byte says, it is their number.
\<close>

lemma utf8_length:
  assumes "sv_bytes v = concat chs" "list_all (\<lambda>ch. ch \<noteq> [] \<and> utf8_char_size (hd ch) = Inr (length ch)) chs"
  shows "StringViewMultiByteCharStrlen v = Inr (length chs)"
  using multi_byte_loop_concat [of chs 0] assms by (simp add: StringViewMultiByteCharStrlen_def list_all_iff)

section \<open>Types\<close>

text \<open>
  The type names round trip: every type but the end-of-document marker has a name, and
  \<open>BsonTypeFromName\<close> maps it back to the type.
\<close>

theorem type_name_roundtrip:
  "(\<exists>n. BsonTypeName t = Inr n \<and> BsonTypeFromName n = Inr t)
    \<or> t = BSON_TYPE_EOD \<and> BsonTypeName t = Inl (Ereport ERRCODE_FEATURE_NOT_SUPPORTED)"
proof -
  have "t = BSON_TYPE_EOD \<or> ebind (BsonTypeName t) BsonTypeFromName = Inr t"
    by (cases t) (simp_all add: BsonTypeFromName_def strcmp_cstr)
  then show ?thesis by (cases "BsonTypeName t") auto
qed



section \<open>Regular expressions\<close>

text \<open>
  The options of a regular expression are a set: two option strings with the same letters of
  \<open>i\<close>, \<open>s\<close>, \<open>m\<close> and \<open>x\<close>, in any order and however often, compile to the same flags, and the
  options the code accepts as valid are the strings over these letters and \<open>u\<close>.
\<close>

theorem regex_options_set:
  assumes "set (cstr a) \<inter> set ''ismx'' = set (cstr b) \<inter> set ''ismx''"
  shows "ProcessRegexCompileOptions (Some a) = ProcessRegexCompileOptions (Some b)
    \<and> (IsValidRegexOptions (Some c) \<longleftrightarrow> set (cstr c) \<subseteq> set ''ismxu'')"
  using options_set [OF assms] valid_options by blast

theorem regex_options_set_witness:
  "ProcessRegexCompileOptions (Some ''mi'') = ProcessRegexCompileOptions (Some ''imqi'')
    \<and> \<not> IsValidRegexOptions (Some ''imqi'')"
  using regex_options_set [of "''mi''" "''imqi''" "''imqi''"] by (auto simp: cstr_def byte_val_def)

end
