(* ===== verification/Bson_Traversal.thy ===== *)
theory Bson_Traversal
  imports String_View Pgbson_Element
begin

text \<open>
  The traversal of a document along a dotted path:
  \<open>TraverseBson\<close>, \<open>TraverseBsonPathStringView\<close>, \<open>TraverseBsonCore\<close> and
  \<open>BsonIterSearchKeyRecursive\<close> of \<^verbatim>\<open>pg_documentdb_core/src/io/pgbson_utils.c\<close> with the
  function table of \<^verbatim>\<open>include/io/bson_traversal.h\<close>.

  The callbacks get and return the caller's state (\<open>'s\<close>), which the C code reaches through a
  \<open>void *\<close>, and may raise errors; an optional callback is an \<open>option\<close>.  An iterator is the
  list of the elements ahead of it.  Array indices are \<open>nat\<close>: a document has fewer than
  \<open>2 ^ 31\<close> elements.  The checks for stack depth and interrupts are not modelled.

  \<open>reach\<close> says which values a path denotes, on the components of the path; the lemmas about it
  are used for every query operator.
\<close>

section \<open>The callbacks\<close>

datatype TraverseBsonResult = TraverseBsonResult_PathNotFound | TraverseBsonResult_TypeMismatch

record 's TraverseBsonExecutionFuncs =
  SetTraverseResult :: "('s \<Rightarrow> TraverseBsonResult \<Rightarrow> 's result) option"
  VisitTopLevelField :: "pgbsonelement \<Rightarrow> StringView \<Rightarrow> 's \<Rightarrow> (bool \<times> 's) result"
  VisitArrayField :: "(pgbsonelement \<Rightarrow> StringView \<Rightarrow> nat \<Rightarrow> 's \<Rightarrow> (bool \<times> 's) result) option"
  ContinueProcessIntermediateArray :: "'s \<Rightarrow> bson_value \<Rightarrow> (bool \<times> 's) result"
  SetIntermediateArrayIndex :: "('s \<Rightarrow> nat \<Rightarrow> 's result) option"
  HandleIntermediateArrayPathNotFound :: "('s \<Rightarrow> nat \<Rightarrow> StringView \<Rightarrow> 's result) option"
  SetIntermediateArrayStartEnd :: "('s \<Rightarrow> bool \<Rightarrow> 's result) option"

text \<open>\<open>if (f != NULL) f(state, x);\<close>\<close>

definition call_opt :: "('s \<Rightarrow> 'a \<Rightarrow> 's result) option \<Rightarrow> 's \<Rightarrow> 'a \<Rightarrow> 's result" where
  "call_opt f s x = (case f of None \<Rightarrow> Inr s | Some g \<Rightarrow> g s x)"

definition call_not_found ::
    "('s, 'z) TraverseBsonExecutionFuncs_scheme \<Rightarrow> 's \<Rightarrow> nat \<Rightarrow> StringView \<Rightarrow> 's result" where
  "call_not_found F s i p =
     (case HandleIntermediateArrayPathNotFound F of None \<Rightarrow> Inr s | Some g \<Rightarrow> g s i p)"

section \<open>The traversal\<close>

text \<open>The element a search for a field leaves the iterator on.\<close>

definition bson_iter_find_string_view :: "extern \<Rightarrow> bson_doc \<Rightarrow> StringView \<Rightarrow> bson_element option" where
  "bson_iter_find_string_view E doc view =
     (case bson_iter_find_w_len E (sv_bytes view) doc of
        None \<Rightarrow> None
      | Some n \<Rightarrow> if n < length doc then Some (doc ! n) else None)"

text \<open>\<open>remainingPath.string[0]\<close>; the terminating zero byte is not a digit.\<close>

definition first_is_digit :: "StringView \<Rightarrow> bool" where
  "first_is_digit v = (case sv_buf v of [] \<Rightarrow> False | c # _ \<Rightarrow> 48 \<le> byte_val c \<and> byte_val c \<le> 57)"

fun visit_array_fields ::
    "'s TraverseBsonExecutionFuncs \<Rightarrow> (pgbsonelement \<Rightarrow> StringView \<Rightarrow> nat \<Rightarrow> 's \<Rightarrow> (bool \<times> 's) result)
       \<Rightarrow> StringView \<Rightarrow> nat \<Rightarrow> bson_doc \<Rightarrow> 's \<Rightarrow> (bool \<times> 's) result" where
  "visit_array_fields F visit p i [] s = Inr (True, s)"
| "visit_array_fields F visit p i (e # es) s =
     ebind (visit (BsonIterToPgbsonElement e) p i s) (\<lambda>(shouldContinue, s).
       if \<not> shouldContinue then Inr (False, s) else visit_array_fields F visit p (i + 1) es s)"

definition visit_leaf ::
    "'s TraverseBsonExecutionFuncs \<Rightarrow> StringView \<Rightarrow> bool \<Rightarrow> bson_element \<Rightarrow> 's \<Rightarrow> (bool \<times> 's) result" where
  "visit_leaf F p inArrayContext e s =
     ebind (VisitTopLevelField F (BsonIterToPgbsonElement e) p s) (\<lambda>(shouldContinue, s).
       if \<not> shouldContinue then Inr (False, s)
       else ebind (case (snd e, VisitArrayField F) of
                     (BvArray d, Some visit) \<Rightarrow>
                       if \<not> inArrayContext then visit_array_fields F visit p 0 d s else Inr (True, s)
                   | _ \<Rightarrow> Inr (True, s)) (\<lambda>(shouldContinue, s).
              if \<not> shouldContinue then Inr (False, s)
              else ebind (call_opt (SetTraverseResult F) s TraverseBsonResult_TypeMismatch)
                     (\<lambda>s. Inr (False, s))))"

lemma find_in_doc:
  "bson_iter_find_string_view E doc v = Some e \<Longrightarrow> e \<in> set doc"
  by (auto simp: bson_iter_find_string_view_def split: option.splits if_splits)

abbreviation (input) doc_size :: "bson_doc \<Rightarrow> nat" where
  "doc_size d \<equiv> size_list (size_prod (\<lambda>_. 0) size) d"

lemma member_size: "(k, v) \<in> set d \<Longrightarrow> size v < doc_size d"
  by (induction d) auto

text \<open>
  The result is whether the path was not found, and the state.  \<open>intermediate_array\<close> is the
  scan of the elements of an array on the way; its first result says that a callback stopped
  the traversal.
\<close>

function TraverseBsonCore ::
    "extern \<Rightarrow> bool \<Rightarrow> 's TraverseBsonExecutionFuncs \<Rightarrow> bson_doc \<Rightarrow> StringView \<Rightarrow> 's \<Rightarrow> bool
       \<Rightarrow> (bool \<times> 's) result"
  and intermediate_array ::
    "extern \<Rightarrow> bool \<Rightarrow> 's TraverseBsonExecutionFuncs \<Rightarrow> bson_doc \<Rightarrow> StringView \<Rightarrow> nat \<Rightarrow> bool \<Rightarrow> 's
       \<Rightarrow> (bool \<times> bool \<times> 's) result" where
  "TraverseBsonCore E SkipBsonArrayTraverseOptimization F doc traversePath s inArrayContext =
     (let dotKeyStr = StringViewFindPrefix traversePath CHR ''.''
      in if sv_string dotKeyStr = None
         then (case bson_iter_find_string_view E doc traversePath of
                 None \<Rightarrow> ebind (call_opt (SetTraverseResult F) s TraverseBsonResult_PathNotFound)
                           (\<lambda>s. Inr (True, s))
               | Some e \<Rightarrow> visit_leaf F traversePath inArrayContext e s)
         else
           case bson_iter_find_string_view E doc dotKeyStr of
             None \<Rightarrow> ebind (call_opt (SetTraverseResult F) s TraverseBsonResult_PathNotFound)
                       (\<lambda>s. Inr (True, s))
           | Some (key, v) \<Rightarrow>
               ebind (StringViewSubstring traversePath (sv_length dotKeyStr + 1)) (\<lambda>remainingPath.
                 case v of
                   BvDocument nested \<Rightarrow>
                     TraverseBsonCore E SkipBsonArrayTraverseOptimization F nested remainingPath s False
                 | BvArray nested \<Rightarrow>
                     ebind (if SkipBsonArrayTraverseOptimization \<or> first_is_digit remainingPath
                            then ebind (TraverseBsonCore E SkipBsonArrayTraverseOptimization F nested
                                          remainingPath s True) (\<lambda>(hasPathNotFound, s).
                                 ebind (ContinueProcessIntermediateArray F s v) (\<lambda>(continue, s).
                                   Inr (\<not> continue, hasPathNotFound, s)))
                            else Inr (False, True, s)) (\<lambda>(stop, hasPathNotFound, s).
                       if stop then Inr (False, s)
                       else
                         ebind (call_opt (SetIntermediateArrayStartEnd F) s True) (\<lambda>s.
                         ebind (intermediate_array E SkipBsonArrayTraverseOptimization F nested
                                  remainingPath 0 False s) (\<lambda>(stop, arrayElementsHasPathNotFound, s).
                           if stop then Inr (False, s)
                           else
                             ebind (call_opt (SetIntermediateArrayStartEnd F) s False) (\<lambda>s.
                               if hasPathNotFound \<and> arrayElementsHasPathNotFound
                               then ebind (call_opt (SetTraverseResult F) s TraverseBsonResult_PathNotFound)
                                      (\<lambda>s. Inr (True, s))
                               else ebind (call_opt (SetTraverseResult F) s TraverseBsonResult_TypeMismatch)
                                      (\<lambda>s. Inr (False, s))))))
                 | _ \<Rightarrow> ebind (call_opt (SetTraverseResult F) s TraverseBsonResult_PathNotFound)
                          (\<lambda>s. Inr (False, s))))"
| "intermediate_array E skip F [] remainingPath i notFound s = Inr (False, notFound, s)"
| "intermediate_array E skip F ((key, v) # es) remainingPath i notFound s =
     (case v of
        BvDocument inner \<Rightarrow>
          ebind (call_opt (SetIntermediateArrayIndex F) s i) (\<lambda>s.
          ebind (TraverseBsonCore E skip F inner remainingPath s False) (\<lambda>(arrayElementPathNotFound, s).
          ebind (ContinueProcessIntermediateArray F s v) (\<lambda>(continue, s).
            if \<not> continue then Inr (True, notFound, s)
            else ebind (if arrayElementPathNotFound then call_not_found F s i remainingPath else Inr s) (\<lambda>s.
                   intermediate_array E skip F es remainingPath (i + 1)
                     (notFound \<or> arrayElementPathNotFound) s))))
      | _ \<Rightarrow> ebind (call_not_found F s i remainingPath) (\<lambda>s.
               intermediate_array E skip F es remainingPath (i + 1) notFound s))"
  by pat_completeness auto
termination
  by (relation "measure (\<lambda>x. case x of Inl (_, _, _, d, _) \<Rightarrow> doc_size d
        | Inr (_, _, _, d, _) \<Rightarrow> doc_size d)")
     (auto dest!: find_in_doc member_size)

declare TraverseBsonCore.simps [simp del]

definition TraverseBson ::
    "extern \<Rightarrow> bool \<Rightarrow> 's TraverseBsonExecutionFuncs \<Rightarrow> bson_doc \<Rightarrow> string \<Rightarrow> 's \<Rightarrow> 's result" where
  "TraverseBson E SkipBsonArrayTraverseOptimization F doc traversalPath s =
     ebind (TraverseBsonCore E SkipBsonArrayTraverseOptimization F doc
              (CreateStringViewFromString traversalPath) s False) (\<lambda>(_, s). Inr s)"

definition TraverseBsonPathStringView ::
    "extern \<Rightarrow> bool \<Rightarrow> 's TraverseBsonExecutionFuncs \<Rightarrow> bson_doc \<Rightarrow> StringView \<Rightarrow> 's \<Rightarrow> 's result" where
  "TraverseBsonPathStringView E SkipBsonArrayTraverseOptimization F doc traversePathView s =
     ebind (TraverseBsonCore E SkipBsonArrayTraverseOptimization F doc traversePathView s False)
       (\<lambda>(_, s). Inr s)"

function BsonIterSearchKeyRecursive :: "bson_doc \<Rightarrow> string \<Rightarrow> bool" where
  "BsonIterSearchKeyRecursive [] key = False"
| "BsonIterSearchKeyRecursive ((currentKey, v) # es) key =
     (if strcmp currentKey key = 0 then True
      else (case v of
              BvDocument d \<Rightarrow> BsonIterSearchKeyRecursive d key
            | BvArray d \<Rightarrow> BsonIterSearchKeyRecursive d key
            | _ \<Rightarrow> False) \<or> BsonIterSearchKeyRecursive es key)"
  by pat_completeness auto
termination
  by (relation "measure (\<lambda>(d, _). doc_size d)") auto

section \<open>What a path denotes\<close>

fun split_dots :: "string \<Rightarrow> string list" where
  "split_dots [] = [[]]"
| "split_dots (c # cs) =
     (if c = CHR ''.'' then [] # split_dots cs
      else (c # hd (split_dots cs)) # tl (split_dots cs))"

definition starts_with_digit :: "string \<Rightarrow> bool" where
  "starts_with_digit s = (case s of [] \<Rightarrow> False | c # _ \<Rightarrow> 48 \<le> byte_val c \<and> byte_val c \<le> 57)"

definition find_field :: "string \<Rightarrow> bson_doc \<Rightarrow> bson_value option" where
  "find_field k d = map_of d k"

text \<open>
  The values a path reaches, in the order of the visits: the value of the last component and,
  if \<open>elems\<close>, the elements of an array found there, unless the array is itself an element of an
  array reached by its index.  An array on the way is entered by index (if the next component
  looks like one) and through each of its elements that is a document.  The first component of a
  visit is the index of a visited element.
\<close>

type_synonym visit = "nat option \<times> bson_value"

fun element_visits :: "nat \<Rightarrow> bson_doc \<Rightarrow> visit list" where
  "element_visits i [] = []"
| "element_visits i (e # es) = (Some i, snd e) # element_visits (i + 1) es"

definition leaf_visits :: "bool \<Rightarrow> bool \<Rightarrow> bson_value \<Rightarrow> visit list" where
  "leaf_visits elems inArray v =
     (None, v) # (case v of BvArray a \<Rightarrow> if elems \<and> \<not> inArray then element_visits 0 a else [] | _ \<Rightarrow> [])"

fun visits :: "bool \<Rightarrow> bool \<Rightarrow> string list \<Rightarrow> bool \<Rightarrow> bson_doc \<Rightarrow> visit list" where
  "visits skip elems [] inArray d = []"
| "visits skip elems [k] inArray d =
     (case find_field k d of None \<Rightarrow> [] | Some v \<Rightarrow> leaf_visits elems inArray v)"
| "visits skip elems (k # k' # ks) inArray d =
     (case find_field k d of
        Some (BvDocument d') \<Rightarrow> visits skip elems (k' # ks) False d'
      | Some (BvArray a) \<Rightarrow>
          (if skip \<or> starts_with_digit k' then visits skip elems (k' # ks) True a else []) @
          concat (map (\<lambda>e. case snd e of BvDocument d' \<Rightarrow> visits skip elems (k' # ks) False d' | _ \<Rightarrow> []) a)
      | _ \<Rightarrow> [])"

definition reach :: "bool \<Rightarrow> bool \<Rightarrow> string list \<Rightarrow> bson_doc \<Rightarrow> bson_value set" where
  "reach skip elems ks d = snd ` set (visits skip elems ks False d)"

lemma split_dots_nonempty [simp]: "split_dots s \<noteq> []"
  by (cases s) auto

lemma split_dots_plain: "CHR ''.'' \<notin> set a \<Longrightarrow> split_dots a = [a]"
  by (induction a) auto

lemma split_dots_append:
  "CHR ''.'' \<notin> set a \<Longrightarrow> split_dots (a @ CHR ''.'' # b) = a # split_dots b"
  by (induction a) auto

lemma hd_split_dots_digit: "starts_with_digit (hd (split_dots s)) \<longleftrightarrow> starts_with_digit s"
  by (cases s) (auto simp: starts_with_digit_def byte_val_def)

lemma wf_doc_member: "wf_doc d \<Longrightarrow> (k, v) \<in> set d \<Longrightarrow> wf_value v \<and> v \<noteq> BvEOD \<and> c_string k"
  by (induction d) auto

definition field_value :: "bson_value \<Rightarrow> bool" where
  "field_value v \<longleftrightarrow> wf_value v \<and> v \<noteq> BvEOD"

lemma field_value_doc [simp]:
  "field_value (BvDocument d) = wf_doc d" "field_value (BvArray d) = wf_doc d"
  by (simp_all add: field_value_def)

lemma wf_doc_Cons: "wf_doc ((k, v) # d) \<Longrightarrow> field_value v \<and> wf_doc d"
  by (simp add: field_value_def)

lemma wf_find_field: "wf_doc d \<Longrightarrow> find_field k d = Some v \<Longrightarrow> field_value v"
  unfolding find_field_def field_value_def using wf_doc_member map_of_SomeD by fastforce

lemma element_visits_wf: "wf_doc d \<Longrightarrow> v \<in> set (element_visits i d) \<Longrightarrow> field_value (snd v)"
  by (induction i d rule: element_visits.induct) (auto simp: field_value_def)

lemma leaf_visits_wf: "field_value w \<Longrightarrow> v \<in> set (leaf_visits elems inArray w) \<Longrightarrow> field_value (snd v)"
  by (cases w) (auto simp: leaf_visits_def split: if_splits intro: element_visits_wf)

lemma visits_wf: "wf_doc d \<Longrightarrow> v \<in> set (visits skip elems ks inArray d) \<Longrightarrow> field_value (snd v)"
proof (induction skip elems ks inArray d rule: visits.induct)
  case (2 skip elems k inArray d)
  then show ?case
    by (cases "find_field k d") (auto intro: leaf_visits_wf dest: wf_find_field)
next
  case (3 skip elems k k' ks inArray d)
  show ?case
  proof (cases "find_field k d")
    case (Some w)
    then have wf: "field_value w" using 3 wf_find_field by blast
    show ?thesis
    proof (cases w)
      case (BvDocument d')
      with 3 Some wf show ?thesis by simp
    next
      case (BvArray a)
      with 3 Some wf show ?thesis
        by (fastforce split: if_splits bson_value.splits dest: wf_doc_member)
    qed (use 3 Some in simp_all)
  qed (use 3 in simp)
qed simp

lemma wf_doc_documents: "wf_doc a \<Longrightarrow> e \<in> set a \<Longrightarrow> snd e = BvDocument d \<Longrightarrow> wf_doc d"
  using wf_doc_member [of a "fst e" "snd e"] by (cases e) auto

lemma reach_wf: "wf_doc d \<Longrightarrow> v \<in> reach skip elems ks d \<Longrightarrow> field_value v"
  unfolding reach_def using visits_wf by fastforce

text \<open>
  A view as the traversal gets it: readable, without zero bytes, and followed by a byte that is
  no digit (the end of a C string).
\<close>

definition path_view :: "StringView \<Rightarrow> bool" where
  "path_view v \<longleftrightarrow> sv_wf v \<and> sv_string v \<noteq> None \<and> c_string (sv_bytes v)
     \<and> \<not> starts_with_digit (drop (sv_length v) (sv_buf v))"

lemma path_view_CString:
  assumes "c_string p" "length p < 2 ^ 32"
  shows "path_view (CreateStringViewFromString p)" "sv_bytes (CreateStringViewFromString p) = p"
proof -
  have "cstr p = p" using assms(1) by (simp add: cstr_def c_string_def takeWhile_eq_all_conv)
  then show "path_view (CreateStringViewFromString p)" "sv_bytes (CreateStringViewFromString p) = p"
    using assms
    by (simp_all add: path_view_def CreateStringViewFromString_def strlen_def sv_wf_def sv_buf_def
        starts_with_digit_def)
qed

lemma path_view_last:
  "path_view v \<Longrightarrow> sv_string (StringViewFindPrefix v CHR ''.'') = None \<Longrightarrow>
     split_dots (sv_bytes v) = [sv_bytes v]"
  by (rule split_dots_plain) (use StringViewFindPrefix_None in \<open>auto simp: path_view_def\<close>)

lemma path_view_split:
  assumes v: "path_view v" and pre: "sv_string (StringViewFindPrefix v CHR ''.'') \<noteq> None"
  obtains rest where
    "StringViewSubstring v (sv_length (StringViewFindPrefix v CHR ''.'') + 1) = Inr rest"
    "split_dots (sv_bytes v) = sv_bytes (StringViewFindPrefix v CHR ''.'') # split_dots (sv_bytes rest)"
    "path_view rest" "c_string (sv_bytes (StringViewFindPrefix v CHR ''.''))"
    "first_is_digit rest \<longleftrightarrow> starts_with_digit (hd (split_dots (sv_bytes rest)))"
proof -
  from pre obtain s where s: "sv_string (StringViewFindPrefix v CHR ''.'') = Some s" by blast
  have "sv_wf v" using v by (simp add: path_view_def)
  from StringViewFindPrefix_Some [OF this s] obtain rest where rest:
    "StringViewSubstring v (sv_length (StringViewFindPrefix v CHR ''.'') + 1) = Inr rest"
    "sv_bytes v = sv_bytes (StringViewFindPrefix v CHR ''.'') @ CHR ''.'' # sv_bytes rest"
    "CHR ''.'' \<notin> set (sv_bytes (StringViewFindPrefix v CHR ''.''))"
    "sv_wf rest" by metis
  let ?n = "sv_length (StringViewFindPrefix v CHR ''.'') + 1"
  obtain b where b: "sv_string v = Some b" using v by (auto simp: path_view_def)
  have n: "?n \<le> sv_length v" "rest = \<lparr>sv_string = Some (drop ?n b), sv_length = sv_length v - ?n\<rparr>"
    using rest(1) b by (auto simp: StringViewSubstring_def split: if_splits)
  then have tail: "drop (sv_length rest) (sv_buf rest) = drop (sv_length v) (sv_buf v)"
    using b by (simp add: sv_buf_def)
  with v rest(2,4) n(2) have "path_view rest"
    by (simp add: path_view_def c_string_def)
  moreover have "c_string (sv_bytes (StringViewFindPrefix v CHR ''.''))"
    using v rest(2) by (simp add: path_view_def c_string_def)
  moreover have "first_is_digit rest \<longleftrightarrow> starts_with_digit (sv_bytes rest)"
  proof (cases "sv_length rest")
    case 0
    with tail v show ?thesis
      by (simp add: first_is_digit_def path_view_def sv_bytes_def starts_with_digit_def)
  next
    case (Suc m)
    then show ?thesis
      by (cases "sv_buf rest") (simp_all add: first_is_digit_def sv_bytes_def starts_with_digit_def)
  qed
  ultimately show thesis
    using that rest split_dots_append by (simp add: hd_split_dots_digit)
qed

context external_code
begin

lemma find_string_view:
  assumes "c_string (sv_bytes v)" "wf_doc d"
  shows "bson_iter_find_string_view E d v = map_option (\<lambda>w. (sv_bytes v, w)) (find_field (sv_bytes v) d)"
proof -
  have "(case first_index (\<lambda>e. fst e = k) d of None \<Rightarrow> None
          | Some n \<Rightarrow> if n < length d then Some (d ! n) else None) = map_option (Pair k) (map_of d k)" for k
  proof (induction d)
    case (Cons e d)
    then show ?case by (cases e; cases "first_index (\<lambda>e. fst e = k) d") (auto split: if_splits)
  qed simp
  then show ?thesis
    by (simp add: bson_iter_find_string_view_def find_law [OF assms] find_field_def)
qed

end

section \<open>The cases of the traversal\<close>

lemma Traverse_leaf:
  assumes "sv_string (StringViewFindPrefix p CHR ''.'') = None"
  shows "TraverseBsonCore E skip F d p s inArray =
    (case bson_iter_find_string_view E d p of
       None \<Rightarrow> ebind (call_opt (SetTraverseResult F) s TraverseBsonResult_PathNotFound) (\<lambda>s. Inr (True, s))
     | Some e \<Rightarrow> visit_leaf F p inArray e s)"
  using assms by (simp add: TraverseBsonCore.simps [of E skip F d p s inArray] Let_def)

lemma Traverse_missing:
  assumes "sv_string (StringViewFindPrefix p CHR ''.'') = Some y"
    "bson_iter_find_string_view E d (StringViewFindPrefix p CHR ''.'') = None"
  shows "TraverseBsonCore E skip F d p s inArray =
    ebind (call_opt (SetTraverseResult F) s TraverseBsonResult_PathNotFound) (\<lambda>s. Inr (True, s))"
  using assms by (simp add: TraverseBsonCore.simps [of E skip F d p s inArray] Let_def)

lemma Traverse_document:
  assumes "sv_string (StringViewFindPrefix p CHR ''.'') = Some y"
    "bson_iter_find_string_view E d (StringViewFindPrefix p CHR ''.'') = Some (k, BvDocument d')"
    "StringViewSubstring p (sv_length (StringViewFindPrefix p CHR ''.'') + 1) = Inr rest"
  shows "TraverseBsonCore E skip F d p s inArray = TraverseBsonCore E skip F d' rest s False"
  using assms by (simp add: TraverseBsonCore.simps [of E skip F d p s inArray] Let_def)

lemma Traverse_scalar:
  assumes "sv_string (StringViewFindPrefix p CHR ''.'') = Some y"
    "bson_iter_find_string_view E d (StringViewFindPrefix p CHR ''.'') = Some (k, v)"
    "StringViewSubstring p (sv_length (StringViewFindPrefix p CHR ''.'') + 1) = Inr rest"
    "\<And>a. v \<noteq> BvDocument a" "\<And>a. v \<noteq> BvArray a"
  shows "TraverseBsonCore E skip F d p s inArray =
    ebind (call_opt (SetTraverseResult F) s TraverseBsonResult_PathNotFound) (\<lambda>s. Inr (False, s))"
  using assms(1-3) assms(4,5) [THEN notE]
  by (cases v) (auto simp: TraverseBsonCore.simps [of E skip F d p s inArray] Let_def)

text \<open>The pass over an array by index, and the pass over its elements.\<close>

definition array_by_index ::
    "extern \<Rightarrow> bool \<Rightarrow> 's TraverseBsonExecutionFuncs \<Rightarrow> bson_doc \<Rightarrow> StringView \<Rightarrow> 's
       \<Rightarrow> (bool \<times> bool \<times> 's) result" where
  "array_by_index E skip F a rest s =
    (if skip \<or> first_is_digit rest
     then ebind (TraverseBsonCore E skip F a rest s True) (\<lambda>(hasPathNotFound, s).
            ebind (ContinueProcessIntermediateArray F s (BvArray a)) (\<lambda>(continue, s).
              Inr (\<not> continue, hasPathNotFound, s)))
     else Inr (False, True, s))"

lemma Traverse_array:
  assumes "sv_string (StringViewFindPrefix p CHR ''.'') = Some y"
    "bson_iter_find_string_view E d (StringViewFindPrefix p CHR ''.'') = Some (k, BvArray a)"
    "StringViewSubstring p (sv_length (StringViewFindPrefix p CHR ''.'') + 1) = Inr rest"
  shows "TraverseBsonCore E skip F d p s inArray =
     ebind (array_by_index E skip F a rest s) (\<lambda>(stop, hasPathNotFound, s).
       if stop then Inr (False, s)
       else ebind (call_opt (SetIntermediateArrayStartEnd F) s True) (\<lambda>s.
            ebind (intermediate_array E skip F a rest 0 False s) (\<lambda>(stop, notFound, s).
              if stop then Inr (False, s)
              else ebind (call_opt (SetIntermediateArrayStartEnd F) s False) (\<lambda>s.
                   if hasPathNotFound \<and> notFound
                   then ebind (call_opt (SetTraverseResult F) s TraverseBsonResult_PathNotFound) (\<lambda>s. Inr (True, s))
                   else ebind (call_opt (SetTraverseResult F) s TraverseBsonResult_TypeMismatch) (\<lambda>s. Inr (False, s))))))"
  using assms by (simp add: TraverseBsonCore.simps [of E skip F d p s inArray] array_by_index_def Let_def)

section \<open>Visiting along a path\<close>

text \<open>The abstract run of a visitor: it updates its state at each visit and stops at the first hit.\<close>

fun scan :: "('v \<Rightarrow> 'a \<Rightarrow> bool) \<Rightarrow> ('v \<Rightarrow> 'a \<Rightarrow> 'a) \<Rightarrow> 'v list \<Rightarrow> 'a \<Rightarrow> bool \<times> 'a" where
  "scan hit upd [] a = (False, a)"
| "scan hit upd (v # vs) a = (if hit v a then (True, upd v a) else scan hit upd vs (upd v a))"

lemma scan_append:
  "scan hit upd (xs @ ys) a =
     (case scan hit upd xs a of (True, a') \<Rightarrow> (True, a') | (False, a') \<Rightarrow> scan hit upd ys a')"
  by (induction xs arbitrary: a) auto

lemma scan_search: "scan hit (\<lambda>_ a. a) vs a = ((\<exists>v \<in> set vs. hit v a), a)"
  by (induction vs) auto

lemma scan_fold: "scan (\<lambda>_ _. False) upd vs a = (False, fold upd vs a)"
  by (induction vs arbitrary: a) auto

text \<open>
  The contract of the callbacks: on a state \<open>s\<close> with abstraction \<open>abs s\<close>, a visit stops exactly
  when it is a hit, records that in the state, and updates the abstraction; nothing else changes
  the abstraction or records a hit.  A traversal with such callbacks never fails, and has the
  effect of the abstract run on the visits of the path, if each visited value satisfies \<open>P\<close>.
\<close>

locale visitor = external_code E for E +
  fixes F :: "'s TraverseBsonExecutionFuncs"
    and hit :: "visit \<Rightarrow> 'a \<Rightarrow> bool" and upd :: "visit \<Rightarrow> 'a \<Rightarrow> 'a" and ok :: "'a \<Rightarrow> bool"
    and P :: "bson_value \<Rightarrow> bool"
    and matched :: "'s \<Rightarrow> bool" and abs :: "'s \<Rightarrow> 'a" and elems :: bool
  assumes upd_ok: "P (snd x) \<Longrightarrow> ok a \<Longrightarrow> ok (upd x a)"
    and visit_top: "P v \<Longrightarrow> ok (abs s) \<Longrightarrow> \<not> matched s \<Longrightarrow>
      \<exists>s'. VisitTopLevelField F (BsonIterToPgbsonElement (k, v)) p s = Inr (\<not> hit (None, v) (abs s), s')
        \<and> matched s' = hit (None, v) (abs s) \<and> abs s' = upd (None, v) (abs s)"
    and visit_array_none: "VisitArrayField F = None \<longleftrightarrow> \<not> elems"
    and visit_array: "VisitArrayField F = Some visit \<Longrightarrow> P v \<Longrightarrow> ok (abs s) \<Longrightarrow> \<not> matched s \<Longrightarrow>
      \<exists>s'. visit (BsonIterToPgbsonElement (k, v)) p i s = Inr (\<not> hit (Some i, v) (abs s), s')
        \<and> matched s' = hit (Some i, v) (abs s) \<and> abs s' = upd (Some i, v) (abs s)"
    and set_result: "\<not> matched s \<Longrightarrow> ok (abs s) \<Longrightarrow>
      \<exists>s'. call_opt (SetTraverseResult F) s r = Inr s' \<and> \<not> matched s' \<and> abs s' = abs s"
    and continue: "ContinueProcessIntermediateArray F s v = Inr (\<not> matched s, s)"
    and set_index: "\<not> matched s \<Longrightarrow> ok (abs s) \<Longrightarrow>
      \<exists>s'. call_opt (SetIntermediateArrayIndex F) s i = Inr s' \<and> \<not> matched s' \<and> abs s' = abs s"
    and not_found: "\<not> matched s \<Longrightarrow> ok (abs s) \<Longrightarrow>
      \<exists>s'. call_not_found F s i p = Inr s' \<and> \<not> matched s' \<and> abs s' = abs s"
    and start_end: "\<not> matched s \<Longrightarrow> ok (abs s) \<Longrightarrow>
      \<exists>s'. call_opt (SetIntermediateArrayStartEnd F) s b = Inr s' \<and> \<not> matched s' \<and> abs s' = abs s"
begin

abbreviation (input) run :: "visit list \<Rightarrow> 'a \<Rightarrow> bool \<times> 'a" where
  "run \<equiv> scan hit upd"

abbreviation (input) visitable :: "visit list \<Rightarrow> bool" where
  "visitable vs \<equiv> \<forall>v \<in> set vs. P (snd v)"

lemma run_ok: "ok a \<Longrightarrow> visitable vs \<Longrightarrow> ok (snd (run vs a))"
  by (induction vs arbitrary: a) (auto intro: upd_ok)

lemma run_state_ok:
  assumes "(m, abs s') = run vs (abs s)" "ok (abs s)" "visitable vs"
  shows "ok (abs s')"
  using run_ok [OF assms(2,3)] assms(1) by (metis snd_conv)

lemma run_append_hit: "(True, a') = run xs a \<Longrightarrow> run (xs @ ys) a = (True, a')"
  by (auto simp: scan_append split: prod.splits bool.splits)

lemma run_append_miss: "(False, a') = run xs a \<Longrightarrow> run (xs @ ys) a = run ys a'"
  by (auto simp: scan_append split: prod.splits bool.splits)

lemma visit_array_fields_run:
  assumes "VisitArrayField F = Some visit"
  shows "visitable (element_visits i d) \<Longrightarrow> ok (abs s) \<Longrightarrow> \<not> matched s \<Longrightarrow>
    \<exists>s'. visit_array_fields F visit p i d s = Inr (\<not> matched s', s')
      \<and> (matched s', abs s') = run (element_visits i d) (abs s)"
proof (induction d arbitrary: i s)
  case (Cons e d)
  obtain k v where e: "e = (k, v)" by (cases e)
  with Cons.prems have wf: "P v" "visitable (element_visits (i + 1) d)" by simp_all
  from visit_array [OF assms wf(1) Cons.prems(2,3), of k p i] obtain s' where
    s': "visit (BsonIterToPgbsonElement (k, v)) p i s = Inr (\<not> hit (Some i, v) (abs s), s')"
      "matched s' = hit (Some i, v) (abs s)" "abs s' = upd (Some i, v) (abs s)" by blast
  show ?case
  proof (cases "hit (Some i, v) (abs s)")
    case False
    have "ok (abs s')" using upd_ok Cons.prems(2) wf(1) s'(3) by simp
    from Cons.IH [OF wf(2) this] show ?thesis using s' False e by auto
  qed (use s' e in auto)
qed simp

lemma visit_leaf_run:
  assumes vs: "visitable (leaf_visits elems inArray v)" and ok: "ok (abs s)" and no: "\<not> matched s"
  shows "\<exists>s'. visit_leaf F p inArray (k, v) s = Inr (False, s')
    \<and> (matched s', abs s') = run (leaf_visits elems inArray v) (abs s)"
proof -
  have "P v" using vs by (simp add: leaf_visits_def)
  from visit_top [OF this ok no, of k p] obtain s1 where
    s1: "VisitTopLevelField F (BsonIterToPgbsonElement (k, v)) p s = Inr (\<not> hit (None, v) (abs s), s1)"
      "matched s1 = hit (None, v) (abs s)" "abs s1 = upd (None, v) (abs s)" by blast
  have ok1: "ok (abs s1)" using upd_ok \<open>P v\<close> ok s1(3) by simp
  show ?thesis
  proof (cases "hit (None, v) (abs s)")
    case True
    with s1 show ?thesis by (simp add: visit_leaf_def leaf_visits_def)
  next
    case False
    then have no1: "\<not> matched s1" using s1 by simp
    show ?thesis
    proof (cases "\<exists>a visit. v = BvArray a \<and> VisitArrayField F = Some visit \<and> \<not> inArray")
      case True
      then obtain a visit where a: "v = BvArray a" "VisitArrayField F = Some visit" "\<not> inArray" by blast
      have "elems" using a(2) visit_array_none by fastforce
      then have els: "visitable (element_visits 0 a)" using vs a by (simp add: leaf_visits_def)
      from visit_array_fields_run [OF a(2) els ok1 no1, of p] obtain s3 where s3:
        "visit_array_fields F visit p 0 a s1 = Inr (\<not> matched s3, s3)"
        "(matched s3, abs s3) = run (element_visits 0 a) (abs s1)" by blast
      from \<open>elems\<close> have run: "run (leaf_visits elems inArray v) (abs s) = (matched s3, abs s3)"
        using a False s1(3) s3(2) by (simp add: leaf_visits_def)
      show ?thesis
      proof (cases "matched s3")
        case True
        with s1 s3 a False run show ?thesis by (simp add: visit_leaf_def)
      next
        case none: False
        have "ok (abs s3)" using run_state_ok [OF s3(2) ok1 els] .
        with none set_result obtain s4 where "call_opt (SetTraverseResult F) s3 TraverseBsonResult_TypeMismatch = Inr s4"
          "\<not> matched s4" "abs s4 = abs s3" by blast
        with s1 s3 a False none run show ?thesis by (simp add: visit_leaf_def)
      qed
    next
      case other: False
      have skip: "(case (v, VisitArrayField F) of
                     (BvArray d, Some visit) \<Rightarrow>
                       if \<not> inArray then visit_array_fields F visit p 0 d s1 else Inr (True, s1)
                   | _ \<Rightarrow> Inr (True, s1)) = Inr (True, s1)"
        using other by (auto split: bson_value.splits option.splits)
      have "leaf_visits elems inArray v = [(None, v)]"
        using other visit_array_none by (auto simp: leaf_visits_def split: bson_value.splits)
      moreover from set_result [OF no1 ok1] obtain s2 where
        "call_opt (SetTraverseResult F) s1 TraverseBsonResult_TypeMismatch = Inr s2" "\<not> matched s2"
        "abs s2 = abs s1" by blast
      ultimately show ?thesis using skip s1 False by (simp add: visit_leaf_def)
    qed
  qed
qed

abbreviation (input) doc_visits :: "(bson_doc \<Rightarrow> visit list) \<Rightarrow> bson_doc \<Rightarrow> visit list" where
  "doc_visits V es \<equiv> concat (map (\<lambda>e. case snd e of BvDocument d \<Rightarrow> V d | _ \<Rightarrow> []) es)"

lemma intermediate_array_run:
  assumes IH: "\<And>d s. wf_doc d \<Longrightarrow> visitable (V d) \<Longrightarrow> ok (abs s) \<Longrightarrow> \<not> matched s \<Longrightarrow>
      \<exists>nf s'. TraverseBsonCore E skip F d p s False = Inr (nf, s') \<and> (matched s', abs s') = run (V d) (abs s)"
  shows "wf_doc es \<Longrightarrow> visitable (doc_visits V es) \<Longrightarrow> ok (abs s) \<Longrightarrow> \<not> matched s \<Longrightarrow>
    \<exists>nf' s'. intermediate_array E skip F es p i nf s = Inr (matched s', nf', s')
      \<and> (matched s', abs s') = run (doc_visits V es) (abs s)"
proof (induction es arbitrary: i nf s)
  case (Cons e es)
  obtain k v where e: "e = (k, v)" by (cases e)
  with Cons.prems have wf: "field_value v" "wf_doc es" "visitable (doc_visits V es)" using wf_doc_Cons by auto
  note ok = Cons.prems(3) and no = Cons.prems(4)
  show ?case
  proof (cases "\<exists>d. v = BvDocument d")
    case True
    then obtain d where d: "v = BvDocument d" by blast
    with wf have "wf_doc d" by simp
    have vd: "visitable (V d)" using Cons.prems(2) d e by simp
    from set_index [OF no ok, of i] obtain s0 where
      s0: "call_opt (SetIntermediateArrayIndex F) s i = Inr s0" "\<not> matched s0" "abs s0 = abs s" by blast
    from IH [OF \<open>wf_doc d\<close> vd _ s0(2)] ok s0(3) obtain nf1 s1 where
      s1: "TraverseBsonCore E skip F d p s0 False = Inr (nf1, s1)" "(matched s1, abs s1) = run (V d) (abs s)"
      by metis
    have ok1: "ok (abs s1)" using run_state_ok [OF s1(2) ok vd] .
    show ?thesis
    proof (cases "matched s1")
      case True
      with s0 s1 d e show ?thesis
        using run_append_hit [of "abs s1" "V d" "abs s"] by (auto simp: continue)
    next
      case False
      from not_found [OF False ok1, of i p] obtain s2 where s2:
        "(if nf1 then call_not_found F s1 i p else Inr s1) = Inr s2" "\<not> matched s2" "abs s2 = abs s1"
        using False by (metis (full_types))
      from Cons.IH [OF wf(2,3) _ s2(2), of "i + 1" "nf \<or> nf1"] ok1 s2(3) obtain nf3 s3 where
        "intermediate_array E skip F es p (i + 1) (nf \<or> nf1) s2 = Inr (matched s3, nf3, s3)"
        "(matched s3, abs s3) = run (doc_visits V es) (abs s1)" by metis
      then show ?thesis
        using s0 s1 s2 False d e run_append_miss [of "abs s1" "V d" "abs s"] by (auto simp: continue)
    qed
  next
    case False
    from not_found [OF no ok, of i p] obtain s2 where s2:
      "call_not_found F s i p = Inr s2" "\<not> matched s2" "abs s2 = abs s" by blast
    with False have step: "intermediate_array E skip F (e # es) p i nf s = intermediate_array E skip F es p (i + 1) nf s2"
      unfolding e by (cases v) simp_all
    from False have "doc_visits V (e # es) = doc_visits V es"
      unfolding e by (cases v) simp_all
    with step Cons.IH [OF wf(2,3) _ s2(2), of "i + 1" nf] ok s2(3) show ?thesis by metis
  qed
qed simp

lemma array_run:
  assumes "wf_doc a" and ok: "ok (abs s)" and no: "\<not> matched s"
    and vs: "visitable ((if skip \<or> first_is_digit rest then V True a else []) @ doc_visits (V False) a)"
    and IH: "\<And>d s inArray. wf_doc d \<Longrightarrow> visitable (V inArray d) \<Longrightarrow> ok (abs s) \<Longrightarrow> \<not> matched s \<Longrightarrow>
      \<exists>nf s'. TraverseBsonCore E skip F d rest s inArray = Inr (nf, s')
        \<and> (matched s', abs s') = run (V inArray d) (abs s)"
    and p: "sv_string (StringViewFindPrefix p CHR ''.'') = Some y"
      "bson_iter_find_string_view E d (StringViewFindPrefix p CHR ''.'') = Some (k, BvArray a)"
      "StringViewSubstring p (sv_length (StringViewFindPrefix p CHR ''.'') + 1) = Inr rest"
  shows "\<exists>nf s'. TraverseBsonCore E skip F d p s inArray = Inr (nf, s')
     \<and> (matched s', abs s') =
         run ((if skip \<or> first_is_digit rest then V True a else []) @ doc_visits (V False) a) (abs s)"
proof -
  let ?by_index = "if skip \<or> first_is_digit rest then V True a else []"
  have "\<exists>nf s'. array_by_index E skip F a rest s = Inr (matched s', nf, s')
      \<and> (matched s', abs s') = run ?by_index (abs s)"
    using IH [OF assms(1) _ ok no, of True] vs no by (auto simp: array_by_index_def continue)
  then obtain nf1 s1 where s1: "array_by_index E skip F a rest s = Inr (matched s1, nf1, s1)"
    "(matched s1, abs s1) = run ?by_index (abs s)" by blast
  have ok1: "ok (abs s1)" using run_state_ok [OF s1(2) ok] vs by simp
  note unfold = Traverse_array [OF p]
  show ?thesis
  proof (cases "matched s1")
    case True
    with s1 show ?thesis
      using run_append_hit [of "abs s1" ?by_index "abs s" "doc_visits (V False) a"] by (auto simp: unfold)
  next
    case False
    from start_end [OF False ok1, of True] obtain s2 where s2:
      "call_opt (SetIntermediateArrayStartEnd F) s1 True = Inr s2" "\<not> matched s2" "abs s2 = abs s1" by blast
    have ok2: "ok (abs s2)" using ok1 s2(3) by simp
    have "\<exists>nf' s'. intermediate_array E skip F a rest 0 False s2 = Inr (matched s', nf', s')
        \<and> (matched s', abs s') = run (doc_visits (V False) a) (abs s2)"
      by (rule intermediate_array_run) (use IH assms(1) vs ok2 s2(2) in auto)
    then obtain nf3 s3 where s3: "intermediate_array E skip F a rest 0 False s2 = Inr (matched s3, nf3, s3)"
        "(matched s3, abs s3) = run (doc_visits (V False) a) (abs s2)" by blast
    have "run (?by_index @ doc_visits (V False) a) (abs s) = (matched s3, abs s3)"
      using run_append_miss [of "abs s1" ?by_index "abs s"] s1(2) False s2(3) s3(2) by simp
    moreover have "\<exists>nf s'. TraverseBsonCore E skip F d p s inArray = Inr (nf, s')
        \<and> (matched s', abs s') = (matched s3, abs s3)"
    proof (cases "matched s3")
      case none: False
      have ok3: "ok (abs s3)" using run_state_ok [OF s3(2) ok2] vs by simp
      from start_end [OF none ok3, of False] obtain s4 where s4:
        "call_opt (SetIntermediateArrayStartEnd F) s3 False = Inr s4" "\<not> matched s4" "abs s4 = abs s3" by blast
      have ok4: "ok (abs s4)" using ok3 s4(3) by simp
      from set_result [OF s4(2) ok4] obtain f where
        "call_opt (SetTraverseResult F) s4 r = Inr (f r)" "\<not> matched (f r)" "abs (f r) = abs s4" for r by metis
      with s1 s2 s3 s4 False none show ?thesis by (auto simp: unfold)
    qed (use s1 s2 s3 False in \<open>auto simp: unfold\<close>)
    ultimately show ?thesis by metis
  qed
qed

lemma traverse_run:
  "split_dots (sv_bytes p) = ks \<Longrightarrow> path_view p \<Longrightarrow> wf_doc d \<Longrightarrow>
    visitable (visits skip elems ks inArray d) \<Longrightarrow> ok (abs s) \<Longrightarrow> \<not> matched s \<Longrightarrow>
    \<exists>nf s'. TraverseBsonCore E skip F d p s inArray = Inr (nf, s')
      \<and> (matched s', abs s') = run (visits skip elems ks inArray d) (abs s)"
proof (induction ks arbitrary: p d s inArray)
  case (Cons k ks)
  note p = Cons.prems(2) and wf = Cons.prems(3) and vs = Cons.prems(4) and ok = Cons.prems(5) and no = Cons.prems(6)
  let ?pre = "StringViewFindPrefix p CHR ''.''"
  have missing: "\<exists>s'. ebind (call_opt (SetTraverseResult F) s TraverseBsonResult_PathNotFound)
      (\<lambda>s. Inr (b, s)) = Inr (b, s') \<and> (matched s', abs s') = (False, abs s)" for b
    using set_result [OF no ok, of TraverseBsonResult_PathNotFound] by auto
  show ?case
  proof (cases "sv_string ?pre = None")
    case True
    note unfold = Traverse_leaf [OF True]
    from True have ks: "k = sv_bytes p" "ks = []" using path_view_last [OF p] Cons.prems(1) by auto
    have "c_string (sv_bytes p)" using p by (simp add: path_view_def)
    note find = find_string_view [OF this wf]
    show ?thesis
    proof (cases "find_field k d")
      case None
      with True find ks missing [of True] show ?thesis
        by (auto simp: unfold)
    next
      case (Some v)
      then have "visitable (leaf_visits elems inArray v)" using vs ks by simp
      from visit_leaf_run [OF this ok no, of p k] True find ks Some show ?thesis
        by (auto simp: unfold)
    qed
  next
    case False
    from path_view_split [OF p False] obtain rest where rest:
      "StringViewSubstring p (sv_length ?pre + 1) = Inr rest"
      "split_dots (sv_bytes p) = sv_bytes ?pre # split_dots (sv_bytes rest)"
      "path_view rest" "c_string (sv_bytes ?pre)"
      "first_is_digit rest \<longleftrightarrow> starts_with_digit (hd (split_dots (sv_bytes rest)))" by metis
    then have k: "k = sv_bytes ?pre" "ks = split_dots (sv_bytes rest)" using Cons.prems(1) by auto
    then obtain k' ks' where ks: "ks = k' # ks'" using split_dots_nonempty by (metis neq_Nil_conv)
    note IH = Cons.IH [OF k(2) [symmetric] rest(3)]
    note find = find_string_view [OF rest(4) wf]
    from False obtain y where y: "sv_string ?pre = Some y" by blast
    show ?thesis
    proof (cases "find_field k d")
      case None
      then have "bson_iter_find_string_view E d ?pre = None" using find k by simp
      with None ks missing [of True] show ?thesis
        by (auto simp: Traverse_missing [OF y])
    next
      case (Some v)
      then have v: "field_value v" using wf wf_find_field by blast
      have found: "bson_iter_find_string_view E d ?pre = Some (k, v)" using find Some k by simp
      consider (doc) d' where "v = BvDocument d'" | (array) a where "v = BvArray a"
        | (scalar) "\<forall>a. v \<noteq> BvDocument a" "\<forall>a. v \<noteq> BvArray a" by blast
      then show ?thesis
      proof cases
        case doc
        with v have "wf_doc d'" by simp
        moreover have "visitable (visits skip elems ks False d')" using vs Some doc ks by simp
        ultimately have "\<exists>nf s'. TraverseBsonCore E skip F d' rest s False = Inr (nf, s')
            \<and> (matched s', abs s') = run (visits skip elems ks False d') (abs s)"
          using IH ok no by blast
        then show ?thesis
          using Some ks doc by (simp add: Traverse_document [OF y found [unfolded doc] rest(1)])
      next
        case array
        with v have a: "wf_doc a" by simp
        have "\<exists>nf s'. TraverseBsonCore E skip F d p s inArray = Inr (nf, s') \<and> (matched s', abs s') =
            run ((if skip \<or> first_is_digit rest then visits skip elems ks True a else [])
              @ doc_visits (visits skip elems ks False) a) (abs s)"
          by (rule array_run [OF a ok no _ _ y found [unfolded array] rest(1)])
             (use IH vs Some array in \<open>auto simp: rest(5) k(2) [symmetric] ks\<close>)
        then show ?thesis unfolding rest(5) k(2) [symmetric] ks visits.simps Some array by simp
      next
        case scalar
        then have "TraverseBsonCore E skip F d p s inArray =
            ebind (call_opt (SetTraverseResult F) s TraverseBsonResult_PathNotFound) (\<lambda>s. Inr (False, s))"
          by (intro Traverse_scalar [OF y found rest(1)]) blast+
        moreover have "visits skip elems (k # ks) inArray d = []"
          using scalar Some unfolding ks by (cases v) auto
        ultimately show ?thesis using missing [of False] by auto
      qed
    qed
  qed
qed simp

lemma TraverseBson_run:
  assumes "c_string p" "length p < 2 ^ 32" "wf_doc d" "visitable (visits skip elems (split_dots p) False d)"
    "ok (abs s)" "\<not> matched s"
  shows "\<exists>s'. TraverseBson E skip F d p s = Inr s'
    \<and> (matched s', abs s') = run (visits skip elems (split_dots p) False d) (abs s)"
proof -
  from traverse_run [OF _ path_view_CString(1) [OF assms(1,2)] assms(3-6)]
  obtain nf s' where "TraverseBsonCore E skip F d (CreateStringViewFromString p) s False = Inr (nf, s')"
    "(matched s', abs s') = run (visits skip elems (split_dots p) False d) (abs s)"
    using path_view_CString(2) [OF assms(1,2)] by metis
  then show ?thesis by (simp add: TraverseBson_def)
qed

end

section \<open>Every traversal returns\<close>

text \<open>Callbacks that never raise; what they do to their state is arbitrary.\<close>

definition callbacks_return :: "'s TraverseBsonExecutionFuncs \<Rightarrow> bool" where
  "callbacks_return F \<longleftrightarrow>
     (\<forall>s r. returns (call_opt (SetTraverseResult F) s r))
   \<and> (\<forall>e p s. returns (VisitTopLevelField F e p s))
   \<and> (\<forall>g e p i s. VisitArrayField F = Some g \<longrightarrow> returns (g e p i s))
   \<and> (\<forall>s v. returns (ContinueProcessIntermediateArray F s v))
   \<and> (\<forall>s i. returns (call_opt (SetIntermediateArrayIndex F) s i))
   \<and> (\<forall>s i p. returns (call_not_found F s i p))
   \<and> (\<forall>s b. returns (call_opt (SetIntermediateArrayStartEnd F) s b))"

lemma array_fields_return:
  "(\<And>e p i s. returns (visit e p i s)) \<Longrightarrow> returns (visit_array_fields F visit p i d s)"
  by (induction d arbitrary: i s) (auto intro!: returns_ebind)

lemma leaf_returns: "callbacks_return F \<Longrightarrow> returns (visit_leaf F p inArray e s)"
  unfolding visit_leaf_def callbacks_return_def
  by (auto intro!: returns_ebind array_fields_return split: bson_value.splits option.splits)

lemma array_returns:
  assumes F: "callbacks_return F"
    and inner: "\<And>k d s. (k, BvDocument d) \<in> set a \<Longrightarrow> returns (TraverseBsonCore E skip F d q s False)"
  shows "returns (intermediate_array E skip F a q i b s)"
  using inner
proof (induction a arbitrary: i b s)
  case (Cons e a)
  obtain k v where e: "e = (k, v)" by (cases e)
  have "returns (intermediate_array E skip F a q (i + 1) c s1)" for c s1
    by (rule Cons.IH) (use Cons.prems in force)
  moreover have "returns (TraverseBsonCore E skip F d q s1 False)" if "v = BvDocument d" for d s1
    using Cons.prems [of k d s1] e that by simp
  ultimately show ?case
    using F unfolding e callbacks_return_def by (cases v) (auto intro!: returns_ebind)
qed simp

lemma traverse_returns:
  assumes F: "callbacks_return F"
  shows "path_view p \<Longrightarrow> returns (TraverseBsonCore E skip F d p s inArray)"
proof (induction d arbitrary: p s inArray rule: measure_induct_rule [where f = "\<lambda>d. doc_size d"])
  case (less d)
  note cb = F [unfolded callbacks_return_def]
  let ?pre = "StringViewFindPrefix p CHR ''.''"
  show ?case
  proof (cases "sv_string ?pre")
    case None
    show ?thesis
      unfolding Traverse_leaf [OF None] using cb leaf_returns [OF F]
      by (auto intro!: returns_ebind split: option.splits)
  next
    case (Some y)
    then obtain rest where rest: "StringViewSubstring p (sv_length ?pre + 1) = Inr rest" "path_view rest"
      using path_view_split [OF less.prems] by blast
    show ?thesis
    proof (cases "bson_iter_find_string_view E d ?pre")
      case None
      with Some cb show ?thesis by (auto simp: Traverse_missing intro!: returns_ebind)
    next
      case (Some e)
      obtain k v where e: "e = (k, v)" by (cases e)
      note found = Some [unfolded e] and pre = \<open>sv_string ?pre = Some y\<close>
      have size: "size v < doc_size d" using find_in_doc [OF found] member_size by blast
      have scalar: "returns (TraverseBsonCore E skip F d p s inArray)"
        if "\<And>a. v \<noteq> BvDocument a" "\<And>a. v \<noteq> BvArray a"
        unfolding Traverse_scalar [OF pre found rest(1) that] using cb by (auto intro!: returns_ebind)
      show ?thesis
      proof (cases v)
        case (BvDocument d')
        show ?thesis
          unfolding Traverse_document [OF pre found [unfolded BvDocument] rest(1)]
          by (rule less.IH) (use size BvDocument rest in simp_all)
      next
        case (BvArray a)
        have "returns (TraverseBsonCore E skip F a rest s1 True)" for s1
          by (rule less.IH) (use size BvArray rest in simp_all)
        moreover have "returns (TraverseBsonCore E skip F d' rest s1 False)" if "(k', BvDocument d') \<in> set a" for k' d' s1
          using less.IH [of d' rest s1 False] member_size [OF that] size BvArray rest(2) by simp
        then have "returns (intermediate_array E skip F a rest i b s1)" for i b s1
          using array_returns [OF F] by blast
        ultimately show ?thesis
          unfolding Traverse_array [OF pre found [unfolded BvArray] rest(1)] array_by_index_def using cb
          by (auto intro!: returns_ebind)
      qed (use scalar in simp_all)
    qed
  qed
qed

text \<open>The field names at any depth.\<close>

fun value_keys :: "bson_value \<Rightarrow> string set"
  and doc_keys :: "bson_doc \<Rightarrow> string set" where
  "value_keys (BvDocument d) = doc_keys d"
| "value_keys (BvArray d) = doc_keys d"
| "value_keys _ = {}"
| "doc_keys [] = {}"
| "doc_keys ((k, v) # d) = insert k (value_keys v \<union> doc_keys d)"

end
