(* ===== verification/Query_Bits.thy ===== *)
theory Query_Bits
  imports Pgbson_Arith
begin

text \<open>
  The bit-test operators of \<^verbatim>\<open>pg_documentdb/src/query/bson_dollar_operators.c\<close>:
  \<open>$bitsAllClear\<close>, \<open>$bitsAnyClear\<close>, \<open>$bitsAllSet\<close> and \<open>$bitsAnySet\<close> compare the ascending array
  of the positions of the bits that are set in a value with the ascending array of positions of
  the query, by one merge loop each.  An array that is only iterated is the list of its values;
  the memory of an \<open>int64\<close> is its eight bytes, least significant first.
\<close>

unbundle bit_operations_syntax

section \<open>Positions of set bits\<close>

definition bit_of_bytes :: "string \<Rightarrow> nat \<Rightarrow> bool" where
  "bit_of_bytes src i \<longleftrightarrow> bit (byte_val (src ! (i div 8))) (i mod 8)"

definition WriteSetBitPositionArray :: "string \<Rightarrow> bson_value list" where
  "WriteSetBitPositionArray src =
     map (\<lambda>i. BvInt32 (of_nat i)) (List.filter (bit_of_bytes src) [0..<length src * 8])"

section \<open>The merge loops\<close>

text \<open>
  Both iterators are on an element when a loop is entered.  The tests of the loops are the three
  branches on the current elements; \<open>isSignExtended\<close> says that every position above the last
  element of the source counts as set.
\<close>

type_synonym bits_loop = "extern \<Rightarrow> bson_value list \<Rightarrow> bson_value list \<Rightarrow> bool \<Rightarrow> bool result"

fun bits_all_clear_loop :: bits_loop where
  "bits_all_clear_loop E (s # ss) (f # fs) isSignExtended =
     ebind (BsonValueAsInt32 E s) (\<lambda>sourceArrayElement.
     ebind (BsonValueAsInt32 E f) (\<lambda>filterArrayElement.
       if sourceArrayElement = filterArrayElement then Inr False
       else if sint sourceArrayElement < sint filterArrayElement
       then (if ss = [] then Inr (\<not> isSignExtended)
             else bits_all_clear_loop E ss (f # fs) isSignExtended)
       else (if fs = [] then Inr True else bits_all_clear_loop E (s # ss) fs isSignExtended)))"
| "bits_all_clear_loop E _ _ _ = Inr True"

definition CompareArrayForBitsAllClear :: bits_loop where
  "CompareArrayForBitsAllClear E source filt isSignExtended =
     (if filt = [] \<or> source = [] then Inr True
      else bits_all_clear_loop E source filt isSignExtended)"

fun bits_any_clear_loop :: bits_loop where
  "bits_any_clear_loop E (s # ss) (f # fs) isSignExtended =
     ebind (BsonValueAsInt32 E s) (\<lambda>sourceArrayElement.
     ebind (BsonValueAsInt32 E f) (\<lambda>filterArrayElement.
       if sourceArrayElement = filterArrayElement
       then (if fs = [] then Inr False
             else if ss = [] then Inr (\<not> isSignExtended)
             else bits_any_clear_loop E ss fs isSignExtended)
       else if sint sourceArrayElement < sint filterArrayElement
       then (if ss = [] then Inr (\<not> isSignExtended)
             else bits_any_clear_loop E ss (f # fs) isSignExtended)
       else Inr True))"
| "bits_any_clear_loop E _ _ _ = Inr True"

definition CompareArrayForBitsAnyClear :: bits_loop where
  "CompareArrayForBitsAnyClear E source filt isSignExtended =
     (if filt = [] then Inr False
      else if source = [] then Inr True
      else bits_any_clear_loop E source filt isSignExtended)"

fun bits_all_set_loop :: bits_loop where
  "bits_all_set_loop E (s # ss) (f # fs) isSignExtended =
     ebind (BsonValueAsInt32 E s) (\<lambda>sourceArrayElement.
     ebind (BsonValueAsInt32 E f) (\<lambda>filterArrayElement.
       if sourceArrayElement = filterArrayElement
       then (if fs = [] then Inr True
             else if ss = [] then Inr isSignExtended
             else bits_all_set_loop E ss fs isSignExtended)
       else if sint sourceArrayElement < sint filterArrayElement
       then (if ss = [] then Inr isSignExtended
             else bits_all_set_loop E ss (f # fs) isSignExtended)
       else Inr False))"
| "bits_all_set_loop E _ _ _ = Inr False"

definition CompareArrayForBitsAllSet :: bits_loop where
  "CompareArrayForBitsAllSet E source filt isSignExtended =
     (if filt = [] then Inr True
      else if source = [] then Inr False
      else bits_all_set_loop E source filt isSignExtended)"

fun bits_any_set_loop :: bits_loop where
  "bits_any_set_loop E (s # ss) (f # fs) isSignExtended =
     ebind (BsonValueAsInt32 E s) (\<lambda>sourceArrayElement.
     ebind (BsonValueAsInt32 E f) (\<lambda>filterArrayElement.
       if sourceArrayElement = filterArrayElement then Inr True
       else if sint sourceArrayElement < sint filterArrayElement
       then (if ss = [] then Inr isSignExtended
             else bits_any_set_loop E ss (f # fs) isSignExtended)
       else (if fs = [] then Inr False else bits_any_set_loop E (s # ss) fs isSignExtended)))"
| "bits_any_set_loop E _ _ _ = Inr False"

definition CompareArrayForBitsAnySet :: bits_loop where
  "CompareArrayForBitsAnySet E source filt isSignExtended =
     (if filt = [] then Inr False
      else if source = [] then Inr False
      else bits_any_set_loop E source filt isSignExtended)"

section \<open>The operator\<close>

definition bits_of_int64 :: "int64 \<Rightarrow> bson_value list" where
  "bits_of_int64 i = WriteSetBitPositionArray (le 8 (uint i))"

definition compare_positions ::
    "extern \<Rightarrow> bson_value list \<Rightarrow> bool \<Rightarrow> bson_value \<Rightarrow> bits_loop \<Rightarrow> bool result" where
  "compare_positions E source isSignExtended filterArray bitsCompareFunc =
     ebind (v_doc filterArray) (\<lambda>d. bitsCompareFunc E source (map snd d) isSignExtended)"

definition CompareBitwiseOperator :: "extern \<Rightarrow> bson_value \<Rightarrow> bson_value \<Rightarrow> bits_loop \<Rightarrow> bool result" where
  "CompareBitwiseOperator E documentValue filterArray bitsCompareFunc =
     (let compare = (\<lambda>source ext. compare_positions E source ext filterArray bitsCompareFunc);
          compare_int = ebind (BsonValueAsInt64 E documentValue) (\<lambda>i. compare (bits_of_int64 i) (sint i < 0))
      in case value_type documentValue of
           BSON_TYPE_INT64 \<Rightarrow> compare_int
         | BSON_TYPE_INT32 \<Rightarrow> compare_int
         | BSON_TYPE_DECIMAL128 \<Rightarrow>
             ebind (IsDecimal128Finite E documentValue) (\<lambda>finite.
               if finite
               then ebind (IsDecimal128InInt64Range E documentValue) (\<lambda>inRange.
                      if \<not> inRange then Inr False else compare_int)
               else compare (bits_of_int64 0) False)
         | BSON_TYPE_DOUBLE \<Rightarrow>
             ebind (IsBsonValueUnquantized64BitInteger E documentValue False) (\<lambda>fits.
               if \<not> fits then Inr False
               else ebind (BsonValueAsDouble E documentValue) (\<lambda>doubleVal.
                      if \<not> dbl_is_floor doubleVal then Inr False
                      else ebind (BsonValueAsInt64 E documentValue) (\<lambda>i.
                             compare (bits_of_int64 i) (x_less (dbl_x doubleVal) (XFin 0)))))
         | BSON_TYPE_BINARY \<Rightarrow>
             (case documentValue of
                BvBinary _ decodedData \<Rightarrow> compare (WriteSetBitPositionArray decodedData) False
              | _ \<Rightarrow> Inl UnionMisread)
         | _ \<Rightarrow> Inr False)"

section \<open>The loops on ascending positions\<close>

abbreviation (input) pos :: "int \<Rightarrow> bson_value" where "pos i \<equiv> BvInt32 (of_int i)"

definition positions :: "int list \<Rightarrow> bool" where
  "positions xs \<longleftrightarrow> sorted_wrt (<) xs \<and> (\<forall>x \<in> set xs. 0 \<le> x \<and> x \<le> INT32_MAX)"

definition covered :: "bool \<Rightarrow> int list \<Rightarrow> int \<Rightarrow> bool" where
  "covered ext xs f \<longleftrightarrow> f \<in> set xs \<or> ext \<and> last xs < f"

lemma positions_Cons:
  "positions (x # xs) \<longleftrightarrow> 0 \<le> x \<and> x \<le> INT32_MAX \<and> (\<forall>y \<in> set xs. x < y) \<and> positions xs"
  by (auto simp: positions_def)

lemma BsonValueAsInt32_pos:
  "0 \<le> i \<Longrightarrow> i \<le> INT32_MAX \<Longrightarrow> \<exists>w. BsonValueAsInt32 E (pos i) = Inr w \<and> sint w = i \<and> w = of_int i"
  using sint_of_int32 [of i]
  by (simp add: BsonValueAsInt32_def BsonValueAsInt32WithRoundingMode_def)

lemma BsonValueAsInt32_same: "BsonValueAsInt32 E (BvInt32 w) = Inr w"
  by (simp add: BsonValueAsInt32_def BsonValueAsInt32WithRoundingMode_def)

lemma pos_compare:
  assumes "0 \<le> x" "x \<le> INT32_MAX" "0 \<le> y" "y \<le> INT32_MAX"
  shows "(of_int x :: int32) = of_int y \<longleftrightarrow> x = y" "sint (of_int x :: int32) = x"
proof -
  show s: "sint (of_int x :: int32) = x" using assms by (intro sint_of_int32) simp_all
  have "sint (of_int y :: int32) = y" using assms by (intro sint_of_int32) simp_all
  with s show "(of_int x :: int32) = of_int y \<longleftrightarrow> x = y" by metis
qed

lemma covered_Cons: "xs \<noteq> [] \<Longrightarrow> x < f \<Longrightarrow> covered ext (x # xs) f = covered ext xs f"
  by (auto simp: covered_def)

lemma covered_below: "positions (x # xs) \<Longrightarrow> f < x \<Longrightarrow> \<not> covered ext (x # xs) f"
  by (cases xs) (auto simp: covered_def positions_def dest!: last_in_set)

lemma positions_last: "positions (x # xs) \<Longrightarrow> x \<le> last (x # xs)"
  using last_in_set [of "x # xs"] by (auto simp: positions_Cons less_imp_le)

text \<open>The induction shared by the four loops: one step drops the smaller head, or both.\<close>

lemma merge_induct [consumes 4, case_names step]:
  assumes "positions xs" "positions fs" "xs \<noteq> []" "fs \<noteq> []"
    and step: "\<And>x xs f fs.
      positions (x # xs) \<Longrightarrow> positions (f # fs) \<Longrightarrow>
      (xs \<noteq> [] \<Longrightarrow> P xs (f # fs)) \<Longrightarrow> (fs \<noteq> [] \<Longrightarrow> P (x # xs) fs) \<Longrightarrow>
      (xs \<noteq> [] \<Longrightarrow> fs \<noteq> [] \<Longrightarrow> P xs fs) \<Longrightarrow> P (x # xs) (f # fs)"
  shows "P xs fs"
  using assms(1-4)
proof (induction "length xs + length fs" arbitrary: xs fs rule: less_induct)
  case less
  then obtain x xs' f fs' where [simp]: "xs = x # xs'" "fs = f # fs'" by (cases xs; cases fs) auto
  show ?case
    by (simp, rule step) (use less in \<open>auto simp: positions_Cons\<close>)
qed

lemma heads_compare:
  assumes "positions (x # xs)" "positions (f # fs)"
  shows "BsonValueAsInt32 E (pos x) = Inr (of_int x)"
    "(of_int x :: int32) = of_int f \<longleftrightarrow> x = f"
    "sint (of_int x :: int32) < sint (of_int f :: int32) \<longleftrightarrow> x < f"
proof -
  have "sint (of_int x :: int32) = x" "sint (of_int f :: int32) = f"
    using assms by (simp_all add: positions_Cons sint_of_int32)
  then show "(of_int x :: int32) = of_int f \<longleftrightarrow> x = f"
    "sint (of_int x :: int32) < sint (of_int f :: int32) \<longleftrightarrow> x < f" by metis+
qed (rule BsonValueAsInt32_same)

lemma covered_tails:
  assumes "positions (x # xs)" "positions (f # fs)"
  shows "xs \<noteq> [] \<Longrightarrow> x < f \<Longrightarrow> (\<forall>g \<in> set (f # fs). covered ext (x # xs) g = covered ext xs g)"
    "xs \<noteq> [] \<Longrightarrow> x \<le> f \<Longrightarrow> (\<forall>g \<in> set fs. covered ext (x # xs) g = covered ext xs g)"
    "x \<le> f \<Longrightarrow> g \<in> set fs \<Longrightarrow> covered ext [x] g = ext"
    "x < f \<Longrightarrow> g \<in> set (f # fs) \<Longrightarrow> covered ext [x] g = ext"
    "f < x \<Longrightarrow> \<not> covered ext (x # xs) f"
    "covered ext (x # xs) x"
  using assms covered_below [OF assms(1)]
  by (fastforce simp: positions_Cons covered_def)+

lemma all_clear_loop_spec:
  assumes "positions xs" "positions fs" "xs \<noteq> []" "fs \<noteq> []"
  shows "bits_all_clear_loop E (map pos xs) (map pos fs) ext = Inr (\<forall>f \<in> set fs. \<not> covered ext xs f)"
  using assms
proof (induction xs fs rule: merge_induct)
  case (step x xs f fs)
  show ?case
    using step(3-5) covered_tails [OF step(1,2), where ext = ext]
    by (cases x f rule: linorder_cases; cases "xs = []"; cases "fs = []")
       (auto simp: ex_in_conv heads_compare [OF step(1,2)] heads_compare(1) [OF step(2,1)] simp del: map_eq_conv)
qed

lemma any_clear_loop_spec:
  assumes "positions xs" "positions fs" "xs \<noteq> []" "fs \<noteq> []"
  shows "bits_any_clear_loop E (map pos xs) (map pos fs) ext = Inr (\<exists>f \<in> set fs. \<not> covered ext xs f)"
  using assms
proof (induction xs fs rule: merge_induct)
  case (step x xs f fs)
  show ?case
    using step(3-5) covered_tails [OF step(1,2), where ext = ext]
    by (cases x f rule: linorder_cases; cases "xs = []"; cases "fs = []")
       (auto simp: ex_in_conv heads_compare [OF step(1,2)] heads_compare(1) [OF step(2,1)] simp del: map_eq_conv)
qed

lemma all_set_loop_spec:
  assumes "positions xs" "positions fs" "xs \<noteq> []" "fs \<noteq> []"
  shows "bits_all_set_loop E (map pos xs) (map pos fs) ext = Inr (\<forall>f \<in> set fs. covered ext xs f)"
  using assms
proof (induction xs fs rule: merge_induct)
  case (step x xs f fs)
  show ?case
    using step(3-5) covered_tails [OF step(1,2), where ext = ext]
    by (cases x f rule: linorder_cases; cases "xs = []"; cases "fs = []")
       (auto simp: ex_in_conv heads_compare [OF step(1,2)] heads_compare(1) [OF step(2,1)] simp del: map_eq_conv)
qed

lemma any_set_loop_spec:
  assumes "positions xs" "positions fs" "xs \<noteq> []" "fs \<noteq> []"
  shows "bits_any_set_loop E (map pos xs) (map pos fs) ext = Inr (\<exists>f \<in> set fs. covered ext xs f)"
  using assms
proof (induction xs fs rule: merge_induct)
  case (step x xs f fs)
  show ?case
    using step(3-5) covered_tails [OF step(1,2), where ext = ext]
    by (cases x f rule: linorder_cases; cases "xs = []"; cases "fs = []")
       (auto simp: ex_in_conv heads_compare [OF step(1,2)] heads_compare(1) [OF step(2,1)] simp del: map_eq_conv)
qed

lemma CompareArrays_spec:
  assumes "positions xs" "positions fs" "xs = [] \<Longrightarrow> \<not> ext"
  shows
    "CompareArrayForBitsAllSet E (map pos xs) (map pos fs) ext = Inr (\<forall>f \<in> set fs. covered ext xs f)"
    "CompareArrayForBitsAnySet E (map pos xs) (map pos fs) ext = Inr (\<exists>f \<in> set fs. covered ext xs f)"
    "CompareArrayForBitsAllClear E (map pos xs) (map pos fs) ext = Inr (\<forall>f \<in> set fs. \<not> covered ext xs f)"
    "CompareArrayForBitsAnyClear E (map pos xs) (map pos fs) ext = Inr (\<exists>f \<in> set fs. \<not> covered ext xs f)"
proof -
  have none: "\<not> covered ext xs f" if "xs = []" for f
    using that assms(3) by (simp add: covered_def)
  note specs = all_set_loop_spec any_set_loop_spec all_clear_loop_spec any_clear_loop_spec
  show
    "CompareArrayForBitsAllSet E (map pos xs) (map pos fs) ext = Inr (\<forall>f \<in> set fs. covered ext xs f)"
    "CompareArrayForBitsAnySet E (map pos xs) (map pos fs) ext = Inr (\<exists>f \<in> set fs. covered ext xs f)"
    "CompareArrayForBitsAllClear E (map pos xs) (map pos fs) ext = Inr (\<forall>f \<in> set fs. \<not> covered ext xs f)"
    "CompareArrayForBitsAnyClear E (map pos xs) (map pos fs) ext = Inr (\<exists>f \<in> set fs. \<not> covered ext xs f)"
    unfolding CompareArrayForBitsAllSet_def CompareArrayForBitsAnySet_def
      CompareArrayForBitsAllClear_def CompareArrayForBitsAnyClear_def
    using none by (cases "fs = []"; cases "xs = []"; auto simp: specs [OF assms(1,2)] ex_in_conv)+
qed

section \<open>The operator on integers\<close>

lemma nth_le: "k < n \<Longrightarrow> le n x ! k = byte_of (x div 256 ^ k)"
proof (induction n arbitrary: x k)
  case (Suc n)
  then show ?case by (cases k) (auto simp: zdiv_zmult2_eq [symmetric])
qed simp

lemma bit_of_le: "n < 64 \<Longrightarrow> bit_of_bytes (le 8 (uint i)) n = bit (i :: int64) n"
proof -
  assume "n < 64"
  then have "n div 8 < 8" by simp
  have "(256 :: int) ^ (n div 8) = 2 ^ (8 * (n div 8))" by (simp add: power_mult)
  then have "bit_of_bytes (le 8 (uint i)) n = bit (take_bit 8 (drop_bit (8 * (n div 8)) (uint i))) (n mod 8)"
    using \<open>n div 8 < 8\<close> by (simp add: bit_of_bytes_def nth_le take_bit_eq_mod drop_bit_eq_div)
  also have "\<dots> = bit (uint i) n" by (simp add: bit_take_bit_iff bit_drop_bit_eq)
  finally show ?thesis using \<open>n < 64\<close> by (simp add: bit_uint_iff)
qed

definition set_bits :: "int64 \<Rightarrow> int list" where
  "set_bits i = map int (List.filter (bit i) [0..<64])"

lemma bits_of_int64_positions: "bits_of_int64 i = map pos (set_bits i)"
proof -
  have "List.filter (bit_of_bytes (le 8 (uint i))) [0..<64] = List.filter (bit i) [0..<64]"
    by (rule filter_cong) (simp_all add: bit_of_le)
  then show ?thesis by (simp add: bits_of_int64_def WriteSetBitPositionArray_def set_bits_def)
qed

lemma positions_set_bits: "positions (set_bits i)"
proof -
  have "sorted_wrt (<) (List.filter (bit i) [0..<64])"
    by (rule sorted_wrt_filter) (simp add: sorted_wrt_upt)
  then show ?thesis by (auto simp: positions_def set_bits_def sorted_wrt_map)
qed

lemma covered_set_bits:
  assumes "0 \<le> f"
  shows "covered (sint i < 0) (set_bits i) f \<longleftrightarrow> bit (sint i) (nat f)"
proof -
  have sign: "bit i 63 \<longleftrightarrow> sint i < 0" using bit_last_iff [of i] by simp
  have mem: "f \<in> set (set_bits i) \<longleftrightarrow> f < 64 \<and> bit i (nat f)"
  proof -
    obtain n where "f = int n" using assms nonneg_int_cases by blast
    then show ?thesis by (auto simp: set_bits_def simp del: upt_rec_numeral)
  qed
  have "last (set_bits i) = 63" if "sint i < 0"
  proof -
    have "[0..<64] = [0..<63] @ [63]" using upt_Suc [of 0 63] by (simp del: upt_rec_numeral upt_Suc)
    then have "set_bits i = map int (List.filter (bit i) ([0..<63] @ [63]))"
      unfolding set_bits_def by (simp only:)
    also have "\<dots> = map int (List.filter (bit i) [0..<63]) @ [63]"
      using that sign by (simp del: upt_rec_numeral)
    finally show ?thesis by (simp del: upt_rec_numeral)
  qed
  moreover have "bit (sint i) (nat f) \<longleftrightarrow> 64 \<le> nat f \<and> bit i 63 \<or> bit i (nat f)"
    by (simp add: bit_sint_iff)
  moreover have "\<not> bit i (nat f)" if "64 \<le> f"
    using that bit_imp_le_length [of i "nat f"] by auto
  ultimately show ?thesis
    using sign mem assms by (cases "f < 64") (auto simp: covered_def)
qed

lemma set_bits_empty: "set_bits i = [] \<Longrightarrow> \<not> sint i < 0"
  using bit_last_iff [of i] by (auto simp: set_bits_def filter_empty_conv)

text \<open>
  On an integer the four operators test the bits of its two's complement representation,
  extended by the sign to every position.
\<close>

lemma CompareBitwise_integer:
  assumes "is_int v" "positions fs" "map snd d = map pos fs"
  shows
    "CompareBitwiseOperator E v (BvArray d) CompareArrayForBitsAllSet
       = Inr (\<forall>f \<in> set fs. bit (int_val v) (nat f))"
    "CompareBitwiseOperator E v (BvArray d) CompareArrayForBitsAnySet
       = Inr (\<exists>f \<in> set fs. bit (int_val v) (nat f))"
    "CompareBitwiseOperator E v (BvArray d) CompareArrayForBitsAllClear
       = Inr (\<forall>f \<in> set fs. \<not> bit (int_val v) (nat f))"
    "CompareBitwiseOperator E v (BvArray d) CompareArrayForBitsAnyClear
       = Inr (\<exists>f \<in> set fs. \<not> bit (int_val v) (nat f))"
proof -
  define i :: int64 where "i = of_int (int_val v)"
  have i: "sint i = int_val v"
    unfolding i_def using int_val_range [OF is_int_integral [OF assms(1)]] by (rule sint_of_range)
  have op: "CompareBitwiseOperator E v (BvArray d) g = g E (map pos (set_bits i)) (map pos fs) (sint i < 0)" for g
    using assms(1,3) is_int_integral [OF assms(1), THEN BsonValueAsInt64_integral]
    by (auto simp: CompareBitwiseOperator_def is_int_def compare_positions_def v_doc_def
        bits_of_int64_positions i_def Let_def)
  have cov: "covered (sint i < 0) (set_bits i) f \<longleftrightarrow> bit (int_val v) (nat f)" if "f \<in> set fs" for f
    using that assms(2) covered_set_bits [of f i] i by (auto simp: positions_def)
  show "CompareBitwiseOperator E v (BvArray d) CompareArrayForBitsAllSet
       = Inr (\<forall>f \<in> set fs. bit (int_val v) (nat f))"
    "CompareBitwiseOperator E v (BvArray d) CompareArrayForBitsAnySet
       = Inr (\<exists>f \<in> set fs. bit (int_val v) (nat f))"
    "CompareBitwiseOperator E v (BvArray d) CompareArrayForBitsAllClear
       = Inr (\<forall>f \<in> set fs. \<not> bit (int_val v) (nat f))"
    "CompareBitwiseOperator E v (BvArray d) CompareArrayForBitsAnyClear
       = Inr (\<exists>f \<in> set fs. \<not> bit (int_val v) (nat f))"
    unfolding op by (simp_all add: CompareArrays_spec [OF positions_set_bits assms(2) set_bits_empty] cov)
qed

section \<open>The operator on binary data\<close>

definition set_bits_of_bytes :: "string \<Rightarrow> int list" where
  "set_bits_of_bytes s = map int (List.filter (bit_of_bytes s) [0..<length s * 8])"

lemma positions_set_bits_of_bytes:
  assumes "length s < 2 ^ 28"
  shows "positions (set_bits_of_bytes s)"
proof -
  have "sorted_wrt (<) (List.filter (bit_of_bytes s) [0..<length s * 8])"
    by (rule sorted_wrt_filter) (simp add: sorted_wrt_upt)
  with assms show ?thesis by (auto simp: positions_def set_bits_of_bytes_def sorted_wrt_map)
qed

lemma covered_set_bits_of_bytes:
  "0 \<le> f \<Longrightarrow> covered False (set_bits_of_bytes s) f \<longleftrightarrow> nat f < length s * 8 \<and> bit_of_bytes s (nat f)"
  by (elim nonneg_int_cases) (auto simp: covered_def set_bits_of_bytes_def)

lemma CompareBitwise_binary:
  assumes "length s < 2 ^ 28" "positions fs" "map snd d = map pos fs"
  defines "set_at \<equiv> \<lambda>f. nat f < length s * 8 \<and> bit_of_bytes s (nat f)"
  shows
    "CompareBitwiseOperator E (BvBinary t s) (BvArray d) CompareArrayForBitsAllSet = Inr (\<forall>f \<in> set fs. set_at f)"
    "CompareBitwiseOperator E (BvBinary t s) (BvArray d) CompareArrayForBitsAnySet = Inr (\<exists>f \<in> set fs. set_at f)"
    "CompareBitwiseOperator E (BvBinary t s) (BvArray d) CompareArrayForBitsAllClear = Inr (\<forall>f \<in> set fs. \<not> set_at f)"
    "CompareBitwiseOperator E (BvBinary t s) (BvArray d) CompareArrayForBitsAnyClear = Inr (\<exists>f \<in> set fs. \<not> set_at f)"
proof -
  have op: "CompareBitwiseOperator E (BvBinary t s) (BvArray d) g
      = g E (map pos (set_bits_of_bytes s)) (map pos fs) False" for g
    using assms(3)
    by (simp add: CompareBitwiseOperator_def compare_positions_def v_doc_def WriteSetBitPositionArray_def
        set_bits_of_bytes_def comp_def)
  have cov: "covered False (set_bits_of_bytes s) f \<longleftrightarrow> set_at f" if "f \<in> set fs" for f
    using that assms(2) covered_set_bits_of_bytes [of f s] by (auto simp: positions_def set_at_def)
  show
    "CompareBitwiseOperator E (BvBinary t s) (BvArray d) CompareArrayForBitsAllSet = Inr (\<forall>f \<in> set fs. set_at f)"
    "CompareBitwiseOperator E (BvBinary t s) (BvArray d) CompareArrayForBitsAnySet = Inr (\<exists>f \<in> set fs. set_at f)"
    "CompareBitwiseOperator E (BvBinary t s) (BvArray d) CompareArrayForBitsAllClear = Inr (\<forall>f \<in> set fs. \<not> set_at f)"
    "CompareBitwiseOperator E (BvBinary t s) (BvArray d) CompareArrayForBitsAnyClear = Inr (\<exists>f \<in> set fs. \<not> set_at f)"
    unfolding op
    by (simp_all add: CompareArrays_spec [OF positions_set_bits_of_bytes [OF assms(1)] assms(2)] cov)
qed

end
