(* ===== verification/Query_Match.thy ===== *)
theory Query_Match
  imports Bson_Traversal Query_Bits Bson_Hash Pcre_Regex
begin

text \<open>
  The query operators of \<^verbatim>\<open>pg_documentdb/src/query/bson_dollar_operators.c\<close>: the comparison of
  one value with the operand of a query (\<open>Compare...Match\<close>), the callbacks that drive it along
  the path of the query, and the SQL functions \<open>bson_dollar_...\<close> (on a document) and
  \<open>bson_value_dollar_...\<close> (on a value inside \<open>$elemMatch\<close>).

  The C code derives the state of an operator from \<open>TraverseValidateState\<close> by making it the first
  field of a larger struct; here the rest of the struct is the field \<open>operatorState\<close>, and the
  match function is an argument of the function tables.  The settings of the extension are a
  record.  The per-query caches only save recomputation and are left out.  The evaluation of a
  compiled query against a value (\<open>ExpressionEval\<close>, which runs PostgreSQL's executor) is a
  parameter.
\<close>

section \<open>Settings and state\<close>

record settings =
  EnableCollation :: bool
  SkipBsonArrayTraverseOptimization :: bool
  UseLegacyNullEqualityBehavior :: bool
  UseLegacyOrderByBehavior :: bool

datatype CompareResult = CompareResult_PathNotFound | CompareResult_Mismatch | CompareResult_Match

record 'x TraverseValidateState =
  compareResult :: CompareResult
  operatorState :: 'x

record TraverseElementValidateState =
  filterElement :: pgbsonelement
  collationString :: "string option"

type_synonym 'x CompareMatchValueFunc = "pgbsonelement \<Rightarrow> 'x \<Rightarrow> bool \<Rightarrow> (bool \<times> 'x) result"

text \<open>A match function that only reads its state.\<close>

definition reads :: "(pgbsonelement \<Rightarrow> 'x \<Rightarrow> bool result) \<Rightarrow> 'x CompareMatchValueFunc" where
  "reads f element x isFirstArrayTerm = ebind (f element x) (\<lambda>b. Inr (b, x))"

definition IsCollationValid :: "string option \<Rightarrow> bool" where
  "IsCollationValid s = (case s of None \<Rightarrow> False | Some c \<Rightarrow> strlen c > 2)"

definition IsCollationApplicable :: "settings \<Rightarrow> string option \<Rightarrow> bool" where
  "IsCollationApplicable S s \<longleftrightarrow> EnableCollation S \<and> IsCollationValid s"

definition collation_of :: "extern \<Rightarrow> string option \<Rightarrow> collation" where
  "collation_of E = map_option (ucol_strcollUTF8 E)"

text \<open>The element of the query, and its collation.\<close>

definition query_element :: "settings \<Rightarrow> bson_doc \<Rightarrow> TraverseElementValidateState result" where
  "query_element S filt =
     (if EnableCollation S
      then ebind (PgbsonToSinglePgbsonElementWithCollation filt) (\<lambda>(e, coll).
             Inr \<lparr>filterElement = e, collationString = coll\<rparr>)
      else ebind (PgbsonToSinglePgbsonElement False filt) (\<lambda>e.
             Inr \<lparr>filterElement = e, collationString = None\<rparr>))"

section \<open>Comparing one value\<close>

definition CompareLogicalOperatorWithCollation ::
    "extern \<Rightarrow> pgbsonelement \<Rightarrow> TraverseElementValidateState \<Rightarrow> (int \<times> bool) result" where
  "CompareLogicalOperatorWithCollation E documentElement st =
     (if CompareBsonSortOrderType (bsonValue documentElement) (bsonValue (filterElement st)) = 0
      then CompareBsonValueAndTypeWithCollation E (collation_of E (collationString st))
             (bsonValue documentElement) (bsonValue (filterElement st))
      else Inr (0, False))"

type_synonym element_match = "pgbsonelement \<Rightarrow> TraverseElementValidateState \<Rightarrow> bool result"

definition CompareEqualMatch :: "extern \<Rightarrow> element_match" where
  "CompareEqualMatch E documentIterator st =
     (if value_type (bsonValue (filterElement st)) = BSON_TYPE_NULL
         \<and> value_type (bsonValue documentIterator) = BSON_TYPE_UNDEFINED then Inr True
      else ebind (CompareLogicalOperatorWithCollation E documentIterator st) (\<lambda>(cmp, isPathValid).
             Inr (isPathValid \<and> cmp = 0)))"

definition CompareLessMatch :: "extern \<Rightarrow> element_match" where
  "CompareLessMatch E documentIterator st =
     (if value_type (bsonValue (filterElement st)) = BSON_TYPE_MAXKEY
      then Inr (value_type (bsonValue documentIterator) \<noteq> BSON_TYPE_MAXKEY)
      else ebind (CompareLogicalOperatorWithCollation E documentIterator st) (\<lambda>(cmp, isPathValid).
             Inr (isPathValid \<and> cmp < 0)))"

definition CompareLessEqualMatch :: "extern \<Rightarrow> element_match" where
  "CompareLessEqualMatch E documentIterator st =
     (if value_type (bsonValue (filterElement st)) = BSON_TYPE_MAXKEY then Inr True
      else ebind (CompareLogicalOperatorWithCollation E documentIterator st) (\<lambda>(cmp, isPathValid).
             Inr (isPathValid \<and> cmp \<le> 0)))"

definition CompareGreaterMatch :: "extern \<Rightarrow> element_match" where
  "CompareGreaterMatch E documentIterator st =
     (if value_type (bsonValue (filterElement st)) = BSON_TYPE_MINKEY
      then Inr (value_type (bsonValue documentIterator) \<noteq> BSON_TYPE_MINKEY)
      else ebind (CompareLogicalOperatorWithCollation E documentIterator st) (\<lambda>(cmp, isPathValid).
             Inr (isPathValid \<and> cmp > 0)))"

definition CompareGreaterEqualMatch :: "extern \<Rightarrow> element_match" where
  "CompareGreaterEqualMatch E documentIterator st =
     (if value_type (bsonValue (filterElement st)) = BSON_TYPE_MINKEY then Inr True
      else ebind (CompareLogicalOperatorWithCollation E documentIterator st) (\<lambda>(cmp, isPathValid).
             Inr (isPathValid \<and> cmp \<ge> 0)))"

definition CompareExistsMatch :: element_match where
  "CompareExistsMatch documentIterator st = Inr True"

text \<open>The loop of \<open>$size\<close> counts elements until there are none left or there are too many.\<close>

fun count_array :: "int \<Rightarrow> bson_doc \<Rightarrow> int \<Rightarrow> int" where
  "count_array arraySize [] actualArraySize = actualArraySize"
| "count_array arraySize (_ # es) actualArraySize =
     (if actualArraySize \<le> arraySize then count_array arraySize es (actualArraySize + 1)
      else actualArraySize)"

definition CompareArraySizeMatch :: "extern \<Rightarrow> element_match" where
  "CompareArraySizeMatch E documentIterator st =
     (case bsonValue documentIterator of
        BvArray d \<Rightarrow>
          ebind (BsonValueAsInt64 E (bsonValue (filterElement st))) (\<lambda>arraySize.
            Inr (sint arraySize = count_array (sint arraySize) d 0))
      | _ \<Rightarrow> Inr False)"

text \<open>
  A number of \<open>$type\<close> was checked when the query was planned; \<open>TryGetTypeFromInt64\<close> leaves
  \<open>typeToMatch\<close> unset on a number that is no type code.
\<close>

definition type_code_matches :: "extern \<Rightarrow> bson_type \<Rightarrow> bson_value \<Rightarrow> bool result" where
  "type_code_matches E t code =
     ebind (BsonValueAsInt64 E code) (\<lambda>numericValue.
       case TryGetTypeFromInt64 numericValue of None \<Rightarrow> Inl UnionMisread | Some typeToMatch \<Rightarrow> Inr (typeToMatch = t))"

fun type_list_matches :: "extern \<Rightarrow> bson_type \<Rightarrow> string \<Rightarrow> bson_doc \<Rightarrow> bool result" where
  "type_list_matches E t typeName [] = Inr False"
| "type_list_matches E t typeName ((_, v) # es) =
     ebind (if BsonValueIsNumberOrBool v then type_code_matches E t v
            else case v of
                   BvUtf8 arrayElement \<Rightarrow>
                     if strcmp arrayElement ''number'' = 0 then Inr (BsonTypeIsNumber t)
                     else Inr (strcmp typeName arrayElement = 0)
                 | _ \<Rightarrow> Inr False) (\<lambda>m.
       if m then Inr True else type_list_matches E t typeName es)"

definition CompareArrayTypeMatch :: "extern \<Rightarrow> element_match" where
  "CompareArrayTypeMatch E documentIterator st =
     (let t = value_type (bsonValue documentIterator); f = bsonValue (filterElement st)
      in case f of
           BvUtf8 s \<Rightarrow>
             if strcmp s ''number'' = 0 then Inr (BsonTypeIsNumber t)
             else ebind (BsonTypeName t) (\<lambda>typeName. Inr (strcmp typeName s = 0))
         | BvArray types \<Rightarrow>
             ebind (BsonTypeName t) (\<lambda>typeName. type_list_matches E t typeName types)
         | _ \<Rightarrow> if BsonValueIsNumberOrBool f then type_code_matches E t f else Inr False)"

text \<open>\<open>%\<close> on \<open>int64_t\<close>: it traps on a zero divisor and, like the division, on \<open>INT64_MIN % -1\<close>.\<close>

definition c_mod64 :: "int64 \<Rightarrow> int64 \<Rightarrow> int64 result" where
  "c_mod64 a b =
     (if b = 0 \<or> sint a = INT64_MIN \<and> sint b = -1 then Inl TrapDivide
      else Inr (of_int (sint a smod sint b)))"

definition CompareModOperator :: "extern \<Rightarrow> bson_value \<Rightarrow> bson_value \<Rightarrow> bool result" where
  "CompareModOperator E srcVal modArrVal =
     ebind (v_doc modArrVal) (\<lambda>d.
       case d of
         (_, divisorBsonValue) # (_, remainderBsonValue) # _ \<Rightarrow>
           ebind (BsonValueAsInt64 E divisorBsonValue) (\<lambda>divisor.
           ebind (BsonValueAsInt64 E remainderBsonValue) (\<lambda>rem.
           ebind (IsBsonValue64BitInteger E srcVal False) (\<lambda>fits.
             if \<not> fits then Inr False
             else ebind (BsonValueAsInt64 E srcVal) (\<lambda>dividend.
                    if sint dividend = INT64_MIN \<and> sint divisor = -1 then Inr (rem = 0)
                    else ebind (c_mod64 dividend divisor) (\<lambda>rem_calc. Inr (rem_calc = rem))))))
       | _ \<Rightarrow> Inl BufferOverread)"

definition CompareModMatch :: "extern \<Rightarrow> element_match" where
  "CompareModMatch E document st = CompareModOperator E (bsonValue document) (bsonValue (filterElement st))"

definition CompareBitsAllClearMatch :: "extern \<Rightarrow> element_match" where
  "CompareBitsAllClearMatch E documentIterator st =
     CompareBitwiseOperator E (bsonValue documentIterator) (bsonValue (filterElement st)) CompareArrayForBitsAllClear"

definition CompareBitsAnyClearMatch :: "extern \<Rightarrow> element_match" where
  "CompareBitsAnyClearMatch E documentIterator st =
     CompareBitwiseOperator E (bsonValue documentIterator) (bsonValue (filterElement st)) CompareArrayForBitsAnyClear"

definition CompareBitsAllSetMatch :: "extern \<Rightarrow> element_match" where
  "CompareBitsAllSetMatch E documentIterator st =
     CompareBitwiseOperator E (bsonValue documentIterator) (bsonValue (filterElement st)) CompareArrayForBitsAllSet"

definition CompareBitsAnySetMatch :: "extern \<Rightarrow> element_match" where
  "CompareBitsAnySetMatch E documentIterator st =
     CompareBitwiseOperator E (bsonValue documentIterator) (bsonValue (filterElement st)) CompareArrayForBitsAnySet"

text \<open>\<open>IsCollationApplicable(c) ? c : NULL\<close>.\<close>

definition applicable :: "settings \<Rightarrow> string option \<Rightarrow> string option" where
  "applicable S c = (if IsCollationApplicable S c then c else None)"

section \<open>Regular expressions, sets of values and nested queries\<close>

definition PopulateRegexFromQuery :: "extern \<Rightarrow> pgbsonelement \<Rightarrow> RegexData result" where
  "PopulateRegexFromQuery E fe =
     (case bsonValue fe of
        BvRegex regex options \<Rightarrow>
          ebind (deref regex) (\<lambda>regex.
          ebind (RegexCompile E regex options) (\<lambda>pcreData.
            Inr \<lparr>rx_regex = regex, rx_options = options, rx_pcreData = pcreData\<rparr>))
      | BvUtf8 s \<Rightarrow>
          ebind (RegexCompile E s None) (\<lambda>pcreData.
            Inr \<lparr>rx_regex = s, rx_options = None, rx_pcreData = pcreData\<rparr>)
      | _ \<Rightarrow> Inl (Ereport ERRCODE_DOCUMENTDB_BADVALUE))"

definition PopulateRegexState :: "extern \<Rightarrow> settings \<Rightarrow> bson_doc \<Rightarrow> (pgbsonelement \<times> RegexData) result" where
  "PopulateRegexState E S filt =
     ebind (query_element S filt) (\<lambda>st.
     ebind (PopulateRegexFromQuery E (filterElement st)) (\<lambda>regexData.
       Inr (filterElement st, regexData)))"

definition CompareRegexMatch :: "pgbsonelement \<Rightarrow> RegexData \<Rightarrow> bool result" where
  "CompareRegexMatch documentElement regexData = CompareRegexTextMatch (bsonValue documentElement) regexData"

record TraverseInValidateState =
  in_filter :: pgbsonelement
  in_regexList :: "RegexData list"
  bsonValueHashSet :: "bson_value list"
  hasNull :: bool
  in_collationString :: "string option"

definition in_set_find :: "extern \<Rightarrow> settings \<Rightarrow> string option \<Rightarrow> bson_value list \<Rightarrow> bson_value \<Rightarrow> bool result" where
  "in_set_find E S coll keys v =
     (case applicable S coll of None \<Rightarrow> bson_set_find E keys v | Some c \<Rightarrow> collation_set_find E c keys v)"

definition in_set_enter ::
    "extern \<Rightarrow> settings \<Rightarrow> string option \<Rightarrow> bson_value list \<Rightarrow> bson_value \<Rightarrow> bson_value list result" where
  "in_set_enter E S coll keys v =
     (case applicable S coll of None \<Rightarrow> bson_set_enter E keys v | Some c \<Rightarrow> collation_set_enter E c keys v)"

fun in_state_loop ::
    "extern \<Rightarrow> settings \<Rightarrow> bson_doc \<Rightarrow> TraverseInValidateState \<Rightarrow> TraverseInValidateState result" where
  "in_state_loop E S [] st = Inr st"
| "in_state_loop E S ((_, v) # es) st =
     ebind (case v of
              BvNull \<Rightarrow> Inr (st\<lparr>hasNull := True\<rparr>)
            | BvRegex regex options \<Rightarrow>
                ebind (deref regex) (\<lambda>regex.
                ebind (RegexCompile E regex options) (\<lambda>pcreData.
                  Inr (st\<lparr>in_regexList := in_regexList st @
                            [\<lparr>rx_regex = regex, rx_options = options, rx_pcreData = pcreData\<rparr>]\<rparr>)))
            | _ \<Rightarrow> ebind (in_set_enter E S (in_collationString st) (bsonValueHashSet st) v) (\<lambda>keys.
                     Inr (st\<lparr>bsonValueHashSet := keys\<rparr>)))
       (in_state_loop E S es)"

definition PopulateDollarInStateFromQuery :: "extern \<Rightarrow> settings \<Rightarrow> bson_doc \<Rightarrow> TraverseInValidateState result" where
  "PopulateDollarInStateFromQuery E S filt =
     ebind (query_element S filt) (\<lambda>st.
     ebind (v_doc (bsonValue (filterElement st))) (\<lambda>d.
       in_state_loop E S d
         \<lparr>in_filter = filterElement st, in_regexList = [], bsonValueHashSet = [], hasNull = False,
          in_collationString = collationString st\<rparr>))"

fun any_regex :: "RegexData list \<Rightarrow> pgbsonelement \<Rightarrow> bool result" where
  "any_regex [] e = Inr False"
| "any_regex (r # rs) e = ebind (CompareRegexMatch e r) (\<lambda>m. if m then Inr True else any_regex rs e)"

definition CompareInMatch :: "extern \<Rightarrow> settings \<Rightarrow> pgbsonelement \<Rightarrow> TraverseInValidateState \<Rightarrow> bool result" where
  "CompareInMatch E S documentIterator st =
     (if hasNull st \<and> value_type (bsonValue documentIterator) \<in> {BSON_TYPE_NULL, BSON_TYPE_UNDEFINED}
      then Inr True
      else ebind (in_set_find E S (in_collationString st) (bsonValueHashSet st) (bsonValue documentIterator)) (\<lambda>match.
             if match then Inr True else any_regex (in_regexList st) documentIterator))"

text \<open>
  \<open>ExpressionEval\<close> on the query compiled by \<open>GetExpressionEvalState\<close>: whether the query
  (first argument, with its collation) holds of an element.
\<close>

type_synonym expr_eval = "bson_value \<Rightarrow> string option \<Rightarrow> pgbsonelement \<Rightarrow> bool result"

fun eval_elements :: "(pgbsonelement \<Rightarrow> bool result) \<Rightarrow> bson_doc \<Rightarrow> bool result" where
  "eval_elements ev [] = Inr False"
| "eval_elements ev (e # es) =
     ebind (ev (BsonIterToPgbsonElement e)) (\<lambda>m. if m then Inr True else eval_elements ev es)"

definition EvalBooleanExpressionAgainstArray :: "(pgbsonelement \<Rightarrow> bool result) \<Rightarrow> bson_value \<Rightarrow> bool result" where
  "EvalBooleanExpressionAgainstArray evalState queryValue =
     (case queryValue of
        BvArray d \<Rightarrow> eval_elements evalState d
      | _ \<Rightarrow> raise_naming ERRCODE_DOCUMENTDB_BADVALUE (value_type queryValue))"

definition IsBsonValueEmptyDocument :: "bson_value \<Rightarrow> bool" where
  "IsBsonValueEmptyDocument v = (case v of BvDocument d \<Rightarrow> length (enc_doc d) < 6 | _ \<Rightarrow> False)"

record TraverseElemMatchValidateState =
  expressionEvaluationState :: "pgbsonelement \<Rightarrow> bool result"
  isEmptyElemMatch :: bool

definition PopulateElemMatchValidationState ::
    "expr_eval \<Rightarrow> settings \<Rightarrow> bson_doc \<Rightarrow> (pgbsonelement \<times> TraverseElemMatchValidateState) result" where
  "PopulateElemMatchValidationState X S filt =
     ebind (query_element S filt) (\<lambda>st.
       Inr (filterElement st,
            \<lparr>expressionEvaluationState = X (bsonValue (filterElement st)) (collationString st),
             isEmptyElemMatch = IsBsonValueEmptyDocument (bsonValue (filterElement st))\<rparr>))"

definition CompareElemMatchMatch :: "pgbsonelement \<Rightarrow> TraverseElemMatchValidateState \<Rightarrow> bool result" where
  "CompareElemMatchMatch documentIterator st =
     (case bsonValue documentIterator of
        BvArray d \<Rightarrow>
          if isEmptyElemMatch st
          then Inr (\<exists>e \<in> set d. value_type (snd e) \<in> {BSON_TYPE_DOCUMENT, BSON_TYPE_ARRAY})
          else EvalBooleanExpressionAgainstArray (expressionEvaluationState st) (BvArray d)
      | _ \<Rightarrow> Inr False)"

section \<open>\<open>$all\<close>\<close>

text \<open>
  The arrays \<open>evalStateArray\<close> and \<open>crePcreData\<close> are null or have an entry per element of the
  operand; \<open>matchState\<close> is null if the operand is empty.
\<close>

record TraverseAllValidateState =
  all_filter :: pgbsonelement
  matchState :: "bool list"
  evalStateArray :: "(pgbsonelement \<Rightarrow> bool result) option list option"
  crePcreData :: "PcreData option list option"
  arrayHasOnlyNulls :: bool
  all_collationString :: "string option"

definition elem_match_query :: "bson_value \<Rightarrow> bson_value option result" where
  "elem_match_query v =
     (if value_type v = BSON_TYPE_DOCUMENT
      then ebind (TryGetBsonValueToPgbsonElement v) (\<lambda>el.
             Inr (case el of
                    Some e \<Rightarrow> if strcmp (path e) ''$elemMatch'' = 0 then Some (bsonValue e) else None
                  | None \<Rightarrow> None))
      else Inr None)"

fun map_result :: "('a \<Rightarrow> 'b result) \<Rightarrow> 'a list \<Rightarrow> 'b list result" where
  "map_result f [] = Inr []"
| "map_result f (x # xs) = ebind (f x) (\<lambda>y. ebind (map_result f xs) (\<lambda>ys. Inr (y # ys)))"

definition compile_regex_value :: "extern \<Rightarrow> bson_value \<Rightarrow> PcreData option result" where
  "compile_regex_value E v =
     (case v of
        BvRegex regex options \<Rightarrow>
          ebind (deref regex) (\<lambda>regex. ebind (RegexCompile E regex options) (\<lambda>p. Inr (Some p)))
      | _ \<Rightarrow> Inr None)"

definition PopulateDollarAllStateFromQuery ::
    "extern \<Rightarrow> expr_eval \<Rightarrow> settings \<Rightarrow> bson_doc \<Rightarrow> TraverseAllValidateState result" where
  "PopulateDollarAllStateFromQuery E X S filt =
     ebind (query_element S filt) (\<lambda>st.
       case bsonValue (filterElement st) of
         BvArray d \<Rightarrow>
           ebind (map_result (\<lambda>e. elem_match_query (snd e)) d) (\<lambda>queries.
           ebind (if list_all Option.is_none queries then Inr None
                  else Inr (Some (map (map_option (\<lambda>q. X q None)) queries))) (\<lambda>evals.
           ebind (if Option.is_none evals \<and> (\<exists>e \<in> set d. value_type (snd e) = BSON_TYPE_REGEX)
                  then ebind (map_result (\<lambda>e. compile_regex_value E (snd e)) d) (\<lambda>ps. Inr (Some ps))
                  else Inr None) (\<lambda>regexes.
             Inr \<lparr>all_filter = filterElement st, matchState = replicate (length d) False,
                  evalStateArray = evals, crePcreData = regexes,
                  arrayHasOnlyNulls = (\<forall>e \<in> set d. value_type (snd e) = BSON_TYPE_NULL),
                  all_collationString = collationString st\<rparr>)))
       | _ \<Rightarrow> Inl (Ereport ERRCODE_DOCUMENTDB_BADVALUE))"

text \<open>The test of the document's value against one element of the operand.\<close>

definition all_value_match ::
    "extern \<Rightarrow> TraverseAllValidateState \<Rightarrow> nat \<Rightarrow> bson_value \<Rightarrow> bson_value \<Rightarrow> bool result" where
  "all_value_match E st index arrayValue v =
     (case arrayValue of
        BvRegex regex options \<Rightarrow>
          ebind (deref (crePcreData st)) (\<lambda>regexes.
          ebind (deref (regexes ! index)) (\<lambda>pcreData.
          ebind (deref regex) (\<lambda>regex.
            CompareRegexTextMatch v \<lparr>rx_regex = regex, rx_options = options, rx_pcreData = pcreData\<rparr>)))
      | _ \<Rightarrow>
          ebind (CompareBsonValueAndTypeWithCollation E (collation_of E (all_collationString st)) arrayValue v)
            (\<lambda>(cmp, isComparisonValid). Inr (isComparisonValid \<and> cmp = 0)))"

definition all_element_match ::
    "extern \<Rightarrow> TraverseAllValidateState \<Rightarrow> nat \<Rightarrow> bson_value \<Rightarrow> bson_value \<Rightarrow> bool result" where
  "all_element_match E st index arrayValue v =
     (case evalStateArray st of
        Some evals \<Rightarrow>
          (case evals ! index of
             Some ev \<Rightarrow>
               if value_type v \<noteq> BSON_TYPE_ARRAY then Inr False
               else EvalBooleanExpressionAgainstArray ev v
           | None \<Rightarrow> all_value_match E st index arrayValue v)
      | None \<Rightarrow> all_value_match E st index arrayValue v)"

text \<open>The scan of the operand; elements matched by an earlier value are skipped.\<close>

fun all_match_loop ::
    "extern \<Rightarrow> TraverseAllValidateState \<Rightarrow> bson_value \<Rightarrow> nat \<Rightarrow> bson_doc \<Rightarrow> bool \<Rightarrow> (bool \<times> TraverseAllValidateState) result" where
  "all_match_loop E st v index [] res = Inr (res, st)"
| "all_match_loop E st v index ((_, arrayValue) # es) res =
     (if \<not> matchState st ! index
      then ebind (all_element_match E st index arrayValue v) (\<lambda>match.
             all_match_loop E (st\<lparr>matchState := (matchState st)[index := match]\<rparr>) v (index + 1) es (res \<and> match))
      else all_match_loop E st v (index + 1) es res)"

definition CompareAllMatch :: "extern \<Rightarrow> TraverseAllValidateState CompareMatchValueFunc" where
  "CompareAllMatch E documentIterator st isFirstArrayTerm =
     ebind (v_doc (bsonValue (all_filter st))) (\<lambda>d.
       all_match_loop E st (bsonValue documentIterator) 0 d True)"

section \<open>Callbacks of the traversal\<close>

definition CompareVisitTopLevelField ::
    "'x CompareMatchValueFunc \<Rightarrow> pgbsonelement \<Rightarrow> StringView \<Rightarrow> 'x TraverseValidateState
       \<Rightarrow> (bool \<times> 'x TraverseValidateState) result" where
  "CompareVisitTopLevelField matchFunc element filterPath state =
     ebind (matchFunc element (operatorState state) False) (\<lambda>(isMatched, x).
       if isMatched then Inr (False, state\<lparr>operatorState := x, compareResult := CompareResult_Match\<rparr>)
       else Inr (True, state\<lparr>operatorState := x, compareResult := CompareResult_Mismatch\<rparr>))"

definition CompareVisitArrayField ::
    "'x CompareMatchValueFunc \<Rightarrow> pgbsonelement \<Rightarrow> StringView \<Rightarrow> nat \<Rightarrow> 'x TraverseValidateState
       \<Rightarrow> (bool \<times> 'x TraverseValidateState) result" where
  "CompareVisitArrayField matchFunc element filterPath arrayIndex state =
     ebind (matchFunc element (operatorState state) (arrayIndex = 0)) (\<lambda>(isInnerMatched, x).
       if isInnerMatched then Inr (False, state\<lparr>operatorState := x, compareResult := CompareResult_Match\<rparr>)
       else Inr (True, state\<lparr>operatorState := x\<rparr>))"

definition CompareSetTraverseResultForNulls ::
    "'x TraverseValidateState \<Rightarrow> TraverseBsonResult \<Rightarrow> 'x TraverseValidateState result" where
  "CompareSetTraverseResultForNulls state traverseResult =
     (case traverseResult of
        TraverseBsonResult_PathNotFound \<Rightarrow> Inr (state\<lparr>compareResult := CompareResult_PathNotFound\<rparr>)
      | TraverseBsonResult_TypeMismatch \<Rightarrow> Inr state)"

definition CompareSetTraverseResult ::
    "'x TraverseValidateState \<Rightarrow> TraverseBsonResult \<Rightarrow> 'x TraverseValidateState result" where
  "CompareSetTraverseResult state traverseResult =
     (case traverseResult of
        TraverseBsonResult_PathNotFound \<Rightarrow> Inr (state\<lparr>compareResult := CompareResult_PathNotFound\<rparr>)
      | TraverseBsonResult_TypeMismatch \<Rightarrow> Inr (state\<lparr>compareResult := CompareResult_Mismatch\<rparr>))"

definition CompareContinueProcessIntermediateArray ::
    "'x TraverseValidateState \<Rightarrow> bson_value \<Rightarrow> (bool \<times> 'x TraverseValidateState) result" where
  "CompareContinueProcessIntermediateArray state v =
     Inr (compareResult state \<noteq> CompareResult_Match, state)"

type_synonym 'x exec_funcs = "'x CompareMatchValueFunc \<Rightarrow> 'x TraverseValidateState TraverseBsonExecutionFuncs"

definition CompareExecutionFuncs :: "'x exec_funcs" where
  "CompareExecutionFuncs matchFunc =
     \<lparr>SetTraverseResult = Some CompareSetTraverseResult,
      VisitTopLevelField = CompareVisitTopLevelField matchFunc,
      VisitArrayField = Some (CompareVisitArrayField matchFunc),
      ContinueProcessIntermediateArray = CompareContinueProcessIntermediateArray,
      SetIntermediateArrayIndex = None,
      HandleIntermediateArrayPathNotFound = None,
      SetIntermediateArrayStartEnd = None\<rparr>"

definition CompareNullExecutionFuncs :: "'x exec_funcs" where
  "CompareNullExecutionFuncs matchFunc =
     \<lparr>SetTraverseResult = Some CompareSetTraverseResultForNulls,
      VisitTopLevelField = CompareVisitTopLevelField matchFunc,
      VisitArrayField = Some (CompareVisitArrayField matchFunc),
      ContinueProcessIntermediateArray = CompareContinueProcessIntermediateArray,
      SetIntermediateArrayIndex = None,
      HandleIntermediateArrayPathNotFound = None,
      SetIntermediateArrayStartEnd = None\<rparr>"

definition CompareTopLevelFieldExecutionFuncs :: "'x exec_funcs" where
  "CompareTopLevelFieldExecutionFuncs matchFunc =
     \<lparr>SetTraverseResult = Some CompareSetTraverseResult,
      VisitTopLevelField = CompareVisitTopLevelField matchFunc,
      VisitArrayField = None,
      ContinueProcessIntermediateArray = CompareContinueProcessIntermediateArray,
      SetIntermediateArrayIndex = None,
      HandleIntermediateArrayPathNotFound = None,
      SetIntermediateArrayStartEnd = None\<rparr>"

lemmas exec_funcs_defs = CompareExecutionFuncs_def CompareNullExecutionFuncs_def
  CompareTopLevelFieldExecutionFuncs_def

section \<open>Running an operator\<close>

type_synonym 'x IsQueryFilterNullFunc = "('x \<Rightarrow> bool result) option"

definition filter_null :: "'x IsQueryFilterNullFunc \<Rightarrow> 'x \<Rightarrow> bool result" where
  "filter_null isQueryFilterNull x = (case isQueryFilterNull of None \<Rightarrow> Inr False | Some f \<Rightarrow> f x)"

definition IsQueryFilterNullForValue :: "TraverseElementValidateState \<Rightarrow> bool result" where
  "IsQueryFilterNullForValue st = Inr (value_type (bsonValue (filterElement st)) = BSON_TYPE_NULL)"

definition IsQueryFilterNullForArray :: "TraverseInValidateState \<Rightarrow> bool result" where
  "IsQueryFilterNullForArray st =
     (case bsonValue (in_filter st) of
        BvArray d \<Rightarrow> Inr (\<exists>e \<in> set d. value_type (snd e) = BSON_TYPE_NULL)
      | v \<Rightarrow> raise_naming ERRCODE_DOCUMENTDB_BADVALUE (value_type v))"

definition IsQueryFilterNullForDollarAll :: "TraverseAllValidateState \<Rightarrow> bool result" where
  "IsQueryFilterNullForDollarAll st = Inr (arrayHasOnlyNulls st)"

definition ProcessQueryResultAndGetMatch ::
    "'x IsQueryFilterNullFunc \<Rightarrow> 'x TraverseValidateState \<Rightarrow> bool result" where
  "ProcessQueryResultAndGetMatch isQueryFilterNull state =
     ebind (filter_null isQueryFilterNull (operatorState state)) (\<lambda>isNull.
       if isNull then Inr (compareResult state \<noteq> CompareResult_Mismatch)
       else Inr (compareResult state = CompareResult_Match))"

text \<open>A run of the traversal from the state \<open>{ 0 }\<close>, whose result is \<open>PathNotFound\<close>.\<close>

definition run_query ::
    "extern \<Rightarrow> settings \<Rightarrow> 'x TraverseValidateState TraverseBsonExecutionFuncs \<Rightarrow> bson_doc \<Rightarrow> string
       \<Rightarrow> 'x \<Rightarrow> 'x TraverseValidateState result" where
  "run_query E S funcs document p x =
     TraverseBson E (SkipBsonArrayTraverseOptimization S) funcs document p
       \<lparr>compareResult = CompareResult_PathNotFound, operatorState = x\<rparr>"

text \<open>
  \<open>pathLength\<close> is the length stored in the filter element, which some callers reset to 0 while
  its \<open>path\<close> stays.  The C function resets it before it runs the traversal; no match function reads
  it.
\<close>

definition CompareBsonValueAgainstQueryCore ::
    "extern \<Rightarrow> settings \<Rightarrow> pgbsonelement \<Rightarrow> nat \<Rightarrow> string \<Rightarrow> 'x \<Rightarrow> 'x CompareMatchValueFunc \<Rightarrow> 'x exec_funcs
       \<Rightarrow> 'x IsQueryFilterNullFunc \<Rightarrow> bool result" where
  "CompareBsonValueAgainstQueryCore E S element pathLength p x matchFunc funcs isQueryFilterNull =
     (if pathLength = 0 then ebind (matchFunc element x False) (\<lambda>(match, _). Inr match)
      else if value_type (bsonValue element) \<noteq> BSON_TYPE_DOCUMENT
              \<and> value_type (bsonValue element) \<noteq> BSON_TYPE_ARRAY then Inr False
      else ebind (v_doc (bsonValue element)) (\<lambda>d.
           ebind (run_query E S (funcs matchFunc) d p x)
             (ProcessQueryResultAndGetMatch isQueryFilterNull)))"

definition CompareBsonValueAgainstQuery ::
    "extern \<Rightarrow> settings \<Rightarrow> pgbsonelement \<Rightarrow> bson_doc \<Rightarrow> element_match
       \<Rightarrow> TraverseElementValidateState IsQueryFilterNullFunc \<Rightarrow> bool result" where
  "CompareBsonValueAgainstQuery E S element filt compareFunc isQueryFilterNull =
     ebind (query_element S filt) (\<lambda>st.
       CompareBsonValueAgainstQueryCore E S element (strlen (path (filterElement st))) (path (filterElement st))
         st (reads compareFunc) CompareExecutionFuncs isQueryFilterNull)"

definition CompareBsonAgainstQuery ::
    "extern \<Rightarrow> settings \<Rightarrow> bson_doc \<Rightarrow> bson_doc \<Rightarrow> element_match
       \<Rightarrow> TraverseElementValidateState IsQueryFilterNullFunc \<Rightarrow> bool result" where
  "CompareBsonAgainstQuery E S element filt compareFunc isQueryFilterNull =
     ebind (query_element S filt) (\<lambda>st.
     ebind (filter_null isQueryFilterNull st) (\<lambda>isFilterNull.
     ebind (if isFilterNull \<and> \<not> UseLegacyNullEqualityBehavior S
            then TraverseBson E (SkipBsonArrayTraverseOptimization S)
                   (CompareNullExecutionFuncs (reads compareFunc)) element (path (filterElement st))
                   \<lparr>compareResult = CompareResult_Mismatch, operatorState = st\<rparr>
            else run_query E S (CompareExecutionFuncs (reads compareFunc)) element
                   (path (filterElement st)) st)
       (ProcessQueryResultAndGetMatch isQueryFilterNull)))"

end
