(* ===== verification/Query_Operators.thy ===== *)
theory Query_Operators
  imports Query_Match
begin

text \<open>
  The SQL functions of the query operators in \<^verbatim>\<open>pg_documentdb/src/query/bson_dollar_operators.c\<close>:
  \<open>bson_dollar_<op>\<close> tests a document against a filter \<open>{ path: operand }\<close>, and
  \<open>bson_value_dollar_<op>\<close> tests the element of an array inside \<open>$elemMatch\<close>.  The parameters of
  \<open>$range\<close> are those of \<^verbatim>\<open>aggregation/bson_query_common.c\<close>.
\<close>

section \<open>Comparison operators\<close>

abbreviation null_value :: "TraverseElementValidateState IsQueryFilterNullFunc" where
  "null_value \<equiv> Some IsQueryFilterNullForValue"

definition negate :: "bool result \<Rightarrow> bool result" where
  "negate r = ebind r (\<lambda>b. Inr (\<not> b))"

definition bson_dollar_eq :: "extern \<Rightarrow> settings \<Rightarrow> bson_doc \<Rightarrow> bson_doc \<Rightarrow> bool result" where
  "bson_dollar_eq E S document filt = CompareBsonAgainstQuery E S document filt (CompareEqualMatch E) null_value"

definition bson_value_dollar_eq :: "extern \<Rightarrow> settings \<Rightarrow> pgbsonelement \<Rightarrow> bson_doc \<Rightarrow> bool result" where
  "bson_value_dollar_eq E S element filt =
     CompareBsonValueAgainstQuery E S element filt (CompareEqualMatch E) null_value"

definition bson_dollar_merge_join_filter :: "extern \<Rightarrow> settings \<Rightarrow> bson_doc \<Rightarrow> bson_doc \<Rightarrow> bool result" where
  "bson_dollar_merge_join_filter E S document filt = bson_dollar_eq E S document filt"

definition bson_dollar_ne :: "extern \<Rightarrow> settings \<Rightarrow> bson_doc \<Rightarrow> bson_doc \<Rightarrow> bool result" where
  "bson_dollar_ne E S document filt =
     negate (CompareBsonAgainstQuery E S document filt (CompareEqualMatch E) null_value)"

definition bson_value_dollar_ne :: "extern \<Rightarrow> settings \<Rightarrow> pgbsonelement \<Rightarrow> bson_doc \<Rightarrow> bool result" where
  "bson_value_dollar_ne E S element filt =
     negate (CompareBsonValueAgainstQuery E S element filt (CompareEqualMatch E) null_value)"

definition bson_dollar_gt :: "extern \<Rightarrow> settings \<Rightarrow> bson_doc \<Rightarrow> bson_doc \<Rightarrow> bool result" where
  "bson_dollar_gt E S document filt = CompareBsonAgainstQuery E S document filt (CompareGreaterMatch E) None"

definition bson_value_dollar_gt :: "extern \<Rightarrow> settings \<Rightarrow> pgbsonelement \<Rightarrow> bson_doc \<Rightarrow> bool result" where
  "bson_value_dollar_gt E S element filt =
     CompareBsonValueAgainstQuery E S element filt (CompareGreaterMatch E) None"

definition bson_dollar_not_gt :: "extern \<Rightarrow> settings \<Rightarrow> bson_doc \<Rightarrow> bson_doc \<Rightarrow> bool result" where
  "bson_dollar_not_gt E S document filt =
     negate (CompareBsonAgainstQuery E S document filt (CompareGreaterMatch E) None)"

definition bson_dollar_gte :: "extern \<Rightarrow> settings \<Rightarrow> bson_doc \<Rightarrow> bson_doc \<Rightarrow> bool result" where
  "bson_dollar_gte E S document filt =
     CompareBsonAgainstQuery E S document filt (CompareGreaterEqualMatch E) null_value"

definition bson_value_dollar_gte :: "extern \<Rightarrow> settings \<Rightarrow> pgbsonelement \<Rightarrow> bson_doc \<Rightarrow> bool result" where
  "bson_value_dollar_gte E S element filt =
     CompareBsonValueAgainstQuery E S element filt (CompareGreaterEqualMatch E) None"

definition bson_dollar_not_gte :: "extern \<Rightarrow> settings \<Rightarrow> bson_doc \<Rightarrow> bson_doc \<Rightarrow> bool result" where
  "bson_dollar_not_gte E S document filt =
     negate (CompareBsonAgainstQuery E S document filt (CompareGreaterEqualMatch E) null_value)"

definition bson_dollar_lt :: "extern \<Rightarrow> settings \<Rightarrow> bson_doc \<Rightarrow> bson_doc \<Rightarrow> bool result" where
  "bson_dollar_lt E S document filt = CompareBsonAgainstQuery E S document filt (CompareLessMatch E) None"

definition bson_value_dollar_lt :: "extern \<Rightarrow> settings \<Rightarrow> pgbsonelement \<Rightarrow> bson_doc \<Rightarrow> bool result" where
  "bson_value_dollar_lt E S element filt =
     CompareBsonValueAgainstQuery E S element filt (CompareLessMatch E) None"

definition bson_dollar_not_lt :: "extern \<Rightarrow> settings \<Rightarrow> bson_doc \<Rightarrow> bson_doc \<Rightarrow> bool result" where
  "bson_dollar_not_lt E S document filt =
     negate (CompareBsonAgainstQuery E S document filt (CompareLessMatch E) None)"

definition bson_dollar_lte :: "extern \<Rightarrow> settings \<Rightarrow> bson_doc \<Rightarrow> bson_doc \<Rightarrow> bool result" where
  "bson_dollar_lte E S document filt =
     CompareBsonAgainstQuery E S document filt (CompareLessEqualMatch E) null_value"

definition bson_value_dollar_lte :: "extern \<Rightarrow> settings \<Rightarrow> pgbsonelement \<Rightarrow> bson_doc \<Rightarrow> bool result" where
  "bson_value_dollar_lte E S element filt =
     CompareBsonValueAgainstQuery E S element filt (CompareLessEqualMatch E) None"

definition bson_dollar_not_lte :: "extern \<Rightarrow> settings \<Rightarrow> bson_doc \<Rightarrow> bson_doc \<Rightarrow> bool result" where
  "bson_dollar_not_lte E S document filt =
     negate (CompareBsonAgainstQuery E S document filt (CompareLessEqualMatch E) null_value)"

section \<open>\<open>$exists\<close>, \<open>$type\<close>, \<open>$size\<close>, \<open>$mod\<close> and the bit operators\<close>

definition IsExistPositiveMatch :: "extern \<Rightarrow> settings \<Rightarrow> bson_doc \<Rightarrow> bool result" where
  "IsExistPositiveMatch E S filt =
     ebind (PgbsonToSinglePgbsonElement (EnableCollation S) filt) (\<lambda>fe.
       if BsonValueIsNumberOrBool (bsonValue fe)
       then ebind (BsonValueAsInt64 E (bsonValue fe)) (\<lambda>n. Inr (n \<noteq> 0))
       else Inr True)"

definition bson_dollar_exists :: "extern \<Rightarrow> settings \<Rightarrow> bson_doc \<Rightarrow> bson_doc \<Rightarrow> bool result" where
  "bson_dollar_exists E S document filt =
     ebind (IsExistPositiveMatch E S filt) (\<lambda>existsPositiveMatch.
     ebind (CompareBsonAgainstQuery E S document filt CompareExistsMatch None) (\<lambda>match.
       Inr (if existsPositiveMatch then match else \<not> match)))"

definition bson_value_dollar_exists :: "extern \<Rightarrow> settings \<Rightarrow> pgbsonelement \<Rightarrow> bson_doc \<Rightarrow> bool result" where
  "bson_value_dollar_exists E S element filt =
     ebind (IsExistPositiveMatch E S filt) (\<lambda>existsPositiveMatch.
     ebind (CompareBsonValueAgainstQuery E S element filt CompareExistsMatch None) (\<lambda>match.
       Inr (if existsPositiveMatch then match else \<not> match)))"

definition bson_dollar_type :: "extern \<Rightarrow> settings \<Rightarrow> bson_doc \<Rightarrow> bson_doc \<Rightarrow> bool result" where
  "bson_dollar_type E S document filt =
     CompareBsonAgainstQuery E S document filt (CompareArrayTypeMatch E) None"

definition bson_value_dollar_type :: "extern \<Rightarrow> settings \<Rightarrow> pgbsonelement \<Rightarrow> bson_doc \<Rightarrow> bool result" where
  "bson_value_dollar_type E S element filt =
     CompareBsonValueAgainstQuery E S element filt (CompareArrayTypeMatch E) None"

definition bson_dollar_size :: "extern \<Rightarrow> settings \<Rightarrow> bson_doc \<Rightarrow> bson_doc \<Rightarrow> bool result" where
  "bson_dollar_size E S document filt =
     ebind (PgbsonToSinglePgbsonElement (EnableCollation S) filt) (\<lambda>fe.
     ebind (run_query E S (CompareTopLevelFieldExecutionFuncs (reads (CompareArraySizeMatch E))) document
              (path fe) \<lparr>filterElement = fe, collationString = None\<rparr>) (\<lambda>s.
       Inr (compareResult s = CompareResult_Match)))"

definition bson_value_dollar_size :: "extern \<Rightarrow> settings \<Rightarrow> pgbsonelement \<Rightarrow> bson_doc \<Rightarrow> bool result" where
  "bson_value_dollar_size E S element filt =
     ebind (PgbsonToSinglePgbsonElement (EnableCollation S) filt) (\<lambda>fe.
       CompareBsonValueAgainstQueryCore E S element 0 (path fe)
         \<lparr>filterElement = fe, collationString = None\<rparr> (reads (CompareArraySizeMatch E))
         CompareTopLevelFieldExecutionFuncs None)"

definition bson_dollar_mod :: "extern \<Rightarrow> settings \<Rightarrow> bson_doc \<Rightarrow> bson_doc \<Rightarrow> bool result" where
  "bson_dollar_mod E S document filt = CompareBsonAgainstQuery E S document filt (CompareModMatch E) None"

definition bson_value_dollar_mod :: "extern \<Rightarrow> settings \<Rightarrow> pgbsonelement \<Rightarrow> bson_doc \<Rightarrow> bool result" where
  "bson_value_dollar_mod E S element filt =
     CompareBsonValueAgainstQuery E S element filt (CompareModMatch E) None"

definition bson_dollar_bits_all_clear :: "extern \<Rightarrow> settings \<Rightarrow> bson_doc \<Rightarrow> bson_doc \<Rightarrow> bool result" where
  "bson_dollar_bits_all_clear E S document filt =
     CompareBsonAgainstQuery E S document filt (CompareBitsAllClearMatch E) None"

definition bson_dollar_bits_any_clear :: "extern \<Rightarrow> settings \<Rightarrow> bson_doc \<Rightarrow> bson_doc \<Rightarrow> bool result" where
  "bson_dollar_bits_any_clear E S document filt =
     CompareBsonAgainstQuery E S document filt (CompareBitsAnyClearMatch E) None"

definition bson_dollar_bits_all_set :: "extern \<Rightarrow> settings \<Rightarrow> bson_doc \<Rightarrow> bson_doc \<Rightarrow> bool result" where
  "bson_dollar_bits_all_set E S document filt =
     CompareBsonAgainstQuery E S document filt (CompareBitsAllSetMatch E) None"

definition bson_dollar_bits_any_set :: "extern \<Rightarrow> settings \<Rightarrow> bson_doc \<Rightarrow> bson_doc \<Rightarrow> bool result" where
  "bson_dollar_bits_any_set E S document filt =
     CompareBsonAgainstQuery E S document filt (CompareBitsAnySetMatch E) None"

definition bson_value_dollar_bits_all_clear :: "extern \<Rightarrow> settings \<Rightarrow> pgbsonelement \<Rightarrow> bson_doc \<Rightarrow> bool result" where
  "bson_value_dollar_bits_all_clear E S element filt =
     CompareBsonValueAgainstQuery E S element filt (CompareBitsAllClearMatch E) None"

definition bson_value_dollar_bits_any_clear :: "extern \<Rightarrow> settings \<Rightarrow> pgbsonelement \<Rightarrow> bson_doc \<Rightarrow> bool result" where
  "bson_value_dollar_bits_any_clear E S element filt =
     CompareBsonValueAgainstQuery E S element filt (CompareBitsAnyClearMatch E) None"

definition bson_value_dollar_bits_all_set :: "extern \<Rightarrow> settings \<Rightarrow> pgbsonelement \<Rightarrow> bson_doc \<Rightarrow> bool result" where
  "bson_value_dollar_bits_all_set E S element filt =
     CompareBsonValueAgainstQuery E S element filt (CompareBitsAllSetMatch E) None"

definition bson_value_dollar_bits_any_set :: "extern \<Rightarrow> settings \<Rightarrow> pgbsonelement \<Rightarrow> bson_doc \<Rightarrow> bool result" where
  "bson_value_dollar_bits_any_set E S element filt =
     CompareBsonValueAgainstQuery E S element filt (CompareBitsAnySetMatch E) None"

section \<open>\<open>$regex\<close>, \<open>$in\<close>, \<open>$elemMatch\<close> and \<open>$all\<close>\<close>

definition bson_dollar_regex :: "extern \<Rightarrow> settings \<Rightarrow> bson_doc \<Rightarrow> bson_doc \<Rightarrow> bool result" where
  "bson_dollar_regex E S document filt =
     ebind (PopulateRegexState E S filt) (\<lambda>(fe, regexData).
     ebind (run_query E S (CompareExecutionFuncs (reads CompareRegexMatch)) document (path fe) regexData) (\<lambda>s.
       Inr (compareResult s = CompareResult_Match)))"

definition bson_value_dollar_regex :: "extern \<Rightarrow> settings \<Rightarrow> pgbsonelement \<Rightarrow> bson_doc \<Rightarrow> bool result" where
  "bson_value_dollar_regex E S element filt =
     ebind (PopulateRegexState E S filt) (\<lambda>(fe, regexData).
       CompareBsonValueAgainstQueryCore E S element (strlen (path fe)) (path fe) regexData
         (reads CompareRegexMatch) CompareExecutionFuncs None)"

text \<open>\<open>$in\<close> and \<open>$nin\<close> run the same traversal.\<close>

definition in_query :: "extern \<Rightarrow> settings \<Rightarrow> bson_doc \<Rightarrow> bson_doc \<Rightarrow> TraverseInValidateState TraverseValidateState result" where
  "in_query E S document filt =
     ebind (PopulateDollarInStateFromQuery E S filt) (\<lambda>st.
       run_query E S (CompareExecutionFuncs (reads (CompareInMatch E S))) document (path (in_filter st)) st)"

definition bson_dollar_in :: "extern \<Rightarrow> settings \<Rightarrow> bson_doc \<Rightarrow> bson_doc \<Rightarrow> bool result" where
  "bson_dollar_in E S document filt =
     ebind (in_query E S document filt) (\<lambda>s.
       if hasNull (operatorState s) then Inr (compareResult s \<noteq> CompareResult_Mismatch)
       else Inr (compareResult s = CompareResult_Match))"

definition bson_dollar_lookup_join_filter :: "extern \<Rightarrow> settings \<Rightarrow> bson_doc \<Rightarrow> bson_doc \<Rightarrow> bool result" where
  "bson_dollar_lookup_join_filter E S document filt = bson_dollar_in E S document filt"

definition bson_dollar_nin :: "extern \<Rightarrow> settings \<Rightarrow> bson_doc \<Rightarrow> bson_doc \<Rightarrow> bool result" where
  "bson_dollar_nin E S document filt =
     ebind (in_query E S document filt) (\<lambda>s.
       if hasNull (operatorState s) then Inr (compareResult s = CompareResult_Mismatch)
       else Inr (compareResult s \<noteq> CompareResult_Match))"

definition bson_value_dollar_in :: "extern \<Rightarrow> settings \<Rightarrow> pgbsonelement \<Rightarrow> bson_doc \<Rightarrow> bool result" where
  "bson_value_dollar_in E S element filt =
     ebind (PopulateDollarInStateFromQuery E S filt) (\<lambda>st.
       CompareBsonValueAgainstQueryCore E S element (strlen (path (in_filter st))) (path (in_filter st)) st
         (reads (CompareInMatch E S)) CompareExecutionFuncs (Some IsQueryFilterNullForArray))"

definition bson_value_dollar_nin :: "extern \<Rightarrow> settings \<Rightarrow> pgbsonelement \<Rightarrow> bson_doc \<Rightarrow> bool result" where
  "bson_value_dollar_nin E S element filt = negate (bson_value_dollar_in E S element filt)"

definition bson_dollar_elemmatch :: "extern \<Rightarrow> expr_eval \<Rightarrow> settings \<Rightarrow> bson_doc \<Rightarrow> bson_doc \<Rightarrow> bool result" where
  "bson_dollar_elemmatch E X S document filt =
     ebind (PopulateElemMatchValidationState X S filt) (\<lambda>(fe, st).
     ebind (run_query E S (CompareTopLevelFieldExecutionFuncs (reads CompareElemMatchMatch)) document (path fe) st) (\<lambda>s.
       Inr (compareResult s = CompareResult_Match)))"

definition bson_value_dollar_elemmatch ::
    "extern \<Rightarrow> expr_eval \<Rightarrow> settings \<Rightarrow> pgbsonelement \<Rightarrow> bson_doc \<Rightarrow> bool result" where
  "bson_value_dollar_elemmatch E X S element filt =
     ebind (PopulateElemMatchValidationState X S filt) (\<lambda>(fe, st).
       CompareBsonValueAgainstQueryCore E S element (strlen (path fe)) (path fe) st
         (reads CompareElemMatchMatch) CompareTopLevelFieldExecutionFuncs None)"

definition bson_dollar_all :: "extern \<Rightarrow> expr_eval \<Rightarrow> settings \<Rightarrow> bson_doc \<Rightarrow> bson_doc \<Rightarrow> bool result" where
  "bson_dollar_all E X S document filt =
     ebind (PopulateDollarAllStateFromQuery E X S filt) (\<lambda>st.
       if matchState st = [] then Inr False
       else
         let execFuncs = (if Option.is_none (evalStateArray st) then CompareExecutionFuncs
                          else CompareTopLevelFieldExecutionFuncs)
         in ebind (run_query E S (execFuncs (CompareAllMatch E)) document (path (all_filter st)) st)
              (ProcessQueryResultAndGetMatch (Some IsQueryFilterNullForDollarAll)))"

definition bson_value_dollar_all :: "extern \<Rightarrow> expr_eval \<Rightarrow> settings \<Rightarrow> pgbsonelement \<Rightarrow> bson_doc \<Rightarrow> bool result" where
  "bson_value_dollar_all E X S element filt =
     ebind (PopulateDollarAllStateFromQuery E X S filt) (\<lambda>st.
       if matchState st = [] then Inr False
       else CompareBsonValueAgainstQueryCore E S element (strlen (path (all_filter st))) (path (all_filter st)) st
              (CompareAllMatch E) CompareExecutionFuncs (Some IsQueryFilterNullForDollarAll))"

section \<open>\<open>$range\<close>\<close>

record DollarRangeParams =
  minValue :: bson_value
  maxValue :: bson_value
  isMinInclusive :: bool
  isMaxInclusive :: bool
  isFullScan :: bool

text \<open>\<open>bson_iter_bool\<close> of libbson: false for a value that is no boolean.\<close>

definition bson_iter_bool :: "bson_value \<Rightarrow> bool" where
  "bson_iter_bool v = (case v of BvBool b \<Rightarrow> b | _ \<Rightarrow> False)"

fun range_params_loop :: "bson_doc \<Rightarrow> DollarRangeParams \<Rightarrow> DollarRangeParams result" where
  "range_params_loop [] ps = Inr ps"
| "range_params_loop ((key, v) # es) ps =
     (if strcmp key ''min'' = 0 then range_params_loop es (ps\<lparr>minValue := v\<rparr>)
      else if strcmp key ''max'' = 0 then range_params_loop es (ps\<lparr>maxValue := v\<rparr>)
      else if strcmp key ''minInclusive'' = 0 then range_params_loop es (ps\<lparr>isMinInclusive := bson_iter_bool v\<rparr>)
      else if strcmp key ''maxInclusive'' = 0 then range_params_loop es (ps\<lparr>isMaxInclusive := bson_iter_bool v\<rparr>)
      else if strcmp key ''fullScan'' = 0 then range_params_loop es (ps\<lparr>isFullScan := True\<rparr>)
      else Inl (Ereport ERRCODE_INTERNAL_ERROR))"

definition InitializeQueryDollarRange :: "pgbsonelement \<Rightarrow> DollarRangeParams \<Rightarrow> DollarRangeParams result" where
  "InitializeQueryDollarRange fe ps =
     ebind (v_doc (bsonValue fe)) (\<lambda>d.
     ebind (range_params_loop d ps) (\<lambda>ps.
       Inr (if isFullScan ps
            then ps\<lparr>minValue := BvMinKey, maxValue := BvMaxKey, isMinInclusive := True, isMaxInclusive := True\<rparr>
            else ps)))"

definition ParseQueryDollarRange :: "pgbsonelement \<Rightarrow> DollarRangeParams result" where
  "ParseQueryDollarRange fe =
     InitializeQueryDollarRange fe
       \<lparr>minValue = BvEOD, maxValue = BvEOD, isMinInclusive = False, isMaxInclusive = False, isFullScan = False\<rparr>"

definition PopulateRangeStateFromQuery :: "settings \<Rightarrow> bson_doc \<Rightarrow> DollarRangeParams result" where
  "PopulateRangeStateFromQuery S filt =
     ebind (PgbsonToSinglePgbsonElement (EnableCollation S) filt) ParseQueryDollarRange"

record TraverseRangeValidateState =
  rs_element :: TraverseElementValidateState
  rs_params :: DollarRangeParams
  isMinConditionSet :: bool
  isMaxConditionSet :: bool

definition range_conditions :: "extern \<Rightarrow> DollarRangeParams \<Rightarrow> pgbsonelement \<Rightarrow> StringView \<Rightarrow> (bool \<times> bool) result" where
  "range_conditions E ps element filterPath =
     (let el = (\<lambda>v. \<lparr>filterElement = \<lparr>path = sv_bytes filterPath, bsonValue = v\<rparr>, collationString = None\<rparr>)
      in ebind (if isMinInclusive ps then CompareGreaterEqualMatch E element (el (minValue ps))
                else CompareGreaterMatch E element (el (minValue ps))) (\<lambda>minCondition.
         ebind (if isMaxInclusive ps then CompareLessEqualMatch E element (el (maxValue ps))
                else CompareLessMatch E element (el (maxValue ps))) (\<lambda>maxCondition.
           Inr (minCondition, maxCondition))))"

definition DollarRangeVisitTopLevelField ::
    "extern \<Rightarrow> pgbsonelement \<Rightarrow> StringView \<Rightarrow> TraverseRangeValidateState TraverseValidateState
       \<Rightarrow> (bool \<times> TraverseRangeValidateState TraverseValidateState) result" where
  "DollarRangeVisitTopLevelField E element filterPath state =
     ebind (range_conditions E (rs_params (operatorState state)) element filterPath) (\<lambda>(minCondition, maxCondition).
       if minCondition \<and> maxCondition then Inr (False, state\<lparr>compareResult := CompareResult_Match\<rparr>)
       else Inr (True, state\<lparr>compareResult := CompareResult_Mismatch\<rparr>))"

definition DollarRangeVisitArrayField ::
    "extern \<Rightarrow> pgbsonelement \<Rightarrow> StringView \<Rightarrow> nat \<Rightarrow> TraverseRangeValidateState TraverseValidateState
       \<Rightarrow> (bool \<times> TraverseRangeValidateState TraverseValidateState) result" where
  "DollarRangeVisitArrayField E element filterPath arrayIndex state =
     (let rs = operatorState state;
          rs = (if arrayIndex = 0 then rs\<lparr>isMinConditionSet := False, isMaxConditionSet := False\<rparr> else rs)
      in ebind (range_conditions E (rs_params rs) element filterPath) (\<lambda>(minCondition, maxCondition).
           let rs = rs\<lparr>isMinConditionSet := isMinConditionSet rs \<or> minCondition,
                       isMaxConditionSet := isMaxConditionSet rs \<or> maxCondition\<rparr>
           in if isMinConditionSet rs \<and> isMaxConditionSet rs
              then Inr (False, state\<lparr>operatorState := rs, compareResult := CompareResult_Match\<rparr>)
              else Inr (True, state\<lparr>operatorState := rs, compareResult := CompareResult_Mismatch\<rparr>)))"

definition CompareDollarRangeExecutionFuncs ::
    "extern \<Rightarrow> TraverseRangeValidateState TraverseValidateState TraverseBsonExecutionFuncs" where
  "CompareDollarRangeExecutionFuncs E =
     \<lparr>SetTraverseResult = Some CompareSetTraverseResult,
      VisitTopLevelField = DollarRangeVisitTopLevelField E,
      VisitArrayField = Some (DollarRangeVisitArrayField E),
      ContinueProcessIntermediateArray = CompareContinueProcessIntermediateArray,
      SetIntermediateArrayIndex = None,
      HandleIntermediateArrayPathNotFound = None,
      SetIntermediateArrayStartEnd = None\<rparr>"

definition bson_dollar_range :: "extern \<Rightarrow> settings \<Rightarrow> bson_doc \<Rightarrow> bson_doc \<Rightarrow> bool result" where
  "bson_dollar_range E S document filt =
     ebind (PopulateRangeStateFromQuery S filt) (\<lambda>params.
     ebind (query_element S filt) (\<lambda>st.
       if IsCollationValid (collationString st) then Inl (Ereport ERRCODE_DOCUMENTDB_INTERNALERROR)
       else if isFullScan params then Inr True
       else ebind (run_query E S (CompareDollarRangeExecutionFuncs E) document (path (filterElement st))
                     \<lparr>rs_element = \<lparr>filterElement = filterElement st, collationString = None\<rparr>,
                      rs_params = params, isMinConditionSet = False, isMaxConditionSet = False\<rparr>)
              (ProcessQueryResultAndGetMatch
                 (if isMaxInclusive params \<or> isMinInclusive params
                  then Some (\<lambda>rs. IsQueryFilterNullForValue (rs_element rs)) else None))))"

section \<open>Operators that need an index\<close>

definition bson_dollar_text :: "bool result" where
  "bson_dollar_text = Inl (Ereport ERRCODE_DOCUMENTDB_INDEXNOTFOUND)"

definition bson_dollar_fullscan :: "bool result" where
  "bson_dollar_fullscan = Inl (Ereport ERRCODE_INTERNAL_ERROR)"

definition bson_vector_orderby :: "bool result" where
  "bson_vector_orderby = Inl (Ereport ERRCODE_DOCUMENTDB_BADVALUE)"

end
