(* ===== verification/Query_Spec.thy ===== *)
theory Query_Spec
  imports Query_Operators
begin

text \<open>
  What the query operators compute.  A comparison operator holds of a document exactly if the path
  reaches a value that compares as asked with the operand, where two values compare only if their
  types have the same sort rank and both or none is a NaN.
\<close>

section \<open>Comparing two values\<close>

definition is_nan :: "bson_value \<Rightarrow> bool" where
  "is_nan v \<longleftrightarrow> exact_x v = XNaN"

definition comparable :: "bson_value \<Rightarrow> bson_value \<Rightarrow> bool" where
  "comparable v w \<longleftrightarrow> rank v = rank w \<and> (is_nan v \<longleftrightarrow> is_nan w)"

definition operand :: "string \<Rightarrow> bson_value \<Rightarrow> TraverseElementValidateState" where
  "operand p w = \<lparr>filterElement = BsonIterToPgbsonElement (p, w), collationString = None\<rparr>"

lemma bsonValue_iter [simp]: "bsonValue (BsonIterToPgbsonElement e) = snd e" "path (BsonIterToPgbsonElement e) = fst e"
  by (simp_all add: BsonIterToPgbsonElement_def)

lemma operand_simps [simp]:
  "bsonValue (filterElement (operand p w)) = w" "path (filterElement (operand p w)) = p"
  "collationString (operand p w) = None"
  by (simp_all add: operand_def)

lemma not_num_not_nan: "\<not> is_num v \<Longrightarrow> \<not> is_nan v"
  by (cases v) (simp_all add: is_num_def is_nan_def)

lemma rank_num: "rank v = rank w \<Longrightarrow> is_num v = is_num w"
  by (cases v; cases w) (simp_all add: rank_def is_num_def)

lemma compare_valid:
  "CompareBsonValue E coll l r = Inr (c, b) \<Longrightarrow> \<not> is_num l \<Longrightarrow> b"
  by (cases l)
     (auto simp: CompareBsonValue.simps is_num_def Let_def ebind_def
       split: if_splits bson_value.splits option.splits prod.splits sum.splits)

context external_code
begin

lemma compare_same_rank:
  assumes "wf_value v" "wf_value w" "rank v = rank w"
  shows "CompareBsonValueAndType E v w = Inr (order_of E v w, is_nan v = is_nan w)"
proof -
  obtain c b where cb: "CompareBsonValueAndType E v w = Inr (c, b)" using compare_type_key assms by blast
  then have c: "c = order_of E v w" by (simp add: order_of_def)
  have inner: "CompareBsonValue E None v w = Inr (c, b)"
    using cb assms(3) by (simp add: CompareBsonValueAndType_def same_rank [symmetric])
  have "b = (is_nan v = is_nan w)"
  proof (cases "is_num v")
    case True
    then have "CompareBsonValue E None v w = CompareNumbers E v w"
      using assms(3) by (cases v) (auto simp: CompareBsonValue.simps same_rank is_num_def)
    with inner CompareNumbers_key [OF True] rank_num [OF assms(3)] True show ?thesis
      by (simp add: is_nan_def)
  next
    case False
    with compare_valid [OF inner False] not_num_not_nan rank_num [OF assms(3)] show ?thesis by auto
  qed
  with cb c show ?thesis by simp
qed

lemma CompareLogicalOperator_spec:
  assumes "wf_value v" "wf_value w"
  shows "CompareLogicalOperatorWithCollation E (BsonIterToPgbsonElement (k, v)) (operand p w)
     = Inr (if rank v = rank w then (order_of E v w, is_nan v = is_nan w) else (0, False))"
  using compare_same_rank [OF assms]
  by (simp add: CompareLogicalOperatorWithCollation_def same_rank collation_of_def
      CompareBsonValueAndTypeWithCollation_def CompareBsonValueAndType_def)

end

definition eq_test :: "extern \<Rightarrow> bson_value \<Rightarrow> bson_value \<Rightarrow> bool" where
  "eq_test E v w \<longleftrightarrow> comparable v w \<and> order_of E v w = 0 \<or> v = BvUndefined \<and> w = BvNull"

definition gt_test :: "extern \<Rightarrow> bson_value \<Rightarrow> bson_value \<Rightarrow> bool" where
  "gt_test E v w \<longleftrightarrow> (if w = BvMinKey then v \<noteq> BvMinKey else comparable v w \<and> order_of E v w > 0)"

definition gte_test :: "extern \<Rightarrow> bson_value \<Rightarrow> bson_value \<Rightarrow> bool" where
  "gte_test E v w \<longleftrightarrow> w = BvMinKey \<or> comparable v w \<and> order_of E v w \<ge> 0"

definition lt_test :: "extern \<Rightarrow> bson_value \<Rightarrow> bson_value \<Rightarrow> bool" where
  "lt_test E v w \<longleftrightarrow> (if w = BvMaxKey then v \<noteq> BvMaxKey else comparable v w \<and> order_of E v w < 0)"

definition lte_test :: "extern \<Rightarrow> bson_value \<Rightarrow> bson_value \<Rightarrow> bool" where
  "lte_test E v w \<longleftrightarrow> w = BvMaxKey \<or> comparable v w \<and> order_of E v w \<le> 0"

section \<open>Queries with a match function that only reads its state\<close>

abbreviation reached :: "settings \<Rightarrow> string \<Rightarrow> bson_doc \<Rightarrow> bson_value set" where
  "reached S p \<equiv> reach (SkipBsonArrayTraverseOptimization S) True (split_dots p)"

abbreviation reached_top :: "settings \<Rightarrow> string \<Rightarrow> bson_doc \<Rightarrow> bson_value set" where
  "reached_top S p \<equiv> reach (SkipBsonArrayTraverseOptimization S) False (split_dots p)"

definition dotted_path :: "string \<Rightarrow> bool" where
  "dotted_path p \<longleftrightarrow> c_string p \<and> length p < 2 ^ 32"

definition found :: "'x TraverseValidateState \<Rightarrow> bool" where
  "found s \<longleftrightarrow> compareResult s = CompareResult_Match"

lemmas callback_defs = exec_funcs_defs CompareVisitTopLevelField_def CompareVisitArrayField_def
  CompareSetTraverseResult_def CompareSetTraverseResultForNulls_def
  CompareContinueProcessIntermediateArray_def reads_def call_opt_def call_not_found_def found_def

text \<open>
  The contract of a match function: on the values it may be given (\<open>P\<close>) and the states the query
  may have (\<open>ok\<close>), it returns \<open>test\<close>.
\<close>

locale read_query = external_code E for E +
  fixes f :: "pgbsonelement \<Rightarrow> 'x \<Rightarrow> bool result" and test :: "bson_value \<Rightarrow> 'x \<Rightarrow> bool"
    and P :: "bson_value \<Rightarrow> bool" and ok :: "'x \<Rightarrow> bool"
  assumes decides: "P v \<Longrightarrow> ok x \<Longrightarrow> f (BsonIterToPgbsonElement (k, v)) x = Inr (test v x)"

sublocale read_query \<subseteq> all_values: visitor E "CompareExecutionFuncs (reads f)" "\<lambda>t. test (snd t)" "\<lambda>_ a. a"
    ok P found operatorState True
  by unfold_locales (auto simp: callback_defs decides split: TraverseBsonResult.splits)

sublocale read_query \<subseteq> null_query: visitor E "CompareNullExecutionFuncs (reads f)" "\<lambda>t. test (snd t)" "\<lambda>_ a. a"
    ok P found operatorState True
  by unfold_locales (auto simp: callback_defs decides split: TraverseBsonResult.splits)

sublocale read_query \<subseteq> top_values: visitor E "CompareTopLevelFieldExecutionFuncs (reads f)" "\<lambda>t. test (snd t)"
    "\<lambda>_ a. a" ok P found operatorState False
  by unfold_locales (auto simp: callback_defs decides split: TraverseBsonResult.splits)

context read_query
begin

lemma run_all:
  assumes "dotted_path p" "wf_doc d" "\<forall>v \<in> reached S p d. P v" "ok x"
  shows "\<exists>s. run_query E S (CompareExecutionFuncs (reads f)) d p x = Inr s \<and> operatorState s = x
    \<and> (compareResult s = CompareResult_Match \<longleftrightarrow> (\<exists>v \<in> reached S p d. test v x))"
  using all_values.TraverseBson_run [of p d "SkipBsonArrayTraverseOptimization S"
      "\<lparr>compareResult = CompareResult_PathNotFound, operatorState = x\<rparr>"] assms
  by (auto simp: run_query_def dotted_path_def scan_search found_def reach_def)

lemma run_top:
  assumes "dotted_path p" "wf_doc d" "\<forall>v \<in> reached_top S p d. P v" "ok x"
  shows "\<exists>s. run_query E S (CompareTopLevelFieldExecutionFuncs (reads f)) d p x = Inr s \<and> operatorState s = x
    \<and> (compareResult s = CompareResult_Match \<longleftrightarrow> (\<exists>v \<in> reached_top S p d. test v x))"
  using top_values.TraverseBson_run [of p d "SkipBsonArrayTraverseOptimization S"
      "\<lparr>compareResult = CompareResult_PathNotFound, operatorState = x\<rparr>"] assms
  by (auto simp: run_query_def dotted_path_def scan_search found_def reach_def)

lemma run_null:
  assumes "dotted_path p" "wf_doc d" "\<forall>v \<in> reached S p d. P v" "ok x" "r \<noteq> CompareResult_Match"
  shows "\<exists>s. TraverseBson E (SkipBsonArrayTraverseOptimization S) (CompareNullExecutionFuncs (reads f)) d p
      \<lparr>compareResult = r, operatorState = x\<rparr> = Inr s \<and> operatorState s = x
    \<and> (compareResult s = CompareResult_Match \<longleftrightarrow> (\<exists>v \<in> reached S p d. test v x))"
  using null_query.TraverseBson_run [of p d "SkipBsonArrayTraverseOptimization S"
      "\<lparr>compareResult = r, operatorState = x\<rparr>"] assms
  by (auto simp: dotted_path_def scan_search found_def reach_def)

end

section \<open>Queries with one operand\<close>

text \<open>On well-formed values, and operands the planner admits, \<open>test\<close> relates value and operand.\<close>

locale element_query = external_code E for E +
  fixes f :: element_match and test :: "bson_value \<Rightarrow> bson_value \<Rightarrow> bool" and adm :: "bson_value \<Rightarrow> bool"
  assumes decides: "field_value v \<Longrightarrow> wf_value w \<Longrightarrow> adm w \<Longrightarrow>
      f (BsonIterToPgbsonElement (k, v)) (operand p w) = Inr (test v w)"

definition element_ok :: "(bson_value \<Rightarrow> bool) \<Rightarrow> TraverseElementValidateState \<Rightarrow> bool" where
  "element_ok adm st \<longleftrightarrow> (\<exists>p w. st = operand p w \<and> wf_value w \<and> adm w)"

sublocale element_query \<subseteq> reading: read_query E f "\<lambda>v st. test v (bsonValue (filterElement st))" field_value
    "element_ok adm"
  by unfold_locales (auto simp: element_ok_def decides)

text \<open>A filter \<open>{ path: operand }\<close>, without collation.\<close>

definition query :: "settings \<Rightarrow> string \<Rightarrow> bson_value \<Rightarrow> bool" where
  "query S p w \<longleftrightarrow> \<not> EnableCollation S \<and> dotted_path p \<and> wf_value w"

lemma query_element_single: "query S p w \<Longrightarrow> query_element S [(p, w)] = Inr (operand p w)"
  by (simp add: query_def query_element_def PgbsonToSinglePgbsonElement_def
      BsonIterToSinglePgbsonElement_def operand_def)

context element_query
begin

lemma run_query_all:
  assumes "query S p w" "adm w" "wf_doc d"
  shows "\<exists>s. run_query E S (CompareExecutionFuncs (reads f)) d p (operand p w) = Inr s
    \<and> operatorState s = operand p w
    \<and> (compareResult s = CompareResult_Match \<longleftrightarrow> (\<exists>v \<in> reached S p d. test v w))"
  using reading.run_all [of p d S "operand p w"] assms reach_wf [OF assms(3)]
  by (auto simp: query_def element_ok_def)

lemma run_query_top:
  assumes "query S p w" "adm w" "wf_doc d"
  shows "\<exists>s. run_query E S (CompareTopLevelFieldExecutionFuncs (reads f)) d p (operand p w) = Inr s
    \<and> operatorState s = operand p w
    \<and> (compareResult s = CompareResult_Match \<longleftrightarrow> (\<exists>v \<in> reached_top S p d. test v w))"
  using reading.run_top [of p d S "operand p w"] assms reach_wf [OF assms(3)]
  by (auto simp: query_def element_ok_def)

text \<open>An operator without the special treatment of null, or with an operand that is not null.\<close>

lemma against_query:
  assumes "query S p w" "adm w" "wf_doc d" "filter_null isNull (operand p w) = Inr False"
  shows "CompareBsonAgainstQuery E S d [(p, w)] f isNull = Inr (\<exists>v \<in> reached S p d. test v w)"
  using run_query_all [OF assms(1-3)] query_element_single [OF assms(1)] assms(4)
  by (auto simp: CompareBsonAgainstQuery_def ProcessQueryResultAndGetMatch_def)

lemma value_against_query:
  assumes "query S p w" "adm w" "field_value v" "filter_null isNull (operand p w) = Inr False"
  shows "CompareBsonValueAgainstQuery E S (BsonIterToPgbsonElement (k, v)) [(p, w)] f isNull
     = Inr (if p = [] then test v w
            else case v of BvDocument d \<Rightarrow> \<exists>u \<in> reached S p d. test u w
                         | BvArray d \<Rightarrow> \<exists>u \<in> reached S p d. test u w
                         | _ \<Rightarrow> False)"
proof -
  have len: "strlen p = 0 \<longleftrightarrow> p = []"
    using assms(1) by (cases p) (auto simp: query_def dotted_path_def strlen_def cstr_def c_string_def)
  have run: "ebind (run_query E S (CompareExecutionFuncs (reads f)) d p (operand p w))
      (ProcessQueryResultAndGetMatch isNull) = Inr (\<exists>u \<in> reached S p d. test u w)" if "wf_doc d" for d
    using run_query_all [OF assms(1,2) that] assms(4) by (auto simp: ProcessQueryResultAndGetMatch_def)
  show ?thesis
    using query_element_single [OF assms(1)] assms run
    by (cases v) (auto simp: CompareBsonValueAgainstQuery_def CompareBsonValueAgainstQueryCore_def len reads_def
        decides v_doc_def query_def)
qed

end

lemma filter_null_simps [simp]:
  "filter_null None x = Inr False"
  "filter_null null_value (operand p w) = Inr (w = BvNull)"
  by (simp_all add: filter_null_def IsQueryFilterNullForValue_def value_of_type)

lemma negate_Inr [simp]: "negate (Inr b) = Inr (\<not> b)"
  by (simp add: negate_def)

section \<open>The match functions meet the contract\<close>

sublocale external_code \<subseteq> eq: element_query E "CompareEqualMatch E" "eq_test E" "\<lambda>_. True"
  by unfold_locales
     (auto simp: CompareEqualMatch_def CompareLogicalOperator_spec field_value_def eq_test_def comparable_def
        value_of_type)

sublocale external_code \<subseteq> gt: element_query E "CompareGreaterMatch E" "gt_test E" "\<lambda>_. True"
  by unfold_locales
     (auto simp: CompareGreaterMatch_def CompareLogicalOperator_spec field_value_def gt_test_def comparable_def
        value_of_type)

sublocale external_code \<subseteq> gte: element_query E "CompareGreaterEqualMatch E" "gte_test E" "\<lambda>_. True"
  by unfold_locales
     (auto simp: CompareGreaterEqualMatch_def CompareLogicalOperator_spec field_value_def gte_test_def comparable_def
        value_of_type)

sublocale external_code \<subseteq> lt: element_query E "CompareLessMatch E" "lt_test E" "\<lambda>_. True"
  by unfold_locales
     (auto simp: CompareLessMatch_def CompareLogicalOperator_spec field_value_def lt_test_def comparable_def
        value_of_type)

sublocale external_code \<subseteq> lte: element_query E "CompareLessEqualMatch E" "lte_test E" "\<lambda>_. True"
  by unfold_locales
     (auto simp: CompareLessEqualMatch_def CompareLogicalOperator_spec field_value_def lte_test_def comparable_def
        value_of_type)

sublocale external_code \<subseteq> exists_query: element_query E CompareExistsMatch "\<lambda>_ _. True" "\<lambda>_. True"
  by unfold_locales (simp add: CompareExistsMatch_def)

text \<open>\<open>$size\<close> with an integer operand; a negative one matches nothing.\<close>

definition size_test :: "bson_value \<Rightarrow> bson_value \<Rightarrow> bool" where
  "size_test v w \<longleftrightarrow> (case v of BvArray a \<Rightarrow> int (length a) = int_val w | _ \<Rightarrow> False)"

lemma size_test_iff: "size_test v w \<longleftrightarrow> (\<exists>a. v = BvArray a \<and> int (length a) = int_val w)"
  by (cases v) (simp_all add: size_test_def)

lemma count_array_spec:
  "n \<le> arraySize \<Longrightarrow> (arraySize = count_array arraySize d n) = (int (length d) = arraySize - n)"
proof (induction d arbitrary: n)
  case (Cons e d)
  show ?case
  proof (cases "n + 1 \<le> arraySize")
    case False
    then have "n = arraySize" using Cons.prems by simp
    then show ?thesis by (cases d) auto
  qed (use Cons in auto)
qed auto

lemma count_array_size: "(n = count_array n d 0) = (int (length d) = n)"
proof (cases "0 \<le> n")
  case False
  then show ?thesis by (cases d) auto
qed (use count_array_spec [of 0 n d] in simp)

sublocale external_code \<subseteq> size_query: element_query E "CompareArraySizeMatch E" size_test is_integral
  by unfold_locales
     (auto simp: CompareArraySizeMatch_def BsonValueAsInt64_integral size_test_def count_array_size
        sint_of_range int_val_range split: bson_value.splits)

text \<open>\<open>$type\<close> with a type name, or with \<open>number\<close>.\<close>

definition type_test :: "bson_value \<Rightarrow> bson_value \<Rightarrow> bool" where
  "type_test v w \<longleftrightarrow> (w = BvUtf8 ''number'' \<and> BsonTypeIsNumber (value_type v)
     \<or> (\<exists>s. w = BvUtf8 s \<and> BsonTypeName (value_type v) = Inr s))"

definition type_operand :: "bson_value \<Rightarrow> bool" where
  "type_operand w \<longleftrightarrow> (\<exists>s. w = BvUtf8 s \<and> c_string s)"

lemma type_name_c_string:
  "field_value v \<Longrightarrow> \<exists>n. BsonTypeName (value_type v) = Inr n \<and> cstr n = n \<and> n \<noteq> ''number''"
  by (cases v) (simp_all add: field_value_def)

lemma type_match_name:
  assumes "field_value v" "c_string s"
  shows "CompareArrayTypeMatch E (BsonIterToPgbsonElement (k, v)) (operand p (BvUtf8 s)) = Inr (type_test v (BvUtf8 s))"
proof -
  obtain n where n: "BsonTypeName (value_type v) = Inr n" "cstr n = n" "n \<noteq> ''number''"
    using type_name_c_string [OF assms(1)] by blast
  have "cstr s = s" using assms(2) by (simp add: cstr_def c_string_def takeWhile_eq_all_conv)
  moreover have "cstr ''number'' = ''number''" by (simp add: cstr_def byte_val_def)
  ultimately show ?thesis
    using n by (auto simp: CompareArrayTypeMatch_def type_test_def strcmp_def Let_def)
qed

sublocale external_code \<subseteq> type_query: element_query E "CompareArrayTypeMatch E" type_test type_operand
  by unfold_locales (auto simp: type_operand_def type_match_name)

section \<open>The comparison operators on documents\<close>

context external_code
begin

lemma dollar_gt:
  assumes "query S p w" "wf_doc d"
  shows "bson_dollar_gt E S d [(p, w)] = Inr (\<exists>v \<in> reached S p d. gt_test E v w)"
    "bson_dollar_not_gt E S d [(p, w)] = Inr (\<not> (\<exists>v \<in> reached S p d. gt_test E v w))"
  using gt.against_query [OF assms(1) TrueI assms(2)] by (simp_all add: bson_dollar_gt_def bson_dollar_not_gt_def)

lemma dollar_lt:
  assumes "query S p w" "wf_doc d"
  shows "bson_dollar_lt E S d [(p, w)] = Inr (\<exists>v \<in> reached S p d. lt_test E v w)"
    "bson_dollar_not_lt E S d [(p, w)] = Inr (\<not> (\<exists>v \<in> reached S p d. lt_test E v w))"
  using lt.against_query [OF assms(1) TrueI assms(2)] by (simp_all add: bson_dollar_lt_def bson_dollar_not_lt_def)

lemma dollar_gte:
  assumes "query S p w" "wf_doc d" "w \<noteq> BvNull"
  shows "bson_dollar_gte E S d [(p, w)] = Inr (\<exists>v \<in> reached S p d. gte_test E v w)"
    "bson_dollar_not_gte E S d [(p, w)] = Inr (\<not> (\<exists>v \<in> reached S p d. gte_test E v w))"
  using gte.against_query [OF assms(1) TrueI assms(2), of null_value] assms(3)
  by (simp_all add: bson_dollar_gte_def bson_dollar_not_gte_def)

lemma dollar_lte:
  assumes "query S p w" "wf_doc d" "w \<noteq> BvNull"
  shows "bson_dollar_lte E S d [(p, w)] = Inr (\<exists>v \<in> reached S p d. lte_test E v w)"
    "bson_dollar_not_lte E S d [(p, w)] = Inr (\<not> (\<exists>v \<in> reached S p d. lte_test E v w))"
  using lte.against_query [OF assms(1) TrueI assms(2), of null_value] assms(3)
  by (simp_all add: bson_dollar_lte_def bson_dollar_not_lte_def)

lemma dollar_eq:
  assumes "query S p w" "wf_doc d" "w \<noteq> BvNull"
  shows "bson_dollar_eq E S d [(p, w)] = Inr (\<exists>v \<in> reached S p d. eq_test E v w)"
    "bson_dollar_ne E S d [(p, w)] = Inr (\<not> (\<exists>v \<in> reached S p d. eq_test E v w))"
  using eq.against_query [OF assms(1) TrueI assms(2), of null_value] assms(3)
  by (simp_all add: bson_dollar_eq_def bson_dollar_ne_def)

lemma dollar_type:
  assumes "query S p (BvUtf8 s)" "c_string s" "wf_doc d"
  shows "bson_dollar_type E S d [(p, BvUtf8 s)] = Inr (\<exists>v \<in> reached S p d. type_test v (BvUtf8 s))"
  using type_query.against_query [OF assms(1) _ assms(3), of None] assms(2)
  by (simp add: bson_dollar_type_def type_operand_def)

lemma dollar_size:
  assumes "query S p w" "is_integral w" "wf_doc d"
  shows "bson_dollar_size E S d [(p, w)] = Inr (\<exists>a. BvArray a \<in> reached_top S p d \<and> int (length a) = int_val w)"
proof -
  have "PgbsonToSinglePgbsonElement (EnableCollation S) [(p, w)] = Inr (BsonIterToPgbsonElement (p, w))"
    using assms(1) by (simp add: query_def PgbsonToSinglePgbsonElement_def BsonIterToSinglePgbsonElement_def)
  moreover have "(\<exists>v \<in> reached_top S p d. size_test v w)
      \<longleftrightarrow> (\<exists>a. BvArray a \<in> reached_top S p d \<and> int (length a) = int_val w)"
    by (auto simp: size_test_iff)
  ultimately show ?thesis
    using size_query.run_query_top [OF assms] by (auto simp: bson_dollar_size_def operand_def)
qed

lemma dollar_exists:
  assumes "query S p w" "wf_doc d" "w = BvBool b"
  shows "bson_dollar_exists E S d [(p, w)] = Inr ((reached S p d \<noteq> {}) = b)"
proof -
  have "IsExistPositiveMatch E S [(p, w)] = Inr b"
    using assms(1) unfolding assms(3)
    by (simp add: IsExistPositiveMatch_def query_def PgbsonToSinglePgbsonElement_def
        BsonIterToSinglePgbsonElement_def BsonValueAsInt64_integral BsonValueIsNumberOrBool_def)
  then show ?thesis
    using exists_query.against_query [OF assms(1) TrueI assms(2), of None]
    by (auto simp: bson_dollar_exists_def)
qed

end

section \<open>The traversal optimisation\<close>

text \<open>
  The keys of an array are its indices, so they start with digits.  Then trying each path
  component as an index, as \<open>SkipBsonArrayTraverseOptimization\<close> asks, reaches nothing new.
\<close>

fun indexed_value :: "bson_value \<Rightarrow> bool"
  and indexed_doc :: "bson_doc \<Rightarrow> bool" where
  "indexed_value (BvDocument d) = indexed_doc d"
| "indexed_value (BvArray a) = (list_all (\<lambda>e. starts_with_digit (fst e)) a \<and> indexed_doc a)"
| "indexed_value _ = True"
| "indexed_doc [] = True"
| "indexed_doc ((_, v) # d) = (indexed_value v \<and> indexed_doc d)"

lemma indexed_member: "indexed_doc d \<Longrightarrow> e \<in> set d \<Longrightarrow> indexed_value (snd e)"
  by (induction d) auto

lemma indexed_find: "indexed_doc d \<Longrightarrow> find_field k d = Some v \<Longrightarrow> indexed_value v"
  unfolding find_field_def using indexed_member map_of_SomeD by fastforce

lemma not_index:
  assumes "list_all (\<lambda>e. starts_with_digit (fst e)) a" "\<not> starts_with_digit k"
  shows "visits skip elems (k # ks) inArray a = []"
proof -
  have "find_field k a = None"
    using assms by (auto simp: find_field_def map_of_eq_None_iff list_all_iff)
  then show ?thesis by (cases ks) simp_all
qed

lemma visits_optimisation: "indexed_doc d \<Longrightarrow> visits True elems ks inArray d = visits False elems ks inArray d"
proof (induction False elems ks inArray d rule: visits.induct)
  case (3 elems k k' ks inArray d)
  show ?case
  proof (cases "find_field k d")
    case (Some w)
    then have w: "indexed_value w" using 3 indexed_find by blast
    show ?thesis
    proof (cases w)
      case (BvArray a)
      with w have a: "list_all (\<lambda>e. starts_with_digit (fst e)) a" "indexed_doc a" by simp_all
      have "(if True \<or> starts_with_digit k' then visits True elems (k' # ks) True a else [])
          = (if False \<or> starts_with_digit k' then visits False elems (k' # ks) True a else [])"
        using not_index [OF a(1)] "3.hyps"(2) [OF Some BvArray _ a(2)] by auto
      moreover have "(case snd e of BvDocument d' \<Rightarrow> visits True elems (k' # ks) False d' | _ \<Rightarrow> [])
          = (case snd e of BvDocument d' \<Rightarrow> visits False elems (k' # ks) False d' | _ \<Rightarrow> [])" if "e \<in> set a" for e
        using that "3.hyps"(3) [OF Some BvArray that] indexed_member [OF a(2) that]
        by (cases "snd e") auto
      ultimately show ?thesis using Some BvArray by (simp cong: map_cong)
    qed (use 3 Some w in simp_all)
  qed simp
qed simp_all

lemma reach_optimisation: "indexed_doc d \<Longrightarrow> reach skip elems ks d = reach False elems ks d"
  using visits_optimisation [of d elems ks False] by (cases skip) (simp_all add: reach_def)

end
