(* ===== verification/Query_Compound.thy ===== *)
theory Query_Compound
  imports Query_Spec
begin

text \<open>
  The operators whose operand is a list or a nested query: \<open>$in\<close>, \<open>$all\<close>, \<open>$elemMatch\<close>, \<open>$mod\<close>, the
  bit operators and \<open>$range\<close>.
\<close>

section \<open>\<open>$in\<close> and \<open>$nin\<close>\<close>

text \<open>The states of \<open>$in\<close> for a list of scalar operands (\<open>set_plain\<close>), without collation.\<close>

definition in_state :: "extern \<Rightarrow> bson_value set \<Rightarrow> TraverseInValidateState \<Rightarrow> bool" where
  "in_state E ws st \<longleftrightarrow> in_collationString st = None \<and> in_regexList st = [] \<and> hasNull st = (BvNull \<in> ws)
     \<and> (\<forall>x \<in> set (bsonValueHashSet st). wf_value x \<and> set_plain x)
     \<and> (\<forall>v. wf_value v \<longrightarrow> (\<exists>x \<in> set (bsonValueHashSet st). order_of E x v = 0)
            = (\<exists>w \<in> ws - {BvNull}. order_of E w v = 0))"

definition scalar :: "bson_value \<Rightarrow> bool" where
  "scalar v \<longleftrightarrow> wf_value v \<and> v \<noteq> BvEOD \<and> set_plain v"

lemma applicable_None [simp]: "applicable S None = None"
  by (simp add: applicable_def)

lemma scalar_not_regex: "scalar v \<Longrightarrow> v \<noteq> BvRegex r t"
  by (auto simp: scalar_def set_plain_def)

context external_code
begin

lemma in_state_step:
  assumes "in_state E ws st" "scalar v" "v \<noteq> BvNull"
  shows "\<exists>keys. in_set_enter E S (in_collationString st) (bsonValueHashSet st) v = Inr keys
     \<and> in_state E (insert v ws) (st\<lparr>bsonValueHashSet := keys\<rparr>)"
proof -
  have keys: "\<forall>x \<in> set (bsonValueHashSet st). wf_value x \<and> set_plain x"
    using assms(1) by (simp add: in_state_def)
  have v: "wf_value v" "set_plain v" using assms(2) by (simp_all add: scalar_def)
  from bson_set_enter_spec [OF keys v] obtain keys' where
    "bson_set_enter E (bsonValueHashSet st) v = Inr keys'" "\<forall>x \<in> set keys'. wf_value x \<and> set_plain x"
    "\<forall>w. wf_value w \<longrightarrow> in_set keys' w = (in_set (bsonValueHashSet st) w \<or> order_of E v w = 0)" by blast
  with assms show ?thesis
    by (auto simp: in_state_def in_set_enter_def in_set_def insert_Diff_if)
qed

lemma in_state_loop_spec:
  assumes "\<forall>e \<in> set d. scalar (snd e)" "in_state E ws st"
  shows "\<exists>st'. in_state_loop E S d st = Inr st' \<and> in_state E (ws \<union> snd ` set d) st' \<and> in_filter st' = in_filter st"
  using assms
proof (induction d arbitrary: ws st)
  case (Cons e d)
  obtain k v where e: "e = (k, v)" by (cases e)
  have v: "scalar v" using Cons.prems(1) e by simp
  have rest: "\<forall>e \<in> set d. scalar (snd e)" using Cons.prems(1) by simp
  show ?case
  proof (cases "v = BvNull")
    case True
    have "in_state E (insert BvNull ws) (st\<lparr>hasNull := True\<rparr>)"
      using Cons.prems(2) by (auto simp: in_state_def)
    from Cons.IH [OF rest this] show ?thesis using e True by simp
  next
    case False
    from in_state_step [OF Cons.prems(2) v False] obtain keys where keys:
      "in_set_enter E S (in_collationString st) (bsonValueHashSet st) v = Inr keys"
      "in_state E (insert v ws) (st\<lparr>bsonValueHashSet := keys\<rparr>)" by blast
    have "in_state_loop E S (e # d) st = in_state_loop E S d (st\<lparr>bsonValueHashSet := keys\<rparr>)"
      using keys(1) False scalar_not_regex [OF v] unfolding e by (cases v) auto
    with Cons.IH [OF rest keys(2)] e show ?thesis by simp
  qed
qed simp

lemma null_order: "v \<in> {BvNull, BvUndefined} \<Longrightarrow> order_of E BvNull v = 0"
  by (auto simp: order_zero_key rank_def)

lemma in_match:
  assumes "scalar v" "in_state E ws st"
  shows "CompareInMatch E S (BsonIterToPgbsonElement (k, v)) st = Inr (\<exists>w \<in> ws. order_of E w v = 0)"
proof -
  have v: "wf_value v" "set_plain v" using assms(1) by (simp_all add: scalar_def)
  have st: "\<forall>x \<in> set (bsonValueHashSet st). wf_value x \<and> set_plain x"
    "in_regexList st = []" "in_collationString st = None" "hasNull st = (BvNull \<in> ws)"
    "in_set (bsonValueHashSet st) v = (\<exists>w \<in> ws - {BvNull}. order_of E w v = 0)"
    using assms(2) v(1) by (simp_all add: in_state_def in_set_def)
  have "order_of E BvNull v = 0 \<longleftrightarrow> v \<in> {BvNull, BvUndefined}"
    using v(1) by (cases v) (auto simp: order_zero_key rank_def)
  then show ?thesis
    using bson_set_find_spec [OF st(1) v] st
    by (auto simp: CompareInMatch_def in_set_find_def value_of_type)
qed

end

sublocale external_code \<subseteq> in_values: read_query E "CompareInMatch E S"
    "\<lambda>v st. \<exists>w \<in> ws. order_of E w v = 0" scalar "in_state E ws" for S ws
  by unfold_locales (rule in_match)

context external_code
begin

text \<open>With operands that are not null, \<open>$in\<close> asks for a reached value equal to one of them.\<close>

lemma dollar_in:
  assumes "query S p (BvArray d)" "\<forall>e \<in> set d. scalar (snd e) \<and> snd e \<noteq> BvNull"
    and "wf_doc doc" "\<forall>v \<in> reached S p doc. scalar v"
  defines "hit \<equiv> \<exists>v \<in> reached S p doc. \<exists>e \<in> set d. order_of E (snd e) v = 0"
  shows "bson_dollar_in E S doc [(p, BvArray d)] = Inr hit" "bson_dollar_nin E S doc [(p, BvArray d)] = Inr (\<not> hit)"
proof -
  let ?st0 = "\<lparr>in_filter = BsonIterToPgbsonElement (p, BvArray d), in_regexList = [], bsonValueHashSet = [],
    hasNull = False, in_collationString = None\<rparr>"
  have "in_state E {} ?st0" by (simp add: in_state_def)
  with in_state_loop_spec [of d "{}" ?st0 S] assms(2) obtain st where
    st: "in_state_loop E S d ?st0 = Inr st" "in_state E (snd ` set d) st"
      "in_filter st = BsonIterToPgbsonElement (p, BvArray d)"
    by auto
  have no_null: "\<not> hasNull st" using st(2) assms(2) by (auto simp: in_state_def)
  have pop: "PopulateDollarInStateFromQuery E S [(p, BvArray d)] = Inr st"
    using st(1) query_element_single [OF assms(1)]
    by (simp add: PopulateDollarInStateFromQuery_def v_doc_def operand_def)
  have "dotted_path p" using assms(1) by (simp add: query_def)
  then have "\<exists>s. run_query E S (CompareExecutionFuncs (reads (CompareInMatch E S))) doc p st = Inr s
      \<and> operatorState s = st \<and> (compareResult s = CompareResult_Match
        \<longleftrightarrow> (\<exists>v \<in> reached S p doc. \<exists>w \<in> snd ` set d. order_of E w v = 0))"
    using assms(3,4) st(2) by (rule in_values.run_all)
  then obtain s where
    "in_query E S doc [(p, BvArray d)] = Inr s" "operatorState s = st"
    "compareResult s = CompareResult_Match \<longleftrightarrow> hit"
    unfolding in_query_def using pop st(3) by (auto simp: hit_def)
  with no_null show "bson_dollar_in E S doc [(p, BvArray d)] = Inr hit"
    "bson_dollar_nin E S doc [(p, BvArray d)] = Inr (\<not> hit)"
    by (simp_all add: bson_dollar_in_def bson_dollar_nin_def)
qed

end

section \<open>\<open>$elemMatch\<close>\<close>

text \<open>The nested query as a predicate, if its evaluation raises no error.\<close>

definition elem_test :: "bson_value \<Rightarrow> TraverseElemMatchValidateState \<Rightarrow> bool" where
  "elem_test v st \<longleftrightarrow> (\<exists>a. v = BvArray a \<and> (\<exists>e \<in> set a.
     if isEmptyElemMatch st then value_type (snd e) \<in> {BSON_TYPE_DOCUMENT, BSON_TYPE_ARRAY}
     else expressionEvaluationState st (BsonIterToPgbsonElement e) = Inr True))"

definition evaluates :: "TraverseElemMatchValidateState \<Rightarrow> bool" where
  "evaluates st \<longleftrightarrow>
     (\<forall>k v. field_value v \<longrightarrow> (\<exists>b. expressionEvaluationState st (BsonIterToPgbsonElement (k, v)) = Inr b))"

lemma eval_elements_spec:
  assumes "\<forall>k v. field_value v \<longrightarrow> (\<exists>b. ev (BsonIterToPgbsonElement (k, v)) = Inr b)"
  shows "wf_doc d \<Longrightarrow> eval_elements ev d = Inr (\<exists>e \<in> set d. ev (BsonIterToPgbsonElement e) = Inr True)"
proof (induction d)
  case (Cons e d)
  obtain k v where e: "e = (k, v)" by (cases e)
  with Cons.prems obtain b where "ev (BsonIterToPgbsonElement e) = Inr b"
    using assms wf_doc_Cons [of k v d] by blast
  with Cons e show ?case by (cases b) auto
qed simp

sublocale external_code \<subseteq> elem_match: read_query E CompareElemMatchMatch elem_test field_value evaluates
proof
  fix v st k
  assume "field_value v" "evaluates st"
  then show "CompareElemMatchMatch (BsonIterToPgbsonElement (k, v)) st = Inr (elem_test v st)"
    by (cases v) (simp_all add: CompareElemMatchMatch_def elem_test_def evaluates_def eval_elements_spec
        EvalBooleanExpressionAgainstArray_def)
qed

lemma enc_doc_length: "length (enc_doc d) < 6 \<longleftrightarrow> d = []"
proof -
  have "enc_elements d = [] \<longleftrightarrow> d = []" by (cases d) auto
  then show ?thesis by simp
qed

context external_code
begin

lemma dollar_elemmatch:
  assumes "query S p (BvDocument q)" "wf_doc d"
    and "\<forall>k v. field_value v \<longrightarrow> (\<exists>b. X (BvDocument q) None (BsonIterToPgbsonElement (k, v)) = Inr b)"
  shows "bson_dollar_elemmatch E X S d [(p, BvDocument q)] = Inr (\<exists>a. BvArray a \<in> reached_top S p d \<and>
     (\<exists>e \<in> set a. if q = [] then value_type (snd e) \<in> {BSON_TYPE_DOCUMENT, BSON_TYPE_ARRAY}
                  else X (BvDocument q) None (BsonIterToPgbsonElement e) = Inr True))"
proof -
  let ?st = "\<lparr>expressionEvaluationState = X (BvDocument q) None, isEmptyElemMatch = (q = [])\<rparr>"
  have pop: "PopulateElemMatchValidationState X S [(p, BvDocument q)] = Inr (BsonIterToPgbsonElement (p, BvDocument q), ?st)"
    using query_element_single [OF assms(1)]
    by (simp add: PopulateElemMatchValidationState_def operand_def IsBsonValueEmptyDocument_def enc_doc_length
        del: enc_doc.simps)
  have "evaluates ?st" using assms(3) by (simp add: evaluates_def)
  from elem_match.run_top [OF _ assms(2) _ this, of p S] obtain s where
    "run_query E S (CompareTopLevelFieldExecutionFuncs (reads CompareElemMatchMatch)) d p ?st = Inr s"
    "compareResult s = CompareResult_Match \<longleftrightarrow> (\<exists>v \<in> reached_top S p d. elem_test v ?st)"
    using assms(1) reach_wf [OF assms(2)] by (auto simp: query_def)
  moreover have "(\<exists>v \<in> reached_top S p d. elem_test v ?st) \<longleftrightarrow> (\<exists>a. BvArray a \<in> reached_top S p d \<and>
     (\<exists>e \<in> set a. if q = [] then value_type (snd e) \<in> {BSON_TYPE_DOCUMENT, BSON_TYPE_ARRAY}
                  else X (BvDocument q) None (BsonIterToPgbsonElement e) = Inr True))"
    unfolding elem_test_def by auto
  ultimately show ?thesis using pop by (simp add: bson_dollar_elemmatch_def)
qed

end

section \<open>\<open>$all\<close>\<close>

text \<open>
  Operands that are compared by value: no regular expressions and no \<open>$elemMatch\<close> queries.  The
  state then has a flag per operand, and each visited value sets the flags of the operands equal to
  it.
\<close>

definition equal_values :: "extern \<Rightarrow> bson_value \<Rightarrow> bson_value \<Rightarrow> bool" where
  "equal_values E w v \<longleftrightarrow> comparable w v \<and> order_of E w v = 0"

definition all_state :: "bson_doc \<Rightarrow> TraverseAllValidateState \<Rightarrow> bool" where
  "all_state d st \<longleftrightarrow> bsonValue (all_filter st) = BvArray d \<and> evalStateArray st = None
     \<and> all_collationString st = None \<and> length (matchState st) = length d
     \<and> (\<forall>e \<in> set d. wf_value (snd e) \<and> value_type (snd e) \<noteq> BSON_TYPE_REGEX)"

definition all_flags :: "extern \<Rightarrow> bson_doc \<Rightarrow> bson_value \<Rightarrow> bool list \<Rightarrow> bool list" where
  "all_flags E d v ms = map2 (\<lambda>m e. m \<or> equal_values E (snd e) v) ms d"

definition all_hit :: "extern \<Rightarrow> bson_doc \<Rightarrow> visit \<Rightarrow> TraverseAllValidateState \<Rightarrow> bool" where
  "all_hit E d t st \<longleftrightarrow> list_all id (all_flags E d (snd t) (matchState st))"

definition all_upd :: "extern \<Rightarrow> bson_doc \<Rightarrow> visit \<Rightarrow> TraverseAllValidateState \<Rightarrow> TraverseAllValidateState" where
  "all_upd E d t st = st\<lparr>matchState := all_flags E d (snd t) (matchState st)\<rparr>"

lemma all_flags_length [simp]: "length ms = length d \<Longrightarrow> length (all_flags E d v ms) = length d"
  by (simp add: all_flags_def)

lemma all_index [simp]:
  "all_hit E d (Some i, v) = all_hit E d (None, v)" "all_upd E d (Some i, v) = all_upd E d (None, v)"
  by (simp_all add: all_hit_def [abs_def] all_upd_def [abs_def])

lemma all_upd_state: "all_state d st \<Longrightarrow> all_state d (all_upd E d t st)"
  by (simp add: all_state_def all_upd_def)

context external_code
begin

lemma all_element_match_spec:
  assumes "evalStateArray st = None" "all_collationString st = None" "wf_value w" "wf_value v"
    "value_type w \<noteq> BSON_TYPE_REGEX"
  shows "all_element_match E st i w v = Inr (equal_values E w v)"
proof -
  have cmp: "CompareBsonValueAndTypeWithCollation E None w v = CompareBsonValueAndType E w v"
    by (simp add: CompareBsonValueAndTypeWithCollation_def CompareBsonValueAndType_def)
  have "ebind (CompareBsonValueAndType E w v) (\<lambda>(cmp, isComparisonValid). Inr (isComparisonValid \<and> cmp = 0))
      = Inr (equal_values E w v)"
  proof (cases "rank w = rank v")
    case True
    then show ?thesis using compare_same_rank [OF assms(3,4)] by (auto simp: equal_values_def comparable_def)
  next
    case False
    then show ?thesis
      by (simp add: CompareBsonValueAndType_def same_rank equal_values_def comparable_def)
  qed
  then show ?thesis
    using assms(1,2,5) cmp
    by (cases w) (simp_all add: all_element_match_def all_value_match_def collation_of_def)
qed

lemma all_match_loop_spec:
  assumes "evalStateArray st = None" "all_collationString st = None" "wf_value v"
  shows "length ms = length es \<Longrightarrow> \<forall>e \<in> set es. wf_value (snd e) \<and> value_type (snd e) \<noteq> BSON_TYPE_REGEX \<Longrightarrow>
    all_match_loop E (st\<lparr>matchState := pre @ ms\<rparr>) v (length pre) es res
     = Inr (res \<and> list_all id (all_flags E es v ms), st\<lparr>matchState := pre @ all_flags E es v ms\<rparr>)"
proof (induction es arbitrary: ms pre res)
  case (Cons e es)
  obtain k w where e: "e = (k, w)" by (cases e)
  obtain m ms' where ms: "ms = m # ms'" "length ms' = length es" using Cons.prems(1) by (cases ms) auto
  have w: "wf_value w" "value_type w \<noteq> BSON_TYPE_REGEX" using Cons.prems(2) e by simp_all
  have rest: "\<forall>e \<in> set es. wf_value (snd e) \<and> value_type (snd e) \<noteq> BSON_TYPE_REGEX" using Cons.prems(2) by simp
  have elem: "all_element_match E (st\<lparr>matchState := x\<rparr>) i w v = Inr (equal_values E w v)" for x i
    using all_element_match_spec [of "st\<lparr>matchState := x\<rparr>", OF _ _ w(1) assms(3) w(2)] assms(1,2) by simp
  note IH = Cons.IH [OF ms(2) rest, of "pre @ [m \<or> equal_values E w v]"]
  show ?case
    using IH [of res] IH [of "res \<and> equal_values E w v"] elem unfolding e ms(1)
    by (cases m) (auto simp: all_flags_def list_update_append)
qed (simp add: all_flags_def)

lemma CompareAllMatch_spec:
  assumes "field_value v" "all_state d st"
  shows "CompareAllMatch E (BsonIterToPgbsonElement (k, v)) st b = Inr (all_hit E d (None, v) st, all_upd E d (None, v) st)"
  using all_match_loop_spec [of st v "matchState st" d "[]" True] assms
  by (simp add: CompareAllMatch_def all_state_def v_doc_def all_hit_def all_upd_def field_value_def)

end

sublocale external_code \<subseteq> all_operands: visitor E "CompareExecutionFuncs (CompareAllMatch E)" "all_hit E d" "all_upd E d"
    "all_state d" field_value found operatorState True for d
  by unfold_locales
     (auto simp: callback_defs CompareAllMatch_spec all_upd_state split: TraverseBsonResult.splits)

lemma all_flags_nth: "length ms = length d \<Longrightarrow> i < length d \<Longrightarrow>
    all_flags E d v ms ! i \<longleftrightarrow> ms ! i \<or> equal_values E (snd (d ! i)) v"
  by (simp add: all_flags_def)

lemma scan_all:
  assumes "all_state d st" "\<not> list_all id (matchState st)"
  shows "fst (scan (all_hit E d) (all_upd E d) vs st) \<longleftrightarrow>
    (\<forall>i < length d. matchState st ! i \<or> (\<exists>t \<in> set vs. equal_values E (snd (d ! i)) (snd t)))"
  using assms
proof (induction vs arbitrary: st)
  case Nil
  then show ?case by (auto simp: all_state_def list_all_length)
next
  case (Cons t vs)
  have len: "length (matchState st) = length d" using Cons.prems by (simp add: all_state_def)
  show ?case
  proof (cases "all_hit E d t st")
    case True
    then show ?thesis using len by (auto simp: all_hit_def list_all_length all_flags_nth)
  next
    case False
    then have "\<not> list_all id (matchState (all_upd E d t st))" by (simp add: all_hit_def all_upd_def)
    note IH = Cons.IH [OF all_upd_state [OF Cons.prems(1)] this]
    have "matchState (all_upd E d t st) ! i \<longleftrightarrow> matchState st ! i \<or> equal_values E (snd (d ! i)) (snd t)"
      if "i < length d" for i
      using that len by (simp add: all_upd_def all_flags_nth)
    with IH False show ?thesis by auto
  qed
qed

context external_code
begin

lemma dollar_all:
  assumes "query S p (BvArray d)" "wf_doc doc" "\<exists>e \<in> set d. snd e \<noteq> BvNull"
    and "\<forall>e \<in> set d. value_type (snd e) \<notin> {BSON_TYPE_REGEX, BSON_TYPE_DOCUMENT}"
  shows "bson_dollar_all E X S doc [(p, BvArray d)] =
    Inr (\<forall>e \<in> set d. \<exists>v \<in> reached S p doc. equal_values E (snd e) v)"
proof -
  let ?st = "\<lparr>all_filter = BsonIterToPgbsonElement (p, BvArray d), matchState = replicate (length d) False,
    evalStateArray = None, crePcreData = None, arrayHasOnlyNulls = False, all_collationString = None\<rparr>"
  have d: "wf_doc d" "d \<noteq> []" using assms(1,3) by (auto simp: query_def)
  have queries: "map_result (\<lambda>e. elem_match_query (snd e)) d = Inr (replicate (length d) None)"
    using assms(4) by (induction d) (simp_all add: elem_match_query_def)
  have "value_type v = BSON_TYPE_NULL \<longleftrightarrow> v = BvNull" for v by (cases v) simp_all
  then have pop: "PopulateDollarAllStateFromQuery E X S [(p, BvArray d)] = Inr ?st"
    using query_element_single [OF assms(1)] queries assms(3,4)
    by (auto simp: PopulateDollarAllStateFromQuery_def operand_def list_all_length)
  have ok: "all_state d ?st"
    using assms(4) wf_doc_member [OF d(1)] by (fastforce simp: all_state_def)
  have flags: "\<not> list_all id (matchState ?st)" using d(2) by (auto simp: list_all_length)
  have "dotted_path p" using assms(1) by (simp add: query_def)
  with all_operands.TraverseBson_run [of p doc "SkipBsonArrayTraverseOptimization S" d
      "\<lparr>compareResult = CompareResult_PathNotFound, operatorState = ?st\<rparr>"] ok assms(2) visits_wf [OF assms(2)]
  obtain s where s: "run_query E S (CompareExecutionFuncs (CompareAllMatch E)) doc p ?st = Inr s"
    "(found s, operatorState s) = scan (all_hit E d) (all_upd E d)
        (visits (SkipBsonArrayTraverseOptimization S) True (split_dots p) False doc) ?st"
    by (auto simp: run_query_def dotted_path_def found_def)
  have "arrayHasOnlyNulls (operatorState s) = False"
  proof -
    have "arrayHasOnlyNulls (snd (scan (all_hit E d) (all_upd E d) vs st)) = arrayHasOnlyNulls st" for vs st
      by (induction vs arbitrary: st) (auto simp: all_upd_def)
    from this [of _ ?st] s(2) show ?thesis by (metis snd_conv TraverseAllValidateState.select_convs(5))
  qed
  moreover have "found s = (\<forall>e \<in> set d. \<exists>v \<in> reached S p doc. equal_values E (snd e) v)"
  proof -
    let ?vs = "visits (SkipBsonArrayTraverseOptimization S) True (split_dots p) False doc"
    have "found s = fst (scan (all_hit E d) (all_upd E d) ?vs ?st)" by (simp only: s(2) [symmetric] fst_conv)
    also have "\<dots> = (\<forall>i < length d. \<exists>t \<in> set ?vs. equal_values E (snd (d ! i)) (snd t))"
      using scan_all [OF ok flags, of E ?vs] by simp
    also have "\<dots> = (\<forall>e \<in> set d. \<exists>v \<in> reached S p doc. equal_values E (snd e) v)"
      by (auto simp: reach_def all_set_conv_all_nth)
    finally show ?thesis .
  qed
  ultimately show ?thesis
    using pop s(1) d(2)
    by (simp add: bson_dollar_all_def ProcessQueryResultAndGetMatch_def filter_null_def
        IsQueryFilterNullForDollarAll_def found_def)
qed

end

section \<open>\<open>$mod\<close> and the bit operators on integers\<close>

text \<open>A field that is a 32-bit or 64-bit integer, or no number that would be converted to one.\<close>

definition int_or_other :: "bson_value \<Rightarrow> bool" where
  "int_or_other v \<longleftrightarrow> field_value v
     \<and> value_type v \<notin> {BSON_TYPE_DOUBLE, BSON_TYPE_DECIMAL128, BSON_TYPE_BINARY}"

lemma int64_word_eq: "int64_range a \<Longrightarrow> int64_range b \<Longrightarrow> (of_int a :: int64) = of_int b \<longleftrightarrow> a = b"
  by (metis sint_of_range)

lemma smod_range: "int64_range a \<Longrightarrow> int64_range b \<Longrightarrow> b \<noteq> 0 \<Longrightarrow> int64_range (a smod b)"
proof -
  assume "int64_range a" "int64_range b" "b \<noteq> 0"
  moreover have "\<bar>a smod b\<bar> < \<bar>b\<bar>" using \<open>b \<noteq> 0\<close> by (simp add: signed_modulo_int_def abs_mult)
  ultimately show "int64_range (a smod b)" by (auto simp: int64_range_def)
qed

lemma CompareModOperator_integer:
  assumes "is_integral a" "is_integral b" "int_val a \<noteq> 0" "int_or_other v"
  shows "CompareModOperator E v (BvArray ((k, a) # (k', b) # rest)) = Inr (is_int v \<and> int_val v smod int_val a = int_val b)"
proof (cases "is_int v")
  case True
  have ranges: "int64_range (int_val a)" "int64_range (int_val b)" "int64_range (int_val v)"
    using assms(1,2) True int_val_range is_int_integral by blast+
  have fits: "IsBsonValue64BitInteger E v False = Inr True"
    using True by (cases v) (simp_all add: is_int_def IsBsonValue64BitInteger_def IsBsonValue64BitIntegerCore_def)
  have one: "n smod 1 = 0" for n :: int by (simp add: signed_modulo_int_def)
  have zero: "(of_int (int_val a) :: int64) \<noteq> 0"
    using int64_word_eq [OF ranges(1), of 0] assms(3) by (simp add: int64_range_def)
  show ?thesis
    using BsonValueAsInt64_integral [OF assms(1), of E] BsonValueAsInt64_integral [OF assms(2), of E]
      BsonValueAsInt64_integral [OF is_int_integral [OF True], of E] True fits ranges zero
      int64_word_eq [OF ranges(2), of 0] int64_word_eq [OF smod_range [OF ranges(3,1) assms(3)] ranges(2)]
    by (auto simp: CompareModOperator_def v_doc_def c_mod64_def sint_of_range int64_range_def one)
next
  case False
  then have "IsBsonValue64BitInteger E v False = Inr False"
    using assms(4)
    by (cases v) (simp_all add: is_int_def int_or_other_def IsBsonValue64BitInteger_def IsBsonValue64BitIntegerCore_def)
  then show ?thesis
    using False BsonValueAsInt64_integral [OF assms(1), of E] BsonValueAsInt64_integral [OF assms(2), of E]
    by (simp add: CompareModOperator_def v_doc_def)
qed

context external_code
begin

lemma single_query:
  assumes "\<And>v k. P v \<Longrightarrow> f (BsonIterToPgbsonElement (k, v)) (operand p w) = Inr (T v)"
    and "query S p w" "wf_doc d" "\<forall>v \<in> reached S p d. P v"
  shows "CompareBsonAgainstQuery E S d [(p, w)] f None = Inr (\<exists>v \<in> reached S p d. T v)"
proof -
  have "read_query E f (\<lambda>v _. T v) P (\<lambda>x. x = operand p w)"
    by unfold_locales (simp add: assms(1))
  from read_query.run_all [OF this _ assms(3,4), of "operand p w"] assms(2) query_element_single [OF assms(2)]
  show ?thesis by (auto simp: query_def CompareBsonAgainstQuery_def ProcessQueryResultAndGetMatch_def)
qed

lemma dollar_mod:
  assumes "query S p w" "w = BvArray ((k, a) # (k', b) # rest)" "is_integral a" "is_integral b" "int_val a \<noteq> 0"
    and "wf_doc d" "\<forall>v \<in> reached S p d. int_or_other v"
  shows "bson_dollar_mod E S d [(p, w)] =
     Inr (\<exists>v \<in> reached S p d. is_int v \<and> int_val v smod int_val a = int_val b)"
  unfolding bson_dollar_mod_def
  by (rule single_query [OF _ assms(1,6,7)])
     (simp add: CompareModMatch_def assms(2) CompareModOperator_integer [OF assms(3-5)])

text \<open>The four bit operators, on integers and operands in the form the planner gives them.\<close>

lemma bits_query:
  assumes "query S p (BvArray l)" "wf_doc d" "\<forall>v \<in> reached S p d. int_or_other v"
    and "\<And>v. is_int v \<Longrightarrow> CompareBitwiseOperator E v (BvArray l) g = Inr (T v)"
  shows "CompareBsonAgainstQuery E S d [(p, BvArray l)]
      (\<lambda>e st. CompareBitwiseOperator E (bsonValue e) (bsonValue (filterElement st)) g) None
    = Inr (\<exists>v \<in> reached S p d. is_int v \<and> T v)"
proof (rule single_query [OF _ assms(1-3)])
  fix v k
  assume "int_or_other v"
  then show "CompareBitwiseOperator E (bsonValue (BsonIterToPgbsonElement (k, v)))
      (bsonValue (filterElement (operand p (BvArray l)))) g = Inr (is_int v \<and> T v)"
    using assms(4) [of v] by (cases v) (simp_all add: is_int_def int_or_other_def CompareBitwiseOperator_def)
qed

lemma dollar_bits:
  assumes "query S p (BvArray l)" "wf_doc d" "\<forall>v \<in> reached S p d. int_or_other v"
    and "positions fs" "map snd l = map (\<lambda>i. BvInt32 (of_int i)) fs"
  shows "bson_dollar_bits_all_set E S d [(p, BvArray l)] =
      Inr (\<exists>v \<in> reached S p d. is_int v \<and> (\<forall>i \<in> set fs. bit (int_val v) (nat i)))"
    "bson_dollar_bits_any_set E S d [(p, BvArray l)] =
      Inr (\<exists>v \<in> reached S p d. is_int v \<and> (\<exists>i \<in> set fs. bit (int_val v) (nat i)))"
    "bson_dollar_bits_all_clear E S d [(p, BvArray l)] =
      Inr (\<exists>v \<in> reached S p d. is_int v \<and> (\<forall>i \<in> set fs. \<not> bit (int_val v) (nat i)))"
    "bson_dollar_bits_any_clear E S d [(p, BvArray l)] =
      Inr (\<exists>v \<in> reached S p d. is_int v \<and> (\<exists>i \<in> set fs. \<not> bit (int_val v) (nat i)))"
  using bits_query [OF assms(1-3) CompareBitwise_integer(1) [OF _ assms(4,5)]]
    bits_query [OF assms(1-3) CompareBitwise_integer(2) [OF _ assms(4,5)]]
    bits_query [OF assms(1-3) CompareBitwise_integer(3) [OF _ assms(4,5)]]
    bits_query [OF assms(1-3) CompareBitwise_integer(4) [OF _ assms(4,5)]]
  by (simp_all add: bson_dollar_bits_all_set_def bson_dollar_bits_any_set_def bson_dollar_bits_all_clear_def
      bson_dollar_bits_any_clear_def CompareBitsAllSetMatch_def [abs_def] CompareBitsAnySetMatch_def [abs_def]
      CompareBitsAllClearMatch_def [abs_def] CompareBitsAnyClearMatch_def [abs_def])

end

section \<open>\<open>$range\<close>\<close>

definition lower_test :: "extern \<Rightarrow> DollarRangeParams \<Rightarrow> bson_value \<Rightarrow> bool" where
  "lower_test E ps v = (if isMinInclusive ps then gte_test E v (minValue ps) else gt_test E v (minValue ps))"

definition upper_test :: "extern \<Rightarrow> DollarRangeParams \<Rightarrow> bson_value \<Rightarrow> bool" where
  "upper_test E ps v = (if isMaxInclusive ps then lte_test E v (maxValue ps) else lt_test E v (maxValue ps))"

definition range_state :: "DollarRangeParams \<Rightarrow> TraverseRangeValidateState \<Rightarrow> bool" where
  "range_state ps st \<longleftrightarrow> rs_params st = ps \<and> wf_value (minValue ps) \<and> wf_value (maxValue ps)"

text \<open>A visited element of an array adds to the flags, which the first element resets.\<close>

definition range_upd :: "extern \<Rightarrow> DollarRangeParams \<Rightarrow> visit \<Rightarrow> TraverseRangeValidateState \<Rightarrow> TraverseRangeValidateState" where
  "range_upd E ps t st =
     (case fst t of
        None \<Rightarrow> st
      | Some i \<Rightarrow>
          st\<lparr>isMinConditionSet := (i \<noteq> 0 \<and> isMinConditionSet st) \<or> lower_test E ps (snd t),
             isMaxConditionSet := (i \<noteq> 0 \<and> isMaxConditionSet st) \<or> upper_test E ps (snd t)\<rparr>)"

definition range_hit :: "extern \<Rightarrow> DollarRangeParams \<Rightarrow> visit \<Rightarrow> TraverseRangeValidateState \<Rightarrow> bool" where
  "range_hit E ps t st =
     (case fst t of
        None \<Rightarrow> lower_test E ps (snd t) \<and> upper_test E ps (snd t)
      | Some i \<Rightarrow> isMinConditionSet (range_upd E ps t st) \<and> isMaxConditionSet (range_upd E ps t st))"

context external_code
begin

lemma range_conditions_spec:
  assumes "field_value v" "wf_value (minValue ps)" "wf_value (maxValue ps)"
  shows "range_conditions E ps (BsonIterToPgbsonElement (k, v)) fp = Inr (lower_test E ps v, upper_test E ps v)"
proof -
  have el: "\<lparr>filterElement = \<lparr>path = sv_bytes fp, bsonValue = w\<rparr>, collationString = None\<rparr> = operand (sv_bytes fp) w" for w
    by (simp add: operand_def BsonIterToPgbsonElement_def)
  show ?thesis
    using gt.decides [OF assms(1,2)] gte.decides [OF assms(1,2)] lt.decides [OF assms(1,3)] lte.decides [OF assms(1,3)]
    by (simp add: range_conditions_def el lower_test_def upper_test_def)
qed

end

sublocale external_code \<subseteq> range_values: visitor E "CompareDollarRangeExecutionFuncs E" "range_hit E ps" "range_upd E ps"
    "range_state ps" field_value found operatorState True for ps
  by unfold_locales
     (auto simp: CompareDollarRangeExecutionFuncs_def DollarRangeVisitTopLevelField_def DollarRangeVisitArrayField_def
        callback_defs range_state_def range_conditions_spec range_hit_def range_upd_def Let_def
        split: TraverseBsonResult.splits option.splits)

lemma scan_range_elements:
  "fst (scan (range_hit E ps) (range_upd E ps) (element_visits (Suc i) a) st) \<longleftrightarrow>
     a \<noteq> [] \<and> (isMinConditionSet st \<or> (\<exists>e \<in> set a. lower_test E ps (snd e)))
          \<and> (isMaxConditionSet st \<or> (\<exists>e \<in> set a. upper_test E ps (snd e)))"
  if "\<not> (isMinConditionSet st \<and> isMaxConditionSet st)"
  using that
proof (induction a arbitrary: i st)
  case (Cons e a)
  let ?st = "range_upd E ps (Some (Suc i), snd e) st"
  show ?case
  proof (cases "range_hit E ps (Some (Suc i), snd e) st")
    case True
    then show ?thesis by (auto simp: range_hit_def range_upd_def)
  next
    case False
    then have "\<not> (isMinConditionSet ?st \<and> isMaxConditionSet ?st)" by (simp add: range_hit_def)
    note IH = Cons.IH [OF this, of "Suc i"]
    have "isMinConditionSet ?st \<longleftrightarrow> isMinConditionSet st \<or> lower_test E ps (snd e)"
      "isMaxConditionSet ?st \<longleftrightarrow> isMaxConditionSet st \<or> upper_test E ps (snd e)"
      by (simp_all add: range_upd_def)
    with IH False Cons.prems show ?thesis by (cases a) (auto simp: range_hit_def)
  qed
qed simp

lemma scan_range_array:
  "fst (scan (range_hit E ps) (range_upd E ps) (element_visits 0 a) st) \<longleftrightarrow>
     (\<exists>e \<in> set a. lower_test E ps (snd e)) \<and> (\<exists>e \<in> set a. upper_test E ps (snd e))"
proof (cases a)
  case (Cons e es)
  let ?st = "range_upd E ps (Some 0, snd e) st"
  have flags: "isMinConditionSet ?st \<longleftrightarrow> lower_test E ps (snd e)" "isMaxConditionSet ?st \<longleftrightarrow> upper_test E ps (snd e)"
    by (simp_all add: range_upd_def)
  show ?thesis
  proof (cases "range_hit E ps (Some 0, snd e) st")
    case True
    then show ?thesis using Cons flags by (auto simp: range_hit_def)
  next
    case False
    then have "\<not> (isMinConditionSet ?st \<and> isMaxConditionSet ?st)" by (simp add: range_hit_def)
    from scan_range_elements [OF this, of E ps 0 es] False Cons flags show ?thesis
      by (cases es) (auto simp: range_hit_def)
  qed
qed simp

definition range_filter :: "bson_value \<Rightarrow> bool \<Rightarrow> bson_value \<Rightarrow> bool \<Rightarrow> bson_value" where
  "range_filter lo loIncl hi hiIncl = BvDocument [(''min'', lo), (''max'', hi),
     (''minInclusive'', BvBool loIncl), (''maxInclusive'', BvBool hiIncl)]"

definition range_params :: "bson_value \<Rightarrow> bool \<Rightarrow> bson_value \<Rightarrow> bool \<Rightarrow> DollarRangeParams" where
  "range_params lo loIncl hi hiIncl = \<lparr>minValue = lo, maxValue = hi, isMinInclusive = loIncl,
     isMaxInclusive = hiIncl, isFullScan = False\<rparr>"

lemma range_parse:
  "ParseQueryDollarRange (BsonIterToPgbsonElement (p, range_filter lo loIncl hi hiIncl))
     = Inr (range_params lo loIncl hi hiIncl)"
  by (simp add: ParseQueryDollarRange_def InitializeQueryDollarRange_def range_filter_def v_doc_def
      range_params_def bson_iter_bool_def strcmp_def cstr_def byte_val_def)

context external_code
begin

text \<open>
  On a field of the document: its value lies in the range, or it is an array with an element above
  the lower bound and an element below the upper bound.  A document without the field never matches,
  whatever the bounds.
\<close>

lemma dollar_range:
  assumes "query S p (range_filter lo loIncl hi hiIncl)" "CHR ''.'' \<notin> set p" "wf_doc d"
  defines "ps \<equiv> range_params lo loIncl hi hiIncl"
  shows "bson_dollar_range E S d [(p, range_filter lo loIncl hi hiIncl)] = Inr
    (case find_field p d of
       None \<Rightarrow> False
     | Some v \<Rightarrow> lower_test E ps v \<and> upper_test E ps v
         \<or> (\<exists>a. v = BvArray a \<and> (\<exists>e \<in> set a. lower_test E ps (snd e)) \<and> (\<exists>e \<in> set a. upper_test E ps (snd e))))"
proof -
  let ?w = "range_filter lo loIncl hi hiIncl"
  let ?st = "\<lparr>rs_element = operand p ?w, rs_params = ps, isMinConditionSet = False, isMaxConditionSet = False\<rparr>"
  have wf: "wf_value lo" "wf_value hi" using assms(1) by (auto simp: query_def range_filter_def)
  then have ok: "range_state ps ?st" by (simp add: range_state_def ps_def range_params_def)
  have "\<not> EnableCollation S" "dotted_path p" using assms(1) by (simp_all add: query_def)
  then have pop: "PopulateRangeStateFromQuery S [(p, ?w)] = Inr ps"
    by (simp add: PopulateRangeStateFromQuery_def PgbsonToSinglePgbsonElement_def
        BsonIterToSinglePgbsonElement_def range_parse ps_def)
  have split: "split_dots p = [p]" using assms(2) by (rule split_dots_plain)
  from range_values.TraverseBson_run [of p d "SkipBsonArrayTraverseOptimization S" ps
      "\<lparr>compareResult = CompareResult_PathNotFound, operatorState = ?st\<rparr>"] ok assms(3) visits_wf [OF assms(3)]
    \<open>dotted_path p\<close> split
  obtain s where s: "run_query E S (CompareDollarRangeExecutionFuncs E) d p ?st = Inr s"
    "(found s, operatorState s) = scan (range_hit E ps) (range_upd E ps)
        (visits (SkipBsonArrayTraverseOptimization S) True [p] False d) ?st"
    by (auto simp: run_query_def dotted_path_def found_def simp del: visits.simps)
  have rs: "rs_element (snd (scan (range_hit E ps) (range_upd E ps) vs st)) = rs_element st" for vs st
    by (induction vs arbitrary: st) (auto simp: range_upd_def split: option.splits)
  have elem: "rs_element (operatorState s) = operand p ?w"
    using rs [of _ ?st] s(2) by (metis snd_conv TraverseRangeValidateState.select_convs(1))
  have hit: "found s = fst (scan (range_hit E ps) (range_upd E ps)
        (visits (SkipBsonArrayTraverseOptimization S) True [p] False d) ?st)"
    by (simp only: s(2) [symmetric] fst_conv)
  have "bson_dollar_range E S d [(p, ?w)] = Inr (found s)"
    using pop s(1) elem query_element_single [OF assms(1)]
    by (auto simp: bson_dollar_range_def IsCollationValid_def ps_def range_params_def found_def operand_def
        ProcessQueryResultAndGetMatch_def filter_null_def IsQueryFilterNullForValue_def range_filter_def)
  also have "found s = (case find_field p d of
       None \<Rightarrow> False
     | Some v \<Rightarrow> lower_test E ps v \<and> upper_test E ps v
         \<or> (\<exists>a. v = BvArray a \<and> (\<exists>e \<in> set a. lower_test E ps (snd e)) \<and> (\<exists>e \<in> set a. upper_test E ps (snd e))))"
    unfolding hit
    by (auto simp: leaf_visits_def scan_range_array range_hit_def range_upd_def split: option.splits bson_value.splits)
  finally show ?thesis .
qed

end

end
