(* ===== verification/Query_Null.thy ===== *)
theory Query_Null
  imports Query_Compound
begin

text \<open>
  Queries for null: \<open>$eq\<close>, \<open>$gte\<close> and \<open>$lte\<close> with a null operand also match documents in which the
  path is missing.  On a path without an array on the way, both implementations (the legacy one and
  the one with its own callbacks) compute this.
\<close>

fun plain_path :: "string list \<Rightarrow> bson_doc \<Rightarrow> bool" where
  "plain_path (k # k' # ks) d =
     (case find_field k d of
        Some (BvDocument d') \<Rightarrow> plain_path (k' # ks) d'
      | Some (BvArray a) \<Rightarrow> False
      | _ \<Rightarrow> True)"
| "plain_path _ d = True"

definition null_funcs :: "bool \<Rightarrow> 'x exec_funcs" where
  "null_funcs legacy = (if legacy then CompareExecutionFuncs else CompareNullExecutionFuncs)"

lemma null_funcs_fields:
  "VisitTopLevelField (null_funcs legacy m) = CompareVisitTopLevelField m"
  "VisitArrayField (null_funcs legacy m) = Some (CompareVisitArrayField m)"
  "call_opt (SetTraverseResult (null_funcs legacy m)) s TraverseBsonResult_PathNotFound
     = Inr (s\<lparr>compareResult := CompareResult_PathNotFound\<rparr>)"
  "call_opt (SetTraverseResult (null_funcs legacy m)) (s\<lparr>compareResult := CompareResult_Mismatch\<rparr>)
     TraverseBsonResult_TypeMismatch = Inr (s\<lparr>compareResult := CompareResult_Mismatch\<rparr>)"
  by (simp_all add: null_funcs_def callback_defs)

lemma update_same [simp]: "s\<lparr>operatorState := operatorState s\<rparr> = s"
  by (cases s) simp

context read_query
begin

lemma array_fields_miss:
  "\<forall>t \<in> set (element_visits i d). P (snd t) \<and> \<not> test (snd t) (operatorState s) \<Longrightarrow> ok (operatorState s) \<Longrightarrow>
    visit_array_fields F (CompareVisitArrayField (reads f)) p i d s = Inr (True, s)"
proof (induction d arbitrary: i)
  case (Cons e d)
  then have "f (BsonIterToPgbsonElement e) (operatorState s) = Inr False"
    using decides [of "snd e" _ "fst e"] by simp
  with Cons show ?case by (simp add: CompareVisitArrayField_def reads_def)
qed simp

lemma leaf_miss:
  assumes "\<forall>t \<in> set (leaf_visits True inArray v). P (snd t) \<and> \<not> test (snd t) (operatorState s)"
    and "ok (operatorState s)"
  shows "visit_leaf (null_funcs legacy (reads f)) p inArray (k, v) s
    = Inr (False, s\<lparr>compareResult := CompareResult_Mismatch\<rparr>)"
proof -
  have "f (BsonIterToPgbsonElement (k, v)) (operatorState s) = Inr False"
    using decides [of v _ k] assms by (simp add: leaf_visits_def)
  moreover have "visit_array_fields (null_funcs legacy (reads f)) (CompareVisitArrayField (reads f)) p 0 a
      (s\<lparr>compareResult := CompareResult_Mismatch\<rparr>) = Inr (True, s\<lparr>compareResult := CompareResult_Mismatch\<rparr>)"
    if "v = BvArray a" "\<not> inArray" for a
    using array_fields_miss [of 0 a "s\<lparr>compareResult := CompareResult_Mismatch\<rparr>"] assms that
    by (simp add: leaf_visits_def)
  moreover have "s\<lparr>operatorState := operatorState s, compareResult := r\<rparr> = s\<lparr>compareResult := r\<rparr>" for r by simp
  ultimately show ?thesis
    by (auto simp: visit_leaf_def null_funcs_fields CompareVisitTopLevelField_def reads_def split: bson_value.splits)
qed

lemma plain_miss:
  assumes "ok (operatorState s)"
  shows "split_dots (sv_bytes p) = ks \<Longrightarrow> path_view p \<Longrightarrow> wf_doc d \<Longrightarrow> plain_path ks d \<Longrightarrow>
    \<forall>t \<in> set (visits skip True ks inArray d). P (snd t) \<and> \<not> test (snd t) (operatorState s) \<Longrightarrow>
    \<exists>nf. TraverseBsonCore E skip (null_funcs legacy (reads f)) d p s inArray = Inr (nf, s\<lparr>compareResult :=
      if visits skip True ks inArray d = [] then CompareResult_PathNotFound else CompareResult_Mismatch\<rparr>)"
proof (induction ks arbitrary: p d inArray)
  case (Cons k ks)
  note p = Cons.prems(2) and wf = Cons.prems(3) and plain = Cons.prems(4) and vs = Cons.prems(5)
  let ?pre = "StringViewFindPrefix p CHR ''.''"
  show ?case
  proof (cases "sv_string ?pre = None")
    case True
    from True have ks: "k = sv_bytes p" "ks = []" using path_view_last [OF p] Cons.prems(1) by auto
    have "c_string (sv_bytes p)" using p by (simp add: path_view_def)
    note find = find_string_view [OF this wf]
    show ?thesis
    proof (cases "find_field k d")
      case (Some v)
      then have "visit_leaf (null_funcs legacy (reads f)) p inArray (k, v) s
          = Inr (False, s\<lparr>compareResult := CompareResult_Mismatch\<rparr>)"
        using leaf_miss [OF _ assms] vs ks by simp
      then show ?thesis
        using Some find ks by (auto simp: Traverse_leaf [OF True] leaf_visits_def)
    qed (use True find ks in \<open>auto simp: Traverse_leaf [OF True] null_funcs_fields\<close>)
  next
    case False
    from path_view_split [OF p False] obtain rest where rest:
      "StringViewSubstring p (sv_length ?pre + 1) = Inr rest"
      "split_dots (sv_bytes p) = sv_bytes ?pre # split_dots (sv_bytes rest)"
      "path_view rest" "c_string (sv_bytes ?pre)" by metis
    then have k: "k = sv_bytes ?pre" "ks = split_dots (sv_bytes rest)" using Cons.prems(1) by auto
    then obtain k' ks' where ks: "ks = k' # ks'" using split_dots_nonempty by (metis neq_Nil_conv)
    note find = find_string_view [OF rest(4) wf]
    from False obtain y where y: "sv_string ?pre = Some y" by blast
    show ?thesis
    proof (cases "find_field k d")
      case None
      then have "bson_iter_find_string_view E d ?pre = None" using find k by simp
      with None ks show ?thesis by (auto simp: Traverse_missing [OF y] null_funcs_fields)
    next
      case (Some v)
      then have v: "field_value v" using wf wf_find_field by blast
      have at: "bson_iter_find_string_view E d ?pre = Some (k, v)" using find Some k by simp
      show ?thesis
      proof (cases "\<exists>d'. v = BvDocument d'")
        case True
        then obtain d' where d': "v = BvDocument d'" by blast
        with v have "wf_doc d'" by simp
        moreover have "plain_path ks d'" using plain Some d' ks by simp
        ultimately show ?thesis
          using Cons.IH [OF k(2) [symmetric] rest(3), of d' False] vs Some ks d'
          by (simp add: Traverse_document [OF y at [unfolded d'] rest(1)])
      next
        case scalar: False
        then have "\<forall>a. v \<noteq> BvDocument a" "\<forall>a. v \<noteq> BvArray a" using plain Some ks by auto
        then have "visits skip True (k # ks) inArray d = []"
          "TraverseBsonCore E skip (null_funcs legacy (reads f)) d p s inArray =
            ebind (call_opt (SetTraverseResult (null_funcs legacy (reads f))) s TraverseBsonResult_PathNotFound)
              (\<lambda>s. Inr (False, s))"
          using Some ks by (cases v, auto) (intro Traverse_scalar [OF y at rest(1)]; blast)
        then show ?thesis by (auto simp: null_funcs_fields)
      qed
    qed
  qed
qed simp

lemma plain_result:
  assumes "dotted_path p" "wf_doc d" "\<forall>v \<in> reach skip True (split_dots p) d. P v" "ok x" "r \<noteq> CompareResult_Match"
    and "plain_path (split_dots p) d"
  shows "\<exists>s. TraverseBson E skip (null_funcs legacy (reads f)) d p \<lparr>compareResult = r, operatorState = x\<rparr> = Inr s
    \<and> operatorState s = x
    \<and> compareResult s = (if \<exists>v \<in> reach skip True (split_dots p) d. test v x then CompareResult_Match
        else if reach skip True (split_dots p) d = {} then CompareResult_PathNotFound else CompareResult_Mismatch)"
proof (cases "\<exists>v \<in> reach skip True (split_dots p) d. test v x")
  case True
  then show ?thesis
    using all_values.TraverseBson_run [of p d skip "\<lparr>compareResult = r, operatorState = x\<rparr>"]
      null_query.TraverseBson_run [of p d skip "\<lparr>compareResult = r, operatorState = x\<rparr>"] assms
    by (cases legacy) (fastforce simp: null_funcs_def dotted_path_def scan_search found_def reach_def)+
next
  case False
  let ?s = "\<lparr>compareResult = r, operatorState = x\<rparr>"
  have view: "path_view (CreateStringViewFromString p)" "sv_bytes (CreateStringViewFromString p) = p"
    using path_view_CString [of p] assms(1) by (simp_all add: dotted_path_def)
  have "\<exists>nf. TraverseBsonCore E skip (null_funcs legacy (reads f)) d (CreateStringViewFromString p) ?s False
      = Inr (nf, ?s\<lparr>compareResult := if visits skip True (split_dots p) False d = []
          then CompareResult_PathNotFound else CompareResult_Mismatch\<rparr>)"
    by (rule plain_miss) (use view assms False in \<open>auto simp: reach_def\<close>)
  then show ?thesis using False by (auto simp: TraverseBson_def reach_def)
qed

end

context element_query
begin

lemma against_null:
  assumes "query S p BvNull" "adm BvNull" "wf_doc d" "plain_path (split_dots p) d"
  shows "CompareBsonAgainstQuery E S d [(p, BvNull)] f null_value
    = Inr (reached S p d = {} \<or> (\<exists>v \<in> reached S p d. test v BvNull))"
proof -
  have ok: "element_ok adm (operand p BvNull)"
    unfolding element_ok_def using assms(2) by (intro exI [of _ p] exI [of _ BvNull]) simp
  have "dotted_path p" using assms(1) by (simp add: query_def)
  note res = reading.plain_result [OF this assms(3) _ ok _ assms(4), of "SkipBsonArrayTraverseOptimization S"]
  show ?thesis
    using res [of CompareResult_Mismatch False] res [of CompareResult_PathNotFound True]
      query_element_single [OF assms(1)] reach_wf [OF assms(3)]
    by (auto simp: CompareBsonAgainstQuery_def run_query_def null_funcs_def ProcessQueryResultAndGetMatch_def)
qed

end

context external_code
begin

lemma null_tests:
  assumes "wf_value v"
  shows "eq_test E v BvNull \<longleftrightarrow> v \<in> {BvNull, BvUndefined}" "gte_test E v BvNull \<longleftrightarrow> v \<in> {BvNull, BvUndefined}"
    "lte_test E v BvNull \<longleftrightarrow> v \<in> {BvNull, BvUndefined}"
proof -
  have same: "comparable v BvNull \<longleftrightarrow> v \<in> {BvNull, BvUndefined}"
    by (cases v) (auto simp: comparable_def rank_def is_nan_def)
  have zero: "order_of E v BvNull = 0" if "v \<in> {BvNull, BvUndefined}"
    using that by (auto simp: order_zero_key rank_def)
  from same zero show "eq_test E v BvNull \<longleftrightarrow> v \<in> {BvNull, BvUndefined}"
    "gte_test E v BvNull \<longleftrightarrow> v \<in> {BvNull, BvUndefined}" "lte_test E v BvNull \<longleftrightarrow> v \<in> {BvNull, BvUndefined}"
    by (auto simp: eq_test_def gte_test_def lte_test_def)
qed

lemma dollar_null:
  assumes "query S p BvNull" "wf_doc d" "plain_path (split_dots p) d"
  defines "missing_or_null \<equiv> reached S p d = {} \<or> BvNull \<in> reached S p d \<or> BvUndefined \<in> reached S p d"
  shows "bson_dollar_eq E S d [(p, BvNull)] = Inr missing_or_null"
    "bson_dollar_gte E S d [(p, BvNull)] = Inr missing_or_null"
    "bson_dollar_lte E S d [(p, BvNull)] = Inr missing_or_null"
    "bson_dollar_ne E S d [(p, BvNull)] = Inr (\<not> missing_or_null)"
proof -
  have tests: "(\<exists>v \<in> reached S p d. T v BvNull) \<longleftrightarrow> BvNull \<in> reached S p d \<or> BvUndefined \<in> reached S p d"
    if "\<And>v. wf_value v \<Longrightarrow> T v BvNull \<longleftrightarrow> v \<in> {BvNull, BvUndefined}" for T
    using that reach_wf [OF assms(2)] by (auto simp: field_value_def)
  show "bson_dollar_eq E S d [(p, BvNull)] = Inr missing_or_null"
    "bson_dollar_gte E S d [(p, BvNull)] = Inr missing_or_null"
    "bson_dollar_lte E S d [(p, BvNull)] = Inr missing_or_null"
    "bson_dollar_ne E S d [(p, BvNull)] = Inr (\<not> missing_or_null)"
    using eq.against_null [OF assms(1) TrueI assms(2,3)] gte.against_null [OF assms(1) TrueI assms(2,3)]
      lte.against_null [OF assms(1) TrueI assms(2,3)] tests [of "eq_test E", OF null_tests(1)]
      tests [of "gte_test E", OF null_tests(2)] tests [of "lte_test E", OF null_tests(3)]
    by (auto simp: bson_dollar_eq_def bson_dollar_gte_def bson_dollar_lte_def bson_dollar_ne_def missing_or_null_def)
qed

end

end
