(* ===== verification/Query_Nested.thy ===== *)
theory Query_Nested
  imports Query_Null Query_Compound
begin

text \<open>
  The operators inside \<open>$elemMatch\<close> (\<open>bson_value_dollar_<op>\<close> of
  \<^verbatim>\<open>pg_documentdb/src/query/bson_dollar_operators.c\<close>), which test one element of an array.
\<close>

text \<open>
  What a nested operator tests on an element: the element itself if the path is empty, and
  otherwise the values the path reaches below it.
\<close>

definition element_matches :: "settings \<Rightarrow> string \<Rightarrow> (bson_value \<Rightarrow> bool) \<Rightarrow> bson_value \<Rightarrow> bool" where
  "element_matches S p T v =
     (if p = [] then T v
      else case v of BvDocument d \<Rightarrow> \<exists>u \<in> reached S p d. T u
                   | BvArray d \<Rightarrow> \<exists>u \<in> reached S p d. T u
                   | _ \<Rightarrow> False)"

context external_code
begin

lemma nested_comparisons:
  fixes p k :: string
  assumes "query S p w" "field_value v"
  defines "e \<equiv> BsonIterToPgbsonElement (k, v)"
  shows "w \<noteq> BvNull \<Longrightarrow> bson_value_dollar_eq E S e [(p, w)] = Inr (element_matches S p (\<lambda>u. eq_test E u w) v)"
    "w \<noteq> BvNull \<Longrightarrow> bson_value_dollar_ne E S e [(p, w)] = Inr (\<not> element_matches S p (\<lambda>u. eq_test E u w) v)"
    "bson_value_dollar_gt E S e [(p, w)] = Inr (element_matches S p (\<lambda>u. gt_test E u w) v)"
    "bson_value_dollar_gte E S e [(p, w)] = Inr (element_matches S p (\<lambda>u. gte_test E u w) v)"
    "bson_value_dollar_lt E S e [(p, w)] = Inr (element_matches S p (\<lambda>u. lt_test E u w) v)"
    "bson_value_dollar_lte E S e [(p, w)] = Inr (element_matches S p (\<lambda>u. lte_test E u w) v)"
  unfolding e_def element_matches_def bson_value_dollar_eq_def bson_value_dollar_ne_def bson_value_dollar_gt_def
    bson_value_dollar_gte_def bson_value_dollar_lt_def bson_value_dollar_lte_def
  using eq.value_against_query [OF assms(1) TrueI assms(2)] gt.value_against_query [OF assms(1) TrueI assms(2)]
    gte.value_against_query [OF assms(1) TrueI assms(2)] lt.value_against_query [OF assms(1) TrueI assms(2)]
    lte.value_against_query [OF assms(1) TrueI assms(2)] by simp_all

text \<open>A nested \<open>$size\<close> tests the element itself, whatever its path is.\<close>

lemma nested_size:
  assumes "query S p w" "is_integral w" "field_value v"
  shows "bson_value_dollar_size E S (BsonIterToPgbsonElement (k, v)) [(p, w)] = Inr (size_test v w)"
proof -
  have "PgbsonToSinglePgbsonElement (EnableCollation S) [(p, w)] = Inr (BsonIterToPgbsonElement (p, w))"
    using assms(1) by (simp add: query_def PgbsonToSinglePgbsonElement_def BsonIterToSinglePgbsonElement_def)
  then show ?thesis
    using size_query.decides [OF assms(3) _ assms(2), of k p] assms(1)
    by (simp add: bson_value_dollar_size_def CompareBsonValueAgainstQueryCore_def reads_def operand_def query_def)
qed

end

end
