(* ===== verification/Query_Regex.thy ===== *)
theory Query_Regex
  imports Query_Spec
begin

text \<open>
  What \<open>$regex\<close> tests: \<open>bson_dollar_regex\<close> and \<open>CompareRegexTextMatch\<close>
  (\<^verbatim>\<open>pg_documentdb/src/query/bson_text_ops.c\<close>) on a compiled regular expression.
\<close>

definition regex_test :: "bson_value \<Rightarrow> RegexData \<Rightarrow> bool" where
  "regex_test v rx \<longleftrightarrow> (\<exists>s. v = BvUtf8 s \<and> rx_pcreData rx s \<ge> 0)
     \<or> (\<exists>t. rx_options rx = Some t \<and> v = BvRegex (Some (rx_regex rx)) (Some t))"

definition regex_ok :: "RegexData \<Rightarrow> bool" where
  "regex_ok rx \<longleftrightarrow> c_string (rx_regex rx) \<and> (\<exists>t. rx_options rx = Some t \<and> c_string t)
     \<and> (\<forall>s. rx_pcreData rx s \<noteq> PCRE2_ERROR_RECURSIONLIMIT)"

lemma regex_match:
  assumes "field_value v" "regex_ok rx"
  shows "CompareRegexMatch (BsonIterToPgbsonElement (k, v)) rx = Inr (regex_test v rx)"
proof (cases v)
  case (BvRegex r t)
  with assms obtain r' t' where *: "r = Some r'" "t = Some t'" "c_string r'" "c_string t'"
    by (cases r; cases t) (auto simp: field_value_def)
  from assms(2) obtain o' where "rx_options rx = Some o'" "c_string o'" "c_string (rx_regex rx)"
    by (auto simp: regex_ok_def)
  with BvRegex * show ?thesis
    by (auto simp: CompareRegexMatch_def CompareRegexTextMatch_def regex_test_def strcmp_cstr cstr_c_string)
qed (use assms in \<open>auto simp: CompareRegexMatch_def CompareRegexTextMatch_def PcreRegexExecute_def
       regex_test_def regex_ok_def\<close>)

sublocale external_code \<subseteq> regex_values: read_query E CompareRegexMatch regex_test field_value regex_ok
  by unfold_locales (rule regex_match)

lemma regex_state:
  assumes "query S p (BvRegex (Some r) (Some t))" "RegexCompile E r (Some t) = Inr m"
  shows "PopulateRegexState E S [(p, BvRegex (Some r) (Some t))] = Inr
    (BsonIterToPgbsonElement (p, BvRegex (Some r) (Some t)), \<lparr>rx_regex = r, rx_options = Some t, rx_pcreData = m\<rparr>)"
  using assms by (simp add: PopulateRegexState_def query_element_single PopulateRegexFromQuery_def operand_def)

context external_code
begin

lemma dollar_regex:
  assumes "query S p (BvRegex (Some r) (Some t))" "wf_doc d"
    and "RegexCompile E r (Some t) = Inr m" "\<forall>s. m s \<noteq> PCRE2_ERROR_RECURSIONLIMIT"
  shows "bson_dollar_regex E S d [(p, BvRegex (Some r) (Some t))]
     = Inr (\<exists>v \<in> reached S p d. (\<exists>s. v = BvUtf8 s \<and> m s \<ge> 0) \<or> v = BvRegex (Some r) (Some t))"
proof -
  let ?rx = "\<lparr>rx_regex = r, rx_options = Some t, rx_pcreData = m\<rparr>"
  have "regex_ok ?rx" using assms(1,4) by (auto simp: regex_ok_def query_def)
  moreover have "dotted_path p" using assms(1) by (simp add: query_def)
  moreover have "\<forall>v \<in> reached S p d. field_value v" using reach_wf [OF assms(2)] by blast
  ultimately obtain s where "run_query E S (CompareExecutionFuncs (reads CompareRegexMatch)) d p ?rx = Inr s"
    "compareResult s = CompareResult_Match \<longleftrightarrow> (\<exists>v \<in> reached S p d. regex_test v ?rx)"
    using regex_values.run_all [of p d S ?rx] assms(2) by blast
  then show ?thesis
    unfolding bson_dollar_regex_def regex_state [OF assms(1,3)] by (simp add: regex_test_def)
qed

text \<open>A filter that is a string has no options, and comparing them with those of a stored regular expression reads a null pointer.\<close>

lemma regex_null_options:
  assumes "query S p (BvUtf8 r)" "CHR ''.'' \<notin> set p" "wf_doc [(p, BvRegex (Some r) (Some t))]"
    and "RegexCompile E r None = Inr m"
  shows "bson_dollar_regex E S [(p, BvRegex (Some r) (Some t))] [(p, BvUtf8 r)] = Inl NullDereference"
proof -
  let ?v = "CreateStringViewFromString p"
  have p: "c_string p" "length p < 2 ^ 32" using assms(1) by (simp_all add: query_def dotted_path_def)
  note v = path_view_CString [OF p]
  have "sv_string (StringViewFindPrefix ?v CHR ''.'') = None"
    using path_view_split [OF v(1)] v(2) assms(2) by (metis split_dots_plain list.inject split_dots_nonempty)
  moreover have "bson_iter_find_string_view E [(p, BvRegex (Some r) (Some t))] ?v = Some (p, BvRegex (Some r) (Some t))"
    using find_string_view [of ?v "[(p, BvRegex (Some r) (Some t))]"] v p assms(3) by (simp add: find_field_def)
  moreover have "PopulateRegexState E S [(p, BvUtf8 r)] = Inr (BsonIterToPgbsonElement (p, BvUtf8 r),
      \<lparr>rx_regex = r, rx_options = None, rx_pcreData = m\<rparr>)"
    using assms(1,4) by (simp add: PopulateRegexState_def query_element_single PopulateRegexFromQuery_def operand_def)
  ultimately show ?thesis
    by (simp add: bson_dollar_regex_def run_query_def TraverseBson_def Traverse_leaf visit_leaf_def
        CompareExecutionFuncs_def CompareVisitTopLevelField_def reads_def CompareRegexMatch_def
        CompareRegexTextMatch_def deref_def strcmp_cstr)
qed

end

end
