(* ===== verification/Query_OrderBy.thy ===== *)
theory Query_OrderBy
  imports Query_Spec
begin

text \<open>
  Sorting: \<open>command_bson_orderby\<close>, \<open>bson_orderby_partition\<close>, \<open>BsonOrderby\<close> and the comparison
  functions of \<open>ORDER BY ... USING\<close> in \<^verbatim>\<open>pg_documentdb/src/query/bson_dollar_operators.c\<close>, with
  \<open>TryCheckMetaScoreOrderBy\<close> of \<^verbatim>\<open>opclass/bson_text_gin.c\<close>.  The text score of a document
  (\<open>EvaluateMetaTextScore\<close>) is a parameter.
\<close>

datatype CustomOrderByOptions =
    CustomOrderByOptions_Default
  | CustomOrderByOptions_AllowOnlyDates
  | CustomOrderByOptions_AllowOnlyNumbers

record TraverseOrderByValidateState =
  isOrderByMin :: bool
  orderByValue :: bson_value
  ob_options :: CustomOrderByOptions
  ob_collationString :: "string option"
  nestedArrayCount :: int32

type_synonym ob_state = "TraverseOrderByValidateState TraverseValidateState"

definition CompareForOrderBy :: "extern \<Rightarrow> settings \<Rightarrow> bson_value \<Rightarrow> ob_state \<Rightarrow> ob_state result" where
  "CompareForOrderBy E S element state =
     (let st = operatorState state
      in if value_type (orderByValue st) = BSON_TYPE_EOD
         then Inr (state\<lparr>operatorState := st\<lparr>orderByValue := element\<rparr>\<rparr>)
         else ebind (if IsCollationApplicable S (ob_collationString st)
                     then CompareBsonValueAndTypeWithCollation E (collation_of E (ob_collationString st)) element
                            (orderByValue st)
                     else CompareBsonValueAndType E element (orderByValue st)) (\<lambda>(sortOrderCmp, _).
                if sortOrderCmp > 0 \<and> \<not> isOrderByMin st \<or> sortOrderCmp < 0 \<and> isOrderByMin st
                then Inr (state\<lparr>operatorState := st\<lparr>orderByValue := element\<rparr>\<rparr>)
                else Inr state))"

definition OrderByVisitTopLevelField ::
    "extern \<Rightarrow> settings \<Rightarrow> pgbsonelement \<Rightarrow> StringView \<Rightarrow> ob_state \<Rightarrow> (bool \<times> ob_state) result" where
  "OrderByVisitTopLevelField E S element filterPath state =
     (let t = value_type (bsonValue element); options = ob_options (operatorState state)
      in if options = CustomOrderByOptions_AllowOnlyDates \<and> t \<noteq> BSON_TYPE_DATE_TIME
         then raise_naming ERRCODE_DOCUMENTDB_LOCATION5429513 t
         else if options = CustomOrderByOptions_AllowOnlyNumbers \<and> \<not> BsonTypeIsNumber t
         then raise_naming ERRCODE_DOCUMENTDB_LOCATION5429414 t
         else if t = BSON_TYPE_ARRAY then Inr (True, state)
         else ebind (CompareForOrderBy E S (bsonValue element) state) (\<lambda>state. Inr (True, state)))"

definition OrderByVisitArrayField ::
    "extern \<Rightarrow> settings \<Rightarrow> pgbsonelement \<Rightarrow> StringView \<Rightarrow> nat \<Rightarrow> ob_state \<Rightarrow> (bool \<times> ob_state) result" where
  "OrderByVisitArrayField E S element filterPath arrayIndex state =
     ebind (CompareForOrderBy E S (bsonValue element) state) (\<lambda>state. Inr (True, state))"

definition OrderByContinueProcessIntermediateArray :: "ob_state \<Rightarrow> bson_value \<Rightarrow> (bool \<times> ob_state) result" where
  "OrderByContinueProcessIntermediateArray state v = Inr (True, state)"

definition OrderByHandleIntermediateArrayPathNotFound ::
    "extern \<Rightarrow> settings \<Rightarrow> ob_state \<Rightarrow> nat \<Rightarrow> StringView \<Rightarrow> ob_state result" where
  "OrderByHandleIntermediateArrayPathNotFound E S state arrayIndex remainingPath =
     (if UseLegacyOrderByBehavior S then Inr state
      else if sint (nestedArrayCount (operatorState state)) > 0
              \<and> value_type (orderByValue (operatorState state)) \<noteq> BSON_TYPE_EOD then Inr state
      else CompareForOrderBy E S BvNull state)"

definition OrderBySetIntermediateArrayStartEnd :: "settings \<Rightarrow> ob_state \<Rightarrow> bool \<Rightarrow> ob_state result" where
  "OrderBySetIntermediateArrayStartEnd S state isStart =
     (if UseLegacyOrderByBehavior S then Inr state
      else let st = operatorState state
           in Inr (state\<lparr>operatorState :=
                st\<lparr>nestedArrayCount := (if isStart then nestedArrayCount st + 1 else nestedArrayCount st - 1)\<rparr>\<rparr>))"

definition OrderBySetTraverseResult :: "extern \<Rightarrow> settings \<Rightarrow> ob_state \<Rightarrow> TraverseBsonResult \<Rightarrow> ob_state result" where
  "OrderBySetTraverseResult E S state result =
     ebind (if result = TraverseBsonResult_PathNotFound \<and> sint (nestedArrayCount (operatorState state)) > 0
               \<and> \<not> UseLegacyOrderByBehavior S
            then CompareForOrderBy E S BvNull state else Inr state) (\<lambda>state.
       CompareSetTraverseResult state result)"

definition OrderByExecutionFuncs :: "extern \<Rightarrow> settings \<Rightarrow> ob_state TraverseBsonExecutionFuncs" where
  "OrderByExecutionFuncs E S =
     \<lparr>SetTraverseResult = Some (OrderBySetTraverseResult E S),
      VisitTopLevelField = OrderByVisitTopLevelField E S,
      VisitArrayField = Some (OrderByVisitArrayField E S),
      ContinueProcessIntermediateArray = OrderByContinueProcessIntermediateArray,
      SetIntermediateArrayIndex = None,
      HandleIntermediateArrayPathNotFound = Some (OrderByHandleIntermediateArrayPathNotFound E S),
      SetIntermediateArrayStartEnd = Some (OrderBySetIntermediateArrayStartEnd S)\<rparr>"

definition TryCheckMetaScoreOrderBy :: "bson_value \<Rightarrow> bool result" where
  "TryCheckMetaScoreOrderBy v =
     (if value_type v \<noteq> BSON_TYPE_DOCUMENT then Inr False
      else ebind (TryGetBsonValueToPgbsonElement v) (\<lambda>meta.
             case meta of
               None \<Rightarrow> Inr False
             | Some e \<Rightarrow>
                 if \<not> (strlen (path e) = 5 \<and> strncmp (path e) ''$meta'' 5 = 0) then Inr False
                 else case bsonValue e of
                        BvUtf8 s \<Rightarrow>
                          if length s \<noteq> 9 \<or> strncmp s ''textScore'' 9 \<noteq> 0
                          then Inl (Ereport ERRCODE_DOCUMENTDB_LOCATION31138)
                          else ebind (v_doc v) (\<lambda>d.
                                 if \<not> fst (TryGetSinglePgbsonElementFromBsonIterator d)
                                 then Inl (Ereport ERRCODE_DOCUMENTDB_FAILEDTOPARSE) else Inr True)
                      | _ \<Rightarrow> Inl (Ereport ERRCODE_DOCUMENTDB_LOCATION31138)))"

definition BsonOrderbyCore ::
    "extern \<Rightarrow> (bson_doc \<Rightarrow> double) \<Rightarrow> settings \<Rightarrow> bson_doc \<Rightarrow> bson_doc \<Rightarrow> string option \<Rightarrow> bool
       \<Rightarrow> CustomOrderByOptions \<Rightarrow> bson_doc result" where
  "BsonOrderbyCore E EvaluateMetaTextScore S document filt collation validateSort options =
     ebind (PgbsonToSinglePgbsonElement (EnableCollation S) filt) (\<lambda>fe.
     ebind (TryCheckMetaScoreOrderBy (bsonValue fe)) (\<lambda>isMeta.
       if isMeta then Inr [(''rank'', BvDouble (EvaluateMetaTextScore document))]
       else if \<not> BsonValueIsNumber (bsonValue fe) \<and> validateSort then Inl (Ereport ERRCODE_DOCUMENTDB_BADVALUE)
       else ebind (BsonValueAsInt32 E (bsonValue fe)) (\<lambda>orderBy.
            ebind (run_query E S (OrderByExecutionFuncs E S) document (path fe)
                     \<lparr>isOrderByMin = (orderBy = 1), orderByValue = BvEOD, ob_options = options,
                      ob_collationString = collation, nestedArrayCount = 0\<rparr>) (\<lambda>state.
              let v = orderByValue (operatorState state);
                  v = (if value_type v = BSON_TYPE_EOD then BvUndefined else v)
              in Inr ((path fe, v) #
                   (case applicable S collation of None \<Rightarrow> [] | Some c \<Rightarrow> [(''collation'', BvUtf8 c)]))))))"

text \<open>The optional argument of the SQL functions is the collation.\<close>

definition command_bson_orderby ::
    "extern \<Rightarrow> (bson_doc \<Rightarrow> double) \<Rightarrow> settings \<Rightarrow> bson_doc \<Rightarrow> bson_doc \<Rightarrow> string option \<Rightarrow> bson_doc result" where
  "command_bson_orderby E score S document filt arg =
     BsonOrderbyCore E score S document filt (if EnableCollation S then arg else None) True
       CustomOrderByOptions_Default"

definition bson_orderby_partition ::
    "extern \<Rightarrow> (bson_doc \<Rightarrow> double) \<Rightarrow> settings \<Rightarrow> bson_doc \<Rightarrow> bson_doc \<Rightarrow> bool \<Rightarrow> string option \<Rightarrow> bson_doc result" where
  "bson_orderby_partition E score S document filt isTimeRangeWindow arg =
     BsonOrderbyCore E score S document filt (if EnableCollation S then arg else None) True
       (if isTimeRangeWindow then CustomOrderByOptions_AllowOnlyDates else CustomOrderByOptions_AllowOnlyNumbers)"

definition BsonOrderby ::
    "extern \<Rightarrow> (bson_doc \<Rightarrow> double) \<Rightarrow> settings \<Rightarrow> bson_doc \<Rightarrow> bson_doc \<Rightarrow> bool \<Rightarrow> string option \<Rightarrow> bson_doc result" where
  "BsonOrderby E score S document filt validateSort collation =
     BsonOrderbyCore E score S document filt collation validateSort CustomOrderByOptions_Default"

definition bson_orderby_compare :: "extern \<Rightarrow> settings \<Rightarrow> bson_doc \<Rightarrow> bson_doc \<Rightarrow> int result" where
  "bson_orderby_compare E S left right =
     ebind (PgbsonToSinglePgbsonElementWithCollation left) (\<lambda>(leftElement, cl).
     ebind (PgbsonToSinglePgbsonElementWithCollation right) (\<lambda>(rightElement, cr).
       case (applicable S cl, applicable S cr) of
         (Some l, Some r) \<Rightarrow>
           if strcmp l r \<noteq> 0 then Inr (strcmp l r)
           else ebind (CompareBsonValueAndTypeWithCollation E (collation_of E (Some l)) (bsonValue leftElement)
                         (bsonValue rightElement)) (\<lambda>(cmp, _). Inr cmp)
       | (Some l, None) \<Rightarrow> Inr 1
       | (None, Some r) \<Rightarrow> Inr (-1)
       | (None, None) \<Rightarrow>
           ebind (CompareBsonValueAndType E (bsonValue leftElement) (bsonValue rightElement)) (\<lambda>(cmp, _). Inr cmp)))"

definition bson_orderby_lt :: "extern \<Rightarrow> settings \<Rightarrow> bson_doc \<Rightarrow> bson_doc \<Rightarrow> bool result" where
  "bson_orderby_lt E S left right = ebind (bson_orderby_compare E S left right) (\<lambda>cmp. Inr (cmp < 0))"

definition bson_orderby_eq :: "extern \<Rightarrow> settings \<Rightarrow> bson_doc \<Rightarrow> bson_doc \<Rightarrow> bool result" where
  "bson_orderby_eq E S left right = ebind (bson_orderby_compare E S left right) (\<lambda>cmp. Inr (cmp = 0))"

definition bson_orderby_gt :: "extern \<Rightarrow> settings \<Rightarrow> bson_doc \<Rightarrow> bson_doc \<Rightarrow> bool result" where
  "bson_orderby_gt E S left right = ebind (bson_orderby_compare E S left right) (\<lambda>cmp. Inr (cmp > 0))"

section \<open>The value sorted by\<close>

text \<open>The values considered: those reached, but an array only as the element of an array.\<close>

definition sort_values :: "visit list \<Rightarrow> bson_value list" where
  "sort_values vs = map snd (filter (\<lambda>t. fst t \<noteq> None \<or> value_type (snd t) \<noteq> BSON_TYPE_ARRAY) vs)"

definition better :: "extern \<Rightarrow> bool \<Rightarrow> bson_value \<Rightarrow> bson_value \<Rightarrow> bool" where
  "better E isMin v w \<longleftrightarrow> (if isMin then order_of E v w < 0 else order_of E v w > 0)"

fun best :: "extern \<Rightarrow> bool \<Rightarrow> bson_value \<Rightarrow> bson_value list \<Rightarrow> bson_value" where
  "best E isMin w [] = w"
| "best E isMin w (v # vs) = best E isMin (if w = BvEOD \<or> better E isMin v w then v else w) vs"

definition ob_upd :: "extern \<Rightarrow> visit \<Rightarrow> TraverseOrderByValidateState \<Rightarrow> TraverseOrderByValidateState" where
  "ob_upd E t st = st\<lparr>orderByValue := best E (isOrderByMin st) (orderByValue st) (sort_values [t])\<rparr>"

definition ob_ok :: "TraverseOrderByValidateState \<Rightarrow> bool" where
  "ob_ok st \<longleftrightarrow> wf_value (orderByValue st) \<and> ob_options st = CustomOrderByOptions_Default
     \<and> ob_collationString st = None \<and> nestedArrayCount st = 0"

lemma value_type_EOD [simp]: "value_type v = BSON_TYPE_EOD \<longleftrightarrow> v = BvEOD"
  by (cases v) simp_all

abbreviation legacy :: "settings \<Rightarrow> settings" where
  "legacy S \<equiv> S\<lparr>UseLegacyOrderByBehavior := True\<rparr>"

context external_code
begin

lemma CompareForOrderBy_spec:
  assumes "field_value v" "ob_ok (operatorState s)"
  shows "CompareForOrderBy E S v s = Inr (s\<lparr>operatorState := (operatorState s)\<lparr>orderByValue :=
     best E (isOrderByMin (operatorState s)) (orderByValue (operatorState s)) [v]\<rparr>\<rparr>)"
proof -
  let ?w = "orderByValue (operatorState s)"
  have ok: "wf_value ?w" "ob_collationString (operatorState s) = None" using assms(2) by (simp_all add: ob_ok_def)
  have same: "s\<lparr>operatorState := (operatorState s)\<lparr>orderByValue := ?w\<rparr>\<rparr> = s" by simp
  have "wf_value v" using assms(1) by (simp add: field_value_def)
  from compare_type_key [OF this ok(1)] obtain c b where cb: "CompareBsonValueAndType E v ?w = Inr (c, b)" by blast
  then have cmp: "CompareBsonValueAndType E v ?w = Inr (order_of E v ?w, b)" by (simp add: order_of_def)
  have coll: "\<not> IsCollationApplicable S None" by (simp add: IsCollationApplicable_def IsCollationValid_def)
  show ?thesis
  proof (cases "?w = BvEOD")
    case True
    then show ?thesis by (simp add: CompareForOrderBy_def Let_def)
  next
    case False
    then show ?thesis
      unfolding CompareForOrderBy_def Let_def ok(2) value_type_EOD best.simps better_def
      by (simp only: coll if_False cmp ebind_simps prod.case)
         (cases "isOrderByMin (operatorState s)"; simp only: same simp_thms if_True if_False split: if_splits; simp)
  qed
qed

lemma better_trans:
  assumes "wf_value x" "wf_value y" "wf_value z" "better E isMin x y" "better E isMin y z"
  shows "better E isMin x z"
proof (cases isMin)
  case True
  with assms value_order.cmp_less_le_trans [of x y z] show ?thesis by (simp add: better_def)
next
  case False
  with assms have "order_of E y x < 0" "order_of E z y < 0"
    using value_order.cmp_less_flip [of y x] value_order.cmp_less_flip [of z y] by (simp_all add: better_def)
  then have "order_of E z x < 0" using value_order.cmp_less_le_trans [of z y x] assms(1-3) by simp
  with False assms(1,3) show ?thesis using value_order.cmp_less_flip [of z x] by (simp add: better_def)
qed

lemma not_better_trans:
  assumes "wf_value x" "wf_value y" "wf_value z" "\<not> better E isMin x y" "\<not> better E isMin y z"
  shows "\<not> better E isMin x z"
proof (cases isMin)
  case True
  with assms have "order_of E y x \<le> 0" "order_of E z y \<le> 0"
    using value_order.cmp_le_flip [of y x] value_order.cmp_le_flip [of z y] by (simp_all add: better_def)
  then have "order_of E z x \<le> 0" using value_order.cmp_le_trans [of z y x] assms(1-3) by simp
  with True assms(1,3) show ?thesis using value_order.cmp_le_flip [of z x] by (simp add: better_def)
next
  case False
  with assms value_order.cmp_le_trans [of x y z] show ?thesis by (simp add: better_def)
qed

lemma best_optimal:
  assumes "wf_value w" "w \<noteq> BvEOD" "\<forall>v \<in> set vs. field_value v"
  shows "best E isMin w vs \<in> insert w (set vs) \<and> (\<forall>v \<in> insert w (set vs). \<not> better E isMin v (best E isMin w vs))"
  using assms
proof (induction vs arbitrary: w)
  case Nil
  then show ?case using value_order.cmp_same [of w] by (simp add: better_def)
next
  case (Cons v vs)
  then have v: "wf_value v" "v \<noteq> BvEOD" "\<forall>v \<in> set vs. field_value v" by (simp_all add: field_value_def)
  show ?case
  proof (cases "better E isMin v w")
    case True
    note IH = Cons.IH [OF v]
    let ?b = "best E isMin v vs"
    have b: "wf_value ?b" "\<not> better E isMin v ?b" using IH v by (auto simp: field_value_def)
    then have "\<not> better E isMin w ?b" using better_trans [OF v(1) Cons.prems(1) b(1) True] by blast
    with IH True Cons.prems(2) show ?thesis by auto
  next
    case False
    note IH = Cons.IH [OF Cons.prems(1,2) v(3)]
    let ?b = "best E isMin w vs"
    have b: "wf_value ?b" "\<not> better E isMin w ?b" using IH Cons.prems(1) v by (auto simp: field_value_def)
    have "\<not> better E isMin v ?b" using not_better_trans [OF v(1) Cons.prems(1) b(1) False b(2)] .
    with IH False Cons.prems(2) show ?thesis by auto
  qed
qed

end

lemma sort_values_single:
  "sort_values [(Some i, v)] = [v]"
  "sort_values [(None, v)] = (if value_type v = BSON_TYPE_ARRAY then [] else [v])"
  by (simp_all add: sort_values_def)

lemma best_append: "best E isMin w (xs @ ys) = best E isMin (best E isMin w xs) ys"
  by (induction xs arbitrary: w) simp_all

lemma fold_ob_upd:
  "orderByValue (fold (ob_upd E) vs st) = best E (isOrderByMin st) (orderByValue st) (sort_values vs)"
proof (induction vs arbitrary: st)
  case (Cons t vs)
  have "sort_values (t # vs) = sort_values [t] @ sort_values vs" by (simp add: sort_values_def)
  with Cons [of "ob_upd E t st"] show ?case by (simp add: ob_upd_def best_append)
qed (simp add: sort_values_def)

lemma ob_upd_ok: "field_value (snd t) \<Longrightarrow> ob_ok st \<Longrightarrow> ob_ok (ob_upd E t st)"
  by (auto simp: ob_ok_def ob_upd_def sort_values_def field_value_def)

context external_code
begin

lemma OrderByVisitArrayField_spec:
  assumes "field_value v" "ob_ok (operatorState s)"
  shows "OrderByVisitArrayField E S (BsonIterToPgbsonElement (k, v)) p i s
     = Inr (True, s\<lparr>operatorState := ob_upd E (Some i, v) (operatorState s)\<rparr>)"
  unfolding OrderByVisitArrayField_def bsonValue_iter snd_conv CompareForOrderBy_spec [OF assms]
  by (simp only: ebind_simps ob_upd_def sort_values_single)

lemma OrderByVisitTopLevelField_spec:
  assumes "field_value v" "ob_ok (operatorState s)"
  shows "OrderByVisitTopLevelField E S (BsonIterToPgbsonElement (k, v)) p s
     = Inr (True, s\<lparr>operatorState := ob_upd E (None, v) (operatorState s)\<rparr>)"
proof -
  have "ob_options (operatorState s) = CustomOrderByOptions_Default" using assms(2) by (simp add: ob_ok_def)
  then show ?thesis
    unfolding OrderByVisitTopLevelField_def bsonValue_iter snd_conv CompareForOrderBy_spec [OF assms] Let_def
    by (simp add: ob_upd_def sort_values_single)
qed

end

lemma order_callbacks:
  "call_opt (SetTraverseResult (OrderByExecutionFuncs E (legacy S))) s r = CompareSetTraverseResult s r"
  "VisitTopLevelField (OrderByExecutionFuncs E S) = OrderByVisitTopLevelField E S"
  "VisitArrayField (OrderByExecutionFuncs E S) = Some (OrderByVisitArrayField E S)"
  "ContinueProcessIntermediateArray (OrderByExecutionFuncs E S) s v = Inr (True, s)"
  "call_opt (SetIntermediateArrayIndex (OrderByExecutionFuncs E S)) s i = Inr s"
  "call_not_found (OrderByExecutionFuncs E (legacy S)) s i p = Inr s"
  "call_opt (SetIntermediateArrayStartEnd (OrderByExecutionFuncs E (legacy S))) s b = Inr s"
  by (simp_all add: OrderByExecutionFuncs_def call_opt_def call_not_found_def OrderBySetTraverseResult_def
      OrderByContinueProcessIntermediateArray_def OrderByHandleIntermediateArrayPathNotFound_def
      OrderBySetIntermediateArrayStartEnd_def)

sublocale external_code \<subseteq> order_values: visitor E "OrderByExecutionFuncs E (legacy S)" "\<lambda>_ _. False" "ob_upd E"
    ob_ok field_value "\<lambda>_. False" operatorState True for S
proof (unfold_locales, goal_cases)
  case (4 visit v s k p i)
  then show ?case using OrderByVisitArrayField_spec [of v s] by (auto simp: order_callbacks)
qed (simp_all add: order_callbacks ob_upd_ok OrderByVisitTopLevelField_spec CompareSetTraverseResult_def
    split: TraverseBsonResult.splits)

text \<open>On a path of one component the intermediate callbacks are never called.\<close>

lemma no_prefix:
  assumes "dotted_path p" "CHR ''.'' \<notin> set p"
  shows "sv_string (StringViewFindPrefix (CreateStringViewFromString p) CHR ''.'') = None"
proof (rule ccontr)
  have view: "path_view (CreateStringViewFromString p)" "sv_bytes (CreateStringViewFromString p) = p"
    using path_view_CString [of p] assms(1) by (simp_all add: dotted_path_def)
  assume "\<not> ?thesis"
  from path_view_split [OF view(1) this] obtain a rest where "split_dots p = a # split_dots rest"
    unfolding view(2) by metis
  with split_dots_plain [OF assms(2)] show False by simp
qed

lemma undotted_legacy:
  assumes "dotted_path p" "CHR ''.'' \<notin> set p" "nestedArrayCount (operatorState s) = 0"
  shows "TraverseBson E skip (OrderByExecutionFuncs E S) d p s = TraverseBson E skip (OrderByExecutionFuncs E (legacy S)) d p s"
proof -
  have "IsCollationApplicable (legacy S) = IsCollationApplicable S"
    by (intro ext) (simp add: IsCollationApplicable_def)
  then have compare: "CompareForOrderBy E (legacy S) = CompareForOrderBy E S"
    by (intro ext) (simp only: CompareForOrderBy_def)
  have visit: "OrderByVisitTopLevelField E (legacy S) = OrderByVisitTopLevelField E S"
    "OrderByVisitArrayField E (legacy S) = OrderByVisitArrayField E S"
    by (intro ext, simp only: OrderByVisitTopLevelField_def OrderByVisitArrayField_def compare)+
  have result: "call_opt (SetTraverseResult (OrderByExecutionFuncs E S)) t TraverseBsonResult_TypeMismatch
      = CompareSetTraverseResult t TraverseBsonResult_TypeMismatch" for t
    by (simp add: OrderByExecutionFuncs_def call_opt_def OrderBySetTraverseResult_def)
  have missing: "call_opt (SetTraverseResult (OrderByExecutionFuncs E S)) s TraverseBsonResult_PathNotFound
      = CompareSetTraverseResult s TraverseBsonResult_PathNotFound"
    using assms(3) by (simp add: OrderByExecutionFuncs_def call_opt_def OrderBySetTraverseResult_def)
  have fields: "visit_array_fields F = visit_array_fields F'" for F F' :: "ob_state TraverseBsonExecutionFuncs"
  proof (intro ext)
    fix g q i es t
    show "visit_array_fields F g q i es t = visit_array_fields F' g q i es t"
      by (induction es arbitrary: i t) (auto intro!: ebind_cong)
  qed
  have "visit_leaf (OrderByExecutionFuncs E S) = visit_leaf (OrderByExecutionFuncs E (legacy S))"
    by (intro ext) (simp only: visit_leaf_def order_callbacks visit result
        fields [of "OrderByExecutionFuncs E S" "OrderByExecutionFuncs E (legacy S)"])
  then show ?thesis
    by (simp only: TraverseBson_def Traverse_leaf [OF no_prefix [OF assms(1,2)]] missing order_callbacks)
qed

section \<open>The result of a sort\<close>

lemma sort_values_wf: "wf_doc d \<Longrightarrow> v \<in> set (sort_values (visits skip elems ks inArray d)) \<Longrightarrow> field_value v"
  by (auto simp: sort_values_def dest: visits_wf)

abbreviation sort_keys :: "settings \<Rightarrow> string \<Rightarrow> bson_doc \<Rightarrow> bson_value list" where
  "sort_keys S p d \<equiv> sort_values (visits (SkipBsonArrayTraverseOptimization S) True (split_dots p) False d)"

context external_code
begin

lemma orderby_run:
  assumes "dotted_path p" "wf_doc d" "UseLegacyOrderByBehavior S \<or> CHR ''.'' \<notin> set p"
  shows "\<exists>s. run_query E S (OrderByExecutionFuncs E S) d p
      \<lparr>isOrderByMin = m, orderByValue = BvEOD, ob_options = CustomOrderByOptions_Default,
       ob_collationString = None, nestedArrayCount = 0\<rparr> = Inr s
    \<and> orderByValue (operatorState s) = best E m BvEOD (sort_keys S p d)"
proof -
  let ?st = "\<lparr>isOrderByMin = m, orderByValue = BvEOD, ob_options = CustomOrderByOptions_Default,
    ob_collationString = None, nestedArrayCount = 0\<rparr>"
  let ?s = "\<lparr>compareResult = CompareResult_PathNotFound, operatorState = ?st\<rparr>"
  let ?skip = "SkipBsonArrayTraverseOptimization S"
  have same: "TraverseBson E ?skip (OrderByExecutionFuncs E S) d p ?s
      = TraverseBson E ?skip (OrderByExecutionFuncs E (legacy S)) d p ?s"
  proof (cases "CHR ''.'' \<notin> set p")
    case True
    then show ?thesis by (intro undotted_legacy [OF assms(1)]) simp_all
  next
    case False
    then have "legacy S = S" using assms(3) by (cases S) simp
    then show ?thesis by simp
  qed
  have ok: "ob_ok (operatorState ?s)" by (simp add: ob_ok_def)
  have vs: "\<forall>v \<in> set (visits ?skip True (split_dots p) False d). field_value (snd v)"
    using visits_wf [OF assms(2)] by blast
  have p: "c_string p" "length p < 2 ^ 32" using assms(1) unfolding dotted_path_def by blast+
  obtain s where s: "TraverseBson E ?skip (OrderByExecutionFuncs E (legacy S)) d p ?s = Inr s"
    "(False, operatorState s) = scan (\<lambda>_ _. False) (ob_upd E) (visits ?skip True (split_dots p) False d) (operatorState ?s)"
    using order_values.TraverseBson_run [OF p assms(2) vs ok not_False_eq_True [THEN iffD2, OF TrueI], of S] by blast
  have "operatorState s = fold (ob_upd E) (visits ?skip True (split_dots p) False d) ?st"
    using s(2) unfolding scan_fold by simp
  then have "orderByValue (operatorState s) = best E m BvEOD (sort_keys S p d)"
    using fold_ob_upd [of E "visits ?skip True (split_dots p) False d" ?st] by simp
  with s(1) show ?thesis unfolding run_query_def same by blast
qed

lemma best_keys:
  fixes m :: bool
  assumes "wf_doc d" "sort_keys S p d \<noteq> []"
  defines "b \<equiv> best E m BvEOD (sort_keys S p d)"
  shows "b \<in> set (sort_keys S p d)" "\<forall>v \<in> set (sort_keys S p d). \<not> better E m v b" "b \<noteq> BvEOD"
proof -
  obtain v vs where cs: "sort_keys S p d = v # vs" using assms(2) by (cases "sort_keys S p d") auto
  have wf: "\<forall>v \<in> set (v # vs). field_value v" using sort_values_wf [OF assms(1)] cs by metis
  have "best E m BvEOD (v # vs) = best E m v vs" by simp
  moreover have "best E m v vs \<in> insert v (set vs) \<and> (\<forall>u \<in> insert v (set vs). \<not> better E m u (best E m v vs))"
    using best_optimal [of v vs m] wf by (simp add: field_value_def)
  ultimately show "b \<in> set (sort_keys S p d)" "\<forall>v \<in> set (sort_keys S p d). \<not> better E m v b" "b \<noteq> BvEOD"
    unfolding b_def cs using wf by (auto simp: field_value_def)
qed

lemma orderby:
  assumes "query S p (BvInt32 dir)" "wf_doc d" "UseLegacyOrderByBehavior S \<or> CHR ''.'' \<notin> set p"
  shows "command_bson_orderby E score S d [(p, BvInt32 dir)] None = Inr [(p,
    if sort_keys S p d = [] then BvUndefined else best E (dir = 1) BvEOD (sort_keys S p d))]"
proof -
  have "\<not> EnableCollation S" "dotted_path p" using assms(1) by (simp_all add: query_def)
  from orderby_run [OF this(2) assms(2,3), of "dir = 1"] obtain s where s:
    "run_query E S (OrderByExecutionFuncs E S) d p
      \<lparr>isOrderByMin = (dir = 1), orderByValue = BvEOD, ob_options = CustomOrderByOptions_Default,
       ob_collationString = None, nestedArrayCount = 0\<rparr> = Inr s"
    "orderByValue (operatorState s) = best E (dir = 1) BvEOD (sort_keys S p d)" by blast
  have dir: "BsonValueAsInt32 E (BvInt32 dir) = Inr dir" "BsonValueIsNumber (BvInt32 dir)"
    by (simp_all add: BsonValueAsInt32_def BsonValueAsInt32WithRoundingMode_def BsonValueIsNumber_def)
  have "PgbsonToSinglePgbsonElement (EnableCollation S) [(p, BvInt32 dir)] = Inr (BsonIterToPgbsonElement (p, BvInt32 dir))"
    using \<open>\<not> EnableCollation S\<close> by (simp add: PgbsonToSinglePgbsonElement_def BsonIterToSinglePgbsonElement_def)
  then show ?thesis
    using s dir best_keys(3) [OF assms(2), of S p "dir = 1"]
    by (auto simp: command_bson_orderby_def BsonOrderbyCore_def TryCheckMetaScoreOrderBy_def applicable_def
        IsCollationApplicable_def IsCollationValid_def Let_def)
qed

end

end
