(* ===== verification/Query_Properties.thy ===== *)
theory Query_Properties
  imports Core_Properties Query_Nested Query_Regex Query_OrderBy
begin

text \<open>
  The properties of the query operators (\<^verbatim>\<open>pg_documentdb/src/query/bson_dollar_operators.c\<close>) and of
  the traversal they run on.  A document matches a filter \<open>{ path: operand }\<close> if some value that
  the path reaches in the document (\<open>reached\<close>) passes the test of the operator.
\<close>

section \<open>The traversal\<close>

text \<open>
  C11. The traversal always returns: for every document, path and state, if no callback raises,
  then neither does \<open>TraverseBson\<close>, and it yields a final state.  (The recursion ends because every
  call is on a smaller document.)
\<close>

theorem traversal_returns:
  assumes "callbacks_return F" "dotted_path p"
  shows "\<exists>s'. TraverseBson E skip F d p s = Inr s'"
proof -
  have "path_view (CreateStringViewFromString p)"
    using assms(2) path_view_CString unfolding dotted_path_def by blast
  then have "returns (TraverseBson E skip F d p s)"
    unfolding TraverseBson_def by (auto intro!: returns_ebind traverse_returns [OF assms(1)])
  then show ?thesis by (simp add: returns_def)
qed

theorem traversal_returns_witness:
  "\<exists>s'. TraverseBson ref_extern False (CompareExecutionFuncs (reads CompareExistsMatch)) [(''a'', BvInt32 1)] ''a.b''
     \<lparr>compareResult = CompareResult_PathNotFound, operatorState = operand ''a.b'' BvNull\<rparr> = Inr s'"
proof (rule traversal_returns)
  show "callbacks_return (CompareExecutionFuncs (reads CompareExistsMatch))"
    by (auto simp: callbacks_return_def CompareExecutionFuncs_def call_opt_def call_not_found_def reads_def
        CompareExistsMatch_def CompareVisitTopLevelField_def CompareVisitArrayField_def
        CompareSetTraverseResult_def CompareContinueProcessIntermediateArray_def split: TraverseBsonResult.splits)
qed (simp add: dotted_path_def c_string_def byte_val_def)

text \<open>
  \<open>BsonIterSearchKeyRecursive\<close> returns true exactly if the key is the name of a field at some
  depth of the document, through nested documents and arrays.
\<close>

theorem search_key_recursive:
  assumes "wf_doc d" "c_string key"
  shows "BsonIterSearchKeyRecursive d key \<longleftrightarrow> key \<in> doc_keys d"
  using assms
proof (induction d key rule: BsonIterSearchKeyRecursive.induct)
  case (2 currentKey v es key)
  then show ?case by (cases v) (auto simp: strcmp_cstr cstr_c_string)
qed simp

theorem search_key_recursive_witness:
  "BsonIterSearchKeyRecursive [(''a'', BvArray [(''0'', BvDocument [(''e'', BvNull)])])] ''e''"
  using search_key_recursive [of "[(''a'', BvArray [(''0'', BvDocument [(''e'', BvNull)])])]" "''e''"]
  by (simp add: c_string_def short_def byte_val_def)

section \<open>Comparison operators\<close>

definition default_settings :: settings where
  "default_settings = \<lparr>EnableCollation = False, SkipBsonArrayTraverseOptimization = False,
     UseLegacyNullEqualityBehavior = False, UseLegacyOrderByBehavior = False\<rparr>"

lemma default_query:
  "c_string p \<Longrightarrow> length p < 2 ^ 32 \<Longrightarrow> wf_value w \<Longrightarrow> query default_settings p w"
  by (simp add: query_def default_settings_def dotted_path_def)


lemmas c_string_simps = c_string_def short_def byte_val_def



text \<open>
  C5. \<open>$eq\<close> with an operand that is not null matches exactly if a reached value is comparable with
  the operand and equal to it, and \<open>$ne\<close> is its complement: it matches if no reached value is equal,
  also if the path is missing.
\<close>

theorem equality_operators:
  assumes "external_code E" "query S p w" "wf_doc d" "w \<noteq> BvNull"
  shows "bson_dollar_eq E S d [(p, w)] = Inr (\<exists>v \<in> reached S p d. comparable v w \<and> order_of E v w = 0)
    \<and> bson_dollar_ne E S d [(p, w)] = Inr (\<forall>v \<in> reached S p d. \<not> (comparable v w \<and> order_of E v w = 0))
    \<and> bson_dollar_merge_join_filter E S d [(p, w)] = bson_dollar_eq E S d [(p, w)]"
  using external_code.dollar_eq [OF assms] assms(4)
  by (auto simp: eq_test_def bson_dollar_merge_join_filter_def)

theorem equality_operators_witness:
  "bson_dollar_ne ref_extern default_settings [(''b'', BvInt32 5)] [(''a'', BvInt32 5)] = Inr True"
  using equality_operators [OF ref_laws default_query [of "''a''" "BvInt32 5"], of "[(''b'', BvInt32 5)]"]
  by (simp add: c_string_simps reach_def find_field_def)



section \<open>\<open>$in\<close>, \<open>$all\<close>, \<open>$elemMatch\<close>\<close>





text \<open>
  C32. \<open>$elemMatch\<close> matches exactly if the path reaches an array with an element for which the
  nested query holds; the empty query asks for an element that is a document or an array.  The
  evaluation of the nested query is a parameter.
\<close>

theorem elemmatch_operator:
  assumes "external_code E" "query S p (BvDocument q)" "wf_doc d"
    and "\<forall>k v. field_value v \<longrightarrow> (\<exists>b. X (BvDocument q) None (BsonIterToPgbsonElement (k, v)) = Inr b)"
  shows "bson_dollar_elemmatch E X S d [(p, BvDocument q)] = Inr (\<exists>a. BvArray a \<in> reached_top S p d \<and>
     (\<exists>e \<in> set a. if q = [] then value_type (snd e) \<in> {BSON_TYPE_DOCUMENT, BSON_TYPE_ARRAY}
                  else X (BvDocument q) None (BsonIterToPgbsonElement e) = Inr True))"
  using external_code.dollar_elemmatch [OF assms(1-3), of X] assms(4) by blast

theorem elemmatch_operator_witness:
  "bson_dollar_elemmatch ref_extern (\<lambda>_ _ e. Inr (bsonValue e = BvInt32 2)) default_settings
     [(''a'', BvArray [(''0'', BvInt32 1), (''1'', BvInt32 2)])]
     [(''a'', BvDocument [([], BvDocument [(''$eq'', BvInt32 2)])])] = Inr True"
  using elemmatch_operator [OF ref_laws default_query [of "''a''" "BvDocument [([], BvDocument [(''$eq'', BvInt32 2)])]"],
      of "[(''a'', BvArray [(''0'', BvInt32 1), (''1'', BvInt32 2)])]" "\<lambda>_ _ e. Inr (bsonValue e = BvInt32 2)"]
  by (simp add: c_string_simps reach_def find_field_def leaf_visits_def)

section \<open>Operators on types, sizes and bits\<close>

text \<open>
  C29. \<open>$size\<close> matches exactly if the path reaches an array (not just an element of one) whose
  number of elements is the operand; counting stops as soon as there is one element too many.
\<close>

theorem size_operator:
  assumes "external_code E" "query S p w" "is_integral w" "wf_doc d"
  shows "bson_dollar_size E S d [(p, w)] = Inr (\<exists>a. BvArray a \<in> reached_top S p d \<and> int (length a) = int_val w)"
  using external_code.dollar_size [OF assms] .

theorem size_operator_witness:
  "bson_dollar_size ref_extern default_settings [(''a'', BvArray [(''0'', BvNull)])] [(''a'', BvInt32 1)] = Inr True"
  using size_operator [OF ref_laws default_query [of "''a''" "BvInt32 1"], of "[(''a'', BvArray [(''0'', BvNull)])]"]
  by (simp add: c_string_simps reach_def find_field_def leaf_visits_def)

text \<open>
  C30. \<open>$exists\<close> with a boolean matches exactly if the path reaching a value is as the operand says.
\<close>

theorem exists_operator:
  assumes "external_code E" "query S p (BvBool b)" "wf_doc d"
  shows "bson_dollar_exists E S d [(p, BvBool b)] = Inr ((reached S p d \<noteq> {}) = b)"
  using external_code.dollar_exists [OF assms refl] .

theorem exists_operator_witness:
  "bson_dollar_exists ref_extern default_settings [(''a'', BvNull)] [(''a.b'', BvBool False)] = Inr True"
  using exists_operator [OF ref_laws default_query [of "''a.b''" "BvBool False"], of "[(''a'', BvNull)]"]
  by (simp add: c_string_simps reach_def find_field_def leaf_visits_def)

text \<open>
  C31. \<open>$type\<close> with a type name matches exactly if a reached value has the type of that name, or
  the name is \<open>number\<close> and the value is a number.
\<close>

theorem type_operator:
  assumes "external_code E" "query S p (BvUtf8 s)" "c_string s" "wf_doc d"
  shows "bson_dollar_type E S d [(p, BvUtf8 s)] = Inr (\<exists>v \<in> reached S p d.
     s = ''number'' \<and> BsonTypeIsNumber (value_type v) \<or> BsonTypeName (value_type v) = Inr s)"
  using external_code.dollar_type [OF assms] by (simp add: type_test_def)

theorem type_operator_witness:
  "bson_dollar_type ref_extern default_settings [(''a'', BvInt32 1)] [(''a'', BvUtf8 ''number'')] = Inr True"
  using type_operator [OF ref_laws default_query [of "''a''" "BvUtf8 ''number''"], of "[(''a'', BvInt32 1)]"]
  by (simp add: c_string_simps reach_def find_field_def leaf_visits_def)





section \<open>\<open>$range\<close>\<close>

text \<open>
  C26. \<open>$range\<close> on a path without dots: a value matches if it is within both bounds, and an array
  also if one element is above the lower bound and one, maybe another, is below the upper bound.
  A missing field never matches, not even if a bound is null and inclusive: the null test of the
  code looks at the document with the bounds, which is not null.
\<close>

theorem range_operator:
  assumes "external_code E" "query S p (range_filter lo loIncl hi hiIncl)" "CHR ''.'' \<notin> set p" "wf_doc d"
  shows "bson_dollar_range E S d [(p, range_filter lo loIncl hi hiIncl)] = Inr
    (let above = (\<lambda>v. if loIncl then gte_test E v lo else gt_test E v lo);
         below = (\<lambda>v. if hiIncl then lte_test E v hi else lt_test E v hi)
     in case find_field p d of
          None \<Rightarrow> False
        | Some v \<Rightarrow> above v \<and> below v
            \<or> (\<exists>a. v = BvArray a \<and> (\<exists>e \<in> set a. above (snd e)) \<and> (\<exists>e \<in> set a. below (snd e))))"
proof -
  have tests: "(\<lambda>v. if loIncl then gte_test E v lo else gt_test E v lo) = lower_test E (range_params lo loIncl hi hiIncl)"
    "(\<lambda>v. if hiIncl then lte_test E v hi else lt_test E v hi) = upper_test E (range_params lo loIncl hi hiIncl)"
    by (simp_all add: fun_eq_iff lower_test_def upper_test_def range_params_def)
  show ?thesis unfolding Let_def tests by (rule external_code.dollar_range [OF assms])
qed

theorem range_operator_witness:
  "bson_dollar_range ref_extern default_settings [(''b'', BvInt32 1)] [(''a'', range_filter BvNull True BvNull True)] = Inr False
    \<and> bson_dollar_gte ref_extern default_settings [(''b'', BvInt32 1)] [(''a'', BvNull)] = Inr True"
  using range_operator [OF ref_laws default_query [of "''a''" "range_filter BvNull True BvNull True"], of "[(''b'', BvInt32 1)]"]
    external_code.dollar_null [OF ref_laws default_query [of "''a''" BvNull], of "[(''b'', BvInt32 1)]"]
  by (simp add: c_string_simps range_filter_def find_field_def reach_def)

section \<open>\<open>$regex\<close>\<close>

text \<open>
  C25. \<open>$regex\<close> with a regular expression that compiles matches exactly if the path reaches a string
  that the compiled expression matches, or the same regular expression, pattern and options.
  (Matching does not hit the recursion limit, which raises.)
\<close>

theorem regex_operator:
  assumes "external_code E" "query S p (BvRegex (Some r) (Some t))" "wf_doc d"
    and "RegexCompile E r (Some t) = Inr m" "\<forall>s. m s \<noteq> PCRE2_ERROR_RECURSIONLIMIT"
  shows "bson_dollar_regex E S d [(p, BvRegex (Some r) (Some t))]
     = Inr (\<exists>v \<in> reached S p d. (\<exists>s. v = BvUtf8 s \<and> m s \<ge> 0) \<or> v = BvRegex (Some r) (Some t))"
  using external_code.dollar_regex [OF assms] .

theorem regex_operator_witness:
  "bson_dollar_regex ref_extern default_settings [(''a'', BvArray [(''0'', BvNull), (''1'', BvUtf8 ''x'')])]
     [(''a'', BvRegex (Some ''x'') (Some ''i''))] = Inr True"
  using regex_operator [OF ref_laws default_query [of "''a''" "BvRegex (Some ''x'') (Some ''i'')"],
      of "[(''a'', BvArray [(''0'', BvNull), (''1'', BvUtf8 ''x'')])]" "\<lambda>s. if ''x'' = s then 1 else -1"]
  by (simp add: c_string_simps reach_def find_field_def leaf_visits_def RegexCompile_def RegexCompileCore_def
      ref_extern_def cstr_def REGEX_MAX_PATTERN_LENGTH_def PCRE2_ERROR_RECURSIONLIMIT_def)

section \<open>Operators inside \<open>$elemMatch\<close>\<close>





section \<open>Errors\<close>

text \<open>
  C35. \<open>$all\<close> raises a bad-value error for an operand that is no array, and \<open>$regex\<close> for one that is
  neither a string nor a regular expression.  \<open>$regex\<close> with a string reads a null pointer on a
  document that holds a regular expression with the same pattern, because the options of the filter
  are null.  \<open>$text\<close> without an index always raises.
\<close>

theorem operand_errors:
  assumes "external_code E" "query S p w"
  shows "(value_type w \<noteq> BSON_TYPE_ARRAY \<longrightarrow>
       bson_dollar_all E X S d [(p, w)] = Inl (Ereport ERRCODE_DOCUMENTDB_BADVALUE))
    \<and> (value_type w \<notin> {BSON_TYPE_UTF8, BSON_TYPE_REGEX} \<longrightarrow>
       bson_dollar_regex E S d [(p, w)] = Inl (Ereport ERRCODE_DOCUMENTDB_BADVALUE))
    \<and> (\<forall>r t m. w = BvUtf8 r \<and> CHR ''.'' \<notin> set p \<and> wf_doc [(p, BvRegex (Some r) (Some t))] \<and> RegexCompile E r None = Inr m \<longrightarrow>
       bson_dollar_regex E S [(p, BvRegex (Some r) (Some t))] [(p, w)] = Inl NullDereference)
    \<and> bson_dollar_text = Inl (Ereport ERRCODE_DOCUMENTDB_INDEXNOTFOUND)"
proof -
  have "bson_dollar_all E X S d [(p, w)] = Inl (Ereport ERRCODE_DOCUMENTDB_BADVALUE)" if "value_type w \<noteq> BSON_TYPE_ARRAY"
    using that query_element_single [OF assms(2)]
    by (cases w) (simp_all add: bson_dollar_all_def PopulateDollarAllStateFromQuery_def)
  moreover have "bson_dollar_regex E S d [(p, w)] = Inl (Ereport ERRCODE_DOCUMENTDB_BADVALUE)"
    if "value_type w \<notin> {BSON_TYPE_UTF8, BSON_TYPE_REGEX}"
    using that query_element_single [OF assms(2)]
    by (cases w) (simp_all add: bson_dollar_regex_def PopulateRegexState_def PopulateRegexFromQuery_def)
  moreover have "\<forall>r t m. w = BvUtf8 r \<and> CHR ''.'' \<notin> set p \<and> wf_doc [(p, BvRegex (Some r) (Some t))]
      \<and> RegexCompile E r None = Inr m \<longrightarrow>
       bson_dollar_regex E S [(p, BvRegex (Some r) (Some t))] [(p, w)] = Inl NullDereference"
    using external_code.regex_null_options [OF assms(1)] assms(2) by blast
  ultimately show ?thesis unfolding bson_dollar_text_def by blast
qed

theorem operand_errors_witness:
  "bson_dollar_regex ref_extern default_settings [(''a'', BvRegex (Some ''x'') (Some ''i''))] [(''a'', BvUtf8 ''x'')]
     = Inl NullDereference"
proof -
  have "RegexCompile ref_extern ''x'' None = Inr (\<lambda>s. if ''x'' = s then 1 else -1)"
    by (simp add: RegexCompile_def RegexCompileCore_def ref_extern_def cstr_def byte_val_def REGEX_MAX_PATTERN_LENGTH_def)
  then show ?thesis
    using operand_errors [OF ref_laws default_query [of "''a''" "BvUtf8 ''x''"]] by (simp add: c_string_simps)
qed

end
