(* ===== verification/Pgbson_Writer.thy ===== *)
theory Pgbson_Writer
  imports Bson_Deduplicate
begin

text \<open>
  The writers of \<^verbatim>\<open>pg_documentdb_core/src/io/pgbson.c\<close> that the update operators use: the document
  writer, the array writer and the element writer that stands for a position in either.

  A writer is the document written so far; the functions return the writer they leave.  A child
  writer started by \<open>bson_append_document_begin\<close> or \<open>bson_append_array_begin\<close> is an empty document of its
  own, which the matching end call appends to its parent.  That a document outgrows the format
  is not modelled.
\<close>

section \<open>The writers\<close>

type_synonym pgbson_writer = bson_doc

record pgbson_array_writer =
  innerBson :: bson_doc
  writer_index :: uint32

datatype pgbson_element_writer =
    ArrayElementWriter pgbson_array_writer
  | ObjectElementWriter pgbson_writer string

definition BsonDocumentValueCountKeys :: "bson_value \<Rightarrow> nat result" where
  "BsonDocumentValueCountKeys v =
     (case v of BvArray d \<Rightarrow> Inr (length d) | BvDocument d \<Rightarrow> Inr (length d)
      | _ \<Rightarrow> Inl (Ereport ERRCODE_DOCUMENTDB_BADVALUE))"

definition PgbsonWriterInit :: pgbson_writer where
  "PgbsonWriterInit = []"

definition PgbsonWriterAppendValue :: "pgbson_writer \<Rightarrow> string \<Rightarrow> bson_value \<Rightarrow> pgbson_writer" where
  "PgbsonWriterAppendValue w k v = w @ [(k, v)]"

definition PgbsonWriterStartArray :: pgbson_array_writer where
  "PgbsonWriterStartArray = \<lparr> innerBson = [], writer_index = 0 \<rparr>"

definition PgbsonWriterEndArray :: "pgbson_writer \<Rightarrow> string \<Rightarrow> pgbson_array_writer \<Rightarrow> pgbson_writer" where
  "PgbsonWriterEndArray w k childWriter = w @ [(k, BvArray (innerBson childWriter))]"

definition PgbsonWriterStartDocument :: pgbson_writer where
  "PgbsonWriterStartDocument = []"

definition PgbsonWriterEndDocument :: "pgbson_writer \<Rightarrow> string \<Rightarrow> pgbson_writer \<Rightarrow> pgbson_writer" where
  "PgbsonWriterEndDocument w k childWriter = w @ [(k, BvDocument childWriter)]"

definition PgbsonArrayWriterWriteValue ::
    "extern \<Rightarrow> pgbson_array_writer \<Rightarrow> bson_value \<Rightarrow> pgbson_array_writer" where
  "PgbsonArrayWriterWriteValue E w v =
     \<lparr> innerBson = innerBson w @ [(bson_uint32_to_string E (writer_index w), v)],
       writer_index = writer_index w + 1 \<rparr>"

definition PgbsonArrayWriterStartArray :: pgbson_array_writer where
  "PgbsonArrayWriterStartArray = \<lparr> innerBson = [], writer_index = 0 \<rparr>"

definition PgbsonArrayWriterEndArray ::
    "extern \<Rightarrow> pgbson_array_writer \<Rightarrow> pgbson_array_writer \<Rightarrow> pgbson_array_writer" where
  "PgbsonArrayWriterEndArray E w childWriter =
     \<lparr> innerBson = innerBson w @ [(bson_uint32_to_string E (writer_index w), BvArray (innerBson childWriter))],
       writer_index = writer_index w + 1 \<rparr>"

definition PgbsonArrayWriterStartDocument :: pgbson_writer where
  "PgbsonArrayWriterStartDocument = []"

definition PgbsonArrayWriterEndDocument ::
    "extern \<Rightarrow> pgbson_array_writer \<Rightarrow> pgbson_writer \<Rightarrow> pgbson_array_writer" where
  "PgbsonArrayWriterEndDocument E w childWriter =
     \<lparr> innerBson = innerBson w @ [(bson_uint32_to_string E (writer_index w), BvDocument childWriter)],
       writer_index = writer_index w + 1 \<rparr>"

section \<open>The element writer\<close>

definition PgbsonInitArrayElementWriter :: "pgbson_array_writer \<Rightarrow> pgbson_element_writer" where
  "PgbsonInitArrayElementWriter w = ArrayElementWriter w"

definition PgbsonInitObjectElementWriter :: "pgbson_writer \<Rightarrow> string \<Rightarrow> pgbson_element_writer" where
  "PgbsonInitObjectElementWriter w k = ObjectElementWriter w k"

fun PgbsonElementWriterWriteValue ::
    "extern \<Rightarrow> pgbson_element_writer \<Rightarrow> bson_value \<Rightarrow> pgbson_element_writer" where
  "PgbsonElementWriterWriteValue E (ArrayElementWriter w) v =
     ArrayElementWriter (PgbsonArrayWriterWriteValue E w v)"
| "PgbsonElementWriterWriteValue E (ObjectElementWriter w k) v =
     ObjectElementWriter (PgbsonWriterAppendValue w k v) k"

fun PgbsonElementWriterStartArray :: "pgbson_element_writer \<Rightarrow> pgbson_array_writer" where
  "PgbsonElementWriterStartArray (ArrayElementWriter w) = PgbsonArrayWriterStartArray"
| "PgbsonElementWriterStartArray (ObjectElementWriter w k) = PgbsonWriterStartArray"

fun PgbsonElementWriterEndArray ::
    "extern \<Rightarrow> pgbson_element_writer \<Rightarrow> pgbson_array_writer \<Rightarrow> pgbson_element_writer" where
  "PgbsonElementWriterEndArray E (ArrayElementWriter w) a = ArrayElementWriter (PgbsonArrayWriterEndArray E w a)"
| "PgbsonElementWriterEndArray E (ObjectElementWriter w k) a = ObjectElementWriter (PgbsonWriterEndArray w k a) k"

fun PgbsonElementWriterStartDocument :: "pgbson_element_writer \<Rightarrow> pgbson_writer" where
  "PgbsonElementWriterStartDocument (ArrayElementWriter w) = PgbsonArrayWriterStartDocument"
| "PgbsonElementWriterStartDocument (ObjectElementWriter w k) = PgbsonWriterStartDocument"

fun PgbsonElementWriterEndDocument ::
    "extern \<Rightarrow> pgbson_element_writer \<Rightarrow> pgbson_writer \<Rightarrow> pgbson_element_writer" where
  "PgbsonElementWriterEndDocument E (ArrayElementWriter w) d = ArrayElementWriter (PgbsonArrayWriterEndDocument E w d)"
| "PgbsonElementWriterEndDocument E (ObjectElementWriter w k) d = ObjectElementWriter (PgbsonWriterEndDocument w k d) k"

section \<open>What is written\<close>

text \<open>The document an element writer has written so far.\<close>

fun element_doc :: "pgbson_element_writer \<Rightarrow> bson_doc" where
  "element_doc (ArrayElementWriter w) = innerBson w"
| "element_doc (ObjectElementWriter w k) = w"

text \<open>The name under which an element writer writes its next value.\<close>

fun element_key :: "extern \<Rightarrow> pgbson_element_writer \<Rightarrow> string" where
  "element_key E (ArrayElementWriter w) = bson_uint32_to_string E (writer_index w)"
| "element_key E (ObjectElementWriter w k) = k"

fun array_fields :: "extern \<Rightarrow> uint32 \<Rightarrow> bson_value list \<Rightarrow> bson_doc" where
  "array_fields E i [] = []"
| "array_fields E i (v # vs) = (bson_uint32_to_string E i, v) # array_fields E (i + 1) vs"

abbreviation array_doc :: "extern \<Rightarrow> bson_value list \<Rightarrow> bson_doc" where
  "array_doc E \<equiv> array_fields E 0"

lemma element_doc_write [simp]:
  "element_doc (PgbsonElementWriterWriteValue E w v) = element_doc w @ [(element_key E w, v)]"
  by (cases w) (simp_all add: PgbsonArrayWriterWriteValue_def PgbsonWriterAppendValue_def)

lemma element_doc_end_array [simp]:
  "element_doc (PgbsonElementWriterEndArray E w a) = element_doc w @ [(element_key E w, BvArray (innerBson a))]"
  by (cases w) (simp_all add: PgbsonArrayWriterEndArray_def PgbsonWriterEndArray_def)

lemma element_doc_end_document [simp]:
  "element_doc (PgbsonElementWriterEndDocument E w d) = element_doc w @ [(element_key E w, BvDocument d)]"
  by (cases w) (simp_all add: PgbsonArrayWriterEndDocument_def PgbsonWriterEndDocument_def)

lemma start_array [simp]:
  "PgbsonElementWriterStartArray w = \<lparr> innerBson = [], writer_index = 0 \<rparr>"
  by (cases w) (simp_all add: PgbsonArrayWriterStartArray_def PgbsonWriterStartArray_def)

lemma start_document [simp]: "PgbsonElementWriterStartDocument w = []"
  by (cases w) (simp_all add: PgbsonArrayWriterStartDocument_def PgbsonWriterStartDocument_def)

text \<open>Ending an array or a document writes it like any other value.\<close>

lemma end_is_write:
  "PgbsonElementWriterEndArray E w a = PgbsonElementWriterWriteValue E w (BvArray (innerBson a))"
  "PgbsonElementWriterEndDocument E w d = PgbsonElementWriterWriteValue E w (BvDocument d)"
  by (cases w; simp add: PgbsonArrayWriterEndArray_def PgbsonArrayWriterEndDocument_def
      PgbsonArrayWriterWriteValue_def PgbsonWriterEndArray_def PgbsonWriterEndDocument_def PgbsonWriterAppendValue_def)+

lemma snd_array_fields [simp]: "map snd (array_fields E i vs) = vs"
  by (induction vs arbitrary: i) simp_all

lemma length_array_fields [simp]: "length (array_fields E i vs) = length vs"
  by (induction vs arbitrary: i) simp_all

lemma array_fields_append: "array_fields E i (vs @ ws) = array_fields E i vs @ array_fields E (i + of_nat (length vs)) ws"
  by (induction vs arbitrary: i) (simp_all add: ac_simps)

lemma fst_array_fields:
  "external_code E \<Longrightarrow> map fst (array_fields E i vs) = index_names i (length vs)"
  by (induction vs arbitrary: i) (simp_all add: external_code.index_name_law index_names_Suc, simp add: index_names_def)

lemma write_values:
  "fold (\<lambda>v w. PgbsonArrayWriterWriteValue E w v) vs w =
     \<lparr> innerBson = innerBson w @ array_fields E (writer_index w) vs,
       writer_index = writer_index w + of_nat (length vs) \<rparr>"
  by (induction vs arbitrary: w) (simp_all add: PgbsonArrayWriterWriteValue_def ac_simps)

text \<open>An array whose keys are its indices is the array of its values.\<close>

lemma array_fields_of:
  "external_code E \<Longrightarrow> map fst d = index_names i (length d) \<Longrightarrow> array_fields E i (map snd d) = d"
  by (induction d arbitrary: i) (auto simp: external_code.index_name_law index_names_Suc)

end
