(* ===== verification/Update_Extern.thy ===== *)
theory Update_Extern
  imports Bid_Reference Bson_Deduplicate Bson_Traversal Query_Match "HOL-Library.Multiset"
begin

text \<open>
  The code outside the modelled sources that the update operators call, as a second record of
  functions, the parameter \<open>W\<close> of the definitions: PostgreSQL's \<open>qsort_arg\<close> and hash tables, libbson's
  search by a dotted path, its object id generator and its validation, the clock and the character
  classes of the C library, and the compilation of a query into an expression that PostgreSQL's
  executor evaluates (\<open>GetExpressionEvalState\<close> and \<open>GetPositionalQueryData\<close>, which build and compile
  PostgreSQL expression trees).

  The locale \<open>update_code\<close> collects what the proofs use of them; it is interpreted on a reference
  instance at the end.
\<close>

section \<open>The data they exchange\<close>

datatype ElementWithIndex = ElementWithIndex (element_value: bson_value) (element_index: uint32)

text \<open>A compiled expression is the function that evaluates it on an element.\<close>

type_synonym ExprEvalState = "pgbsonelement \<Rightarrow> bool result"

record BsonPositionalQueryQual =
  qual_path :: string
  qual_evalState :: ExprEvalState
  qual_isArrayMatch :: bool
  qual_isEmptyElemMatch :: bool

section \<open>The functions\<close>

record update_extern =
  qsort_arg ::
    "(ElementWithIndex \<Rightarrow> ElementWithIndex \<Rightarrow> int result) \<Rightarrow> ElementWithIndex list \<Rightarrow> ElementWithIndex list result"
  hash_search_view :: "(string \<Rightarrow> uint32) \<Rightarrow> (string \<Rightarrow> string \<Rightarrow> int) \<Rightarrow> string list \<Rightarrow> string \<Rightarrow> nat option"
  bson_iter_find_descendant :: "bson_doc \<Rightarrow> string \<Rightarrow> bson_value option"
  bson_oid_init :: string
  bson_validate :: "bson_doc \<Rightarrow> bool"
  clock_gettime :: "int64 \<times> int64"
  isalnum :: "char \<Rightarrow> bool"
  GetExpressionEvalState :: "bson_value \<Rightarrow> ExprEvalState result"
  GetPositionalQueryData :: "bson_value option \<Rightarrow> BsonPositionalQueryQual list result"

text \<open>
  The comparator of \<open>qsort_arg\<close> may raise an error, which ends the sort.  \<open>hash_search_view\<close> is the search
  in a table keyed by string views, given the keys in the order they were entered.  \<open>clock_gettime\<close> is
  the reading of the real-time clock during one update, as seconds and nanoseconds; the code reads
  the clock anew for every field.  \<open>bson_validate\<close> is \<open>bson_init_static\<close> followed by
  \<open>bson_validate_with_error\<close> with \<open>BSON_VALIDATE_NONE\<close>.
\<close>

section \<open>What the code relies on\<close>

text \<open>A comparator that orders the elements of a list: total and transitive.\<close>

definition orders_elements :: "('a \<Rightarrow> 'a \<Rightarrow> int) \<Rightarrow> 'a set \<Rightarrow> bool" where
  "orders_elements cv A \<longleftrightarrow>
     (\<forall>x \<in> A. \<forall>y \<in> A. sgn (cv x y) = - sgn (cv y x))
   \<and> (\<forall>x \<in> A. \<forall>y \<in> A. \<forall>z \<in> A. cv x y \<le> 0 \<longrightarrow> cv y z \<le> 0 \<longrightarrow> cv x z \<le> 0)"

text \<open>The value at a dotted path: the first field of each name, in documents and arrays.\<close>

fun dotted_value :: "bson_doc \<Rightarrow> string list \<Rightarrow> bson_value option" where
  "dotted_value d [] = None"
| "dotted_value d [k] = map_of d k"
| "dotted_value d (k # ks) =
     (case map_of d k of Some (BvDocument d') \<Rightarrow> dotted_value d' ks | Some (BvArray d') \<Rightarrow> dotted_value d' ks
      | _ \<Rightarrow> None)"

locale update_code = external_code +
  fixes W :: update_extern
  assumes qsort_law:
      "(\<And>el1 el2. el1 \<in> set els \<Longrightarrow> el2 \<in> set els \<Longrightarrow> cf el1 el2 = Inr (cv el1 el2)) \<Longrightarrow>
       orders_elements cv (set els) \<Longrightarrow>
         \<exists>sorted_els. qsort_arg W cf els = Inr sorted_els \<and> mset sorted_els = mset els
           \<and> sorted_wrt (\<lambda>el1 el2. cv el1 el2 \<le> 0) sorted_els"
    and view_found: "hash_search_view W vh vm views view = Some vpos \<Longrightarrow>
      vpos < length views \<and> vh (views ! vpos) = vh view \<and> vm (views ! vpos) view = 0"
    and view_absent: "hash_search_view W vh vm views view = None \<Longrightarrow> stored_view \<in> set views \<Longrightarrow>
      vh stored_view = vh view \<Longrightarrow> vm stored_view view \<noteq> 0"
    and find_descendant_law: "c_string key \<Longrightarrow> wf_doc searched \<Longrightarrow>
      bson_iter_find_descendant W searched key = dotted_value searched (split_dots key)"
    and oid_init_law: "length (bson_oid_init W) = 12"

lemma dotted_value_wf: "wf_doc d \<Longrightarrow> dotted_value d ks = Some v \<Longrightarrow> wf_value v \<and> v \<noteq> BvEOD"
  by (induction d ks rule: dotted_value.induct)
    (auto simp: wf_doc_iff dest!: map_of_SomeD split: option.splits bson_value.splits)

section \<open>A reference instance\<close>

fun ref_insort ::
    "(ElementWithIndex \<Rightarrow> ElementWithIndex \<Rightarrow> int result) \<Rightarrow> ElementWithIndex \<Rightarrow> ElementWithIndex list
       \<Rightarrow> ElementWithIndex list result" where
  "ref_insort cf x [] = Inr [x]"
| "ref_insort cf x (y # ys) =
     ebind (cf x y) (\<lambda>c. if c \<le> 0 then Inr (x # y # ys) else ebind (ref_insort cf x ys) (\<lambda>zs. Inr (y # zs)))"

fun ref_qsort ::
    "(ElementWithIndex \<Rightarrow> ElementWithIndex \<Rightarrow> int result) \<Rightarrow> ElementWithIndex list \<Rightarrow> ElementWithIndex list result" where
  "ref_qsort cf [] = Inr []"
| "ref_qsort cf (x # xs) = ebind (ref_qsort cf xs) (ref_insort cf x)"

definition ref_update :: update_extern where
  "ref_update = \<lparr>
     qsort_arg = ref_qsort,
     hash_search_view = (\<lambda>h m views v. first_index (\<lambda>x. h x = h v \<and> m x v = 0) views),
     bson_iter_find_descendant = (\<lambda>d p. dotted_value d (split_dots p)),
     bson_oid_init = replicate 12 (CHR ''0''),
     bson_validate = (\<lambda>_. True),
     clock_gettime = (0, 0),
     isalnum = (\<lambda>c. c \<in> set ''0123456789abcdefghijklmnopqrstuvwxyzABCDEFGHIJKLMNOPQRSTUVWXYZ''),
     GetExpressionEvalState = (\<lambda>q. Inr (\<lambda>e. Inr (q = BvDocument [(''$eq'', bsonValue e)]))),
     GetPositionalQueryData = (\<lambda>_. Inr []) \<rparr>"

lemma orders_elements_subset: "orders_elements cv A \<Longrightarrow> B \<subseteq> A \<Longrightarrow> orders_elements cv B"
  unfolding orders_elements_def by blast

lemma ref_insort_spec:
  assumes "\<forall>b \<in> set xs. cf x b = Inr (cv x b)"
    "orders_elements cv (insert x (set xs))" "sorted_wrt (\<lambda>a b. cv a b \<le> 0) xs"
  shows "\<exists>ys. ref_insort cf x xs = Inr ys \<and> mset ys = add_mset x (mset xs) \<and> sorted_wrt (\<lambda>a b. cv a b \<le> 0) ys"
  using assms
proof (induction xs)
  case (Cons y ys)
  have ord: "orders_elements cv (insert x (set ys))"
    by (rule orders_elements_subset [OF Cons.prems(2)]) auto
  have c: "cf x y = Inr (cv x y)" using Cons.prems(1) by simp
  obtain zs where zs: "ref_insort cf x ys = Inr zs" "mset zs = add_mset x (mset ys)"
      "sorted_wrt (\<lambda>a b. cv a b \<le> 0) zs"
    using Cons.IH [OF _ ord] Cons.prems(1,3) by auto
  have set_zs: "set zs = insert x (set ys)" using zs(2) by (metis set_mset_add_mset_insert set_mset_mset)
  show ?case
  proof (cases "cv x y \<le> 0")
    case True
    have "cv x z \<le> 0" if "z \<in> set ys" for z
    proof -
      have "cv y z \<le> 0" using that Cons.prems(3) by simp
      moreover have "cv x y \<le> 0 \<longrightarrow> cv y z \<le> 0 \<longrightarrow> cv x z \<le> 0"
        using that Cons.prems(2) unfolding orders_elements_def list.set by blast
      ultimately show ?thesis using True by blast
    qed
    with True c show ?thesis using Cons.prems(3) by simp
  next
    case False
    have "sgn (cv x y) = - sgn (cv y x)" using Cons.prems(2) unfolding orders_elements_def list.set by blast
    with False have "cv y x \<le> 0" by (simp add: sgn_if split: if_splits)
    with False c zs set_zs show ?thesis using Cons.prems(3) by simp
  qed
qed simp

lemma ref_qsort_spec:
  assumes "\<forall>a \<in> set xs. \<forall>b \<in> set xs. cf a b = Inr (cv a b)" "orders_elements cv (set xs)"
  shows "\<exists>ys. ref_qsort cf xs = Inr ys \<and> mset ys = mset xs \<and> sorted_wrt (\<lambda>a b. cv a b \<le> 0) ys"
  using assms
proof (induction xs)
  case (Cons x xs)
  have ord: "orders_elements cv (set xs)" by (rule orders_elements_subset [OF Cons.prems(2)]) auto
  obtain ys where ys: "ref_qsort cf xs = Inr ys" "mset ys = mset xs" "sorted_wrt (\<lambda>a b. cv a b \<le> 0) ys"
    using Cons.IH [OF _ ord] Cons.prems(1) by auto
  then have "set ys = set xs" by (metis set_mset_mset)
  then show ?case using ref_insort_spec [of ys cf x cv] ys Cons.prems by simp
qed simp

lemma ref_update_laws: "update_code ref_extern ref_update"
proof (rule update_code.intro [OF ref_laws], rule update_code_axioms.intro)
  fix cf :: "ElementWithIndex \<Rightarrow> ElementWithIndex \<Rightarrow> int result" and cv els
  assume "\<And>a b. a \<in> set els \<Longrightarrow> b \<in> set els \<Longrightarrow> cf a b = Inr (cv a b)" and "orders_elements cv (set els)"
  then show "\<exists>ys. qsort_arg ref_update cf els = Inr ys \<and> mset ys = mset els \<and> sorted_wrt (\<lambda>a b. cv a b \<le> 0) ys"
    using ref_qsort_spec [of els cf cv] unfolding ref_update_def update_extern.simps by blast
next
  fix h :: "string \<Rightarrow> uint32" and m :: "string \<Rightarrow> string \<Rightarrow> int" and views v i x
  show "i < length views \<and> h (views ! i) = h v \<and> m (views ! i) v = 0"
    if "hash_search_view ref_update h m views v = Some i"
    using first_index_Some [OF that [unfolded ref_update_def update_extern.simps]] by simp
  show "m x v \<noteq> 0" if "hash_search_view ref_update h m views v = None" "x \<in> set views" "h x = h v"
    using that unfolding ref_update_def update_extern.simps first_index_None by blast
next
  fix key :: string and d
  show "bson_iter_find_descendant ref_update d key = dotted_value d (split_dots key)"
    by (simp add: ref_update_def)
  show "length (bson_oid_init ref_update) = 12" by (simp add: ref_update_def)
qed

interpretation ref_up: update_code ref_extern ref_update
  by (rule ref_update_laws)

end
