(* ===== verification/Sort_Utils.thy ===== *)
theory Sort_Utils
  imports Update_Extern
begin

text \<open>
  The sort specifications of \<open>$push\<close> and \<open>$sortArray\<close> and the comparator given to \<open>qsort_arg\<close>
  (\<^verbatim>\<open>pg_documentdb/src/utils/sort_utils.c\<close>).

  The comparator orders the elements by the specification and elements that compare equal by
  their position, so that the sort is stable (\<open>sort_elements_stable\<close>).
\<close>

section \<open>The sort specification\<close>

datatype SortDirection = SortDirection_Ascending | SortDirection_Descending

datatype SortType = SortType_No_Sort | SortType_ObjectFieldSort | SortType_WholeElementSort

record SortSpecData =
  spec_key :: string
  spec_direction :: SortDirection

record SortContext =
  sortSpecList :: "SortSpecData list"
  sortDirection :: SortDirection
  sortType :: SortType

definition dbl_equals :: "double \<Rightarrow> int \<Rightarrow> bool" where
  "dbl_equals d i \<longleftrightarrow> x_eq (dbl_x d) (XFin (of_int i))"

fun sort_spec_fields :: "extern \<Rightarrow> bson_doc \<Rightarrow> SortSpecData list result" where
  "sort_spec_fields E [] = Inr []"
| "sort_spec_fields E ((key, sortVal) # d) =
     (let keyLength = strlen key
      in if keyLength = 0 then Inl (Ereport ERRCODE_DOCUMENTDB_BADVALUE)
         else if key ! 0 = CHR ''.'' \<or> key ! (keyLength - 1) = CHR ''.''
         then Inl (Ereport ERRCODE_DOCUMENTDB_BADVALUE)
         else if \<not> BsonValueIsNumber sortVal then Inl (Ereport ERRCODE_DOCUMENTDB_BADVALUE)
         else ebind (BsonValueAsDouble E sortVal) (\<lambda>x.
              if \<not> dbl_equals x 1 \<and> \<not> dbl_equals x (-1) then Inl (Ereport ERRCODE_DOCUMENTDB_BADVALUE)
              else ebind (BsonValueAsInt64 E sortVal) (\<lambda>i.
                   ebind (sort_spec_fields E d) (\<lambda>specs.
                     Inr (\<lparr> spec_key = key,
                            spec_direction = (if sint i = 1 then SortDirection_Ascending
                                              else SortDirection_Descending) \<rparr> # specs)))))"

definition ValidateSortSpecAndSetSortContext :: "extern \<Rightarrow> bson_value \<Rightarrow> SortContext result" where
  "ValidateSortSpecAndSetSortContext E sortBsonValue =
     (if value_type sortBsonValue = BSON_TYPE_EOD
      then Inr \<lparr> sortSpecList = [], sortDirection = SortDirection_Ascending, sortType = SortType_No_Sort \<rparr>
      else if \<not> BsonValueIsNumber sortBsonValue
      then (case sortBsonValue of
              BvDocument d \<Rightarrow>
                ebind (sort_spec_fields E d) (\<lambda>specs.
                  if d = [] then Inl (Ereport ERRCODE_DOCUMENTDB_BADVALUE)
                  else Inr \<lparr> sortSpecList = specs, sortDirection = SortDirection_Ascending,
                             sortType = SortType_ObjectFieldSort \<rparr>)
            | _ \<Rightarrow> Inl (Ereport ERRCODE_DOCUMENTDB_BADVALUE))
      else ebind (BsonValueAsDouble E sortBsonValue) (\<lambda>sortOrder.
             if dbl_equals sortOrder 1 \<or> dbl_equals sortOrder (-1)
             then Inr \<lparr> sortSpecList = [],
                        sortDirection = (if dbl_equals sortOrder 1 then SortDirection_Ascending
                                         else SortDirection_Descending),
                        sortType = SortType_WholeElementSort \<rparr>
             else Inl (Ereport ERRCODE_DOCUMENTDB_BADVALUE)))"

section \<open>The comparator\<close>

definition GetElementWithIndex :: "bson_value \<Rightarrow> uint32 \<Rightarrow> ElementWithIndex" where
  "GetElementWithIndex v i = ElementWithIndex v i"

definition UpdateElementWithIndex :: "bson_value \<Rightarrow> uint32 \<Rightarrow> ElementWithIndex \<Rightarrow> ElementWithIndex" where
  "UpdateElementWithIndex v i element = GetElementWithIndex v i"

text \<open>A value that is no document, or has no such path, sorts as null.\<close>

definition sort_field :: "update_extern \<Rightarrow> string \<Rightarrow> bson_value \<Rightarrow> bson_value" where
  "sort_field W key v =
     (case v of
        BvDocument d \<Rightarrow> (case bson_iter_find_descendant W d key of Some x \<Rightarrow> x | None \<Rightarrow> BvNull)
      | _ \<Rightarrow> BvNull)"

text \<open>The loop over \<open>sortSpecList\<close>: the result of the last comparison and its direction.\<close>

fun compare_sort_specs ::
    "extern \<Rightarrow> update_extern \<Rightarrow> SortSpecData list \<Rightarrow> bson_value \<Rightarrow> bson_value \<Rightarrow> (int \<times> SortDirection) result" where
  "compare_sort_specs E W [] l r = Inr (0, SortDirection_Ascending)"
| "compare_sort_specs E W (spec # specs) l r =
     ebind (CompareBsonValueAndType E (sort_field W (spec_key spec) l) (sort_field W (spec_key spec) r))
       (\<lambda>(res, _). if res \<noteq> 0 then Inr (res, spec_direction spec) else compare_sort_specs E W specs l r)"

definition CompareBsonValuesForSort ::
    "extern \<Rightarrow> update_extern \<Rightarrow> SortContext \<Rightarrow> ElementWithIndex \<Rightarrow> ElementWithIndex \<Rightarrow> int result" where
  "CompareBsonValuesForSort E W sortContext left right =
     ebind (if sortType sortContext = SortType_WholeElementSort
            then ebind (CompareBsonValueAndType E (element_value left) (element_value right)) (\<lambda>(res, _).
                   Inr (res, sortDirection sortContext))
            else compare_sort_specs E W (sortSpecList sortContext) (element_value left) (element_value right))
       (\<lambda>(res, direction).
          Inr (if res = 0 then sint (element_index left - element_index right)
               else if direction = SortDirection_Ascending then res else - res))"

section \<open>The order of a specification\<close>

definition directed :: "SortDirection \<Rightarrow> int \<Rightarrow> int" where
  "directed direction c = (if direction = SortDirection_Ascending then c else - c)"

fun specs_order :: "extern \<Rightarrow> update_extern \<Rightarrow> SortSpecData list \<Rightarrow> bson_value \<Rightarrow> bson_value \<Rightarrow> int" where
  "specs_order E W [] l r = 0"
| "specs_order E W (spec # specs) l r =
     (let c = order_of E (sort_field W (spec_key spec) l) (sort_field W (spec_key spec) r)
      in if c \<noteq> 0 then directed (spec_direction spec) c else specs_order E W specs l r)"

definition sort_order :: "extern \<Rightarrow> update_extern \<Rightarrow> SortContext \<Rightarrow> bson_value \<Rightarrow> bson_value \<Rightarrow> int" where
  "sort_order E W ctx l r =
     (if sortType ctx = SortType_WholeElementSort then directed (sortDirection ctx) (order_of E l r)
      else specs_order E W (sortSpecList ctx) l r)"

definition wf_sort :: "SortContext \<Rightarrow> bool" where
  "wf_sort ctx \<longleftrightarrow> (\<forall>spec \<in> set (sortSpecList ctx). c_string (spec_key spec))"

lemma three_way_lex:
  assumes "three_way P f" "three_way P g"
  shows "three_way P (\<lambda>x y. if f x y \<noteq> 0 then f x y else g x y)"
proof
  fix x y assume "P x" "P y"
  then show "sgn (if f y x \<noteq> 0 then f y x else g y x) = - sgn (if f x y \<noteq> 0 then f x y else g x y)"
    using three_way.cmp_flip [OF assms(1), of x y] three_way.cmp_flip [OF assms(2), of x y]
    by (auto simp: sgn_if split: if_splits)
next
  fix x y z
  assume P: "P x" "P y" "P z"
    and xy: "(if f x y \<noteq> 0 then f x y else g x y) \<le> 0" and yz: "(if f y z \<noteq> 0 then f y z else g y z) \<le> 0"
  have f: "f x y \<le> 0" "f y z \<le> 0" using xy yz by (auto split: if_splits)
  have le: "f x z \<le> 0" using three_way.cmp_le_trans [OF assms(1) P f] .
  have "g x z \<le> 0" if "f x z = 0"
  proof -
    have "f x y = 0" using that f three_way.cmp_less_le_trans [OF assms(1) P _ f(2)] by fastforce
    moreover have "f y z = 0" using that f three_way.cmp_le_less_trans [OF assms(1) P f(1)] by fastforce
    ultimately show ?thesis using xy yz three_way.cmp_le_trans [OF assms(2) P] by simp
  qed
  with le show "(if f x z \<noteq> 0 then f x z else g x z) \<le> 0" by simp
qed

lemma three_way_directed:
  assumes "three_way P f"
  shows "three_way P (\<lambda>x y. directed dir (f x y))"
proof
  fix x y z assume P: "P x" "P y"
  show "sgn (directed dir (f y x)) = - sgn (directed dir (f x y))"
    using three_way.cmp_flip [OF assms P] by (simp add: directed_def)
  assume "P z" "directed dir (f x y) \<le> 0" "directed dir (f y z) \<le> 0"
  then show "directed dir (f x z) \<le> 0"
    using P three_way.cmp_le_trans [OF assms, of x y z] three_way.cmp_le_trans [OF assms, of z y x]
      three_way.cmp_le_flip [OF assms, of y x] three_way.cmp_le_flip [OF assms, of z y]
      three_way.cmp_le_flip [OF assms, of z x]
    by (auto simp: directed_def split: if_splits)
qed

lemma three_way_image:
  assumes "three_way P f" "\<And>x. Q x \<Longrightarrow> P (h x)"
  shows "three_way Q (\<lambda>x y. f (h x) (h y))"
  using assms unfolding three_way_def by blast

context update_code
begin

lemma sort_field_wf: "wf_value v \<Longrightarrow> c_string key \<Longrightarrow> wf_value (sort_field W key v)"
  using dotted_value_wf by (cases v) (auto simp: sort_field_def find_descendant_law split: option.splits)

lemma specs_order_three_way:
  "\<forall>spec \<in> set specs. c_string (spec_key spec) \<Longrightarrow> three_way wf_value (specs_order E W specs)"
proof (induction specs)
  case Nil
  show ?case by standard simp_all
next
  case (Cons spec specs)
  have "three_way wf_value (\<lambda>l r. order_of E (sort_field W (spec_key spec) l) (sort_field W (spec_key spec) r))"
    by (rule three_way_image [OF value_order.three_way_axioms]) (use Cons.prems sort_field_wf in simp)
  then have dir: "three_way wf_value (\<lambda>l r. directed (spec_direction spec)
      (order_of E (sort_field W (spec_key spec) l) (sort_field W (spec_key spec) r)))"
    by (rule three_way_directed)
  have eq: "specs_order E W (spec # specs) = (\<lambda>l r.
      if directed (spec_direction spec) (order_of E (sort_field W (spec_key spec) l) (sort_field W (spec_key spec) r)) \<noteq> 0
      then directed (spec_direction spec) (order_of E (sort_field W (spec_key spec) l) (sort_field W (spec_key spec) r))
      else specs_order E W specs l r)"
    by (rule ext)+ (simp add: Let_def directed_def)
  show ?case unfolding eq by (rule three_way_lex [OF dir]) (use Cons in simp)
qed

lemma sort_order_three_way:
  assumes "wf_sort ctx"
  shows "three_way wf_value (sort_order E W ctx)"
proof -
  have "sort_order E W ctx = (if sortType ctx = SortType_WholeElementSort
      then (\<lambda>l r. directed (sortDirection ctx) (order_of E l r)) else specs_order E W (sortSpecList ctx))"
    by (rule ext)+ (simp add: sort_order_def)
  then show ?thesis
    using three_way_directed [OF value_order.three_way_axioms] specs_order_three_way assms
    by (simp add: wf_sort_def)
qed

lemma compare_sort_specs_order:
  assumes "\<forall>spec \<in> set specs. c_string (spec_key spec)" "wf_value l" "wf_value r"
  shows "\<exists>c dir. compare_sort_specs E W specs l r = Inr (c, dir) \<and> specs_order E W specs l r = directed dir c
           \<and> (c = 0 \<longleftrightarrow> specs_order E W specs l r = 0)"
  using assms
proof (induction specs)
  case (Cons spec specs)
  let ?l = "sort_field W (spec_key spec) l" and ?r = "sort_field W (spec_key spec) r"
  obtain b where "CompareBsonValueAndType E ?l ?r = Inr (order_of E ?l ?r, b)"
    using compare_order_of [of ?l ?r] sort_field_wf Cons.prems by auto
  with Cons show ?case by (simp add: Let_def directed_def)
qed (simp add: directed_def)

text \<open>The comparator is the order of the specification, then the order of the positions.\<close>

lemma CompareForSort_order:
  assumes "wf_sort ctx" "wf_value (element_value l)" "wf_value (element_value r)"
  shows "CompareBsonValuesForSort E W ctx l r =
    Inr (if sort_order E W ctx (element_value l) (element_value r) = 0
         then sint (element_index l - element_index r)
         else sort_order E W ctx (element_value l) (element_value r))"
proof (cases "sortType ctx = SortType_WholeElementSort")
  case True
  then show ?thesis using compare_order_of [OF assms(2,3)]
    by (auto simp: CompareBsonValuesForSort_def sort_order_def directed_def)
next
  case False
  then show ?thesis
    using compare_sort_specs_order [of "sortSpecList ctx" "element_value l" "element_value r"] assms
    by (auto simp: CompareBsonValuesForSort_def sort_order_def directed_def wf_sort_def)
qed

end

section \<open>The sort is stable\<close>

definition stably_sorted :: "('a \<Rightarrow> 'a \<Rightarrow> int) \<Rightarrow> 'a list \<Rightarrow> 'a list \<Rightarrow> bool" where
  "stably_sorted cmp xs ys \<longleftrightarrow>
     mset ys = mset xs \<and> sorted_wrt (\<lambda>a b. cmp a b \<le> 0) ys
   \<and> (\<forall>v \<in> set xs. filter (\<lambda>x. cmp x v = 0) ys = filter (\<lambda>x. cmp x v = 0) xs)"

text \<open>The elements of an array with their positions.\<close>

fun number_elements :: "uint32 \<Rightarrow> bson_value list \<Rightarrow> ElementWithIndex list" where
  "number_elements i [] = []"
| "number_elements i (v # vs) = GetElementWithIndex v i # number_elements (i + 1) vs"

lemma number_elements_append:
  "number_elements i (vs @ ws) = number_elements i vs @ number_elements (i + of_nat (length vs)) ws"
  by (induction vs arbitrary: i) (simp_all add: ac_simps)

lemma values_number_elements [simp]: "map element_value (number_elements i vs) = vs"
  by (induction vs arbitrary: i) (simp_all add: GetElementWithIndex_def)

lemma length_number_elements [simp]: "length (number_elements i vs) = length vs"
  by (induction vs arbitrary: i) simp_all

lemma indices_number_elements:
  "n + length vs < 2 ^ 32 \<Longrightarrow>
     map (\<lambda>e. unat (element_index e)) (number_elements (of_nat n) vs) = [n ..< n + length vs]"
proof (induction vs arbitrary: n)
  case (Cons v vs)
  have "map (\<lambda>e. unat (element_index e)) (number_elements (of_nat (Suc n)) vs) = [Suc n ..< Suc n + length vs]"
    using Cons.IH [of "Suc n"] Cons.prems by simp
  moreover have "unat (of_nat n :: uint32) = n" using Cons.prems by (simp add: unsigned_of_nat take_bit_eq_mod)
  ultimately show ?case by (simp add: GetElementWithIndex_def upt_conv_Cons add.commute del: upt_Suc)
qed simp

lemma same_by_key:
  fixes f :: "'a \<Rightarrow> nat"
  assumes "mset xs = mset ys" "inj_on f (set xs)" "sorted (map f xs)" "sorted (map f ys)"
  shows "ys = xs"
  using sort_key_inj_key_eq [OF assms(1,2,4)] sort_key_inj_key_eq [OF refl assms(2,3)] by simp

lemma three_way_index:
  "three_way (\<lambda>e. unat (element_index e) < 2 ^ 31) (\<lambda>l r. sint (element_index l - element_index r))"
proof -
  have "sint (i - j) = int (unat i) - int (unat j)" if "unat i < 2 ^ 31" "unat j < 2 ^ 31" for i j :: uint32
    using length_diff_small [of "unat i" "unat j"] that by (simp add: length_diff_def)
  then show ?thesis by unfold_locales (simp_all add: sgn_if)
qed

context update_code
begin

lemma element_order_three_way:
  assumes "wf_sort ctx"
  shows "three_way (\<lambda>e. wf_value (element_value e) \<and> unat (element_index e) < 2 ^ 31)
    (\<lambda>l r. if sort_order E W ctx (element_value l) (element_value r) \<noteq> 0
           then sort_order E W ctx (element_value l) (element_value r)
           else sint (element_index l - element_index r))"
  by (rule three_way_lex; rule three_way_image [where h = element_value, OF sort_order_three_way [OF assms]]
      three_way_image [where h = "\<lambda>e. e", OF three_way_index]; simp)

text \<open>Within a class of equal values the positions decide, so the class keeps its order.\<close>

lemma class_kept:
  assumes "wf_sort ctx" "mset els = mset xs"
    and sorted: "sorted_wrt (\<lambda>l r. (if sort_order E W ctx (element_value l) (element_value r) \<noteq> 0
      then sort_order E W ctx (element_value l) (element_value r)
      else sint (element_index l - element_index r)) \<le> 0) els"
    and idx: "map (\<lambda>e. unat (element_index e)) xs = [0 ..< length xs]"
    and P: "\<And>e. e \<in> set xs \<Longrightarrow> wf_value (element_value e) \<and> unat (element_index e) < 2 ^ 31"
    and v: "wf_value v"
  shows "filter (\<lambda>x. sort_order E W ctx x v = 0) (map element_value els)
    = filter (\<lambda>x. sort_order E W ctx x v = 0) (map element_value xs)"
proof -
  let ?Q = "\<lambda>e. sort_order E W ctx (element_value e) v = 0" and ?i = "\<lambda>e. unat (element_index e)"
  have set_els: "set els = set xs" using assms(2) by (metis set_mset_mset)
  have "sorted (map ?i (filter ?Q els))"
    unfolding sorted_wrt_map
  proof (rule sorted_wrt_mono_rel [OF _ sorted_wrt_filter [OF sorted]])
    fix l r assume lr: "l \<in> set (filter ?Q els)" "r \<in> set (filter ?Q els)"
      and le: "(if sort_order E W ctx (element_value l) (element_value r) \<noteq> 0
        then sort_order E W ctx (element_value l) (element_value r)
        else sint (element_index l - element_index r)) \<le> 0"
    have wf: "wf_value (element_value l)" "wf_value (element_value r)" "?i l < 2 ^ 31" "?i r < 2 ^ 31"
      using lr P set_els by auto
    have "sort_order E W ctx (element_value l) (element_value r) = 0"
      using three_way.cmp_eq_trans [OF sort_order_three_way [OF assms(1)] wf(1) v wf(2)]
        three_way.cmp_eq_sym [OF sort_order_three_way [OF assms(1)] wf(2) v] lr by simp
    with le have "sint (element_index l - element_index r) \<le> 0" by simp
    then show "?i l \<le> ?i r"
      using length_diff_small [of "?i l" "?i r"] wf by (simp add: length_diff_def flip: nat_uint_eq)
  qed
  moreover have "sorted (map ?i (filter ?Q xs))"
  proof -
    have "sorted (map ?i xs)" unfolding idx by simp
    then show ?thesis unfolding sorted_wrt_map by (rule sorted_wrt_filter)
  qed
  moreover have "inj_on ?i (set (filter ?Q xs))"
  proof -
    have "distinct (map ?i xs)" using idx by simp
    then show ?thesis by (auto simp: distinct_map intro: inj_on_subset)
  qed
  ultimately have "filter ?Q els = filter ?Q xs"
    by (intro same_by_key) (simp_all add: assms(2) mset_filter)
  then show ?thesis by (simp add: filter_map comp_def)
qed

lemma sort_elements_stable:
  assumes "wf_sort ctx" "\<forall>v \<in> set vs. wf_value v" "length vs < 2 ^ 31"
  shows "\<exists>els. qsort_arg W (CompareBsonValuesForSort E W ctx) (number_elements 0 vs) = Inr els
           \<and> stably_sorted (sort_order E W ctx) vs (map element_value els)"
proof -
  let ?xs = "number_elements 0 vs" and ?so = "sort_order E W ctx"
  let ?cv = "\<lambda>l r. if ?so (element_value l) (element_value r) \<noteq> 0 then ?so (element_value l) (element_value r)
           else sint (element_index l - element_index r)"
  let ?P = "\<lambda>e. wf_value (element_value e) \<and> unat (element_index e) < 2 ^ 31"
  have "length vs < 2 ^ 32" using assms(3) by simp
  then have idx: "map (\<lambda>e. unat (element_index e)) ?xs = [0 ..< length vs]"
    using indices_number_elements [of 0 vs] by simp
  have P: "?P e" if "e \<in> set ?xs" for e
  proof -
    have "element_value e \<in> set vs" using that by (metis image_eqI list.set_map values_number_elements)
    then have "wf_value (element_value e)" using assms(2) by simp
    moreover have "unat (element_index e) \<in> set (map (\<lambda>e. unat (element_index e)) ?xs)" using that by simp
    then have "unat (element_index e) < 2 ^ 31" using assms(3) unfolding idx by simp
    ultimately show ?thesis ..
  qed
  have "orders_elements ?cv (set ?xs)"
    using three_way.cmp_flip [OF element_order_three_way [OF assms(1)]]
      three_way.cmp_le_trans [OF element_order_three_way [OF assms(1)]] P
    unfolding orders_elements_def by blast
  moreover have "CompareBsonValuesForSort E W ctx l r = Inr (?cv l r)" if "l \<in> set ?xs" "r \<in> set ?xs" for l r
    using CompareForSort_order [OF assms(1)] P that by simp
  ultimately obtain els where els: "qsort_arg W (CompareBsonValuesForSort E W ctx) ?xs = Inr els"
      "mset els = mset ?xs" "sorted_wrt (\<lambda>l r. ?cv l r \<le> 0) els"
    using qsort_law [of ?xs "CompareBsonValuesForSort E W ctx" ?cv] by blast
  have set_els: "set els = set ?xs" using els(2) by (metis set_mset_mset)
  have "filter (\<lambda>x. ?so x v = 0) (map element_value els) = filter (\<lambda>x. ?so x v = 0) vs" if "v \<in> set vs" for v
    using class_kept [OF assms(1) els(2,3), of v] idx P assms(2) that by simp
  moreover have "mset (map element_value els) = mset vs"
    using els(2) by (metis mset_map values_number_elements)
  moreover have "sorted_wrt (\<lambda>a b. ?so a b \<le> 0) (map element_value els)"
    using sorted_wrt_mono_rel [OF _ els(3)] by (fastforce simp: sorted_wrt_map split: if_splits)
  ultimately show ?thesis using els(1) by (auto simp: stably_sorted_def)
qed

end

end
