(* ===== verification/Query_Positional.thy ===== *)
theory Query_Positional
  imports Update_Extern
begin

text \<open>
  The evaluation of a compiled expression on values and array elements
  (\<^verbatim>\<open>pg_documentdb/src/query/bson_expr_eval.c\<close>) and the index a positional operator \<open>$\<close> stands for
  (\<open>MatchPositionalQueryAgainstDocument\<close> of \<^verbatim>\<open>pg_documentdb/src/aggregation/bson_positional_query.c\<close>).

  The list of qualifiers that \<open>GetPositionalQueryData\<close> compiles from the query is a parameter.
\<close>

section \<open>Evaluating a compiled expression\<close>

definition EvalBooleanExpressionAgainstValue :: "ExprEvalState \<Rightarrow> bson_value \<Rightarrow> bool \<Rightarrow> bool result" where
  "EvalBooleanExpressionAgainstValue evalState queryValue shouldRecurseIfArray =
     ebind (evalState \<lparr> path = [], bsonValue = queryValue \<rparr>) (\<lambda>matched.
       if \<not> matched \<and> shouldRecurseIfArray \<and> value_type queryValue = BSON_TYPE_ARRAY
       then EvalBooleanExpressionAgainstArray evalState queryValue
       else Inr matched)"

fun first_match :: "ExprEvalState \<Rightarrow> bson_doc \<Rightarrow> bson_value result" where
  "first_match ev [] = Inr BvEOD"
| "first_match ev (e # es) =
     ebind (ev (BsonIterToPgbsonElement e)) (\<lambda>m. if m then Inr (snd e) else first_match ev es)"

definition EvalExpressionAgainstArrayGetFirstMatch :: "ExprEvalState \<Rightarrow> bson_value \<Rightarrow> bson_value result" where
  "EvalExpressionAgainstArrayGetFirstMatch evalState queryValue =
     (case queryValue of
        BvArray d \<Rightarrow> first_match evalState d
      | _ \<Rightarrow> raise_naming ERRCODE_DOCUMENTDB_BADVALUE (value_type queryValue))"

definition eval_pull_element :: "ExprEvalState \<Rightarrow> bool \<Rightarrow> bson_element \<Rightarrow> bool result" where
  "eval_pull_element evalState shouldRecurseIfArray e =
     (if shouldRecurseIfArray \<and> value_type (snd e) = BSON_TYPE_ARRAY
      then EvalBooleanExpressionAgainstArray evalState (snd e)
      else evalState (BsonIterToPgbsonElement e))"

fun matching_indices :: "ExprEvalState \<Rightarrow> bool \<Rightarrow> nat \<Rightarrow> bson_doc \<Rightarrow> nat list result" where
  "matching_indices ev recurse i [] = Inr []"
| "matching_indices ev recurse i (e # es) =
     ebind (eval_pull_element ev recurse e) (\<lambda>m.
     ebind (matching_indices ev recurse (i + 1) es) (\<lambda>is.
       Inr (if m then i # is else is)))"

definition EvalExpressionAgainstArrayGetAllMatchingIndices ::
    "ExprEvalState \<Rightarrow> bson_value \<Rightarrow> bool \<Rightarrow> nat list result" where
  "EvalExpressionAgainstArrayGetAllMatchingIndices evalState arrayValue shouldRecurseIfArray =
     (case arrayValue of
        BvArray d \<Rightarrow> matching_indices evalState shouldRecurseIfArray 0 d
      | _ \<Rightarrow> raise_naming ERRCODE_DOCUMENTDB_BADVALUE (value_type arrayValue))"

section \<open>The positional query\<close>

text \<open>The indices are \<open>int32_t\<close>, with -1 for none.\<close>

record TraverseBsonPositionalQualState =
  pq_evalState :: ExprEvalState
  matchIndex :: int32
  currentIntermediateIndex :: int32
  pq_isArrayMatch :: bool
  pq_isEmptyElemMatch :: bool

definition PositionalQueryContinueProcessIntermediateArray ::
    "TraverseBsonPositionalQualState \<Rightarrow> bson_value \<Rightarrow> (bool \<times> TraverseBsonPositionalQualState) result" where
  "PositionalQueryContinueProcessIntermediateArray st v =
     Inr (sint (matchIndex st) < 0, st \<lparr> currentIntermediateIndex := - 1 \<rparr>)"

definition PositionalQueryVisitTopLevelField ::
    "pgbsonelement \<Rightarrow> StringView \<Rightarrow> TraverseBsonPositionalQualState
       \<Rightarrow> (bool \<times> TraverseBsonPositionalQualState) result" where
  "PositionalQueryVisitTopLevelField element filterPath st =
     (if sint (currentIntermediateIndex st) \<ge> 0 \<and> \<not> pq_isArrayMatch st
      then ebind (EvalBooleanExpressionAgainstValue (pq_evalState st) (bsonValue element) False) (\<lambda>res.
             if res then Inr (False, st \<lparr> matchIndex := currentIntermediateIndex st \<rparr>) else Inr (True, st))
      else Inr (True, st))"

definition PositionalQueryVisitArrayField ::
    "pgbsonelement \<Rightarrow> StringView \<Rightarrow> nat \<Rightarrow> TraverseBsonPositionalQualState
       \<Rightarrow> (bool \<times> TraverseBsonPositionalQualState) result" where
  "PositionalQueryVisitArrayField element filterPath arrayIndex st =
     ebind (if pq_isEmptyElemMatch st
            then Inr (value_type (bsonValue element) = BSON_TYPE_DOCUMENT
                      \<or> value_type (bsonValue element) = BSON_TYPE_ARRAY)
            else EvalBooleanExpressionAgainstValue (pq_evalState st) (bsonValue element) False) (\<lambda>res.
       if res then Inr (False, st \<lparr> matchIndex := of_nat arrayIndex \<rparr>) else Inr (True, st))"

definition PositionalSetIntermediateArrayIndex ::
    "TraverseBsonPositionalQualState \<Rightarrow> nat \<Rightarrow> TraverseBsonPositionalQualState result" where
  "PositionalSetIntermediateArrayIndex st i = Inr (st \<lparr> currentIntermediateIndex := of_nat i \<rparr>)"

definition positionalExecFuncs :: "TraverseBsonPositionalQualState TraverseBsonExecutionFuncs" where
  "positionalExecFuncs =
     \<lparr> SetTraverseResult = None,
       VisitTopLevelField = PositionalQueryVisitTopLevelField,
       VisitArrayField = Some PositionalQueryVisitArrayField,
       ContinueProcessIntermediateArray = PositionalQueryContinueProcessIntermediateArray,
       SetIntermediateArrayIndex = Some PositionalSetIntermediateArrayIndex,
       HandleIntermediateArrayPathNotFound = None,
       SetIntermediateArrayStartEnd = None \<rparr>"

fun match_quals :: "extern \<Rightarrow> settings \<Rightarrow> BsonPositionalQueryQual list \<Rightarrow> bson_doc \<Rightarrow> int32 result" where
  "match_quals E S [] document = Inr (- 1)"
| "match_quals E S (qual # quals) document =
     ebind (TraverseBson E (SkipBsonArrayTraverseOptimization S) positionalExecFuncs document (qual_path qual)
              \<lparr> pq_evalState = qual_evalState qual, matchIndex = - 1, currentIntermediateIndex = - 1,
                pq_isArrayMatch = qual_isArrayMatch qual, pq_isEmptyElemMatch = qual_isEmptyElemMatch qual \<rparr>)
       (\<lambda>traverseState.
          if sint (matchIndex traverseState) \<ge> 0 then Inr (matchIndex traverseState)
          else match_quals E S quals document)"

definition MatchPositionalQueryAgainstDocument ::
    "extern \<Rightarrow> settings \<Rightarrow> BsonPositionalQueryQual list option \<Rightarrow> bson_doc \<Rightarrow> int32 result" where
  "MatchPositionalQueryAgainstDocument E S data document =
     (case data of None \<Rightarrow> Inr (- 1) | Some queryQuals \<Rightarrow> match_quals E S queryQuals document)"

section \<open>What the evaluations give\<close>

text \<open>The elements an expression selects, when it evaluates on each of them.\<close>

definition selects :: "ExprEvalState \<Rightarrow> bool \<Rightarrow> bson_element \<Rightarrow> bool" where
  "selects ev recurse e \<longleftrightarrow> eval_pull_element ev recurse e = Inr True"

lemma matching_indices_spec:
  "\<forall>e \<in> set d. returns (eval_pull_element ev recurse e) \<Longrightarrow>
     matching_indices ev recurse i d = Inr (map (\<lambda>n. i + n) (filter (\<lambda>n. selects ev recurse (d ! n)) [0 ..< length d]))"
proof (induction d arbitrary: i)
  case (Cons e d)
  obtain m where m: "eval_pull_element ev recurse e = Inr m" using Cons.prems by (auto simp: returns_def)
  have "[0 ..< length (e # d)] = 0 # map Suc [0 ..< length d]" by (simp add: map_Suc_upt upt_conv_Cons del: upt_Suc)
  then show ?case using Cons m by (auto simp: selects_def filter_map comp_def simp del: upt_Suc)
qed simp

lemma first_match_spec:
  "\<forall>e \<in> set d. returns (ev (BsonIterToPgbsonElement e)) \<Longrightarrow>
     first_match ev d = Inr (case find (\<lambda>e. ev (BsonIterToPgbsonElement e) = Inr True) d of
                               None \<Rightarrow> BvEOD | Some e \<Rightarrow> snd e)"
  by (induction d) (auto simp: returns_def)

end
