(* ===== verification/Update_Operators.thy ===== *)
theory Update_Operators
  imports Pgbson_Writer Sort_Utils Query_Positional Pgbson_Arith
begin

text \<open>
  The update operators of \<^verbatim>\<open>pg_documentdb/src/update/bson_update_operators.c\<close> and the writers they
  report to (\<^verbatim>\<open>bson_update_operators_workflow.c\<close>, \<open>UpdateWriter*\<close> and \<open>UpdateArrayWriter*\<close>).

  An operator gets the value in the document (\<open>BvEOD\<close> if there is none), the value of the update
  specification and the writer of the field, and returns the writer it leaves.  The context of
  a leaf node (\<open>void *updateNodeContext\<close>) is a datatype.  The hooks that report the changed fields to
  a change stream are \<open>NULL\<close> unless another extension sets them; they and the tracker are not
  modelled.
\<close>

section \<open>State and writers\<close>

record CurrentDocumentState =
  documentId :: bson_value
  isUpsert :: bool
  sourceDocument :: bson_doc
  indexOfPositionalTypeQueryFilter :: int32

record UpdateSetValueState =
  fieldPath :: string
  relativePath :: string
  isArray :: bool
  hasArrayAncestors :: bool

record BsonUpdateDollarPullState =
  pull_evalState :: ExprEvalState
  pull_isValue :: bool

datatype update_node_context =
    ContextNull
  | ContextRenameSource string
  | ContextPull BsonUpdateDollarPullState

record UpdateArrayWriter =
  array_writer :: pgbson_array_writer
  isValid :: bool
  array_modified :: bool

record UpdateOperatorWriter =
  element_writer :: pgbson_element_writer
  modified :: bool
  updateArrayWriter :: UpdateArrayWriter

definition UpdateWriterWriteModifiedValue ::
    "extern \<Rightarrow> UpdateOperatorWriter \<Rightarrow> bson_value \<Rightarrow> UpdateOperatorWriter" where
  "UpdateWriterWriteModifiedValue E w v =
     w \<lparr> element_writer := PgbsonElementWriterWriteValue E (element_writer w) v, modified := True \<rparr>"

definition UpdateWriterSkipValue :: "UpdateOperatorWriter \<Rightarrow> UpdateOperatorWriter" where
  "UpdateWriterSkipValue w = w \<lparr> modified := True \<rparr>"

definition UpdateWriterGetArrayWriter :: "UpdateOperatorWriter \<Rightarrow> UpdateArrayWriter" where
  "UpdateWriterGetArrayWriter w =
     (if \<not> isValid (updateArrayWriter w)
      then \<lparr> array_writer = PgbsonElementWriterStartArray (element_writer w), isValid = True,
             array_modified = False \<rparr>
      else updateArrayWriter w)"

definition UpdateArrayWriterWriteOriginalValue ::
    "extern \<Rightarrow> UpdateArrayWriter \<Rightarrow> bson_value \<Rightarrow> UpdateArrayWriter" where
  "UpdateArrayWriterWriteOriginalValue E a v =
     a \<lparr> array_writer := PgbsonArrayWriterWriteValue E (array_writer a) v \<rparr>"

definition UpdateArrayWriterWriteModifiedValue ::
    "extern \<Rightarrow> UpdateArrayWriter \<Rightarrow> bson_value \<Rightarrow> UpdateArrayWriter" where
  "UpdateArrayWriterWriteModifiedValue E a v =
     a \<lparr> array_writer := PgbsonArrayWriterWriteValue E (array_writer a) v, array_modified := True \<rparr>"

definition UpdateArrayWriterSkipValue :: "UpdateArrayWriter \<Rightarrow> UpdateArrayWriter" where
  "UpdateArrayWriterSkipValue a = a \<lparr> array_modified := True \<rparr>"

text \<open>The array writer is the one inside the writer, so the writer keeps it with \<open>isValid\<close> reset.\<close>

definition UpdateArrayWriterFinalize ::
    "extern \<Rightarrow> UpdateOperatorWriter \<Rightarrow> UpdateArrayWriter \<Rightarrow> UpdateOperatorWriter" where
  "UpdateArrayWriterFinalize E w a =
     \<lparr> element_writer = PgbsonElementWriterEndArray E (element_writer w) (array_writer a),
       modified = (modified w \<or> array_modified a),
       updateArrayWriter = a \<lparr> isValid := False \<rparr> \<rparr>"

text \<open>The arguments every operator takes, after the libraries and settings.\<close>

type_synonym update_handler =
  "bson_value \<Rightarrow> UpdateOperatorWriter \<Rightarrow> bson_value \<Rightarrow> update_node_context \<Rightarrow> UpdateSetValueState
     \<Rightarrow> CurrentDocumentState \<Rightarrow> UpdateOperatorWriter result"

section \<open>Fields\<close>

definition HandleUpdateDollarSet :: "extern \<Rightarrow> update_handler" where
  "HandleUpdateDollarSet E existingValue writer updateValue updateNodeContext setValueState state =
     ebind (if \<not> isUpsert state then BsonValueEqualsStrict E (Some updateValue) (Some existingValue) else Inr False)
       (\<lambda>same. if same then Inr writer else Inr (UpdateWriterWriteModifiedValue E writer updateValue))"

definition HandleUpdateDollarSetOnInsert :: "extern \<Rightarrow> update_handler" where
  "HandleUpdateDollarSetOnInsert E existingValue writer updateValue updateNodeContext setValueState state =
     Inr (if isUpsert state then UpdateWriterWriteModifiedValue E writer updateValue else writer)"

definition HandleUpdateDollarUnset :: "extern \<Rightarrow> update_handler" where
  "HandleUpdateDollarUnset E existingValue writer updateValue updateNodeContext setValueState state =
     Inr (if isArray setValueState then UpdateWriterWriteModifiedValue E writer BvNull
          else if value_type existingValue \<noteq> BSON_TYPE_EOD then UpdateWriterSkipValue writer
          else writer)"

text \<open>\<open>overflowedFromInt64\<close> starts as false, so a path that does not write it leaves false.\<close>

definition HandleUpdateDollarInc :: "extern \<Rightarrow> update_handler" where
  "HandleUpdateDollarInc E existingValue writer updateValue updateNodeContext setValueState state =
     (if \<not> BsonTypeIsNumber (value_type updateValue) then Inl (Ereport ERRCODE_DOCUMENTDB_TYPEMISMATCH)
      else if \<not> BsonValueIsNumberOrBool updateValue then Inl (Ereport ERRCODE_DOCUMENTDB_TYPEMISMATCH)
      else if value_type existingValue = BSON_TYPE_EOD
      then Inr (UpdateWriterWriteModifiedValue E writer updateValue)
      else ebind (AddNumberToBsonValue E existingValue updateValue) (\<lambda>(ok, valueToModify, overflowed).
             if \<not> ok then raise_naming ERRCODE_DOCUMENTDB_TYPEMISMATCH (value_type existingValue)
             else if overflowed = Some True then Inl (Ereport ERRCODE_DOCUMENTDB_BADVALUE)
             else Inr (UpdateWriterWriteModifiedValue E writer valueToModify)))"

definition HandleUpdateDollarMin :: "extern \<Rightarrow> update_handler" where
  "HandleUpdateDollarMin E existingValue writer updateValue updateNodeContext setValueState state =
     (if value_type existingValue = BSON_TYPE_EOD
      then Inr (UpdateWriterWriteModifiedValue E writer updateValue)
      else ebind (CompareBsonValueAndType E updateValue existingValue) (\<lambda>(cmp, isComparisonValid).
             Inr (if cmp < 0 \<and> isComparisonValid then UpdateWriterWriteModifiedValue E writer updateValue
                  else writer)))"

definition HandleUpdateDollarMax :: "extern \<Rightarrow> update_handler" where
  "HandleUpdateDollarMax E existingValue writer updateValue updateNodeContext setValueState state =
     (if value_type existingValue = BSON_TYPE_EOD
      then Inr (UpdateWriterWriteModifiedValue E writer updateValue)
      else ebind (CompareBsonValueAndType E updateValue existingValue) (\<lambda>(cmp, isComparisonValid).
             Inr (if cmp > 0 \<and> isComparisonValid then UpdateWriterWriteModifiedValue E writer updateValue
                  else writer)))"

subsection \<open>\<open>$bit\<close>\<close>

datatype MongoBitwiseOperatorType =
    BITWISE_OPERATOR_AND | BITWISE_OPERATOR_OR | BITWISE_OPERATOR_XOR | BITWISE_OPERATOR_UNKNOWN

definition GetMongoBitwiseOperator :: "string \<Rightarrow> MongoBitwiseOperatorType" where
  "GetMongoBitwiseOperator key =
     (if strcmp key ''and'' = 0 then BITWISE_OPERATOR_AND
      else if strcmp key ''or'' = 0 then BITWISE_OPERATOR_OR
      else if strcmp key ''xor'' = 0 then BITWISE_OPERATOR_XOR
      else BITWISE_OPERATOR_UNKNOWN)"

definition ValidateBitwiseInputParams ::
    "MongoBitwiseOperatorType \<Rightarrow> bson_value \<Rightarrow> bson_value \<Rightarrow> unit result" where
  "ValidateBitwiseInputParams operatorType state modifier =
     (if operatorType = BITWISE_OPERATOR_UNKNOWN then Inl (Ereport ERRCODE_DOCUMENTDB_BADVALUE)
      else if \<not> (value_type modifier = BSON_TYPE_INT32 \<or> value_type modifier = BSON_TYPE_INT64)
      then raise_naming ERRCODE_DOCUMENTDB_BADVALUE (value_type modifier)
      else if value_type state \<noteq> BSON_TYPE_EOD
        \<and> \<not> (value_type state = BSON_TYPE_INT32 \<or> value_type state = BSON_TYPE_INT64)
      then raise_naming ERRCODE_DOCUMENTDB_BADVALUE (value_type state)
      else Inr ())"

definition apply_bitwise ::
    "extern \<Rightarrow> MongoBitwiseOperatorType \<Rightarrow> bson_value \<Rightarrow> bson_value \<Rightarrow> bson_value result" where
  "apply_bitwise E operatorType state number =
     (case operatorType of
        BITWISE_OPERATOR_AND \<Rightarrow> BitwiseAndToBsonValue E state number
      | BITWISE_OPERATOR_OR \<Rightarrow> BitwiseOrToBsonValue E state number
      | BITWISE_OPERATOR_XOR \<Rightarrow> BitwiseXorToBsonValue E state number
      | BITWISE_OPERATOR_UNKNOWN \<Rightarrow> Inl (Ereport ERRCODE_DOCUMENTDB_BADVALUE))"

fun bit_loop :: "extern \<Rightarrow> bson_value \<Rightarrow> bson_value \<Rightarrow> bson_doc \<Rightarrow> bson_value result" where
  "bit_loop E existingValue valueToModify [] = Inr valueToModify"
| "bit_loop E existingValue valueToModify ((key, v) # es) =
     (let operatorType = GetMongoBitwiseOperator key
      in ebind (ValidateBitwiseInputParams operatorType existingValue v) (\<lambda>_.
         ebind (apply_bitwise E operatorType valueToModify v) (\<lambda>valueToModify.
           bit_loop E existingValue valueToModify es)))"

definition HandleUpdateDollarBit :: "extern \<Rightarrow> update_handler" where
  "HandleUpdateDollarBit E existingValue writer updateValue updateNodeContext setValueState state =
     (case updateValue of
        BvDocument d \<Rightarrow>
          if IsBsonValueEmptyDocument updateValue then Inl (Ereport ERRCODE_DOCUMENTDB_BADVALUE)
          else ebind (bit_loop E existingValue existingValue d) (\<lambda>valueToModify.
               ebind (if isUpsert state then Inr True
                      else ebind (BsonValueEqualsStrict E (Some existingValue) (Some valueToModify)) (\<lambda>same. Inr (\<not> same)))
                 (\<lambda>changed. Inr (if changed then UpdateWriterWriteModifiedValue E writer valueToModify else writer)))
      | _ \<Rightarrow> Inl (Ereport ERRCODE_DOCUMENTDB_BADVALUE))"

subsection \<open>\<open>$mul\<close>\<close>

text \<open>The zero of the type of the factor; the decimal zero is the one of \<open>SetDecimal128Zero\<close>.\<close>

definition mul_zero :: "bson_value \<Rightarrow> bson_value result" where
  "mul_zero mulFactor =
     (case mulFactor of
        BvInt32 _ \<Rightarrow> Inr (BvInt32 0)
      | BvInt64 _ \<Rightarrow> Inr (BvInt64 0)
      | BvDouble _ \<Rightarrow> Inr (BvDouble (dbl_of_int 0))
      | BvDecimal128 d \<Rightarrow> SetDecimal128Zero (BvDecimal128 d)
      | _ \<Rightarrow> Inl (Ereport ERRCODE_DOCUMENTDB_TYPEMISMATCH))"

definition HandleUpdateDollarMul :: "extern \<Rightarrow> update_handler" where
  "HandleUpdateDollarMul E existingValue writer updateValue updateNodeContext setValueState state =
     (let mulFactor = updateValue
      in if \<not> BsonTypeIsNumber (value_type mulFactor)
         then raise_naming ERRCODE_DOCUMENTDB_TYPEMISMATCH (value_type mulFactor)
         else if value_type existingValue = BSON_TYPE_EOD
         then ebind (mul_zero mulFactor) (\<lambda>z. Inr (UpdateWriterWriteModifiedValue E writer z))
         else if \<not> BsonValueIsNumber existingValue
         then raise_naming ERRCODE_DOCUMENTDB_TYPEMISMATCH (value_type existingValue)
         else ebind (MultiplyWithFactorAndUpdate E existingValue mulFactor False) (\<lambda>(ok, valueToModify).
                if \<not> ok then Inl (Ereport ERRCODE_DOCUMENTDB_BADVALUE)
                else ebind (if isUpsert state then Inr True
                            else ebind (BsonValueEqualsStrict E (Some valueToModify) (Some existingValue))
                                   (\<lambda>same. Inr (\<not> same)))
                       (\<lambda>changed. Inr (if changed then UpdateWriterWriteModifiedValue E writer valueToModify
                                       else writer))))"

subsection \<open>\<open>$currentDate\<close>\<close>

definition HandleUpdateDollarCurrentDate :: "extern \<Rightarrow> update_extern \<Rightarrow> update_handler" where
  "HandleUpdateDollarCurrentDate E W existingValue writer updateValue updateNodeContext setValueState state =
     (let epochSeconds = fst (clock_gettime W);
          tv_nsec = snd (clock_gettime W);
          millisecondsInSecond = of_int (sint tv_nsec sdiv 1000000) :: uint32;
          epochMilliseconds = epochSeconds * 1000 + of_int (uint millisecondsInSecond);
          timestampBsonValue = BvTimestamp (of_int (sint epochSeconds)) (of_int (sint tv_nsec));
          dateBsonValue = BvDateTime epochMilliseconds
      in case updateValue of
           BvBool _ \<Rightarrow> Inr (UpdateWriterWriteModifiedValue E writer dateBsonValue)
         | BvDocument d \<Rightarrow>
             (case d of
                [] \<Rightarrow> Inl (Ereport ERRCODE_DOCUMENTDB_BADVALUE)
              | (key, v) # _ \<Rightarrow>
                  if strcmp key ''$type'' \<noteq> 0 \<and> strcmp key ''$$type'' \<noteq> 0
                  then Inl (Ereport ERRCODE_DOCUMENTDB_BADVALUE)
                  else (case v of
                          BvUtf8 typename \<Rightarrow>
                            if strcmp typename ''timestamp'' = 0
                            then Inr (UpdateWriterWriteModifiedValue E writer timestampBsonValue)
                            else if strcmp typename ''date'' = 0
                            then Inr (UpdateWriterWriteModifiedValue E writer dateBsonValue)
                            else Inl (Ereport ERRCODE_DOCUMENTDB_BADVALUE)
                        | _ \<Rightarrow> Inl (Ereport ERRCODE_DOCUMENTDB_BADVALUE)))
         | _ \<Rightarrow> raise_naming ERRCODE_DOCUMENTDB_BADVALUE (value_type updateValue))"

subsection \<open>\<open>$rename\<close>\<close>

definition RenameVisitTopLevelField ::
    "pgbsonelement \<Rightarrow> StringView \<Rightarrow> bson_value \<Rightarrow> (bool \<times> bson_value) result" where
  "RenameVisitTopLevelField element filterPath v =
     Inr (value_type (bsonValue element) = BSON_TYPE_EOD, bsonValue element)"

definition RenameSetTraverseErrorResult :: "bson_value \<Rightarrow> TraverseBsonResult \<Rightarrow> bson_value result" where
  "RenameSetTraverseErrorResult v traverseResult = Inr BvEOD"

definition RenameProcessIntermediateArray :: "bson_value \<Rightarrow> bson_value \<Rightarrow> (bool \<times> bson_value) result" where
  "RenameProcessIntermediateArray state v = Inl (Ereport ERRCODE_DOCUMENTDB_BADVALUE)"

definition renameExecutionFuncs :: "bson_value TraverseBsonExecutionFuncs" where
  "renameExecutionFuncs =
     \<lparr> SetTraverseResult = Some RenameSetTraverseErrorResult,
       VisitTopLevelField = RenameVisitTopLevelField,
       VisitArrayField = None,
       ContinueProcessIntermediateArray = RenameProcessIntermediateArray,
       SetIntermediateArrayIndex = None,
       HandleIntermediateArrayPathNotFound = None,
       SetIntermediateArrayStartEnd = None \<rparr>"

definition RenameSourceGetValue :: "extern \<Rightarrow> settings \<Rightarrow> bson_doc \<Rightarrow> string \<Rightarrow> bson_value result" where
  "RenameSourceGetValue E S sourceDoc sourcePathString =
     TraverseBson E (SkipBsonArrayTraverseOptimization S) renameExecutionFuncs sourceDoc sourcePathString BvEOD"

definition HandleUpdateDollarRename :: "extern \<Rightarrow> settings \<Rightarrow> update_handler" where
  "HandleUpdateDollarRename E S existingValue writer updateValue updateNodeContext setValueState state =
     (if isArray setValueState \<or> hasArrayAncestors setValueState
      then Inl (Ereport ERRCODE_DOCUMENTDB_BADVALUE)
      else case updateNodeContext of
             ContextRenameSource source \<Rightarrow>
               ebind (RenameSourceGetValue E S (sourceDocument state) source) (\<lambda>renameSourceValue.
                 Inr (if value_type renameSourceValue \<noteq> BSON_TYPE_EOD
                      then UpdateWriterWriteModifiedValue E writer renameSourceValue
                      else writer))
           | _ \<Rightarrow> Inl NullDereference)"

definition HandleUpdateDollarRenameSource :: "extern \<Rightarrow> update_handler" where
  "HandleUpdateDollarRenameSource E existingValue writer updateValue updateNodeContext setValueState state =
     (if isArray setValueState \<or> hasArrayAncestors setValueState
      then Inl (Ereport ERRCODE_DOCUMENTDB_BADVALUE)
      else HandleUpdateDollarUnset E existingValue writer updateValue updateNodeContext setValueState state)"

section \<open>Arrays\<close>

text \<open>Writing the elements of an array to the array writer unchanged.\<close>

fun write_originals :: "extern \<Rightarrow> bson_doc \<Rightarrow> UpdateArrayWriter \<Rightarrow> UpdateArrayWriter" where
  "write_originals E [] a = a"
| "write_originals E ((_, v) # es) a = write_originals E es (UpdateArrayWriterWriteOriginalValue E a v)"

subsection \<open>\<open>$pull\<close>\<close>

text \<open>\<open>currentPullIndex\<close> is the next index to remove, at position \<open>pullArrayIndex\<close> of the list.\<close>

fun pull_loop ::
    "extern \<Rightarrow> nat list \<Rightarrow> nat \<Rightarrow> nat \<Rightarrow> nat \<Rightarrow> bson_doc \<Rightarrow> UpdateArrayWriter \<Rightarrow> UpdateArrayWriter" where
  "pull_loop E matchingIndices pullArrayIndex currentPullIndex existingValueIndex [] a = a"
| "pull_loop E matchingIndices pullArrayIndex currentPullIndex existingValueIndex ((_, v) # es) a =
     (if existingValueIndex = currentPullIndex
      then let pullArrayIndex = pullArrayIndex + 1;
               currentPullIndex = (if pullArrayIndex < length matchingIndices
                                   then matchingIndices ! pullArrayIndex else currentPullIndex)
           in pull_loop E matchingIndices pullArrayIndex currentPullIndex (existingValueIndex + 1) es
                (UpdateArrayWriterSkipValue a)
      else pull_loop E matchingIndices pullArrayIndex currentPullIndex (existingValueIndex + 1) es
             (UpdateArrayWriterWriteOriginalValue E a v))"

definition HandleUpdateDollarPull :: "extern \<Rightarrow> update_handler" where
  "HandleUpdateDollarPull E existingValue writer updateValue updateNodeContext setValueState state =
     (case updateNodeContext of
        ContextNull \<Rightarrow> Inl (Ereport ERRCODE_INTERNAL_ERROR)
      | ContextRenameSource _ \<Rightarrow> Inl UnionMisread
      | ContextPull pullUpdateState \<Rightarrow>
          (case existingValue of
             BvEOD \<Rightarrow> Inr writer
           | BvArray d \<Rightarrow>
               ebind (EvalExpressionAgainstArrayGetAllMatchingIndices (pull_evalState pullUpdateState) existingValue
                        (\<not> pull_isValue pullUpdateState)) (\<lambda>matchingIndices.
                 if matchingIndices = [] then Inr writer
                 else Inr (UpdateArrayWriterFinalize E writer
                        (pull_loop E matchingIndices 0 (matchingIndices ! 0) 0 d (UpdateWriterGetArrayWriter writer))))
           | _ \<Rightarrow> Inl (Ereport ERRCODE_DOCUMENTDB_BADVALUE)))"

subsection \<open>\<open>$addToSet\<close>\<close>

text \<open>Whether one of the values equals \<open>v\<close>, in the order of the arguments \<open>BsonValueEquals(item, v)\<close>.\<close>

fun any_equal :: "extern \<Rightarrow> bson_value list \<Rightarrow> bson_value \<Rightarrow> bool result" where
  "any_equal E [] v = Inr False"
| "any_equal E (item # items) v =
     ebind (BsonValueEquals E item v) (\<lambda>same. if same then Inr True else any_equal E items v)"

fun add_each ::
    "extern \<Rightarrow> bson_value list \<Rightarrow> bson_doc \<Rightarrow> UpdateArrayWriter \<Rightarrow> UpdateArrayWriter result" where
  "add_each E existingElements [] a = Inr a"
| "add_each E existingElements ((_, newValue) # es) a =
     ebind (any_equal E existingElements newValue) (\<lambda>found.
       if found then add_each E existingElements es a
       else add_each E (existingElements @ [newValue]) es (UpdateArrayWriterWriteModifiedValue E a newValue))"

text \<open>An existing value is an array or \<open>BvEOD\<close>, as the caller has checked.\<close>

definition AddToSetWriteFinalArray ::
    "extern \<Rightarrow> UpdateOperatorWriter \<Rightarrow> bson_value \<Rightarrow> bson_value \<Rightarrow> bool \<Rightarrow> UpdateOperatorWriter result" where
  "AddToSetWriteFinalArray E writer existingValue elementsToAdd isEach =
     ebind (if value_type existingValue \<noteq> BSON_TYPE_EOD then v_doc existingValue else Inr []) (\<lambda>existing.
       let arrayWriter = write_originals E existing (UpdateWriterGetArrayWriter writer);
           existingElements = map snd existing
       in ebind (if isEach
                 then ebind (v_doc elementsToAdd) (\<lambda>new. add_each E existingElements new arrayWriter)
                 else ebind (any_equal E existingElements elementsToAdd) (\<lambda>found.
                        Inr (if found then arrayWriter
                             else UpdateArrayWriterWriteModifiedValue E arrayWriter elementsToAdd)))
            (\<lambda>arrayWriter. Inr (UpdateArrayWriterFinalize E writer arrayWriter)))"

text \<open>The elements to add one by one, if the value is a \<open>$each\<close> modifier.\<close>

definition ValidateAddToSetWithDollarEach :: "bson_value \<Rightarrow> bson_value option result" where
  "ValidateAddToSetWithDollarEach updateValue =
     ebind (TryGetBsonValueToPgbsonElement updateValue) (\<lambda>element.
       case element of
         None \<Rightarrow> Inr None
       | Some element \<Rightarrow>
           if strcmp (path element) ''$each'' = 0
           then (if value_type (bsonValue element) \<noteq> BSON_TYPE_ARRAY
                 then raise_naming ERRCODE_DOCUMENTDB_TYPEMISMATCH (value_type (bsonValue element))
                 else Inr (Some (bsonValue element)))
           else Inr None)"

definition HandleUpdateDollarAddToSet :: "extern \<Rightarrow> update_handler" where
  "HandleUpdateDollarAddToSet E existingValue writer updateValue updateNodeContext setValueState state =
     (if value_type existingValue \<noteq> BSON_TYPE_EOD \<and> value_type existingValue \<noteq> BSON_TYPE_ARRAY
      then raise_naming ERRCODE_DOCUMENTDB_BADVALUE (value_type existingValue)
      else ebind (if value_type updateValue = BSON_TYPE_DOCUMENT \<and> \<not> IsBsonValueEmptyDocument updateValue
                  then ValidateAddToSetWithDollarEach updateValue else Inr None) (\<lambda>each.
             case each of
               Some elementsToAdd \<Rightarrow> AddToSetWriteFinalArray E writer existingValue elementsToAdd True
             | None \<Rightarrow> AddToSetWriteFinalArray E writer existingValue updateValue False))"

subsection \<open>\<open>$pullAll\<close>\<close>

fun pull_all_found :: "extern \<Rightarrow> bson_value \<Rightarrow> bson_doc \<Rightarrow> bool result" where
  "pull_all_found E v [] = Inr False"
| "pull_all_found E v ((_, pulled) # es) =
     ebind (BsonValueEquals E v pulled) (\<lambda>same. if same then Inr True else pull_all_found E v es)"

fun pull_all_loop :: "extern \<Rightarrow> bson_doc \<Rightarrow> bson_doc \<Rightarrow> UpdateArrayWriter \<Rightarrow> UpdateArrayWriter result" where
  "pull_all_loop E pulled [] a = Inr a"
| "pull_all_loop E pulled ((_, v) # es) a =
     ebind (pull_all_found E v pulled) (\<lambda>found.
       pull_all_loop E pulled es
         (if \<not> found then UpdateArrayWriterWriteOriginalValue E a v else UpdateArrayWriterSkipValue a))"

definition HandleUpdateDollarPullAll :: "extern \<Rightarrow> update_handler" where
  "HandleUpdateDollarPullAll E existingValue writer updateValue updateNodeContext setValueState state =
     (case updateValue of
        BvArray pulled \<Rightarrow>
          (case existingValue of
             BvEOD \<Rightarrow> Inr writer
           | BvArray d \<Rightarrow>
               ebind (pull_all_loop E pulled d (UpdateWriterGetArrayWriter writer)) (\<lambda>arrayWriter.
                 Inr (UpdateArrayWriterFinalize E writer arrayWriter))
           | _ \<Rightarrow> Inl (Ereport ERRCODE_DOCUMENTDB_BADVALUE))
      | _ \<Rightarrow> raise_naming ERRCODE_DOCUMENTDB_BADVALUE (value_type updateValue))"

subsection \<open>\<open>$pop\<close>\<close>

fun pop_loop :: "extern \<Rightarrow> bool \<Rightarrow> bson_value \<Rightarrow> bson_doc \<Rightarrow> UpdateArrayWriter \<Rightarrow> UpdateArrayWriter" where
  "pop_loop E isFirst previousValue [] a = a"
| "pop_loop E isFirst previousValue ((_, currentValue) # es) a =
     pop_loop E isFirst currentValue es
       (UpdateArrayWriterWriteModifiedValue E a (if isFirst then currentValue else previousValue))"

definition HandleUpdateDollarPop :: "extern \<Rightarrow> update_handler" where
  "HandleUpdateDollarPop E existingValue writer updateValue updateNodeContext setValueState state =
     (if \<not> BsonTypeIsNumber (value_type updateValue)
      then raise_naming ERRCODE_DOCUMENTDB_FAILEDTOPARSE (value_type updateValue)
      else ebind (BsonValueAsDouble E updateValue) (\<lambda>doubleVal.
             if \<not> dbl_is_floor doubleVal
             then raise_naming ERRCODE_DOCUMENTDB_FAILEDTOPARSE (value_type updateValue)
             else let i = sint (x_to_int32 trunc_rat (dbl_x doubleVal))
                  in if i \<noteq> 1 \<and> i \<noteq> - 1 then Inl (Ereport ERRCODE_DOCUMENTDB_FAILEDTOPARSE)
                     else case existingValue of
                            BvEOD \<Rightarrow> Inr writer
                          | BvArray d \<Rightarrow>
                              let arrayWriter = UpdateWriterGetArrayWriter writer
                              in Inr (UpdateArrayWriterFinalize E writer
                                   (case d of
                                      [] \<Rightarrow> arrayWriter
                                    | (_, currentValue) # es \<Rightarrow>
                                        pop_loop E (i = - 1) currentValue es (UpdateArrayWriterSkipValue arrayWriter)))
                          | _ \<Rightarrow> raise_naming ERRCODE_DOCUMENTDB_BADVALUE (value_type existingValue)))"

subsection \<open>\<open>$push\<close>\<close>

record DollarPushUpdateState =
  dollarEachArray :: bson_value
  dollarEachElementCount :: int64
  position :: int64
  slice :: int64
  sliceStart :: int64
  sliceEnd :: int64
  sortContext :: SortContext
  modifiersExist :: bool

text \<open>\<open>memset(&pushState, 0, ...)\<close>; the sort context pointer is not followed before it is set.\<close>

definition push_state_init :: DollarPushUpdateState where
  "push_state_init =
     \<lparr> dollarEachArray = BvEOD, dollarEachElementCount = 0, position = 0, slice = 0, sliceStart = 0,
       sliceEnd = 0, sortContext = \<lparr> sortSpecList = [], sortDirection = SortDirection_Ascending,
       sortType = SortType_No_Sort \<rparr>, modifiersExist = False \<rparr>"

text \<open>The values of the modifiers, and whether a key that is no modifier was seen (\<open>nonClauseKey\<close>).\<close>

record push_clauses =
  eachBsonValue :: bson_value
  positionBsonValue :: bson_value
  sliceBsonValue :: bson_value
  sortBsonValue :: bson_value
  nonClauseKey :: bool

fun push_spec_loop :: "push_clauses \<Rightarrow> bson_doc \<Rightarrow> push_clauses result" where
  "push_spec_loop c [] = Inr c"
| "push_spec_loop c ((key, v) # es) =
     (let c = (if strcmp key ''$position'' = 0 then c \<lparr> positionBsonValue := v \<rparr>
               else if strcmp key ''$each'' = 0 then c \<lparr> eachBsonValue := v \<rparr>
               else if strcmp key ''$sort'' = 0 then c \<lparr> sortBsonValue := v \<rparr>
               else if strcmp key ''$slice'' = 0 then c \<lparr> sliceBsonValue := v \<rparr>
               else c \<lparr> nonClauseKey := True \<rparr>)
      in if nonClauseKey c \<and> value_type (eachBsonValue c) \<noteq> BSON_TYPE_EOD
         then Inl (Ereport ERRCODE_DOCUMENTDB_BADVALUE)
         else push_spec_loop c es)"

text \<open>
  \<open>$slice\<close> and \<open>$position\<close>: absent, they are \<open>UINT32_MAX\<close>; else a number with
  \<open>floor(x) == x\<close>, cast to \<open>int64_t\<close>.
\<close>

definition push_integer :: "extern \<Rightarrow> bson_value \<Rightarrow> int64 result" where
  "push_integer E v =
     (if value_type v = BSON_TYPE_EOD then Inr (of_int 4294967295)
      else if BsonValueIsNumber v
      then ebind (BsonValueAsDouble E v) (\<lambda>x.
             if dbl_is_floor x then Inr (x_to_int64 trunc_rat (dbl_x x))
             else raise_naming ERRCODE_DOCUMENTDB_BADVALUE (value_type v))
      else raise_naming ERRCODE_DOCUMENTDB_BADVALUE (value_type v))"

definition ValidateUpdateSpecAndSetPushUpdateState ::
    "extern \<Rightarrow> bson_value \<Rightarrow> DollarPushUpdateState result" where
  "ValidateUpdateSpecAndSetPushUpdateState E fieldUpdateValue =
     (case fieldUpdateValue of
        BvDocument d \<Rightarrow>
          ebind (push_spec_loop \<lparr> eachBsonValue = BvEOD, positionBsonValue = BvEOD, sliceBsonValue = BvEOD,
                                  sortBsonValue = BvEOD, nonClauseKey = False \<rparr> d) (\<lambda>c.
            if value_type (eachBsonValue c) = BSON_TYPE_EOD then Inr push_state_init
            else if value_type (eachBsonValue c) \<noteq> BSON_TYPE_ARRAY
            then raise_naming ERRCODE_DOCUMENTDB_BADVALUE (value_type (eachBsonValue c))
            else ebind (BsonDocumentValueCountKeys (eachBsonValue c)) (\<lambda>count.
                 ebind (push_integer E (sliceBsonValue c)) (\<lambda>slice.
                 ebind (push_integer E (positionBsonValue c)) (\<lambda>position.
                 ebind (ValidateSortSpecAndSetSortContext E (sortBsonValue c)) (\<lambda>sortContext.
                   Inr \<lparr> dollarEachArray = eachBsonValue c, dollarEachElementCount = of_nat count,
                         position = position, slice = slice, sliceStart = 0, sliceEnd = 0,
                         sortContext = sortContext, modifiersExist = True \<rparr>)))))
      | _ \<Rightarrow> Inr push_state_init)"

text \<open>
  The temporary array \<open>elementsArr\<close> is the list of the elements stored so far; they are stored at
  consecutive indices.  The first loop gives the elements, the index it stops at and the rest of
  the iterator.
\<close>

fun push_prefix ::
    "uint32 \<Rightarrow> uint32 \<Rightarrow> bson_doc \<Rightarrow> ElementWithIndex list \<times> uint32 \<times> bson_doc" where
  "push_prefix i n [] = ([], i, [])"
| "push_prefix i n ((k, v) # es) =
     (if i < n
      then let (els, j, rest) = push_prefix (i + 1) n es in (GetElementWithIndex v i # els, j, rest)
      else ([], i, (k, v) # es))"

fun push_elements :: "uint32 \<Rightarrow> bson_doc \<Rightarrow> ElementWithIndex list \<times> uint32" where
  "push_elements i [] = ([], i)"
| "push_elements i ((_, v) # es) =
     (let (els, j) = push_elements (i + 1) es in (GetElementWithIndex v i # els, j))"

text \<open>A negative position counts from the end of the existing elements.\<close>

definition push_position :: "int64 \<Rightarrow> int64 \<Rightarrow> int64" where
  "push_position p existingArrLen =
     (if sint p < 0
      then let p = - p in if sint p \<ge> sint existingArrLen then 0 else existingArrLen - p
      else p)"

definition ApplyDollarPushModifiers ::
    "extern \<Rightarrow> update_extern \<Rightarrow> bson_value \<Rightarrow> DollarPushUpdateState \<Rightarrow> int64
       \<Rightarrow> (ElementWithIndex list \<times> DollarPushUpdateState) result" where
  "ApplyDollarPushModifiers E W bsonArray pushState elementsArrLen =
     (case bsonArray of
        BvArray d \<Rightarrow>
          let existingArrLen = elementsArrLen - dollarEachElementCount pushState;
              p = push_position (position pushState) existingArrLen;
              (els1, i1, rest) = push_prefix 0 (of_int (sint p)) d;
              (els2, i2) = (case dollarEachArray pushState of BvArray each \<Rightarrow> push_elements i1 each | _ \<Rightarrow> ([], i1));
              (els3, i3) = push_elements i2 rest
          in ebind (if sortType (sortContext pushState) \<noteq> SortType_No_Sort
                    then qsort_arg W (CompareBsonValuesForSort E W (sortContext pushState)) (els1 @ els2 @ els3)
                    else Inr (els1 @ els2 @ els3)) (\<lambda>elementsArr.
             let sliceIndex = slice pushState
             in Inr (elementsArr,
                     if sint sliceIndex < 0
                     then let sliceIndex = - sliceIndex
                          in pushState \<lparr> sliceStart := (if sint sliceIndex > sint elementsArrLen then 0
                                                         else elementsArrLen - sliceIndex),
                                         sliceEnd := elementsArrLen \<rparr>
                     else pushState \<lparr> sliceStart := 0,
                                      sliceEnd := (if sint sliceIndex > sint elementsArrLen then elementsArrLen
                                                   else sliceIndex) \<rparr>))
      | _ \<Rightarrow> Inl (Ereport ERRCODE_DOCUMENTDB_BADVALUE))"

text \<open>
  The loop \<open>for (i = sliceStart; i < sliceEnd; i++)\<close> reads \<open>elementsArr[i]\<close>; an index outside the
  array is an over-read.
\<close>

definition push_slice :: "ElementWithIndex list \<Rightarrow> int64 \<Rightarrow> int64 \<Rightarrow> bson_value list result" where
  "push_slice els start stop =
     (if sint start \<ge> sint stop then Inr []
      else if sint start < 0 \<or> sint stop > int (length els) then Inl BufferOverread
      else Inr (map element_value (take (nat (sint stop - sint start)) (drop (nat (sint start)) els))))"

definition write_modified_values :: "extern \<Rightarrow> bson_value list \<Rightarrow> UpdateArrayWriter \<Rightarrow> UpdateArrayWriter" where
  "write_modified_values E vs a = fold (\<lambda>v a. UpdateArrayWriterWriteModifiedValue E a v) vs a"

text \<open>
  A missing field is an empty array: the code takes the value of an iterator on an empty document
  before the first field and sets its type to array, which libbson's iterator makes the bytes of the
  empty document.
\<close>

definition HandleUpdateDollarPush :: "extern \<Rightarrow> update_extern \<Rightarrow> update_handler" where
  "HandleUpdateDollarPush E W existingValue writer updateValue updateNodeContext setValueState state =
     ebind (ValidateUpdateSpecAndSetPushUpdateState E updateValue) (\<lambda>pushState.
       let currentValue = (if value_type existingValue = BSON_TYPE_EOD then BvArray [] else existingValue)
       in case currentValue of
            BvArray d \<Rightarrow>
              let arrayWriter = UpdateWriterGetArrayWriter writer
              in if \<not> modifiersExist pushState
                 then Inr (UpdateArrayWriterFinalize E writer
                        (UpdateArrayWriterWriteModifiedValue E (write_originals E d arrayWriter) updateValue))
                 else ebind (BsonDocumentValueCountKeys currentValue) (\<lambda>existingArrayLength.
                      let elementsArrLen = of_int (sint (of_nat existingArrayLength + dollarEachElementCount pushState)) :: uint32
                      in ebind (ApplyDollarPushModifiers E W currentValue pushState (of_int (uint elementsArrLen)))
                           (\<lambda>(elementsArr, pushState).
                         ebind (push_slice elementsArr (sliceStart pushState) (sliceEnd pushState)) (\<lambda>vs.
                           Inr (UpdateArrayWriterFinalize E writer (write_modified_values E vs arrayWriter)))))
          | _ \<Rightarrow> raise_naming ERRCODE_DOCUMENTDB_BADVALUE (value_type currentValue))"

end
