(* ===== verification/Bson_Tree.thy ===== *)
theory Bson_Tree
  imports Bson_Traversal Bson_Compare
begin

text \<open>
  Trees of dotted paths (\<^verbatim>\<open>pg_documentdb/src/aggregation/bson_tree.c\<close> with its headers
  \<^verbatim>\<open>bson_tree.h\<close>, \<^verbatim>\<open>bson_tree_common.h\<close>, \<^verbatim>\<open>bson_tree_private.h\<close>), as far as the update operators use them:
  finding and adding the node of a path, and replacing a leaf.

  A node has a field name and a payload that the client's creation functions provide
  (\<open>'l\<close> for leaves, \<open>'i\<close> for intermediate nodes); these functions get and return the client's state and
  may raise errors.  The children of a node, a circular list with a tail pointer in the code, are
  the list in the order of \<open>foreach_child\<close>.  A pointer to a node is the list of the child positions that
  lead to it.  The data of a leaf is a constant (\<open>treatLeafDataAsConstant\<close>), \<open>None\<close> until it is set; parsing
  it as an aggregation expression is not modelled.
\<close>

section \<open>Nodes\<close>

datatype NodeType =
    NodeType_None | NodeType_Intermediate | NodeType_LeafIncluded | NodeType_LeafExcluded | NodeType_LeafField
  | NodeType_LeafWithArrayField | NodeType_LeafFieldWithContext

fun NodeType_IsLeaf :: "NodeType \<Rightarrow> bool" where
  "NodeType_IsLeaf NodeType_None = False"
| "NodeType_IsLeaf NodeType_Intermediate = False"
| "NodeType_IsLeaf _ = True"

datatype ('l, 'i) BsonPathNode =
    BsonLeafPathNode NodeType string "bson_value option" 'l
  | BsonIntermediatePathNode string bool 'i "('l, 'i) BsonPathNode list"

fun nodeType :: "('l, 'i) BsonPathNode \<Rightarrow> NodeType" where
  "nodeType (BsonLeafPathNode t _ _ _) = t"
| "nodeType (BsonIntermediatePathNode _ _ _ _) = NodeType_Intermediate"

fun node_field :: "('l, 'i) BsonPathNode \<Rightarrow> string" where
  "node_field (BsonLeafPathNode _ f _ _) = f"
| "node_field (BsonIntermediatePathNode f _ _ _) = f"

fun IsIntermediateNode :: "('l, 'i) BsonPathNode \<Rightarrow> bool" where
  "IsIntermediateNode (BsonIntermediatePathNode _ _ _ _) = True"
| "IsIntermediateNode _ = False"

fun IsIntermediateNodeWithField :: "('l, 'i) BsonPathNode \<Rightarrow> bool" where
  "IsIntermediateNodeWithField (BsonIntermediatePathNode _ hasExpressionFieldsInChildren _ _) =
     hasExpressionFieldsInChildren"
| "IsIntermediateNodeWithField _ = False"

text \<open>The view of a string of known length.\<close>

abbreviation view_of :: "string \<Rightarrow> StringView" where
  "view_of s \<equiv> \<lparr> sv_string = Some s, sv_length = length s \<rparr>"

text \<open>Pointers: the node at a list of child positions, and a change of it.\<close>

fun node_at :: "nat list \<Rightarrow> ('l, 'i) BsonPathNode list \<Rightarrow> ('l, 'i) BsonPathNode option" where
  "node_at [] cs = None"
| "node_at (i # is) cs =
     (if i < length cs
      then if is = [] then Some (cs ! i)
           else (case cs ! i of BsonIntermediatePathNode _ _ _ ds \<Rightarrow> node_at is ds | _ \<Rightarrow> None)
      else None)"

fun change_node ::
    "(('l, 'i) BsonPathNode \<Rightarrow> ('l, 'i) BsonPathNode) \<Rightarrow> nat list \<Rightarrow> ('l, 'i) BsonPathNode list
       \<Rightarrow> ('l, 'i) BsonPathNode list" where
  "change_node f [] cs = cs"
| "change_node f (i # is) cs =
     (if i < length cs
      then if is = [] then cs[i := f (cs ! i)]
           else (case cs ! i of
                   BsonIntermediatePathNode k h d ds \<Rightarrow> cs[i := BsonIntermediatePathNode k h d (change_node f is ds)]
                 | _ \<Rightarrow> cs)
      else cs)"

section \<open>Adding nodes\<close>

definition DetermineChildNodeType :: "extern \<Rightarrow> bson_value \<Rightarrow> bool \<Rightarrow> NodeType result" where
  "DetermineChildNodeType E v forceLeafExpression =
     (if forceLeafExpression \<or> \<not> BsonValueIsNumberOrBool v then Inr NodeType_LeafField
      else ebind (BsonValueAsDouble E v) (\<lambda>x.
             Inr (if \<not> x_eq (dbl_x x) (XFin 0) then NodeType_LeafIncluded else NodeType_LeafExcluded)))"

type_synonym ('n, 's) CreateNodeFunc = "StringView \<Rightarrow> string \<Rightarrow> 's \<Rightarrow> ('n \<times> 's) result"

text \<open>
  The result: the children, the position of the node, whether it existed, and the client's state.
  A new node is added at the tail (\<open>AddChildToTree\<close>); a replaced one keeps its position
  (\<open>ReplaceTreeInNodeCore\<close>).
\<close>

definition find_child :: "StringView \<Rightarrow> ('l, 'i) BsonPathNode list \<Rightarrow> nat option" where
  "find_child fieldPath children =
     first_index (\<lambda>c. StringViewEquals (Some (view_of (node_field c))) (Some fieldPath)) children"

definition AddChildToTree :: "('l, 'i) BsonPathNode list \<Rightarrow> ('l, 'i) BsonPathNode \<Rightarrow> ('l, 'i) BsonPathNode list" where
  "AddChildToTree children childNode = children @ [childNode]"

definition ReplaceTreeInNodeCore ::
    "('l, 'i) BsonPathNode list \<Rightarrow> nat \<Rightarrow> ('l, 'i) BsonPathNode \<Rightarrow> ('l, 'i) BsonPathNode list" where
  "ReplaceTreeInNodeCore children i newNode = children[i := newNode]"

definition GetOrAddChildNode ::
    "('l, 's) CreateNodeFunc \<Rightarrow> ('i, 's) CreateNodeFunc \<Rightarrow> ('l, 'i) BsonPathNode list \<Rightarrow> string \<Rightarrow> StringView
       \<Rightarrow> NodeType \<Rightarrow> bool \<Rightarrow> 's \<Rightarrow> (('l, 'i) BsonPathNode list \<times> nat \<times> bool \<times> 's) result" where
  "GetOrAddChildNode createFunc createIntermediateNodeFunc children relPath subPath childNodeType
       replaceExistingNodes s =
     (case find_child subPath children of
        None \<Rightarrow>
          if childNodeType \<noteq> NodeType_Intermediate
          then ebind (createFunc subPath relPath s) (\<lambda>(l, s).
                 Inr (AddChildToTree children (BsonLeafPathNode childNodeType (sv_bytes subPath) None l),
                      length children, False, s))
          else ebind (createIntermediateNodeFunc subPath relPath s) (\<lambda>(d, s).
                 Inr (AddChildToTree children (BsonIntermediatePathNode (sv_bytes subPath) False d []),
                      length children, False, s))
      | Some i \<Rightarrow>
          if replaceExistingNodes \<and> nodeType (children ! i) \<noteq> childNodeType
             \<and> NodeType_IsLeaf (nodeType (children ! i)) \<and> NodeType_IsLeaf childNodeType
          then ebind (createFunc subPath relPath s) (\<lambda>(l, s).
                 Inr (ReplaceTreeInNodeCore children i (BsonLeafPathNode childNodeType (sv_bytes subPath) None l),
                      i, True, s))
          else Inr (children, i, True, s))"

text \<open>\<open>None\<close> if the node is a leaf.\<close>

fun TrySetIntermediateNodeData :: "('l, 'i) BsonPathNode \<Rightarrow> bool \<Rightarrow> ('l, 'i) BsonPathNode option" where
  "TrySetIntermediateNodeData (BsonLeafPathNode t f v l) hasFields = None"
| "TrySetIntermediateNodeData (BsonIntermediatePathNode f h d cs) hasFields =
     Some (BsonIntermediatePathNode f (h \<or> hasFields) d cs)"

definition ThrowErrorOnIntermediateMismatch :: "('l, 'i) BsonPathNode \<Rightarrow> StringView \<Rightarrow> 'a result" where
  "ThrowErrorOnIntermediateMismatch node relPath =
     Inl (Ereport (if length (node_field node) < sv_length relPath then ERRCODE_DOCUMENTDB_LOCATION31249
                   else ERRCODE_DOCUMENTDB_LOCATION31250))"

text \<open>
  The loop over the components of the path.  The first results are the children of the tree and the
  pointer to the node reached.
\<close>

function TraverseDottedPathAndGetNode ::
    "('l, 's) CreateNodeFunc \<Rightarrow> ('i, 's) CreateNodeFunc \<Rightarrow> StringView \<Rightarrow> bool \<Rightarrow> NodeType \<Rightarrow> bool \<Rightarrow> StringView
       \<Rightarrow> ('l, 'i) BsonPathNode list \<Rightarrow> 's \<Rightarrow> (('l, 'i) BsonPathNode list \<times> nat list \<times> bool \<times> 's) result" where
  "TraverseDottedPathAndGetNode createFunc createIntermediateFunc wholePath hasField leafNodeType
       replaceExistingNodes pathView children s =
     (let prefix = StringViewFindPrefix pathView CHR ''.''
      in ebind (if sv_string prefix = None then Inr (pathView, \<lparr> sv_string = None, sv_length = 0 \<rparr>)
                else ebind (StringViewSubstring pathView (sv_length prefix + 1)) (\<lambda>rest. Inr (prefix, rest)))
           (\<lambda>(currentField, rest).
          if sv_length rest = 0
          then ebind (GetOrAddChildNode createFunc createIntermediateFunc children (sv_buf wholePath) currentField
                        leafNodeType replaceExistingNodes s) (\<lambda>(children, i, found, s).
                 Inr (children, [i], found, s))
          else ebind (GetOrAddChildNode createFunc createIntermediateFunc children (sv_buf wholePath) currentField
                        NodeType_Intermediate replaceExistingNodes s) (\<lambda>(children, i, found, s).
                 case TrySetIntermediateNodeData (children ! i) hasField of
                   Some (BsonIntermediatePathNode f h d cs) \<Rightarrow>
                     ebind (TraverseDottedPathAndGetNode createFunc createIntermediateFunc wholePath hasField
                              leafNodeType replaceExistingNodes rest cs s) (\<lambda>(cs, is, found, s).
                       Inr (children[i := BsonIntermediatePathNode f h d cs], i # is, found, s))
                 | _ \<Rightarrow> if replaceExistingNodes then ThrowErrorOnIntermediateMismatch (children ! i) wholePath
                       else Inr (children, [i], True, s))))"
  by pat_completeness auto
termination
  by (relation "measure (\<lambda>(_, _, _, _, _, _, pathView, _). sv_length pathView)")
     (auto simp: StringViewSubstring_def split: if_splits)

declare TraverseDottedPathAndGetNode.simps [simp del]

fun set_leaf_data :: "bson_value \<Rightarrow> ('l, 'i) BsonPathNode \<Rightarrow> ('l, 'i) BsonPathNode" where
  "set_leaf_data v (BsonLeafPathNode t f _ l) = BsonLeafPathNode t f (Some v) l"
| "set_leaf_data v (BsonIntermediatePathNode f h d cs) = BsonIntermediatePathNode f h d cs"

definition ValidateAndSetLeafNodeData ::
    "nat list \<Rightarrow> bson_value \<Rightarrow> ('l, 'i) BsonPathNode list \<Rightarrow> ('l, 'i) BsonPathNode list result" where
  "ValidateAndSetLeafNodeData ptr v children =
     (case node_at ptr children of
        Some (BsonLeafPathNode _ _ _ _) \<Rightarrow> Inr (change_node (set_leaf_data v) ptr children)
      | _ \<Rightarrow> Inl (Ereport ERRCODE_DOCUMENTDB_LOCATION31250))"

text \<open>The result: the children, the pointer to the node, whether it was created.\<close>

definition TraverseDottedPathAndGetOrAddNodeCore ::
    "extern \<Rightarrow> StringView \<Rightarrow> bson_value \<Rightarrow> ('l, 'i) BsonPathNode list \<Rightarrow> ('l, 's) CreateNodeFunc
       \<Rightarrow> ('i, 's) CreateNodeFunc \<Rightarrow> bool \<Rightarrow> 's \<Rightarrow> (('l, 'i) BsonPathNode list \<times> nat list \<times> bool \<times> 's) result" where
  "TraverseDottedPathAndGetOrAddNodeCore E p v children createFunc createIntermediateFunc forceLeafExpression s =
     ebind (DetermineChildNodeType E v forceLeafExpression) (\<lambda>leafNodeType.
     ebind (TraverseDottedPathAndGetNode createFunc createIntermediateFunc p (leafNodeType = NodeType_LeafField)
              leafNodeType False p children s) (\<lambda>(children, ptr, alreadyExists, s).
     ebind (if \<not> alreadyExists then ValidateAndSetLeafNodeData ptr v children else Inr children) (\<lambda>children.
       Inr (children, ptr, \<not> alreadyExists, s))))"

definition TraverseDottedPathAndGetOrAddField ::
    "extern \<Rightarrow> StringView \<Rightarrow> bson_value \<Rightarrow> ('l, 'i) BsonPathNode list \<Rightarrow> ('i, 's) CreateNodeFunc
       \<Rightarrow> ('l, 's) CreateNodeFunc \<Rightarrow> 's \<Rightarrow> (('l, 'i) BsonPathNode list \<times> nat list \<times> bool \<times> 's) result" where
  "TraverseDottedPathAndGetOrAddField E p v children createIntermediateFunc createLeafFunc s =
     TraverseDottedPathAndGetOrAddNodeCore E p v children createLeafFunc createIntermediateFunc True s"

definition TraverseDottedPathAndGetOrAddValue ::
    "extern \<Rightarrow> StringView \<Rightarrow> bson_value \<Rightarrow> ('l, 'i) BsonPathNode list \<Rightarrow> ('i, 's) CreateNodeFunc
       \<Rightarrow> ('l, 's) CreateNodeFunc \<Rightarrow> 's \<Rightarrow> (('l, 'i) BsonPathNode list \<times> nat list \<times> bool \<times> 's) result" where
  "TraverseDottedPathAndGetOrAddValue E p v children createIntermediateFunc createLeafFunc s =
     TraverseDottedPathAndGetOrAddNodeCore E p v children createLeafFunc createIntermediateFunc False s"

section \<open>Replacing a leaf\<close>

definition ResetNodeWithValueOrField ::
    "extern \<Rightarrow> nat list \<Rightarrow> string \<Rightarrow> bson_value \<Rightarrow> ('l, 's) CreateNodeFunc \<Rightarrow> bool
       \<Rightarrow> ('l, 'i) BsonPathNode list \<Rightarrow> 's \<Rightarrow> (('l, 'i) BsonPathNode list \<times> 's) result" where
  "ResetNodeWithValueOrField E ptr relPath v createFunc forceLeafExpression children s =
     (case node_at ptr children of
        None \<Rightarrow> Inl (Ereport ERRCODE_DOCUMENTDB_INTERNALERROR)
      | Some baseNode \<Rightarrow>
          ebind (DetermineChildNodeType E v forceLeafExpression) (\<lambda>leafNodeType.
          ebind (createFunc (view_of (node_field baseNode)) relPath s) (\<lambda>(l, s).
            Inr (change_node (\<lambda>_. BsonLeafPathNode leafNodeType (node_field baseNode) (Some v) l) ptr children, s))))"

definition ResetNodeWithFieldAndState ::
    "extern \<Rightarrow> nat list \<Rightarrow> string \<Rightarrow> bson_value \<Rightarrow> ('l, 's) CreateNodeFunc
       \<Rightarrow> ('l, 'i) BsonPathNode list \<Rightarrow> 's \<Rightarrow> (('l, 'i) BsonPathNode list \<times> 's) result" where
  "ResetNodeWithFieldAndState E ptr relPath v createFunc children s =
     ResetNodeWithValueOrField E ptr relPath v createFunc True children s"

definition ResetNodeWithValueAndState ::
    "extern \<Rightarrow> nat list \<Rightarrow> string \<Rightarrow> bson_value \<Rightarrow> ('l, 's) CreateNodeFunc
       \<Rightarrow> ('l, 'i) BsonPathNode list \<Rightarrow> 's \<Rightarrow> (('l, 'i) BsonPathNode list \<times> 's) result" where
  "ResetNodeWithValueAndState E ptr relPath v createFunc children s =
     ResetNodeWithValueOrField E ptr relPath v createFunc False children s"

end
