(* ===== verification/Update_Tree.thy ===== *)
theory Update_Tree
  imports Update_Operators Bson_Tree
begin

text \<open>
  Building the tree of an update specification
  (\<^verbatim>\<open>pg_documentdb/src/update/bson_update_operators_workflow.c\<close>, from \<open>GetOperatorUpdateState\<close> and
  \<open>ReadUpdateSpecAndUpdateTree\<close> to \<open>CreateUpdateIntermediateNode\<close>, and the array filters at the end of
  the file).

  A leaf holds the function that writes it (\<open>writeFunc\<close>, an enumeration of the operators; \<open>None\<close> is
  \<open>NULL\<close>), an intermediate node the flags the traversal of a document looks at.  The state threaded through
  the creation of nodes is the \<open>PositionalUpdateSpec\<close>, in which the code caches the compiled query and
  marks the array filters it used; \<open>None\<close> is the \<open>NULL\<close> given for the node of \<open>_id\<close>.  Operators
  registered by other extensions (\<open>RegisterUpdateOperatorExtension\<close>) are not modelled.
\<close>

section \<open>Nodes of the update tree\<close>

datatype WriteUpdatedValuesFunc =
    WriteDollarSet | WriteDollarInc | WriteDollarMin | WriteDollarMax | WriteDollarUnset | WriteDollarPush
  | WriteDollarPop | WriteDollarRename | WriteDollarRenameSource | WriteDollarSetOnInsert | WriteDollarPullAll
  | WriteDollarAddToSet | WriteDollarMul | WriteDollarBit | WriteDollarCurrentDate | WriteDollarPull

fun write_func :: "extern \<Rightarrow> update_extern \<Rightarrow> settings \<Rightarrow> WriteUpdatedValuesFunc \<Rightarrow> update_handler" where
  "write_func E W S WriteDollarSet = HandleUpdateDollarSet E"
| "write_func E W S WriteDollarInc = HandleUpdateDollarInc E"
| "write_func E W S WriteDollarMin = HandleUpdateDollarMin E"
| "write_func E W S WriteDollarMax = HandleUpdateDollarMax E"
| "write_func E W S WriteDollarUnset = HandleUpdateDollarUnset E"
| "write_func E W S WriteDollarPush = HandleUpdateDollarPush E W"
| "write_func E W S WriteDollarPop = HandleUpdateDollarPop E"
| "write_func E W S WriteDollarRename = HandleUpdateDollarRename E S"
| "write_func E W S WriteDollarRenameSource = HandleUpdateDollarRenameSource E"
| "write_func E W S WriteDollarSetOnInsert = HandleUpdateDollarSetOnInsert E"
| "write_func E W S WriteDollarPullAll = HandleUpdateDollarPullAll E"
| "write_func E W S WriteDollarAddToSet = HandleUpdateDollarAddToSet E"
| "write_func E W S WriteDollarMul = HandleUpdateDollarMul E"
| "write_func E W S WriteDollarBit = HandleUpdateDollarBit E"
| "write_func E W S WriteDollarCurrentDate = HandleUpdateDollarCurrentDate E W"
| "write_func E W S WriteDollarPull = HandleUpdateDollarPull E"

datatype PositionalData =
    PositionalType_None
  | PositionalType_All
  | PositionalType_QueryFilter "BsonPositionalQueryQual list"
  | PositionalType_ArrayFilter ExprEvalState

fun is_positional :: "PositionalData \<Rightarrow> bool" where
  "is_positional PositionalType_None = False"
| "is_positional _ = True"

record BsonUpdateLeafNode =
  leaf_relativePath :: string
  writeFunc :: "WriteUpdatedValuesFunc option"
  updateNodeContext :: update_node_context
  leaf_positionalData :: PositionalData

text \<open>What the traversal reads of the other node of a \<open>$rename\<close>.\<close>

record rename_node =
  rename_nodeType :: NodeType
  rename_relativePath :: string

record BsonUpdateIntermediatePathNode =
  int_relativePath :: string
  int_positionalData :: PositionalData
  hasPositionalChildren :: bool
  HasIntermediateIncludeChildren :: bool
  sourceOrTargetNodeForRenameOP :: "rename_node option"

type_synonym update_node = "(BsonUpdateLeafNode, BsonUpdateIntermediatePathNode) BsonPathNode"

fun GetPositionalData :: "update_node \<Rightarrow> PositionalData" where
  "GetPositionalData (BsonLeafPathNode _ _ _ l) = leaf_positionalData l"
| "GetPositionalData (BsonIntermediatePathNode _ _ d _) = int_positionalData d"

fun GetRelativePathFromNode :: "update_node \<Rightarrow> string" where
  "GetRelativePathFromNode (BsonLeafPathNode _ _ _ l) = leaf_relativePath l"
| "GetRelativePathFromNode (BsonIntermediatePathNode _ _ d _) = int_relativePath d"

text \<open>\<open>palloc0\<close> of the root.\<close>

definition update_root :: update_node where
  "update_root = BsonIntermediatePathNode [] False
     \<lparr> int_relativePath = [], int_positionalData = PositionalType_None, hasPositionalChildren = False,
       HasIntermediateIncludeChildren = False, sourceOrTargetNodeForRenameOP = None \<rparr> []"

fun node_children :: "update_node \<Rightarrow> update_node list" where
  "node_children (BsonIntermediatePathNode _ _ _ cs) = cs"
| "node_children _ = []"

fun with_children :: "update_node list \<Rightarrow> update_node \<Rightarrow> update_node" where
  "with_children cs (BsonIntermediatePathNode f h d _) = BsonIntermediatePathNode f h d cs"
| "with_children cs n = n"

section \<open>Creating nodes\<close>

record QueryFilterPathAndValue =
  filter_identifier :: string
  queryValue :: bson_value
  filterUsed :: bool

record PositionalUpdateSpec =
  querySpec :: "bson_value option"
  arrayFilters :: "QueryFilterPathAndValue list option"
  processedQuerySpec :: "BsonPositionalQueryQual list option"

definition ArrayFiltersKeyHash :: "extern \<Rightarrow> string \<Rightarrow> uint32" where
  "ArrayFiltersKeyHash E key = HashStringView (hash_bytes E) (view_of key)"

definition ArrayFiltersKeyCompare :: "string \<Rightarrow> string \<Rightarrow> int" where
  "ArrayFiltersKeyCompare k1 k2 = CompareStringView (view_of k1) (view_of k2)"

definition find_filter :: "extern \<Rightarrow> update_extern \<Rightarrow> QueryFilterPathAndValue list \<Rightarrow> string \<Rightarrow> nat option" where
  "find_filter E W filters key =
     hash_search_view W (ArrayFiltersKeyHash E) ArrayFiltersKeyCompare (map filter_identifier filters) key"

definition ValidateNodePathInTree :: "StringView \<Rightarrow> unit result" where
  "ValidateNodePathInTree p =
     (if sv_length p = 0 \<or> sv_bytes p ! (sv_length p - 1) = CHR ''.''
      then Inl (Ereport ERRCODE_DOCUMENTDB_BADVALUE) else Inr ())"

text \<open>\<open>$[identifier]\<close>: the identifier between the brackets is looked up in the array filters.\<close>

definition GetNodePositionalDataFromPath ::
    "extern \<Rightarrow> update_extern \<Rightarrow> StringView \<Rightarrow> PositionalUpdateSpec option
       \<Rightarrow> (PositionalData \<times> PositionalUpdateSpec option) result" where
  "GetNodePositionalDataFromPath E W p spec =
     (if StringViewEquals (Some p) (Some (view_of ''$[]'')) then Inr (PositionalType_All, spec)
      else if StringViewEquals (Some p) (Some (view_of ''$''))
      then (case spec of
              None \<Rightarrow> Inl NullDereference
            | Some sp \<Rightarrow>
                (case processedQuerySpec sp of
                   Some quals \<Rightarrow> Inr (PositionalType_QueryFilter quals, spec)
                 | None \<Rightarrow>
                     ebind (GetPositionalQueryData W (querySpec sp)) (\<lambda>quals.
                       Inr (PositionalType_QueryFilter quals, Some (sp \<lparr> processedQuerySpec := Some quals \<rparr>)))))
      else if sv_length p > 3 \<and> strncmp (sv_buf p) ''$['' 2 = 0 \<and> sv_bytes p ! (sv_length p - 1) = CHR '']''
      then ebind (StringViewSubstring p 2) (\<lambda>rest.
             let key = take (sv_length rest - 1) (sv_bytes rest)
             in case spec of
                  None \<Rightarrow> Inl NullDereference
                | Some sp \<Rightarrow>
                    (case arrayFilters sp of
                       None \<Rightarrow> Inl (Ereport ERRCODE_DOCUMENTDB_BADVALUE)
                     | Some filters \<Rightarrow>
                         (case find_filter E W filters key of
                            None \<Rightarrow> Inl (Ereport ERRCODE_DOCUMENTDB_BADVALUE)
                          | Some i \<Rightarrow>
                              let entry = filters ! i;
                                  filters = filters[i := entry \<lparr> filterUsed := True \<rparr>]
                              in ebind (GetExpressionEvalState W (queryValue entry)) (\<lambda>expr.
                                   Inr (PositionalType_ArrayFilter expr,
                                        Some (sp \<lparr> arrayFilters := Some filters \<rparr>))))))
      else Inr (PositionalType_None, spec))"

definition CreateUpdateLeafNode ::
    "extern \<Rightarrow> update_extern \<Rightarrow> WriteUpdatedValuesFunc option \<Rightarrow> update_node_context
       \<Rightarrow> (BsonUpdateLeafNode, PositionalUpdateSpec option) CreateNodeFunc" where
  "CreateUpdateLeafNode E W updateFunc updateFuncState p relPath spec =
     ebind (ValidateNodePathInTree p) (\<lambda>_.
     ebind (GetNodePositionalDataFromPath E W p spec) (\<lambda>(positionalData, spec).
       Inr (\<lparr> leaf_relativePath = relPath, writeFunc = updateFunc, updateNodeContext = updateFuncState,
              leaf_positionalData = positionalData \<rparr>, spec)))"

definition CreateUpdateIntermediateNode ::
    "extern \<Rightarrow> update_extern \<Rightarrow> (BsonUpdateIntermediatePathNode, PositionalUpdateSpec option) CreateNodeFunc" where
  "CreateUpdateIntermediateNode E W p relPath spec =
     ebind (ValidateNodePathInTree p) (\<lambda>_.
     ebind (GetNodePositionalDataFromPath E W p spec) (\<lambda>(positionalData, spec).
       Inr (\<lparr> int_relativePath = relPath, int_positionalData = positionalData, hasPositionalChildren = False,
              HasIntermediateIncludeChildren = False, sourceOrTargetNodeForRenameOP = None \<rparr>, spec)))"

section \<open>Adding the paths of an operator\<close>

text \<open>
  The walk from a node to the root: the parent gets its flags, and if one of its children is
  positional all of them must be.  The second result is \<open>hasPositionalInAncestors\<close>.
\<close>

definition ThrowPathConflictError :: "'a result" where
  "ThrowPathConflictError = Inl (Ereport ERRCODE_DOCUMENTDB_CONFLICTINGUPDATEOPERATORS)"

fun UpdateParentDataInTree ::
    "nat list \<Rightarrow> bool \<Rightarrow> rename_node option \<Rightarrow> update_node \<Rightarrow> (update_node \<times> bool) result" where
  "UpdateParentDataInTree (i # is) markAsIncludeAncestor renameNode (BsonIntermediatePathNode f h d cs) =
     (if i < length cs
      then ebind (UpdateParentDataInTree is markAsIncludeAncestor renameNode (cs ! i)) (\<lambda>(child, below).
             let cs = cs[i := child];
                 positional = is_positional (GetPositionalData child);
                 d = d \<lparr> sourceOrTargetNodeForRenameOP := renameNode,
                         hasPositionalChildren := hasPositionalChildren d \<or> positional \<rparr>
             in if hasPositionalChildren d \<and> list_ex (\<lambda>c. \<not> is_positional (GetPositionalData c)) cs
                then ThrowPathConflictError
                else Inr (BsonIntermediatePathNode f h
                            (if markAsIncludeAncestor then d \<lparr> HasIntermediateIncludeChildren := True \<rparr> else d) cs,
                          below \<or> positional))
      else Inl NullDereference)"
| "UpdateParentDataInTree _ markAsIncludeAncestor renameNode n = Inr (n, False)"

text \<open>The state of \<open>_id\<close>'s leaf may be replaced; any other existing node is a conflict.\<close>

definition HandleNodeExistsInTree ::
    "extern \<Rightarrow> update_extern \<Rightarrow> nat list \<Rightarrow> string \<Rightarrow> bson_value \<Rightarrow> WriteUpdatedValuesFunc option
       \<Rightarrow> update_node_context \<Rightarrow> update_node list \<Rightarrow> PositionalUpdateSpec option
       \<Rightarrow> (update_node list \<times> PositionalUpdateSpec option) result" where
  "HandleNodeExistsInTree E W existing updatePath v updateFunc updateFuncState children spec =
     (if strcmp updatePath ''_id'' \<noteq> 0
         \<or> (case node_at existing children of Some n \<Rightarrow> IsIntermediateNode n | None \<Rightarrow> False)
      then ThrowPathConflictError
      else ResetNodeWithFieldAndState E existing updatePath v (CreateUpdateLeafNode E W updateFunc updateFuncState)
             children spec)"

definition ValidateSpecPathForUpdateTree :: "StringView \<Rightarrow> unit result" where
  "ValidateSpecPathForUpdateTree updatePath =
     (if sv_length updatePath = 0 then Inl (Ereport ERRCODE_DOCUMENTDB_EMPTYFIELDNAME)
      else if sv_bytes updatePath ! (sv_length updatePath - 1) = CHR ''.''
      then Inl (Ereport ERRCODE_DOCUMENTDB_EMPTYFIELDNAME)
      else if sv_bytes updatePath ! 0 = CHR ''$''
      then let prefix = StringViewFindPrefix updatePath CHR ''.'';
               p = (if sv_string prefix = None then updatePath else prefix)
           in if StringViewEquals (Some p) (Some (view_of ''$[]'')) then Inl (Ereport ERRCODE_DOCUMENTDB_BADVALUE)
              else if StringViewEquals (Some p) (Some (view_of ''$'')) then Inl (Ereport ERRCODE_DOCUMENTDB_BADVALUE)
              else Inr ()
      else Inr ())"

text \<open>
  \<open>$pull\<close> compiles its value; a value that is no document is compared with \<open>$eq\<close>.  The loop rejects a
  document that mixes operators and plain fields and says whether it has a plain field.
\<close>

fun pull_spec_loop :: "bool \<Rightarrow> bool \<Rightarrow> bson_doc \<Rightarrow> bool result" where
  "pull_spec_loop hasDollarField hasPlainField [] = Inr hasPlainField"
| "pull_spec_loop hasDollarField hasPlainField ((key, _) # es) =
     (if key \<noteq> [] \<and> key ! 0 = CHR ''$''
      then if hasPlainField then Inl (Ereport ERRCODE_DOCUMENTDB_BADVALUE)
           else pull_spec_loop True hasPlainField es
      else if hasDollarField then Inl (Ereport ERRCODE_DOCUMENTDB_BADVALUE)
           else pull_spec_loop hasDollarField True es)"

definition HandlePullWriterGetState :: "update_extern \<Rightarrow> bson_value \<Rightarrow> update_node_context result" where
  "HandlePullWriterGetState W updateValue =
     (case updateValue of
        BvDocument d \<Rightarrow>
          ebind (pull_spec_loop False False d) (\<lambda>hasPlainField.
          ebind (GetExpressionEvalState W updateValue) (\<lambda>ev.
            Inr (ContextPull \<lparr> pull_evalState = ev, pull_isValue = hasPlainField \<rparr>)))
      | _ \<Rightarrow>
          ebind (GetExpressionEvalState W (BvDocument (PgbsonWriterAppendValue PgbsonWriterInit ''$eq'' updateValue)))
            (\<lambda>ev. Inr (ContextPull \<lparr> pull_evalState = ev, pull_isValue = True \<rparr>)))"

text \<open>
  One path of \<open>HandleBasicUpdateTree\<close>: validation, the operator's state, the node, the flags of its
  ancestors.  \<open>stateFunc\<close> is set for \<open>$pull\<close> only.
\<close>

definition add_basic_path ::
    "extern \<Rightarrow> update_extern \<Rightarrow> WriteUpdatedValuesFunc \<Rightarrow> (bson_value \<Rightarrow> update_node_context result) option
       \<Rightarrow> string \<Rightarrow> bson_value \<Rightarrow> update_node \<Rightarrow> PositionalUpdateSpec option
       \<Rightarrow> (update_node \<times> PositionalUpdateSpec option) result" where
  "add_basic_path E W valuesFunc stateFunc updatePath v tree spec =
     ebind (ValidateSpecPathForUpdateTree (view_of updatePath)) (\<lambda>_.
     ebind (case stateFunc of None \<Rightarrow> Inr ContextNull | Some f \<Rightarrow> f v) (\<lambda>updateFuncState.
     ebind (TraverseDottedPathAndGetOrAddField E (view_of updatePath) v (node_children tree)
              (CreateUpdateIntermediateNode E W) (CreateUpdateLeafNode E W (Some valuesFunc) updateFuncState) spec)
       (\<lambda>(children, node, nodeCreated, spec).
     ebind (if nodeCreated then Inr (children, spec)
            else HandleNodeExistsInTree E W node updatePath v (Some valuesFunc) updateFuncState children spec)
       (\<lambda>(children, spec).
     ebind (UpdateParentDataInTree node False None (with_children children tree)) (\<lambda>(tree, _).
       Inr (tree, spec))))))"

fun HandleBasicUpdateTree ::
    "extern \<Rightarrow> update_extern \<Rightarrow> WriteUpdatedValuesFunc \<Rightarrow> (bson_value \<Rightarrow> update_node_context result) option
       \<Rightarrow> bson_doc \<Rightarrow> update_node \<Rightarrow> PositionalUpdateSpec option
       \<Rightarrow> (update_node \<times> PositionalUpdateSpec option) result" where
  "HandleBasicUpdateTree E W valuesFunc stateFunc [] tree spec = Inr (tree, spec)"
| "HandleBasicUpdateTree E W valuesFunc stateFunc ((updatePath, v) # es) tree spec =
     ebind (add_basic_path E W valuesFunc stateFunc updatePath v tree spec) (\<lambda>(tree, spec).
       HandleBasicUpdateTree E W valuesFunc stateFunc es tree spec)"

text \<open>What the flags keep of a node of \<open>$rename\<close>.\<close>

definition rename_node_of :: "nat list \<Rightarrow> update_node list \<Rightarrow> rename_node option" where
  "rename_node_of ptr children =
     map_option (\<lambda>n. \<lparr> rename_nodeType = nodeType n, rename_relativePath = GetRelativePathFromNode n \<rparr>)
       (node_at ptr children)"

definition add_rename_path ::
    "extern \<Rightarrow> update_extern \<Rightarrow> WriteUpdatedValuesFunc \<Rightarrow> string \<Rightarrow> bson_value \<Rightarrow> update_node
       \<Rightarrow> PositionalUpdateSpec option \<Rightarrow> (update_node \<times> PositionalUpdateSpec option) result" where
  "add_rename_path E W valuesFunc updatePath v tree spec =
     ebind (ValidateSpecPathForUpdateTree (view_of updatePath)) (\<lambda>_.
     ebind (TraverseDottedPathAndGetOrAddValue E (view_of updatePath) (BvInt32 0) (node_children tree)
              (CreateUpdateIntermediateNode E W)
              (CreateUpdateLeafNode E W (Some WriteDollarRenameSource) ContextNull) spec)
       (\<lambda>(children, sourceNode, nodeCreated, spec).
     ebind (if nodeCreated then Inr (children, spec)
            else HandleNodeExistsInTree E W sourceNode updatePath (BvInt32 0) (Some WriteDollarRenameSource)
                   ContextNull children spec)
       (\<lambda>(children, spec).
          case v of
            BvUtf8 renamePath \<Rightarrow>
              ebind (ValidateSpecPathForUpdateTree (view_of renamePath)) (\<lambda>_.
              ebind (TraverseDottedPathAndGetOrAddValue E (view_of renamePath) (BvInt32 1) children
                       (CreateUpdateIntermediateNode E W)
                       (CreateUpdateLeafNode E W (Some valuesFunc) (ContextRenameSource updatePath)) spec)
                (\<lambda>(children, targetNode, nodeCreated, spec).
              ebind (if nodeCreated then Inr (children, spec)
                     else HandleNodeExistsInTree E W targetNode renamePath v (Some WriteDollarRenameSource)
                            ContextNull children spec)
                (\<lambda>(children, spec).
              ebind (UpdateParentDataInTree sourceNode False (rename_node_of targetNode children)
                       (with_children children tree)) (\<lambda>(tree, hasPositionalInAncestors).
                if hasPositionalInAncestors then Inl (Ereport ERRCODE_DOCUMENTDB_BADVALUE)
                else ebind (UpdateParentDataInTree targetNode True (rename_node_of sourceNode children) tree)
                       (\<lambda>(tree, hasPositionalInAncestors).
                         if hasPositionalInAncestors then Inl (Ereport ERRCODE_DOCUMENTDB_BADVALUE)
                         else Inr (tree, spec))))))
          | _ \<Rightarrow> Inl (Ereport ERRCODE_DOCUMENTDB_BADVALUE))))"

fun HandleRenameUpdateTree ::
    "extern \<Rightarrow> update_extern \<Rightarrow> WriteUpdatedValuesFunc \<Rightarrow> bson_doc \<Rightarrow> update_node \<Rightarrow> PositionalUpdateSpec option
       \<Rightarrow> (update_node \<times> PositionalUpdateSpec option) result" where
  "HandleRenameUpdateTree E W valuesFunc [] tree spec = Inr (tree, spec)"
| "HandleRenameUpdateTree E W valuesFunc ((updatePath, v) # es) tree spec =
     ebind (add_rename_path E W valuesFunc updatePath v tree spec) (\<lambda>(tree, spec).
       HandleRenameUpdateTree E W valuesFunc es tree spec)"

text \<open>\<open>updateFuncState\<close> is the function pointer here, which \<open>$unset\<close> does not read.\<close>

definition add_unset_path ::
    "extern \<Rightarrow> update_extern \<Rightarrow> WriteUpdatedValuesFunc \<Rightarrow> string \<Rightarrow> bson_value \<Rightarrow> update_node
       \<Rightarrow> PositionalUpdateSpec option \<Rightarrow> (update_node \<times> PositionalUpdateSpec option) result" where
  "add_unset_path E W valuesFunc updatePath v tree spec =
     ebind (TraverseDottedPathAndGetOrAddValue E (view_of updatePath) (BvInt32 0) (node_children tree)
              (CreateUpdateIntermediateNode E W) (CreateUpdateLeafNode E W (Some valuesFunc) ContextNull) spec)
       (\<lambda>(children, node, nodeCreated, spec).
     ebind (if nodeCreated then Inr (children, spec)
            else HandleNodeExistsInTree E W node updatePath v (Some valuesFunc) ContextNull children spec)
       (\<lambda>(children, spec). Inr (with_children children tree, spec)))"

fun HandleUnsetUpdateTree ::
    "extern \<Rightarrow> update_extern \<Rightarrow> WriteUpdatedValuesFunc \<Rightarrow> bson_doc \<Rightarrow> update_node \<Rightarrow> PositionalUpdateSpec option
       \<Rightarrow> (update_node \<times> PositionalUpdateSpec option) result" where
  "HandleUnsetUpdateTree E W valuesFunc [] tree spec = Inr (tree, spec)"
| "HandleUnsetUpdateTree E W valuesFunc ((updatePath, v) # es) tree spec =
     ebind (add_unset_path E W valuesFunc updatePath v tree spec) (\<lambda>(tree, spec).
       HandleUnsetUpdateTree E W valuesFunc es tree spec)"

definition HandleSetOnInsertUpdateTree ::
    "extern \<Rightarrow> update_extern \<Rightarrow> WriteUpdatedValuesFunc \<Rightarrow> (bson_value \<Rightarrow> update_node_context result) option
       \<Rightarrow> bool \<Rightarrow> bson_doc \<Rightarrow> update_node \<Rightarrow> PositionalUpdateSpec option
       \<Rightarrow> (update_node \<times> PositionalUpdateSpec option) result" where
  "HandleSetOnInsertUpdateTree E W valuesFunc stateFunc upsert updateSpec tree spec =
     (if \<not> upsert then Inr (tree, spec)
      else HandleBasicUpdateTree E W valuesFunc stateFunc updateSpec tree spec)"

section \<open>The operators of a specification\<close>

datatype UpdateTreeFunc = BasicUpdateTree | UnsetUpdateTree | RenameUpdateTree | SetOnInsertUpdateTree

definition MongoUpdateOperators :: "(string \<times> UpdateTreeFunc \<times> WriteUpdatedValuesFunc \<times> bool) list" where
  "MongoUpdateOperators =
     [(''$set'', BasicUpdateTree, WriteDollarSet, False),
      (''$inc'', BasicUpdateTree, WriteDollarInc, False),
      (''$min'', BasicUpdateTree, WriteDollarMin, False),
      (''$max'', BasicUpdateTree, WriteDollarMax, False),
      (''$unset'', UnsetUpdateTree, WriteDollarUnset, False),
      (''$push'', BasicUpdateTree, WriteDollarPush, False),
      (''$pop'', BasicUpdateTree, WriteDollarPop, False),
      (''$rename'', RenameUpdateTree, WriteDollarRename, False),
      (''$setOnInsert'', SetOnInsertUpdateTree, WriteDollarSetOnInsert, False),
      (''$pullAll'', BasicUpdateTree, WriteDollarPullAll, False),
      (''$addToSet'', BasicUpdateTree, WriteDollarAddToSet, False),
      (''$mul'', BasicUpdateTree, WriteDollarMul, False),
      (''$bit'', BasicUpdateTree, WriteDollarBit, False),
      (''$currentDate'', BasicUpdateTree, WriteDollarCurrentDate, False),
      (''$pull'', BasicUpdateTree, WriteDollarPull, True)]"

definition update_tree_func ::
    "extern \<Rightarrow> update_extern \<Rightarrow> UpdateTreeFunc \<Rightarrow> WriteUpdatedValuesFunc \<Rightarrow> bool \<Rightarrow> bool \<Rightarrow> bson_doc \<Rightarrow> update_node
       \<Rightarrow> PositionalUpdateSpec option \<Rightarrow> (update_node \<times> PositionalUpdateSpec option) result" where
  "update_tree_func E W treeFunc writerFunc hasState upsert updateSpec tree spec =
     (let stateFunc = (if hasState then Some (HandlePullWriterGetState W) else None)
      in case treeFunc of
           BasicUpdateTree \<Rightarrow> HandleBasicUpdateTree E W writerFunc stateFunc updateSpec tree spec
         | UnsetUpdateTree \<Rightarrow> HandleUnsetUpdateTree E W writerFunc updateSpec tree spec
         | RenameUpdateTree \<Rightarrow> HandleRenameUpdateTree E W writerFunc updateSpec tree spec
         | SetOnInsertUpdateTree \<Rightarrow> HandleSetOnInsertUpdateTree E W writerFunc stateFunc upsert updateSpec tree spec)"

fun read_operators ::
    "extern \<Rightarrow> update_extern \<Rightarrow> bool \<Rightarrow> bson_doc \<Rightarrow> update_node \<Rightarrow> PositionalUpdateSpec option
       \<Rightarrow> (update_node \<times> PositionalUpdateSpec option) result" where
  "read_operators E W upsert [] tree spec = Inr (tree, spec)"
| "read_operators E W upsert ((updateOperator, v) # es) tree spec =
     (case find (\<lambda>(name, _). strcmp name updateOperator = 0) MongoUpdateOperators of
        None \<Rightarrow> Inl (Ereport ERRCODE_DOCUMENTDB_FAILEDTOPARSE)
      | Some (_, treeFunc, writerFunc, hasState) \<Rightarrow>
          (case v of
             BvDocument d \<Rightarrow>
               ebind (update_tree_func E W treeFunc writerFunc hasState upsert d tree spec) (\<lambda>(tree, spec).
                 read_operators E W upsert es tree spec)
           | _ \<Rightarrow> raise_naming ERRCODE_DOCUMENTDB_FAILEDTOPARSE (value_type v)))"

definition ReadUpdateSpecAndUpdateTree ::
    "extern \<Rightarrow> update_extern \<Rightarrow> bool \<Rightarrow> bson_doc \<Rightarrow> update_node \<Rightarrow> PositionalUpdateSpec option
       \<Rightarrow> (update_node \<times> PositionalUpdateSpec option) result" where
  "ReadUpdateSpecAndUpdateTree E W upsert updateDoc tree spec =
     ebind (TraverseDottedPathAndGetOrAddValue E (view_of ''_id'') (BvInt32 0) (node_children tree)
              (CreateUpdateIntermediateNode E W) (CreateUpdateLeafNode E W None ContextNull) None)
       (\<lambda>(children, _, _, _). read_operators E W upsert updateDoc (with_children children tree) spec)"

section \<open>Array filters\<close>

definition WriteCurrentArrayFilterValue :: "pgbson_writer \<Rightarrow> bson_value \<Rightarrow> pgbson_writer" where
  "WriteCurrentArrayFilterValue w entryValue =
     (case entryValue of
        BvDocument d \<Rightarrow>
          if \<not> list_ex (\<lambda>(key, _). key \<noteq> [] \<and> key ! 0 = CHR ''$'') d
          then PgbsonWriterAppendValue w ''$eq'' entryValue
          else fold (\<lambda>(key, v) w. PgbsonWriterAppendValue w key v) d w
      | _ \<Rightarrow> PgbsonWriterAppendValue w ''$eq'' entryValue)"

text \<open>The loop over the fields of one filter: the writer and the top-level key seen so far.\<close>

fun array_filter_fields ::
    "update_extern \<Rightarrow> pgbson_writer \<Rightarrow> string \<Rightarrow> bson_doc \<Rightarrow> (pgbson_writer \<times> string) result" where
  "array_filter_fields W w topLevelKey [] = Inr (w, topLevelKey)"
| "array_filter_fields W w topLevelKey ((key, v) # es) =
     (if length key = 0 \<or> \<not> isalnum W (key ! 0) then Inl (Ereport ERRCODE_DOCUMENTDB_BADVALUE)
      else let prefix = StringViewFindPrefix (view_of key) CHR ''.''
           in ebind (if sv_length prefix = 0 then Inr (key, [])
                     else ebind (StringViewSubstring (view_of key) (sv_length prefix + 1)) (\<lambda>suffix.
                            Inr (sv_bytes prefix, sv_bytes suffix))) (\<lambda>(fieldKey, suffix).
                if length topLevelKey > 0 \<and> \<not> StringViewEquals (Some (view_of fieldKey)) (Some (view_of topLevelKey))
                then Inl (Ereport ERRCODE_DOCUMENTDB_FAILEDTOPARSE)
                else array_filter_fields W
                       (if length suffix = 0 then WriteCurrentArrayFilterValue w v
                        else PgbsonWriterEndDocument w suffix
                               (WriteCurrentArrayFilterValue PgbsonWriterStartDocument v))
                       fieldKey es))"

fun build_array_filters ::
    "extern \<Rightarrow> update_extern \<Rightarrow> QueryFilterPathAndValue list \<Rightarrow> bson_doc \<Rightarrow> QueryFilterPathAndValue list result" where
  "build_array_filters E W filters [] = Inr filters"
| "build_array_filters E W filters ((_, v) # es) =
     (case v of
        BvDocument d \<Rightarrow>
          ebind (array_filter_fields W PgbsonWriterInit [] d) (\<lambda>(document, topLevelKey).
            if d = [] then Inl (Ereport ERRCODE_DOCUMENTDB_FAILEDTOPARSE)
            else (case find_filter E W filters topLevelKey of
                    Some _ \<Rightarrow> Inl (Ereport ERRCODE_DOCUMENTDB_FAILEDTOPARSE)
                  | None \<Rightarrow>
                      build_array_filters E W
                        (filters @ [\<lparr> filter_identifier = topLevelKey, queryValue = BvDocument document,
                                      filterUsed = False \<rparr>]) es))
      | _ \<Rightarrow> raise_naming ERRCODE_DOCUMENTDB_TYPEMISMATCH (value_type v))"

definition BuildExpressionForArrayFilters ::
    "extern \<Rightarrow> update_extern \<Rightarrow> bson_value option \<Rightarrow> QueryFilterPathAndValue list option result" where
  "BuildExpressionForArrayFilters E W filters =
     (case filters of
        None \<Rightarrow> Inr None
      | Some v \<Rightarrow> ebind (v_doc v) (\<lambda>d. ebind (build_array_filters E W [] d) (\<lambda>fs. Inr (Some fs))))"

definition PostValidateArrayFilters :: "QueryFilterPathAndValue list option \<Rightarrow> unit result" where
  "PostValidateArrayFilters filters =
     (case filters of
        None \<Rightarrow> Inr ()
      | Some fs \<Rightarrow> if list_all filterUsed fs then Inr () else Inl (Ereport ERRCODE_DOCUMENTDB_FAILEDTOPARSE))"

definition GetOperatorUpdateState ::
    "extern \<Rightarrow> update_extern \<Rightarrow> bson_value \<Rightarrow> bson_value option \<Rightarrow> bson_value option \<Rightarrow> bool \<Rightarrow> update_node result" where
  "GetOperatorUpdateState E W updateSpec query filters upsert =
     (case updateSpec of
        BvDocument d \<Rightarrow>
          ebind (BuildExpressionForArrayFilters E W filters) (\<lambda>arrayFilterHash.
          ebind (ReadUpdateSpecAndUpdateTree E W upsert d update_root
                   (Some \<lparr> querySpec = query, arrayFilters = arrayFilterHash, processedQuerySpec = None \<rparr>))
            (\<lambda>(tree, spec).
          ebind (PostValidateArrayFilters (case spec of None \<Rightarrow> None | Some sp \<Rightarrow> arrayFilters sp)) (\<lambda>_.
            Inr tree)))
      | _ \<Rightarrow> Inl (Ereport ERRCODE_DOCUMENTDB_BADVALUE))"

end
