(* ===== verification/Update_Apply.thy ===== *)
theory Update_Apply
  imports Update_Tree
begin

text \<open>
  Applying an update tree to a document (\<^verbatim>\<open>pg_documentdb/src/update/bson_update_operators_workflow.c\<close>,
  \<open>ProcessUpdateOperatorWithState\<close> and the value writer functions from \<open>HandleUpdateDocumentId\<close> to
  \<open>HandleUnresolvedArrayFields\<close>).

  The functions return the writer they leave, whether the value was modified and the document
  state, whose index for the positional operator is set during the traversal.  The bitmap of
  the children already handled is the list of their positions.
\<close>

section \<open>Writing a leaf\<close>

text \<open>The operator gets a fresh writer; if it modified nothing the old value is written.\<close>

definition fresh_writer :: "pgbson_element_writer \<Rightarrow> UpdateOperatorWriter" where
  "fresh_writer w =
     \<lparr> element_writer = w, modified = False,
       updateArrayWriter = \<lparr> array_writer = \<lparr> innerBson = [], writer_index = 0 \<rparr>, isValid = False,
                             array_modified = False \<rparr> \<rparr>"

definition WriteCurrentNode ::
    "extern \<Rightarrow> update_extern \<Rightarrow> settings \<Rightarrow> bson_value option \<Rightarrow> BsonUpdateLeafNode \<Rightarrow> bson_value
       \<Rightarrow> pgbson_element_writer \<Rightarrow> CurrentDocumentState \<Rightarrow> bool \<Rightarrow> bool \<Rightarrow> string
       \<Rightarrow> (pgbson_element_writer \<times> bool) result" where
  "WriteCurrentNode E W S fieldData leaf currentValue writer state array arrayAncestors fieldName =
     (case writeFunc leaf of
        None \<Rightarrow> Inl NullDereference
      | Some f \<Rightarrow>
          ebind (write_func E W S f currentValue (fresh_writer writer)
                   (case fieldData of None \<Rightarrow> BvEOD | Some v \<Rightarrow> v) (updateNodeContext leaf)
                   \<lparr> fieldPath = fieldName, relativePath = leaf_relativePath leaf, isArray = array,
                     hasArrayAncestors = arrayAncestors \<rparr> state) (\<lambda>updateWriter.
            Inr (if \<not> modified updateWriter \<and> value_type currentValue \<noteq> BSON_TYPE_EOD
                 then PgbsonElementWriterWriteValue E (element_writer updateWriter) currentValue
                 else element_writer updateWriter,
                 modified updateWriter)))"

section \<open>Matching a field with the children of a node\<close>

definition IsNodeMatchForIteratorPath ::
    "extern \<Rightarrow> settings \<Rightarrow> update_node \<Rightarrow> string \<Rightarrow> bool \<Rightarrow> CurrentDocumentState \<Rightarrow> bson_value
       \<Rightarrow> (bool \<times> CurrentDocumentState) result" where
  "IsNodeMatchForIteratorPath E S node fieldName array state currentValue =
     (case GetPositionalData node of
        PositionalType_QueryFilter quals \<Rightarrow>
          ebind (if sint (indexOfPositionalTypeQueryFilter state) = - 1
                 then ebind (MatchPositionalQueryAgainstDocument E S (Some quals) (sourceDocument state)) (\<lambda>matchedIndex.
                        if sint matchedIndex < 0 then Inl (Ereport ERRCODE_DOCUMENTDB_BADVALUE)
                        else Inr (state \<lparr> indexOfPositionalTypeQueryFilter := matchedIndex \<rparr>))
                 else Inr state) (\<lambda>state.
            if array
            then Inr (StringViewEquals
                        (Some (view_of (bson_uint32_to_string E (indexOfPositionalTypeQueryFilter state))))
                        (Some (view_of fieldName)), state)
            else Inl (Ereport ERRCODE_DOCUMENTDB_BADVALUE))
      | PositionalType_ArrayFilter expression \<Rightarrow>
          if array
          then ebind (EvalBooleanExpressionAgainstValue expression currentValue True) (\<lambda>m. Inr (m, state))
          else Inl (Ereport ERRCODE_DOCUMENTDB_BADVALUE)
      | PositionalType_All \<Rightarrow> if array then Inr (True, state) else Inl (Ereport ERRCODE_DOCUMENTDB_BADVALUE)
      | PositionalType_None \<Rightarrow>
          if array \<and> sint (StringViewToPositiveInteger (Some (view_of (node_field node)))) < 0
          then Inl (Ereport ERRCODE_DOCUMENTDB_BADVALUE)
          else Inr (StringViewEquals (Some (view_of fieldName)) (Some (view_of (node_field node))), state))"

fun matching_child ::
    "extern \<Rightarrow> settings \<Rightarrow> nat \<Rightarrow> update_node list \<Rightarrow> string \<Rightarrow> bool \<Rightarrow> CurrentDocumentState \<Rightarrow> bson_value
       \<Rightarrow> ((nat \<times> update_node) option \<times> CurrentDocumentState) result" where
  "matching_child E S i [] fieldName array state currentValue = Inr (None, state)"
| "matching_child E S i (child # cs) fieldName array state currentValue =
     ebind (IsNodeMatchForIteratorPath E S child fieldName array state currentValue) (\<lambda>(match, state).
       if match then Inr (Some (i, child), state)
       else matching_child E S (i + 1) cs fieldName array state currentValue)"

definition IsAnErrorForIntermediateNodeOfDollarRenameOp ::
    "update_extern \<Rightarrow> rename_node option \<Rightarrow> bson_doc \<Rightarrow> bool" where
  "IsAnErrorForIntermediateNodeOfDollarRenameOp W renameNode sourceDoc =
     (case renameNode of
        None \<Rightarrow> False
      | Some n \<Rightarrow>
          if rename_nodeType n = NodeType_LeafExcluded
          then bson_iter_find_descendant W sourceDoc (rename_relativePath n) \<noteq> None
          else True)"

section \<open>Fields the document does not have\<close>

function HandleUnresolvedDocumentFields ::
    "extern \<Rightarrow> update_extern \<Rightarrow> settings \<Rightarrow> update_node \<Rightarrow> nat list \<Rightarrow> pgbson_writer \<Rightarrow> bool
       \<Rightarrow> CurrentDocumentState \<Rightarrow> bool \<Rightarrow> (pgbson_writer \<times> bool) result"
  and unresolved_children ::
    "extern \<Rightarrow> update_extern \<Rightarrow> settings \<Rightarrow> update_node list \<Rightarrow> nat \<Rightarrow> nat list \<Rightarrow> pgbson_writer \<Rightarrow> bool
       \<Rightarrow> CurrentDocumentState \<Rightarrow> bool \<Rightarrow> bool \<Rightarrow> (pgbson_writer \<times> bool) result" where
  "HandleUnresolvedDocumentFields E W S (BsonIntermediatePathNode f h d cs) handled w isRootLevel state arrayAncestors =
     (if hasPositionalChildren d then Inl (Ereport ERRCODE_DOCUMENTDB_BADVALUE)
      else unresolved_children E W S cs 0 handled w isRootLevel state arrayAncestors False)"
| "HandleUnresolvedDocumentFields E W S (BsonLeafPathNode t f v l) handled w isRootLevel state arrayAncestors =
     Inl NullDereference"
| "unresolved_children E W S [] i handled w isRootLevel state arrayAncestors modif = Inr (w, modif)"
| "unresolved_children E W S (node # cs) i handled w isRootLevel state arrayAncestors modif =
     (if (isRootLevel \<and> StringViewEquals (Some (view_of (node_field node))) (Some (view_of ''_id''))) \<or> i \<in> set handled
      then unresolved_children E W S cs (i + 1) handled w isRootLevel state arrayAncestors modif
      else if isRootLevel \<and> node_field node \<noteq> [] \<and> node_field node ! 0 = CHR ''$'' \<and> \<not> isUpsert state
      then Inl (Ereport ERRCODE_DOCUMENTDB_BADVALUE)
      else case node of
             BsonLeafPathNode t f v l \<Rightarrow>
               if t = NodeType_LeafIncluded \<or> t = NodeType_LeafField
               then ebind (WriteCurrentNode E W S v l BvEOD (PgbsonInitObjectElementWriter w f) state False
                             arrayAncestors f) (\<lambda>(elementWriter, innerModified).
                      unresolved_children E W S cs (i + 1) handled (element_doc elementWriter) isRootLevel state
                        arrayAncestors (modif \<or> innerModified))
               else if t = NodeType_LeafExcluded
               then unresolved_children E W S cs (i + 1) handled w isRootLevel state arrayAncestors modif
               else Inl (Ereport ERRCODE_INTERNAL_ERROR)
           | BsonIntermediatePathNode f h d ds \<Rightarrow>
               if h \<or> HasIntermediateIncludeChildren d
               then ebind (HandleUnresolvedDocumentFields E W S (BsonIntermediatePathNode f h d ds) []
                             PgbsonWriterStartDocument False state arrayAncestors) (\<lambda>(childWriter, innerModified).
                      unresolved_children E W S cs (i + 1) handled (PgbsonWriterEndDocument w f childWriter)
                        isRootLevel state arrayAncestors (modif \<or> innerModified))
               else unresolved_children E W S cs (i + 1) handled w isRootLevel state arrayAncestors modif)"
  by pat_completeness auto
termination
  by (relation "measure (\<lambda>x. case x of Inl (_, _, _, n, _) \<Rightarrow> size n | Inr (_, _, _, cs, _) \<Rightarrow> size_list size cs)") auto

definition path_index :: "update_node \<Rightarrow> int" where
  "path_index node = sint (StringViewToPositiveInteger (Some (view_of (node_field node))))"

fun max_path_index :: "int \<Rightarrow> update_node list \<Rightarrow> int result" where
  "max_path_index maxIndex [] = Inr maxIndex"
| "max_path_index maxIndex (child # cs) =
     (if nodeType child \<noteq> NodeType_LeafField \<and> \<not> IsIntermediateNodeWithField child then max_path_index maxIndex cs
      else if path_index child \<ge> 0 then max_path_index (if path_index child > maxIndex then path_index child else maxIndex) cs
      else if \<not> is_positional (GetPositionalData child) then Inl (Ereport ERRCODE_DOCUMENTDB_FAILEDTOPARSE)
      else max_path_index maxIndex cs)"

text \<open>One index of the array: the first child with that index, or null.\<close>

definition unresolved_element ::
    "extern \<Rightarrow> update_extern \<Rightarrow> settings \<Rightarrow> update_node list \<Rightarrow> int \<Rightarrow> CurrentDocumentState \<Rightarrow> pgbson_element_writer
       \<Rightarrow> (pgbson_element_writer \<times> bool) result" where
  "unresolved_element E W S children i state writer =
     (case find (\<lambda>child. path_index child = i) children of
        None \<Rightarrow> Inr (PgbsonElementWriterWriteValue E writer BvNull, True)
      | Some (BsonIntermediatePathNode f h d ds) \<Rightarrow>
          if h
          then ebind (HandleUnresolvedDocumentFields E W S (BsonIntermediatePathNode f h d ds) []
                        (PgbsonElementWriterStartDocument writer) False state True) (\<lambda>(childWriter, innerModified).
                 Inr (PgbsonElementWriterEndDocument E writer childWriter, innerModified))
          else Inr (writer, False)
      | Some (BsonLeafPathNode t f v l) \<Rightarrow>
          if t = NodeType_LeafField \<or> t = NodeType_LeafExcluded \<or> t = NodeType_LeafIncluded
          then WriteCurrentNode E W S v l BvEOD writer state True True f
          else Inl (Ereport ERRCODE_INTERNAL_ERROR))"

fun unresolved_elements ::
    "extern \<Rightarrow> update_extern \<Rightarrow> settings \<Rightarrow> update_node list \<Rightarrow> int list \<Rightarrow> CurrentDocumentState
       \<Rightarrow> pgbson_element_writer \<Rightarrow> bool \<Rightarrow> (pgbson_element_writer \<times> bool) result" where
  "unresolved_elements E W S children [] state writer modif = Inr (writer, modif)"
| "unresolved_elements E W S children (i # is) state writer modif =
     ebind (unresolved_element E W S children i state writer) (\<lambda>(writer, m).
       unresolved_elements E W S children is state writer (modif \<or> m))"

definition HandleUnresolvedArrayFields ::
    "extern \<Rightarrow> update_extern \<Rightarrow> settings \<Rightarrow> update_node list \<Rightarrow> int \<Rightarrow> pgbson_element_writer \<Rightarrow> CurrentDocumentState
       \<Rightarrow> (pgbson_element_writer \<times> bool) result" where
  "HandleUnresolvedArrayFields E W S children currentMaxIndex writer state =
     ebind (max_path_index 0 children) (\<lambda>maxIndex.
       if maxIndex - currentMaxIndex > 1500000 then Inl (Ereport ERRCODE_DOCUMENTDB_CANNOTBACKFILLARRAY)
       else unresolved_elements E W S children [currentMaxIndex .. maxIndex] state writer False)"

section \<open>Traversing the document\<close>

text \<open>\<open>BSON_ITER_HOLDS_DOCUMENT\<close> and \<open>BSON_ITER_HOLDS_ARRAY\<close>, with the nested iterator.\<close>

definition nested_document :: "bson_value \<Rightarrow> bson_doc option" where
  "nested_document v = (case v of BvDocument d \<Rightarrow> Some d | _ \<Rightarrow> None)"

definition nested_array :: "bson_value \<Rightarrow> bson_doc option" where
  "nested_array v = (case v of BvArray d \<Rightarrow> Some d | _ \<Rightarrow> None)"

lemma nested_document_Some [simp]: "nested_document v = Some d \<longleftrightarrow> v = BvDocument d"
  by (cases v) (auto simp: nested_document_def)

lemma nested_array_Some [simp]: "nested_array v = Some d \<longleftrightarrow> v = BvArray d"
  by (cases v) (auto simp: nested_array_def)

text \<open>An intermediate node that meets a value which is neither a document nor an array.\<close>

definition intermediate_on_scalar ::
    "extern \<Rightarrow> update_extern \<Rightarrow> bool \<Rightarrow> BsonUpdateIntermediatePathNode \<Rightarrow> bson_value \<Rightarrow> pgbson_element_writer
       \<Rightarrow> CurrentDocumentState \<Rightarrow> bool \<Rightarrow> pgbson_element_writer result" where
  "intermediate_on_scalar E W h d v writer state array =
     (if \<not> h
      then if array then Inl (Ereport ERRCODE_DOCUMENTDB_BADVALUE)
           else if IsAnErrorForIntermediateNodeOfDollarRenameOp W (sourceOrTargetNodeForRenameOP d)
                     (sourceDocument state)
           then Inl (Ereport ERRCODE_DOCUMENTDB_PATHNOTVIABLE)
           else Inr (PgbsonElementWriterWriteValue E writer v)
      else Inl (Ereport ERRCODE_DOCUMENTDB_PATHNOTVIABLE))"

definition write_matched_leaf ::
    "extern \<Rightarrow> update_extern \<Rightarrow> settings \<Rightarrow> NodeType \<Rightarrow> bson_value option \<Rightarrow> BsonUpdateLeafNode \<Rightarrow> bson_value
       \<Rightarrow> pgbson_element_writer \<Rightarrow> CurrentDocumentState \<Rightarrow> bool \<Rightarrow> bool \<Rightarrow> string
       \<Rightarrow> (pgbson_element_writer \<times> bool) result" where
  "write_matched_leaf E W S t fieldData leaf v writer state array arrayAncestors key =
     (if t = NodeType_LeafIncluded \<or> t = NodeType_LeafField \<or> t = NodeType_LeafExcluded
      then WriteCurrentNode E W S fieldData leaf v writer state array arrayAncestors key
      else Inl (Ereport ERRCODE_INTERNAL_ERROR))"

fun array_writer_of :: "pgbson_element_writer \<Rightarrow> pgbson_array_writer" where
  "array_writer_of (ArrayElementWriter w) = w"
| "array_writer_of (ObjectElementWriter w k) = \<lparr> innerBson = w, writer_index = 0 \<rparr>"

function TraverseDocumentAndApplyUpdate ::
    "extern \<Rightarrow> update_extern \<Rightarrow> settings \<Rightarrow> bson_doc \<Rightarrow> pgbson_writer \<Rightarrow> update_node \<Rightarrow> bool \<Rightarrow> CurrentDocumentState
       \<Rightarrow> bool \<Rightarrow> (pgbson_writer \<times> bool \<times> CurrentDocumentState) result"
  and document_fields ::
    "extern \<Rightarrow> update_extern \<Rightarrow> settings \<Rightarrow> bson_doc \<Rightarrow> pgbson_writer \<Rightarrow> update_node \<Rightarrow> bool \<Rightarrow> CurrentDocumentState
       \<Rightarrow> bool \<Rightarrow> nat list \<Rightarrow> bool \<Rightarrow> (pgbson_writer \<times> nat list \<times> bool \<times> CurrentDocumentState) result"
  and TraverseArrayAndApplyUpdate ::
    "extern \<Rightarrow> update_extern \<Rightarrow> settings \<Rightarrow> bson_doc \<Rightarrow> pgbson_array_writer \<Rightarrow> update_node \<Rightarrow> CurrentDocumentState
       \<Rightarrow> (pgbson_element_writer \<times> bool \<times> CurrentDocumentState) result"
  and array_elements ::
    "extern \<Rightarrow> update_extern \<Rightarrow> settings \<Rightarrow> bson_doc \<Rightarrow> pgbson_element_writer \<Rightarrow> update_node \<Rightarrow> CurrentDocumentState
       \<Rightarrow> bool \<Rightarrow> (pgbson_element_writer \<times> bool \<times> CurrentDocumentState) result"
  and HandleCurrentIteratorPosition ::
    "extern \<Rightarrow> update_extern \<Rightarrow> settings \<Rightarrow> string \<Rightarrow> bson_value \<Rightarrow> update_node \<Rightarrow> pgbson_element_writer
       \<Rightarrow> CurrentDocumentState \<Rightarrow> bool \<Rightarrow> bool
       \<Rightarrow> (pgbson_element_writer \<times> nat option \<times> bool \<times> CurrentDocumentState) result" where
  "TraverseDocumentAndApplyUpdate E W S doc writer tree isRootLevel state arrayAncestors =
     ebind (document_fields E W S doc writer tree isRootLevel state arrayAncestors [] False)
       (\<lambda>(writer, handled, modif, state).
     ebind (HandleUnresolvedDocumentFields E W S tree handled writer isRootLevel state arrayAncestors)
       (\<lambda>(writer, unresolvedModified). Inr (writer, modif \<or> unresolvedModified, state)))"
| "document_fields E W S [] writer tree isRootLevel state arrayAncestors handled modif =
     Inr (writer, handled, modif, state)"
| "document_fields E W S ((key, v) # es) writer tree isRootLevel state arrayAncestors handled modif =
     (if isRootLevel \<and> strcmp key ''_id'' = 0
      then document_fields E W S es writer tree isRootLevel state arrayAncestors handled modif
      else ebind (HandleCurrentIteratorPosition E W S key v tree (PgbsonInitObjectElementWriter writer key) state
                    False arrayAncestors) (\<lambda>(elementWriter, child, fieldModified, state).
             document_fields E W S es (element_doc elementWriter) tree isRootLevel state arrayAncestors
               (case child of None \<Rightarrow> handled | Some i \<Rightarrow> i # handled) (modif \<or> fieldModified)))"
| "TraverseArrayAndApplyUpdate E W S doc writer tree state =
     ebind (array_elements E W S doc (PgbsonInitArrayElementWriter writer) tree state False)
       (\<lambda>(writer, modif, state).
     ebind (HandleUnresolvedArrayFields E W S (node_children tree) (int (length doc)) writer state)
       (\<lambda>(writer, unresolvedModified). Inr (writer, unresolvedModified \<or> modif, state)))"
| "array_elements E W S [] writer tree state modif = Inr (writer, modif, state)"
| "array_elements E W S ((key, v) # es) writer tree state modif =
     ebind (HandleCurrentIteratorPosition E W S key v tree writer state True True)
       (\<lambda>(writer, _, fieldModified, state). array_elements E W S es writer tree state (modif \<or> fieldModified))"
| "HandleCurrentIteratorPosition E W S key v tree writer state array arrayAncestors =
     ebind (matching_child E S 0 (node_children tree) key array state v) (\<lambda>(match, state).
       case match of
         None \<Rightarrow> Inr (PgbsonElementWriterWriteValue E writer v, None, False, state)
       | Some (i, child) \<Rightarrow>
           (case child of
              BsonLeafPathNode t f fieldData leaf \<Rightarrow>
                ebind (write_matched_leaf E W S t fieldData leaf v writer state array arrayAncestors key)
                  (\<lambda>(writer, m). Inr (writer, Some i, m, state))
            | BsonIntermediatePathNode f h d cs \<Rightarrow>
                (case nested_document v of
                   Some nested \<Rightarrow>
                     ebind (TraverseDocumentAndApplyUpdate E W S nested (PgbsonElementWriterStartDocument writer)
                              child False state arrayAncestors) (\<lambda>(childWriter, m, state).
                       Inr (PgbsonElementWriterEndDocument E writer childWriter, Some i, m, state))
                 | None \<Rightarrow>
                     (case nested_array v of
                        Some nested \<Rightarrow>
                          ebind (TraverseArrayAndApplyUpdate E W S nested (PgbsonElementWriterStartArray writer)
                                   child state) (\<lambda>(childWriter, m, state).
                            Inr (PgbsonElementWriterEndArray E writer (array_writer_of childWriter), Some i, m, state))
                      | None \<Rightarrow>
                          ebind (intermediate_on_scalar E W h d v writer state array) (\<lambda>writer.
                            Inr (writer, Some i, False, state))))))"
  by pat_completeness auto
termination
  by (relation "measure (\<lambda>x. case x of
        Inl (Inl (_, _, _, d, _)) \<Rightarrow> 2 * doc_size d + 1
      | Inl (Inr (_, _, _, d, _)) \<Rightarrow> 2 * doc_size d
      | Inr (Inl (_, _, _, d, _)) \<Rightarrow> 2 * doc_size d + 1
      | Inr (Inr (Inl (_, _, _, d, _))) \<Rightarrow> 2 * doc_size d
      | Inr (Inr (Inr (_, _, _, _, v, _))) \<Rightarrow> 2 * size v)") auto

declare TraverseDocumentAndApplyUpdate.simps [simp del] TraverseArrayAndApplyUpdate.simps [simp del]
  HandleCurrentIteratorPosition.simps [simp del] HandleUnresolvedDocumentFields.simps [simp del]

section \<open>The document\<close>

definition HandleUpdateDocumentId ::
    "extern \<Rightarrow> update_extern \<Rightarrow> settings \<Rightarrow> pgbson_writer \<Rightarrow> update_node \<Rightarrow> CurrentDocumentState
       \<Rightarrow> (pgbson_writer \<times> bool) result" where
  "HandleUpdateDocumentId E W S writer tree state =
     (case find (\<lambda>node. StringViewEquals (Some (view_of (node_field node))) (Some (view_of ''_id''))) (node_children tree) of
        None \<Rightarrow> Inl (Ereport ERRCODE_INTERNAL_ERROR)
      | Some (BsonIntermediatePathNode _ _ _ _) \<Rightarrow> Inl (Ereport ERRCODE_DOCUMENTDB_BADVALUE)
      | Some (BsonLeafPathNode t f v l) \<Rightarrow>
          let elementWriter = PgbsonInitObjectElementWriter writer ''_id''
          in if t = NodeType_LeafExcluded
             then if value_type (documentId state) = BSON_TYPE_EOD
                  then Inr (element_doc (PgbsonElementWriterWriteValue E elementWriter (BvOid (bson_oid_init W))), True)
                  else Inr (element_doc (PgbsonElementWriterWriteValue E elementWriter (documentId state)), False)
             else if t = NodeType_LeafIncluded \<or> t = NodeType_LeafField
             then ebind (WriteCurrentNode E W S v l (documentId state) elementWriter state False False f)
                    (\<lambda>(w, m). Inr (element_doc w, m))
             else Inl (Ereport ERRCODE_INTERNAL_ERROR))"

text \<open>The value of \<open>_id\<close>; \<open>BvEOD\<close> (a zeroed value) if there is none.\<close>

definition PgbsonInitIteratorAtPath :: "update_extern \<Rightarrow> bson_doc \<Rightarrow> string \<Rightarrow> bson_value option" where
  "PgbsonInitIteratorAtPath W doc p = bson_iter_find_descendant W doc p"

definition id_value :: "update_extern \<Rightarrow> bson_doc \<Rightarrow> bson_value" where
  "id_value W doc = (case PgbsonInitIteratorAtPath W doc ''_id'' of None \<Rightarrow> BvEOD | Some v \<Rightarrow> v)"

definition PgbsonValidateInputBson :: "update_extern \<Rightarrow> bson_doc \<Rightarrow> unit result" where
  "PgbsonValidateInputBson W doc =
     (if bson_validate W doc then Inr () else Inl (Ereport ERRCODE_DOCUMENTDB_BADVALUE))"

definition ValidateIdField :: "bson_value \<Rightarrow> unit result" where
  "ValidateIdField idValue =
     (if value_type idValue = BSON_TYPE_ARRAY \<or> value_type idValue = BSON_TYPE_UNDEFINED
         \<or> value_type idValue = BSON_TYPE_REGEX
      then raise_naming ERRCODE_DOCUMENTDB_BADVALUE (value_type idValue)
      else case idValue of
             BvDocument d \<Rightarrow>
               if list_ex (\<lambda>(key, _). key \<noteq> [] \<and> key ! 0 = CHR ''$'') d
               then Inl (Ereport ERRCODE_DOCUMENTDB_DOLLARPREFIXEDFIELDNAME) else Inr ()
           | _ \<Rightarrow> Inr ())"

definition ThrowIdPathModifiedErrorForOperatorUpdate :: "'a result" where
  "ThrowIdPathModifiedErrorForOperatorUpdate = Inl (Ereport ERRCODE_DOCUMENTDB_IMMUTABLEFIELD)"

text \<open>\<open>None\<close> is \<open>NULL\<close>: the update changes nothing.\<close>

definition ProcessUpdateOperatorWithState ::
    "extern \<Rightarrow> update_extern \<Rightarrow> settings \<Rightarrow> bson_doc \<Rightarrow> update_node \<Rightarrow> bool \<Rightarrow> bson_doc option result" where
  "ProcessUpdateOperatorWithState E W S sourceDoc updateState upsert =
     (let state = \<lparr> documentId = id_value W sourceDoc, isUpsert = upsert, sourceDocument = sourceDoc,
                    indexOfPositionalTypeQueryFilter = - 1 \<rparr>
      in ebind (HandleUpdateDocumentId E W S PgbsonWriterInit updateState state) (\<lambda>(writer, updated).
         ebind (TraverseDocumentAndApplyUpdate E W S sourceDoc writer updateState True state False)
           (\<lambda>(finalDoc, documentUpdated, state).
             if \<not> (updated \<or> documentUpdated) \<and> \<not> upsert then Inr None
             else let newIdValue = id_value W finalDoc
                  in ebind (if value_type newIdValue = BSON_TYPE_EOD then Inr True
                            else if value_type (documentId state) \<noteq> BSON_TYPE_EOD
                            then ebind (BsonValueEquals E newIdValue (documentId state)) (\<lambda>same. Inr (\<not> same))
                            else Inr False) (\<lambda>idModified.
                       if idModified then ThrowIdPathModifiedErrorForOperatorUpdate
                       else ebind (PgbsonValidateInputBson W finalDoc) (\<lambda>_.
                            ebind (ValidateIdField newIdValue) (\<lambda>_. Inr (Some finalDoc)))))))"

end
