(* ===== verification/Update_Operator_Spec.thy ===== *)
theory Update_Operator_Spec
  imports Update_Apply Query_Spec
begin

text \<open>
  What the update operators do to a field.  \<open>writes E w vs\<close> is the writer \<open>w\<close> after the values \<open>vs\<close>;
  \<open>leaf_outcome\<close> is the result of \<open>WriteCurrentNode\<close> in these terms.  The array operators are related to
  functions on the list of the elements: \<open>new_values\<close> for \<open>$addToSet\<close>, \<open>filter\<close> for \<open>$pull\<close> and \<open>$pullAll\<close>,
  \<open>push_result\<close> for \<open>$push\<close>.
\<close>

section \<open>Writers\<close>

definition writes :: "extern \<Rightarrow> pgbson_element_writer \<Rightarrow> bson_value list \<Rightarrow> pgbson_element_writer" where
  "writes E w vs = fold (\<lambda>v w. PgbsonElementWriterWriteValue E w v) vs w"

lemma writes_simps [simp]:
  "writes E w [] = w"
  "writes E w (v # vs) = writes E (PgbsonElementWriterWriteValue E w v) vs"
  by (simp_all add: writes_def)

lemma writes_object: "writes E (ObjectElementWriter d k) vs = ObjectElementWriter (d @ map (Pair k) vs) k"
  by (induction vs arbitrary: d) (simp_all add: PgbsonWriterAppendValue_def)

text \<open>The array writer after the values, started fresh.\<close>

definition array_of :: "extern \<Rightarrow> bson_value list \<Rightarrow> bool \<Rightarrow> UpdateArrayWriter" where
  "array_of E vs m =
     \<lparr> array_writer = \<lparr> innerBson = array_doc E vs, writer_index = of_nat (length vs) \<rparr>, isValid = True, array_modified = m \<rparr>"

lemma array_of_start: "UpdateWriterGetArrayWriter (fresh_writer w) = array_of E [] False"
  by (simp add: UpdateWriterGetArrayWriter_def fresh_writer_def array_of_def)

lemma array_of_append [simp]:
  "UpdateArrayWriterWriteOriginalValue E (array_of E vs m) v = array_of E (vs @ [v]) m"
  "UpdateArrayWriterWriteModifiedValue E (array_of E vs m) v = array_of E (vs @ [v]) True"
  "UpdateArrayWriterSkipValue (array_of E vs m) = array_of E vs True"
  by (simp_all add: UpdateArrayWriterWriteOriginalValue_def UpdateArrayWriterWriteModifiedValue_def
      UpdateArrayWriterSkipValue_def array_of_def PgbsonArrayWriterWriteValue_def array_fields_append)

lemma write_originals_array [simp]:
  "write_originals E d (array_of E vs m) = array_of E (vs @ map snd d) m"
  by (induction d arbitrary: vs) (auto simp del: array_of_def)

lemma write_modified_array [simp]:
  "write_modified_values E ws (array_of E vs m) = array_of E (vs @ ws) (m \<or> ws \<noteq> [])"
  unfolding write_modified_values_def by (induction ws arbitrary: vs m) auto

lemma pop_loop_array [simp]:
  "pop_loop E isFirst prev d (array_of E vs True)
     = array_of E (vs @ (if isFirst then map snd d else butlast (prev # map snd d))) True"
  by (induction d arbitrary: vs prev) auto

text \<open>The result of an operator on a fresh writer: the values written to the field, and the flag.\<close>

definition operator_outcome ::
    "extern \<Rightarrow> pgbson_element_writer \<Rightarrow> UpdateOperatorWriter result \<Rightarrow> (bson_value list \<times> bool) result \<Rightarrow> bool" where
  "operator_outcome E w r out \<longleftrightarrow>
     map_sum id (\<lambda>u. (element_writer u, modified u)) r = map_sum id (\<lambda>(vs, m). (writes E w vs, m)) out"

lemma outcome_simps [simp]:
  "operator_outcome E w (Inl e) (Inl e') \<longleftrightarrow> e = e'"
  "operator_outcome E w (Inr u) (Inr (vs, m)) \<longleftrightarrow> element_writer u = writes E w vs \<and> modified u = m"
  "\<not> operator_outcome E w (Inl e) (Inr x)" "\<not> operator_outcome E w (Inr u) (Inl e)"
  by (auto simp: operator_outcome_def split: prod.splits)

lemma writer_simps [simp]:
  "element_writer (fresh_writer w) = w" "modified (fresh_writer w) = False"
  "element_writer (UpdateWriterWriteModifiedValue E (fresh_writer w) v) = writes E w [v]"
  "modified (UpdateWriterWriteModifiedValue E u v) = True"
  "element_writer (UpdateWriterSkipValue u) = element_writer u" "modified (UpdateWriterSkipValue u) = True"
  "element_writer (UpdateArrayWriterFinalize E (fresh_writer w) (array_of E vs m)) = writes E w [BvArray (array_doc E vs)]"
  "modified (UpdateArrayWriterFinalize E (fresh_writer w) (array_of E vs m)) = m"
  by (simp_all add: fresh_writer_def UpdateWriterWriteModifiedValue_def UpdateWriterSkipValue_def
      UpdateArrayWriterFinalize_def array_of_def end_is_write)

text \<open>What a leaf leaves in the field: the old value is written after an operator that changed nothing.\<close>

lemma WriteCurrentNode_outcome:
  assumes "writeFunc leaf = Some f"
    and "operator_outcome E w (write_func E W S f v (fresh_writer w) u (updateNodeContext leaf)
           \<lparr> fieldPath = k, relativePath = leaf_relativePath leaf, isArray = a, hasArrayAncestors = aa \<rparr> st) out"
  shows "WriteCurrentNode E W S (Some u) leaf v w st a aa k =
    ebind out (\<lambda>(vs, m). Inr (writes E w (vs @ (if \<not> m \<and> value_type v \<noteq> BSON_TYPE_EOD then [v] else [])), m))"
  using assms by (cases out; cases "write_func E W S f v (fresh_writer w) u (updateNodeContext leaf)
           \<lparr> fieldPath = k, relativePath = leaf_relativePath leaf, isArray = a, hasArrayAncestors = aa \<rparr> st")
    (auto simp: WriteCurrentNode_def writes_def)

section \<open>Numbers and comparisons\<close>

lemma value_type_absent [simp]: "value_type v = BSON_TYPE_EOD \<longleftrightarrow> v = BvEOD"
  by (cases v) simp_all

text \<open>Whether the order of two values decides \<open>$min\<close> and \<open>$max\<close>: not if exactly one is a NaN.\<close>

definition decided :: "bson_value \<Rightarrow> bson_value \<Rightarrow> bool" where
  "decided v w \<longleftrightarrow> rank v \<noteq> rank w \<or> is_nan v = is_nan w"

context update_code
begin

lemma equals_order: "wf_value a \<Longrightarrow> wf_value b \<Longrightarrow> BsonValueEquals E a b = Inr (order_of E a b = 0)"
  using compare_order_of [of a b] by (auto simp: BsonValueEquals_def)

lemma inc_integers:
  assumes "is_int v" "is_int u"
  shows "\<exists>s. operator_outcome E w (HandleUpdateDollarInc E v (fresh_writer w) u c sv st)
             (if int64_range (int_val v + int_val u) then Inr ([s], True) else Inl (Ereport ERRCODE_DOCUMENTDB_BADVALUE))
           \<and> (int64_range (int_val v + int_val u) \<longrightarrow> is_int s \<and> int_val s = int_val v + int_val u)"
proof -
  obtain wide where wide: "wide = (value_type u = BSON_TYPE_INT64)" "wide \<or> int32_range (int_val u)"
    "AddNumberToBsonValue E v u = Inr (True, integer_sum v (int_val u) wide)"
    using integer_operand [OF assms(2)] is_int_integral [OF assms(1)] by metis
  obtain s ov where s: "(s, ov) = integer_sum v (int_val u) wide" by (metis surj_pair)
  have exact: "(int64_range (int_val v + int_val u) \<longrightarrow> is_int s \<and> int_val s = int_val v + int_val u)
    \<and> (\<not> int64_range (int_val v + int_val u) \<longrightarrow> ov = Some True)"
    using integer_sum_exact [OF is_int_integral [OF assms(1)] _ s] wide(2) by blast
  have "int64_range (int_val v + int_val u) \<Longrightarrow> ov \<noteq> Some True"
    using s by (auto simp: integer_sum_def split: if_splits)
  moreover have "BsonTypeIsNumber (value_type u)" "BsonValueIsNumberOrBool u" "value_type v \<noteq> BSON_TYPE_EOD"
    using assms by (auto simp: is_int_def BsonValueIsNumberOrBool_def BsonValueIsNumber_def)
  ultimately show ?thesis
    using exact wide(3) s [symmetric] by (intro exI [of _ s]) (auto simp: HandleUpdateDollarInc_def)
qed

lemma compare_decided:
  assumes "wf_value v" "wf_value w"
  shows "CompareBsonValueAndType E v w = Inr (order_of E v w, decided v w)"
proof (cases "rank v = rank w")
  case True
  then show ?thesis using compare_same_rank [OF assms True] by (simp add: decided_def)
next
  case False
  then have "CompareBsonSortOrderType v w \<noteq> 0" using same_rank by simp
  with False show ?thesis
    by (simp add: CompareBsonValueAndType_def decided_def order_of_def Let_def)
qed

lemma min_max_outcome:
  assumes "wf_value u" "wf_value v" "v \<noteq> BvEOD"
  shows "operator_outcome E w (HandleUpdateDollarMin E v (fresh_writer w) u c sv st)
      (Inr (if order_of E u v < 0 \<and> decided u v then ([u], True) else ([], False)))"
    "operator_outcome E w (HandleUpdateDollarMax E v (fresh_writer w) u c sv st)
      (Inr (if order_of E u v > 0 \<and> decided u v then ([u], True) else ([], False)))"
  using assms by (simp_all add: HandleUpdateDollarMin_def HandleUpdateDollarMax_def compare_decided)

end

section \<open>\<open>$addToSet\<close>, \<open>$pullAll\<close>, \<open>$pull\<close> and \<open>$pop\<close>\<close>

definition same_value :: "extern \<Rightarrow> bson_value \<Rightarrow> bson_value \<Rightarrow> bool" where
  "same_value E a b \<longleftrightarrow> order_of E a b = 0"

text \<open>The values \<open>$addToSet\<close> appends: those that equal no element, each once.\<close>

fun new_values :: "extern \<Rightarrow> bson_value list \<Rightarrow> bson_value list \<Rightarrow> bson_value list" where
  "new_values E existing [] = []"
| "new_values E existing (v # vs) =
     (if list_ex (\<lambda>x. same_value E x v) existing then new_values E existing vs
      else v # new_values E (existing @ [v]) vs)"

context update_code
begin

lemma any_equal_spec:
  "\<forall>x \<in> set xs. wf_value x \<Longrightarrow> wf_value v \<Longrightarrow> any_equal E xs v = Inr (list_ex (\<lambda>x. same_value E x v) xs)"
  by (induction xs) (simp_all add: equals_order same_value_def)

lemma add_each_array:
  "\<forall>x \<in> set ex. wf_value x \<Longrightarrow> \<forall>x \<in> snd ` set d. wf_value x \<Longrightarrow>
     add_each E ex d (array_of E vs m)
       = Inr (array_of E (vs @ new_values E ex (map snd d)) (m \<or> new_values E ex (map snd d) \<noteq> []))"
proof (induction d arbitrary: ex vs m)
  case (Cons e d)
  then show ?case by (cases e) (simp add: any_equal_spec)
qed simp

lemma pull_all_found_spec:
  "wf_value v \<Longrightarrow> \<forall>x \<in> snd ` set ps. wf_value x \<Longrightarrow>
     pull_all_found E v ps = Inr (list_ex (\<lambda>p. same_value E v p) (map snd ps))"
  by (induction ps) (auto simp: equals_order same_value_def)

lemma pull_all_array:
  "\<forall>x \<in> snd ` set d. wf_value x \<Longrightarrow> \<forall>x \<in> snd ` set ps. wf_value x \<Longrightarrow>
     pull_all_loop E ps d (array_of E vs m)
       = Inr (array_of E (vs @ filter (\<lambda>x. \<not> list_ex (\<lambda>p. same_value E x p) (map snd ps)) (map snd d))
           (m \<or> list_ex (\<lambda>x. list_ex (\<lambda>p. same_value E x p) (map snd ps)) (map snd d)))"
proof (induction d arbitrary: vs m)
  case (Cons e d)
  then show ?case by (cases e) (auto simp: pull_all_found_spec)
qed simp

end

text \<open>The list of indices still to remove is that of the matching elements ahead.\<close>

lemma pull_loop_array:
  assumes "drop n idxs = map ((+) j) (filter (\<lambda>i. sel (d ! i)) [0 ..< length d])" "n \<le> length idxs"
    "n < length idxs \<Longrightarrow> cur = idxs ! n" "n = length idxs \<Longrightarrow> cur < j"
  shows "pull_loop E idxs n cur j d (array_of E vs m) =
    array_of E (vs @ map snd (filter (\<lambda>e. \<not> sel e) d)) (m \<or> list_ex sel d)"
  using assms
proof (induction d arbitrary: n cur j vs m)
  case (Cons e d)
  obtain k v where e: "e = (k, v)" by (cases e)
  let ?rest = "map ((+) (Suc j)) (filter (\<lambda>i. sel (d ! i)) [0 ..< length d])"
  have "[0 ..< length (e # d)] = 0 # map Suc [0 ..< length d]"
    by (simp add: map_Suc_upt upt_conv_Cons del: upt_Suc)
  then have pending: "drop n idxs = (if sel e then [j] else []) @ ?rest"
    using Cons.prems(1) by (simp add: filter_map comp_def del: upt_Suc)
  show ?case
  proof (cases "sel e")
    case True
    then have n: "n < length idxs" "idxs ! n = j" "drop (Suc n) idxs = ?rest"
      using pending by (cases "n < length idxs"; simp add: Cons_nth_drop_Suc [symmetric])+
    have "pull_loop E idxs (Suc n) (if Suc n < length idxs then idxs ! Suc n else j) (Suc j) d (array_of E vs True)
        = array_of E (vs @ map snd (filter (\<lambda>e. \<not> sel e) d)) (True \<or> list_ex sel d)"
      by (rule Cons.IH) (use n in auto)
    with True n Cons.prems(3) show ?thesis by (simp add: e Let_def)
  next
    case False
    then have rest: "drop n idxs = ?rest" using pending by simp
    have "cur \<noteq> j"
    proof (cases "n < length idxs")
      case True
      then have "idxs ! n \<in> set (drop n idxs)" by (simp add: Cons_nth_drop_Suc [symmetric])
      with rest Cons.prems(3) True show ?thesis by auto
    qed (use Cons.prems(2,4) in auto)
    moreover have "pull_loop E idxs n cur (Suc j) d (array_of E (vs @ [v]) m)
        = array_of E ((vs @ [v]) @ map snd (filter (\<lambda>e. \<not> sel e) d)) (m \<or> list_ex sel d)"
      by (rule Cons.IH) (use rest Cons.prems in auto)
    ultimately show ?thesis using False by (simp add: e)
  qed
qed simp

lemma map_plus_zero: "map ((+) (0 :: nat)) xs = xs"
  by (simp add: map_idI)

lemma pull_outcome:
  assumes "\<forall>e \<in> set d. returns (eval_pull_element (pull_evalState p) (\<not> pull_isValue p) e)"
  shows "operator_outcome E w (HandleUpdateDollarPull E (BvArray d) (fresh_writer w) u (ContextPull p) sv st)
    (Inr (if list_ex (selects (pull_evalState p) (\<not> pull_isValue p)) d
          then ([BvArray (array_doc E (map snd (filter (\<lambda>e. \<not> selects (pull_evalState p) (\<not> pull_isValue p) e) d)))], True)
          else ([], False)))"
proof -
  let ?sel = "selects (pull_evalState p) (\<not> pull_isValue p)"
  let ?is = "filter (\<lambda>n. ?sel (d ! n)) [0 ..< length d]"
  have idx: "EvalExpressionAgainstArrayGetAllMatchingIndices (pull_evalState p) (BvArray d) (\<not> pull_isValue p) = Inr ?is"
    using matching_indices_spec [OF assms, of 0] by (simp add: EvalExpressionAgainstArrayGetAllMatchingIndices_def)
  have empty: "?is = [] \<longleftrightarrow> \<not> list_ex ?sel d"
    by (auto simp: filter_empty_conv list_ex_length)
  have "pull_loop E ?is 0 (?is ! 0) 0 d (array_of E [] False) =
      array_of E ([] @ map snd (filter (\<lambda>e. \<not> ?sel e) d)) (False \<or> list_ex ?sel d)" if "?is \<noteq> []"
    by (rule pull_loop_array) (use that in \<open>auto simp: map_plus_zero\<close>)
  then show ?thesis
    using idx empty by (auto simp: HandleUpdateDollarPull_def array_of_start [where E = E])
qed

lemma pop_outcome:
  assumes "BsonTypeIsNumber (value_type u)" "BsonValueAsDouble E u = Inr x" "dbl_x x = XFin (of_int i)"
    "i = 1 \<or> i = - 1"
  shows "operator_outcome E w (HandleUpdateDollarPop E (BvArray d) (fresh_writer w) u c sv st)
    (Inr ([BvArray (array_doc E (if i = 1 then butlast (map snd d) else tl (map snd d)))], d \<noteq> []))"
proof -
  have "dbl_is_floor x" using assms(3) by (simp add: dbl_is_floor_def)
  moreover have "sint (x_to_int32 trunc_rat (dbl_x x)) = i"
    using assms(3,4) by (auto simp: x_to_int32_def trunc_rat_def)
  ultimately show ?thesis
    using assms by (cases d) (auto simp: HandleUpdateDollarPop_def Let_def array_of_start [where E = E])
qed

lemma empty_document [simp]: "IsBsonValueEmptyDocument (BvDocument d) \<longleftrightarrow> d = []"
  by (cases d) (auto simp: IsBsonValueEmptyDocument_def)

lemma value_type_Array: "value_type v = BSON_TYPE_ARRAY \<longleftrightarrow> (\<exists>d. v = BvArray d)"
  by (cases v) simp_all

text \<open>The values an \<open>$addToSet\<close> asks to add: those of \<open>$each\<close>, or the value itself.\<close>

definition to_add :: "bson_value \<Rightarrow> bson_value list" where
  "to_add u = (case u of BvDocument ((k, BvArray d) # _) \<Rightarrow> if strcmp k ''$each'' = 0 then map snd d else [u] | _ \<Rightarrow> [u])"

definition valid_add :: "bson_value \<Rightarrow> bool" where
  "valid_add u \<longleftrightarrow>
     (case u of BvDocument ((k, v) # _) \<Rightarrow> strcmp k ''$each'' = 0 \<longrightarrow> value_type v = BSON_TYPE_ARRAY | _ \<Rightarrow> True)"

context update_code
begin

lemma wf_doc_values: "wf_doc d \<Longrightarrow> \<forall>x \<in> snd ` set d. wf_value x"
  by (auto simp: wf_doc_iff)

lemma pull_all_outcome:
  assumes "wf_doc d" "wf_doc ps"
  shows "operator_outcome E w (HandleUpdateDollarPullAll E (BvArray d) (fresh_writer w) (BvArray ps) c sv st)
    (Inr ([BvArray (array_doc E (filter (\<lambda>x. \<not> list_ex (same_value E x) (map snd ps)) (map snd d)))],
          list_ex (\<lambda>x. list_ex (same_value E x) (map snd ps)) (map snd d)))"
  using pull_all_array [OF wf_doc_values [OF assms(1)] wf_doc_values [OF assms(2)], of "[]" False]
  by (simp add: HandleUpdateDollarPullAll_def array_of_start [where E = E])

lemma AddToSetWriteFinalArray_outcome:
  assumes "ex = BvEOD \<and> xs = [] \<or> (\<exists>d. ex = BvArray d \<and> wf_doc d \<and> xs = map snd d)"
    and "wf_value new" and "isEach \<longrightarrow> (\<exists>n. new = BvArray n)"
    and "vs = (if isEach then (case new of BvArray n \<Rightarrow> map snd n | _ \<Rightarrow> []) else [new])"
  shows "operator_outcome E w (AddToSetWriteFinalArray E (fresh_writer w) ex new isEach)
    (Inr ([BvArray (array_doc E (xs @ new_values E xs vs))], new_values E xs vs \<noteq> []))"
proof -
  obtain d where d: "(if value_type ex \<noteq> BSON_TYPE_EOD then v_doc ex else Inr []) = Inr d" "xs = map snd d" "wf_doc d"
    using assms(1) by (auto simp: v_doc_def)
  have wf: "\<forall>x \<in> set xs. wf_value x" using wf_doc_values [OF d(3)] d(2) by auto
  show ?thesis
  proof (cases isEach)
    case True
    then obtain n where n: "new = BvArray n" using assms(3) by blast
    then have "\<forall>x \<in> snd ` set n. wf_value x" using assms(2) wf_doc_values by simp
    then show ?thesis
      using True n d assms(4) add_each_array [OF wf, of n xs False]
      by (simp add: AddToSetWriteFinalArray_def array_of_start [where E = E] v_doc_def)
  next
    case False
    then show ?thesis
      using d assms(2,4) any_equal_spec [OF wf assms(2)]
      by (simp add: AddToSetWriteFinalArray_def array_of_start [where E = E])
  qed
qed

lemma add_to_set_outcome:
  assumes "ex = BvEOD \<and> xs = [] \<or> (\<exists>d. ex = BvArray d \<and> wf_doc d \<and> xs = map snd d)"
    and "wf_value u" "valid_add u"
  shows "operator_outcome E w (HandleUpdateDollarAddToSet E ex (fresh_writer w) u c sv st)
    (Inr ([BvArray (array_doc E (xs @ new_values E xs (to_add u)))], new_values E xs (to_add u) \<noteq> []))"
proof -
  have ex: "\<not> (value_type ex \<noteq> BSON_TYPE_EOD \<and> value_type ex \<noteq> BSON_TYPE_ARRAY)" using assms(1) by auto
  show ?thesis
  proof (cases "\<exists>k d rest. u = BvDocument ((k, BvArray d) # rest) \<and> strcmp k ''$each'' = 0")
    case True
    then obtain k d rest where u: "u = BvDocument ((k, BvArray d) # rest)" "strcmp k ''$each'' = 0" by blast
    have "operator_outcome E w (AddToSetWriteFinalArray E (fresh_writer w) ex (BvArray d) True)
      (Inr ([BvArray (array_doc E (xs @ new_values E xs (map snd d)))], new_values E xs (map snd d) \<noteq> []))"
      by (rule AddToSetWriteFinalArray_outcome [OF assms(1)]) (use u assms(2) in auto)
    then show ?thesis
      using u ex by (auto simp: HandleUpdateDollarAddToSet_def ValidateAddToSetWithDollarEach_def to_add_def
          TryGetBsonValueToPgbsonElement_def v_doc_def BsonIterToPgbsonElement_def)
  next
    case False
    then have each: "(if value_type u = BSON_TYPE_DOCUMENT \<and> \<not> IsBsonValueEmptyDocument u
        then ValidateAddToSetWithDollarEach u else Inr None) = Inr None" "to_add u = [u]"
      using assms(3) by (auto simp: ValidateAddToSetWithDollarEach_def TryGetBsonValueToPgbsonElement_def v_doc_def
          BsonIterToPgbsonElement_def valid_add_def to_add_def value_type_Array split: bson_value.splits list.splits)
    have "operator_outcome E w (AddToSetWriteFinalArray E (fresh_writer w) ex u False)
      (Inr ([BvArray (array_doc E (xs @ new_values E xs [u]))], new_values E xs [u] \<noteq> []))"
      by (rule AddToSetWriteFinalArray_outcome [OF assms(1,2)]) auto
    then show ?thesis using each ex by (auto simp: HandleUpdateDollarAddToSet_def)
  qed
qed

end

section \<open>\<open>$push\<close>\<close>

text \<open>
  \<open>push_insert\<close> places the new values at a position of the old ones, counted from the end when it is
  negative; \<open>push_window\<close> keeps the first or the last elements.
\<close>

definition push_insert :: "int \<Rightarrow> 'a list \<Rightarrow> 'a list \<Rightarrow> 'a list" where
  "push_insert p xs es =
     (let n = (if p < 0 then nat (int (length xs) + p) else nat p) in take n xs @ es @ drop n xs)"

definition push_window :: "int \<Rightarrow> 'a list \<Rightarrow> 'a list" where
  "push_window s ys = (if s < 0 then drop (length ys - nat (- s)) ys else take (nat s) ys)"

lemma length_push_insert [simp]: "length (push_insert p xs es) = length xs + length es"
  by (simp add: push_insert_def Let_def)

lemma push_elements_spec: "push_elements i d = (number_elements i (map snd d), i + of_nat (length d))"
  by (induction i d rule: push_elements.induct) (simp_all add: algebra_simps)

lemma push_prefix_spec:
  assumes "unat i + length d < 2 ^ 32"
  shows "push_prefix i n d =
    (let m = min (length d) (unat n - unat i)
     in (number_elements i (map snd (take m d)), i + of_nat m, drop m d))"
  using assms
proof (induction i n d rule: push_prefix.induct)
  case (2 i n k v es)
  show ?case
  proof (cases "i < n")
    case True
    have s: "unat (i + 1) = unat i + 1" using 2(2) by (simp add: unat_word_ariths)
    have lt: "unat i < unat n" using True by (simp add: word_less_nat_alt)
    then have "min (length ((k, v) # es)) (unat n - unat i) = Suc (min (length es) (unat n - unat (i + 1)))"
      by (simp add: s Suc_diff_Suc)
    with True 2 s show ?thesis by (simp add: Let_def algebra_simps)
  next
    case False
    then have "unat n - unat i = 0" by (simp add: word_less_nat_alt)
    with False show ?thesis by (simp add: Let_def)
  qed
qed (simp add: Let_def)

lemma sint_of_nat64: "n < 2 ^ 63 \<Longrightarrow> sint (of_nat n :: int64) = int n"
  using sint_of_int64 [of "int n"] by simp

lemma sint_diff_int64:
  assumes "n < 2 ^ 62" "\<bar>sint i\<bar> < 2 ^ 62"
  shows "sint (of_nat n - i :: int64) = int n - sint i"
  using sint_of_int64 [of "int n - sint i"] assms by simp

lemma through_uint32:
  assumes "n < 2 ^ 31"
  shows "of_int (uint (of_int (sint (of_nat n :: int64)) :: uint32)) = (of_nat n :: int64)"
proof -
  have "sint (of_nat n :: int64) = int n" using assms by (simp add: sint_of_nat64)
  moreover have "uint (of_nat n :: uint32) = int n" using assms by (simp add: unsigned_of_nat take_bit_eq_mod)
  ultimately show ?thesis by simp
qed

text \<open>The array before the sort: the new values are placed where \<open>push_insert\<close> puts them.\<close>

lemma push_placed:
  assumes "length d + length each < 2 ^ 31" "\<bar>sint (p :: int64)\<bar> < 2 ^ 32"
    "(els1, i1, rest) = push_prefix 0 (of_int (sint (push_position p (of_nat (length d))))) d"
    "(els2, i2) = push_elements i1 each" "(els3, i3) = push_elements i2 rest"
  shows "els1 @ els2 @ els3 = number_elements 0 (push_insert (sint p) (map snd d) (map snd each))"
proof -
  define n where "n = (if sint p < 0 then nat (int (length d) + sint p) else nat (sint p))"
  let ?q = "push_position p (of_nat (length d))"
  have q: "sint ?q = int n"
    using assms(1,2) sint_diff_int64 [of "length d" "- p"] sint_minus_int64 [of p]
    by (auto simp: push_position_def Let_def sint_of_nat64 n_def)
  have "unat (of_int (int n) :: uint32) = n"
    using assms(1,2) by (simp add: unsigned_of_nat take_bit_eq_mod nat_less_iff n_def)
  then have "push_prefix 0 (of_int (sint ?q)) d
      = (number_elements 0 (map snd (take n d)), of_nat (min (length d) n), drop n d)"
    using push_prefix_spec [of 0 d "of_int (sint ?q)"] assms(1) by (simp add: q Let_def min_def)
  moreover have "push_insert (sint p) (map snd d) (map snd each) = map snd (take n d) @ map snd each @ map snd (drop n d)"
    by (simp add: push_insert_def n_def take_map drop_map Let_def)
  ultimately show ?thesis
    using assms(3-5) by (simp add: push_elements_spec number_elements_append)
qed

lemma stably_sorted_length: "stably_sorted c xs ys \<Longrightarrow> length ys = length xs"
  unfolding stably_sorted_def by (metis size_mset)

context update_code
begin

lemma nat_plus_as_diff: "i < 0 \<Longrightarrow> nat (i + int n) = n - nat (- i)"
  by simp

lemma push_window_slice:
  assumes "length els < 2 ^ 32" "sint s \<noteq> INT64_MIN"
  shows "push_slice els
    (if sint s < 0 then if sint (- s) > int (length els) then 0 else of_nat (length els) + s else 0)
    (if sint s < 0 then of_nat (length els) else if sint s > int (length els) then of_nat (length els) else s)
      = Inr (push_window (sint s) (map element_value els))"
proof -
  have len: "sint (of_nat (length els) :: int64) = int (length els)" using assms(1) by (simp add: sint_of_nat64)
  have m: "sint (- s) = - sint s" using sint_minus_int64 assms(2) by simp
  have "sint (of_nat (length els) + s) = int (length els) + sint s" if "sint s < 0" "- sint s \<le> int (length els)"
    using sint_diff_int64 [of "length els" "- s"] assms(1) m that by simp
  then show ?thesis
    using len m by (auto simp: push_slice_def push_window_def take_map drop_map nat_diff_distrib' algebra_simps nat_plus_as_diff)
qed

lemma push_outcome:
  assumes "ValidateUpdateSpecAndSetPushUpdateState E u = Inr ps" "modifiersExist ps"
    "dollarEachArray ps = BvArray each" "dollarEachElementCount ps = of_nat (length each)"
    "ex = BvEOD \<and> d = [] \<or> ex = BvArray d" "wf_doc d" "wf_doc each" "length d + length each < 2 ^ 31"
    "\<bar>sint (position ps)\<bar> < 2 ^ 32" "sint (slice ps) \<noteq> INT64_MIN" "wf_sort (sortContext ps)"
  obtains ys where
    "if sortType (sortContext ps) = SortType_No_Sort
     then ys = push_insert (sint (position ps)) (map snd d) (map snd each)
     else stably_sorted (sort_order E W (sortContext ps)) (push_insert (sint (position ps)) (map snd d) (map snd each)) ys"
    "operator_outcome E w (HandleUpdateDollarPush E W ex (fresh_writer w) u c sv st)
       (Inr ([BvArray (array_doc E (push_window (sint (slice ps)) ys))], push_window (sint (slice ps)) ys \<noteq> []))"
proof -
  let ?vs = "push_insert (sint (position ps)) (map snd d) (map snd each)"
  have wf: "\<forall>v \<in> set ?vs. wf_value v"
    using wf_doc_values [OF assms(6)] wf_doc_values [OF assms(7)]
    by (auto simp: push_insert_def Let_def dest!: in_set_takeD in_set_dropD)
  obtain els where els: "(if sortType (sortContext ps) \<noteq> SortType_No_Sort
      then qsort_arg W (CompareBsonValuesForSort E W (sortContext ps)) (number_elements 0 ?vs)
      else Inr (number_elements 0 ?vs)) = Inr els"
    "if sortType (sortContext ps) = SortType_No_Sort then map element_value els = ?vs
     else stably_sorted (sort_order E W (sortContext ps)) ?vs (map element_value els)"
  proof (cases "sortType (sortContext ps) = SortType_No_Sort")
    case False
    then show ?thesis using that sort_elements_stable [OF assms(11) wf] assms(8) by fastforce
  qed (use that in auto)
  have "length (map element_value els) = length ?vs"
    using els(2) stably_sorted_length by (metis (no_types, lifting))
  then have len: "length els = length d + length each" by simp
  obtain els1 i1 rest els2 i2 els3 i3 where parts:
    "(els1, i1, rest) = push_prefix 0 (of_int (sint (push_position (position ps) (of_nat (length d))))) d"
    "(els2, i2) = push_elements i1 each" "(els3, i3) = push_elements i2 rest"
    by (metis surj_pair)
  note placed = push_placed [OF assms(8,9) parts]
  note sorted = els(1) [folded placed]
  obtain st' where "ApplyDollarPushModifiers E W (BvArray d) ps (of_nat (length els)) = Inr (els, st')"
    "push_slice els (sliceStart st') (sliceEnd st') = Inr (push_window (sint (slice ps)) (map element_value els))"
    using push_window_slice [of els "slice ps"] assms(3,4,8,10) len parts [symmetric]
    by (cases "sint (slice ps) < 0")
      (auto simp: ApplyDollarPushModifiers_def Let_def sorted sint_of_nat64 [of "length d + length each", simplified] cong: if_cong)
  moreover have "of_int (uint (of_int (sint (of_nat (length d) + of_nat (length each) :: int64)) :: uint32)) = (of_nat (length els) :: int64)"
    using through_uint32 [of "length els"] assms(8) len by simp
  ultimately show ?thesis
    using that [of "map element_value els"] els(2) assms(1-5)
    by (auto simp: HandleUpdateDollarPush_def Let_def array_of_start [where E = E] BsonDocumentValueCountKeys_def)
qed

end

end
