(* ===== verification/Update_Frame.thy ===== *)
theory Update_Frame
  imports Update_Operator_Spec
begin

text \<open>
  What an update leaves alone.  Every operator writes only to the field it is given
  (\<open>operators_write_field\<close>), so every field of the document that no path of the update starts with keeps
  its value and its place among the others (\<open>update_frame\<close>); and the document that
  \<open>ProcessUpdateOperatorWithState\<close> returns has the \<open>_id\<close> it had.
\<close>

section \<open>Operators write to their field\<close>

definition only_writes :: "extern \<Rightarrow> pgbson_element_writer \<Rightarrow> UpdateOperatorWriter result \<Rightarrow> bool" where
  "only_writes E w r \<longleftrightarrow> (\<forall>u. r = Inr u \<longrightarrow> (\<exists>vs. element_writer u = writes E w vs))"

named_theorems only_write

lemma only_writes_basic [only_write]:
  "only_writes E w (Inl e)"
  "only_writes E w (Inr (fresh_writer w))"
  "only_writes E w (Inr (UpdateWriterWriteModifiedValue E (fresh_writer w) v))"
  "only_writes E w (Inr (UpdateWriterSkipValue (fresh_writer w)))"
  "only_writes E w (Inr (UpdateArrayWriterFinalize E (fresh_writer w) a))"
  "only_writes E w (raise_naming c t)"
  by (auto simp: only_writes_def raise_naming_def ebind_Inr_iff UpdateArrayWriterFinalize_def end_is_write
      intro: exI [of _ "[]"] exI [of _ "[v]" for v] split: if_splits)

lemma only_writes_bind [only_write]:
  "(\<And>x. r = Inr x \<Longrightarrow> only_writes E w (f x)) \<Longrightarrow> only_writes E w (ebind r f)"
  by (cases r) (simp_all add: only_writes_def)

lemma only_writes_if [only_write]:
  "(b \<Longrightarrow> only_writes E w r) \<Longrightarrow> (\<not> b \<Longrightarrow> only_writes E w r') \<Longrightarrow> only_writes E w (if b then r else r')"
  by simp

lemma only_writes_if_Inr [only_write]:
  "only_writes E w (Inr x) \<Longrightarrow> only_writes E w (Inr y) \<Longrightarrow> only_writes E w (Inr (if b then x else y))"
  by simp

lemma only_writes_prod [only_write]:
  "(\<And>x y. p = (x, y) \<Longrightarrow> only_writes E w (f x y)) \<Longrightarrow> only_writes E w (case p of (x, y) \<Rightarrow> f x y)"
  by (cases p) simp

lemma only_writes_option [only_write]:
  "only_writes E w r \<Longrightarrow> (\<And>x. p = Some x \<Longrightarrow> only_writes E w (f x)) \<Longrightarrow>
     only_writes E w (case p of None \<Rightarrow> r | Some x \<Rightarrow> f x)"
  by (cases p) simp_all

lemma set_writes [only_write]: "only_writes E w (write_func E W S WriteDollarSet v (fresh_writer w) u c sv st)"
  unfolding write_func.simps HandleUpdateDollarSet_def Let_def
  by (auto intro!: only_write split: bson_value.split list.split update_node_context.split)

lemma setoninsert_writes [only_write]: "only_writes E w (write_func E W S WriteDollarSetOnInsert v (fresh_writer w) u c sv st)"
  unfolding write_func.simps HandleUpdateDollarSetOnInsert_def Let_def
  by (auto intro!: only_write split: bson_value.split list.split update_node_context.split)

lemma unset_writes [only_write]: "only_writes E w (write_func E W S WriteDollarUnset v (fresh_writer w) u c sv st)"
  unfolding write_func.simps HandleUpdateDollarUnset_def Let_def
  by (auto intro!: only_write split: bson_value.split list.split update_node_context.split)

lemma inc_writes [only_write]: "only_writes E w (write_func E W S WriteDollarInc v (fresh_writer w) u c sv st)"
  unfolding write_func.simps HandleUpdateDollarInc_def Let_def
  by (auto intro!: only_write split: bson_value.split list.split update_node_context.split)

lemma min_writes [only_write]: "only_writes E w (write_func E W S WriteDollarMin v (fresh_writer w) u c sv st)"
  unfolding write_func.simps HandleUpdateDollarMin_def Let_def
  by (auto intro!: only_write split: bson_value.split list.split update_node_context.split)

lemma max_writes [only_write]: "only_writes E w (write_func E W S WriteDollarMax v (fresh_writer w) u c sv st)"
  unfolding write_func.simps HandleUpdateDollarMax_def Let_def
  by (auto intro!: only_write split: bson_value.split list.split update_node_context.split)

lemma bit_writes [only_write]: "only_writes E w (write_func E W S WriteDollarBit v (fresh_writer w) u c sv st)"
  unfolding write_func.simps HandleUpdateDollarBit_def Let_def
  by (auto intro!: only_write split: bson_value.split list.split update_node_context.split)

lemma mul_writes [only_write]: "only_writes E w (write_func E W S WriteDollarMul v (fresh_writer w) u c sv st)"
  unfolding write_func.simps HandleUpdateDollarMul_def Let_def
  by (auto intro!: only_write split: bson_value.split list.split update_node_context.split)

lemma currentdate_writes [only_write]: "only_writes E w (write_func E W S WriteDollarCurrentDate v (fresh_writer w) u c sv st)"
  unfolding write_func.simps HandleUpdateDollarCurrentDate_def Let_def
  by (auto intro!: only_write split: bson_value.split list.split update_node_context.split)

lemma rename_writes [only_write]: "only_writes E w (write_func E W S WriteDollarRename v (fresh_writer w) u c sv st)"
  unfolding write_func.simps HandleUpdateDollarRename_def Let_def
  by (auto intro!: only_write split: bson_value.split list.split update_node_context.split)

lemma renamesource_writes [only_write]: "only_writes E w (write_func E W S WriteDollarRenameSource v (fresh_writer w) u c sv st)"
  unfolding write_func.simps HandleUpdateDollarRenameSource_def HandleUpdateDollarUnset_def Let_def
  by (auto intro!: only_write split: bson_value.split list.split update_node_context.split)

lemma pull_writes [only_write]: "only_writes E w (write_func E W S WriteDollarPull v (fresh_writer w) u c sv st)"
  unfolding write_func.simps HandleUpdateDollarPull_def Let_def
  by (auto intro!: only_write split: bson_value.split list.split update_node_context.split)

lemma addtoset_writes [only_write]: "only_writes E w (write_func E W S WriteDollarAddToSet v (fresh_writer w) u c sv st)"
  unfolding write_func.simps HandleUpdateDollarAddToSet_def AddToSetWriteFinalArray_def Let_def
  by (auto intro!: only_write split: bson_value.split list.split update_node_context.split)

lemma pullall_writes [only_write]: "only_writes E w (write_func E W S WriteDollarPullAll v (fresh_writer w) u c sv st)"
  unfolding write_func.simps HandleUpdateDollarPullAll_def Let_def
  by (auto intro!: only_write split: bson_value.split list.split update_node_context.split)

lemma pop_writes [only_write]: "only_writes E w (write_func E W S WriteDollarPop v (fresh_writer w) u c sv st)"
  unfolding write_func.simps HandleUpdateDollarPop_def Let_def
  by (cases v) (auto intro!: only_write split: bson_value.split list.split update_node_context.split)

lemma push_writes [only_write]: "only_writes E w (write_func E W S WriteDollarPush v (fresh_writer w) u c sv st)"
  unfolding write_func.simps HandleUpdateDollarPush_def Let_def
  by (auto intro!: only_write split: bson_value.split list.split update_node_context.split)

lemma operators_write_field: "only_writes E w (write_func E W S f v (fresh_writer w) u c sv st)"
  by (cases f) (simp_all only: only_write)

section \<open>Fields outside the update\<close>

definition outside :: "string set \<Rightarrow> bson_doc \<Rightarrow> bson_doc" where
  "outside names d = filter (\<lambda>e. fst e \<notin> names) d"

lemma outside_simps [simp]:
  "outside names [] = []" "outside names (d @ d') = outside names d @ outside names d'"
  "outside names (e # d) = (if fst e \<in> names then outside names d else e # outside names d)"
  "k \<in> names \<Longrightarrow> outside names (map (Pair k) vs) = []"
  by (simp_all add: outside_def comp_def)

lemma view_equals: "c_string a \<Longrightarrow> c_string b \<Longrightarrow> StringViewEquals (Some (view_of a)) (Some (view_of b)) \<longleftrightarrow> a = b"
  by (auto simp: StringViewEquals_def sv_buf_def strncmp_def cstr_c_string)

abbreviation fields_of :: "update_node list \<Rightarrow> string set" where
  "fields_of cs \<equiv> node_field ` set cs"

lemma match_is_named:
  assumes "IsNodeMatchForIteratorPath E S node k False st v = Inr (True, st')" "c_string k" "c_string (node_field node)"
  shows "k = node_field node"
  using assms by (auto simp: IsNodeMatchForIteratorPath_def ebind_Inr_iff view_equals split: PositionalData.splits if_splits)

lemma matching_child_named:
  assumes "matching_child E S i cs k False st v = Inr (Some (j, c), st')" "c_string k" "\<forall>n \<in> fields_of cs. c_string n"
  shows "k \<in> fields_of cs"
  using assms
  by (induction E S i cs k "False" st v rule: matching_child.induct)
     (auto simp: ebind_Inr_iff dest: match_is_named split: if_splits)

lemma WriteCurrentNode_writes:
  assumes "WriteCurrentNode E W S fd leaf v w st a aa k = Inr (w', m)"
  shows "\<exists>vs. w' = writes E w vs"
proof -
  obtain f u where u: "write_func E W S f v (fresh_writer w) (case fd of None \<Rightarrow> BvEOD | Some v \<Rightarrow> v) (updateNodeContext leaf)
           \<lparr> fieldPath = k, relativePath = leaf_relativePath leaf, isArray = a, hasArrayAncestors = aa \<rparr> st = Inr u"
    "w' = element_writer u \<or> w' = PgbsonElementWriterWriteValue E (element_writer u) v"
    using assms by (auto simp: WriteCurrentNode_def ebind_Inr_iff split: option.splits if_splits)
  obtain vs where "element_writer u = writes E w vs"
    using operators_write_field u(1) unfolding only_writes_def by blast
  with u(2) have "w' = writes E w vs \<or> w' = writes E w (vs @ [v])" by (simp add: writes_def)
  then show ?thesis by blast
qed

lemma position_writes:
  assumes "HandleCurrentIteratorPosition E W S k v tree w st a aa = Inr (w', child, m, st')"
  shows "(\<exists>vs. w' = writes E w vs) \<and> (child = None \<longrightarrow> w' = writes E w [v])
    \<and> (child \<noteq> None \<longrightarrow> (\<exists>j c st''. matching_child E S 0 (node_children tree) k a st v = Inr (Some (j, c), st'')))"
proof -
  note step = assms [unfolded HandleCurrentIteratorPosition.simps]
  obtain match st1 where mc: "matching_child E S 0 (node_children tree) k a st v = Inr (match, st1)"
    using step by (auto simp: ebind_Inr_iff)
  have one: "\<exists>vs. PgbsonElementWriterWriteValue E w x = writes E w vs" for x by (rule exI [of _ "[x]"]) simp
  show ?thesis
  proof (cases match)
    case None
    with step mc show ?thesis by (auto intro: exI [of _ "[v]"])
  next
    case (Some p)
    obtain i c where p: "p = (i, c)" by (cases p)
    have "child \<noteq> None \<and> (\<exists>vs. w' = writes E w vs)"
    proof (cases c)
      case (BsonLeafPathNode t f fd leaf)
      with step mc Some p show ?thesis
        by (auto simp: write_matched_leaf_def ebind_Inr_iff dest!: WriteCurrentNode_writes split: if_splits)
    next
      case (BsonIntermediatePathNode f h d cs)
      with step mc Some p one show ?thesis
        by (auto simp: end_is_write intermediate_on_scalar_def ebind_Inr_iff split: option.splits if_splits)
    qed
    with mc Some p show ?thesis by auto
  qed
qed

lemma cstr_id: "cstr ''_id'' = ''_id''"
  by (simp add: cstr_def byte_val_def)

lemma document_fields_frame:
  assumes "document_fields E W S d w tree isRoot st aa handled m = Inr (w', handled', m', st')"
    "\<forall>k \<in> fst ` set d. c_string k" "\<forall>n \<in> fields_of (node_children tree). c_string n"
    "fields_of (node_children tree) \<subseteq> names" "isRoot \<Longrightarrow> ''_id'' \<in> names"
  shows "outside names w' = outside names w @ outside names d"
  using assms
proof (induction d arbitrary: w st handled m)
  case (Cons e d)
  obtain k v where e: "e = (k, v)" by (cases e)
  have k: "c_string k" "cstr k = k" using Cons.prems(2) e by (simp_all add: cstr_c_string)
  show ?case
  proof (cases "isRoot \<and> k = ''_id''")
    case True
    then have "strcmp k ''_id'' = 0" by (simp add: strcmp_cstr)
    with True Cons.prems(1) e have "document_fields E W S d w tree isRoot st aa handled m = Inr (w', handled', m', st')"
      by simp
    from Cons.IH [OF this _ Cons.prems(3-5)] Cons.prems(2,5) True e show ?thesis by simp
  next
    case False
    then have "\<not> (isRoot \<and> strcmp k ''_id'' = 0)" using k by (simp add: strcmp_cstr cstr_id)
    note step = Cons.prems(1) [unfolded e document_fields.simps if_not_P [OF this]]
    obtain ew child fm st1 where pos:
      "HandleCurrentIteratorPosition E W S k v tree (PgbsonInitObjectElementWriter w k) st False aa = Inr (ew, child, fm, st1)"
      using step by (auto simp: ebind_Inr_iff)
    have rest: "document_fields E W S d (element_doc ew) tree isRoot st1 aa
         (case child of None \<Rightarrow> handled | Some i \<Rightarrow> i # handled) (m \<or> fm) = Inr (w', handled', m', st')"
      using step by (simp add: pos)
    have "outside names w' = outside names (element_doc ew) @ outside names d"
      using Cons.prems(2) by (intro Cons.IH [OF rest _ Cons.prems(3-5)]) simp_all
    moreover have "outside names (element_doc ew) = outside names w @ outside names [(k, v)]"
    proof (cases child)
      case None
      then show ?thesis
        using position_writes [OF pos] by (simp add: PgbsonInitObjectElementWriter_def PgbsonWriterAppendValue_def)
    next
      case (Some i)
      then obtain j c st2 vs where
        mc: "matching_child E S 0 (node_children tree) k False st v = Inr (Some (j, c), st2)" and
        ew: "ew = writes E (PgbsonInitObjectElementWriter w k) vs"
        using position_writes [OF pos] by auto
      have "k \<in> names" using matching_child_named [OF mc k(1) Cons.prems(3)] Cons.prems(4) by (rule set_rev_mp)
      then show ?thesis by (simp add: ew writes_object PgbsonInitObjectElementWriter_def)
    qed
    ultimately show ?thesis by (simp add: e)
  qed
qed simp

lemma unresolved_frame:
  assumes "unresolved_children E W S cs i handled w isRoot st aa m = Inr (w', m')" "fields_of cs \<subseteq> names"
  shows "outside names w' = outside names w"
  using assms
proof (induction cs arbitrary: i w m)
  case (Cons c cs)
  have leaf: "outside names (element_doc ew) = outside names w" 
    if "WriteCurrentNode E W S fd l x (PgbsonInitObjectElementWriter w f) st a aa k = Inr (ew, m'')" "f \<in> names"
    for fd l x f a aa k ew m''
    using WriteCurrentNode_writes [OF that(1)] that(2) by (auto simp: writes_object PgbsonInitObjectElementWriter_def)
  show ?case
  proof (cases c)
    case (BsonLeafPathNode t f v l)
    with Cons show ?thesis by (auto simp: ebind_Inr_iff leaf split: if_splits)
  next
    case (BsonIntermediatePathNode f h d ds)
    with Cons show ?thesis
      by (auto simp: ebind_Inr_iff PgbsonWriterEndDocument_def PgbsonWriterAppendValue_def split: if_splits)
  qed
qed simp

lemma id_written:
  assumes "HandleUpdateDocumentId E W S w tree st = Inr (w', m)"
  shows "\<exists>vs. w' = w @ map (Pair ''_id'') vs"
  using assms
  by (auto simp: HandleUpdateDocumentId_def Let_def ebind_Inr_iff PgbsonInitObjectElementWriter_def
      PgbsonWriterAppendValue_def writes_object dest!: WriteCurrentNode_writes
      split: option.splits BsonPathNode.splits if_splits intro: exI [of _ "[v]" for v])

lemma traverse_frame:
  assumes "TraverseDocumentAndApplyUpdate E W S d w tree isRoot st aa = Inr (w', m', st')"
    "\<forall>k \<in> fst ` set d. c_string k" "\<forall>n \<in> fields_of (node_children tree). c_string n"
    "fields_of (node_children tree) \<subseteq> names" "isRoot \<Longrightarrow> ''_id'' \<in> names"
  shows "outside names w' = outside names w @ outside names d"
proof -
  note step = assms(1) [unfolded TraverseDocumentAndApplyUpdate.simps]
  obtain w1 handled m1 st1 where
    fields: "document_fields E W S d w tree isRoot st aa [] False = Inr (w1, handled, m1, st1)"
    using step by (auto simp: ebind_Inr_iff)
  moreover obtain m2 where "HandleUnresolvedDocumentFields E W S tree handled w1 isRoot st1 aa = Inr (w', m2)"
    using step fields by (auto simp: ebind_Inr_iff)
  then have "outside names w' = outside names w1"
    using unresolved_frame assms(4)
    by (cases tree) (auto simp: HandleUnresolvedDocumentFields.simps split: if_splits)
  ultimately show ?thesis using document_fields_frame [OF fields assms(2-5)] by simp
qed

lemma update_frame:
  assumes "ProcessUpdateOperatorWithState E W S doc tree upsert = Inr (Some result)"
    "\<forall>k \<in> fst ` set doc. c_string k" "\<forall>n \<in> fields_of (node_children tree). c_string n"
    "fields_of (node_children tree) \<subseteq> names" "''_id'' \<in> names"
  shows "outside names result = outside names doc"
proof -
  let ?st = "\<lparr> documentId = id_value W doc, isUpsert = upsert, sourceDocument = doc,
    indexOfPositionalTypeQueryFilter = - 1 \<rparr>"
  note step = assms(1) [unfolded ProcessUpdateOperatorWithState_def Let_def]
  obtain w m where w: "HandleUpdateDocumentId E W S PgbsonWriterInit tree ?st = Inr (w, m)"
    using step by (auto simp: ebind_Inr_iff)
  obtain m' st' where "TraverseDocumentAndApplyUpdate E W S doc w tree True ?st False = Inr (result, m', st')"
    using step w by (auto simp: ebind_Inr_iff ThrowIdPathModifiedErrorForOperatorUpdate_def split: if_splits)
  with w show ?thesis
    using traverse_frame [of E W S doc w tree True ?st False result m' st' names]
      id_written [OF w] assms(2-5) by (auto simp: PgbsonWriterInit_def)
qed

section \<open>The identifier\<close>

text \<open>The traversal changes the state of the document only in the index of the positional operator.\<close>

abbreviation fixed_part :: "CurrentDocumentState \<Rightarrow> bson_value \<times> bool \<times> bson_doc" where
  "fixed_part st \<equiv> (documentId st, isUpsert st, sourceDocument st)"

lemma match_state:
  "IsNodeMatchForIteratorPath E S child k a st v = Inr (b, st1) \<Longrightarrow> fixed_part st1 = fixed_part st"
  by (auto simp: IsNodeMatchForIteratorPath_def ebind_Inr_iff split: PositionalData.splits if_splits)

lemma matching_child_state:
  "matching_child E S i cs k a st v = Inr (m, st') \<Longrightarrow> fixed_part st' = fixed_part st"
proof (induction cs arbitrary: i st)
  case (Cons child cs)
  obtain b st1 where m: "IsNodeMatchForIteratorPath E S child k a st v = Inr (b, st1)"
    using Cons.prems by (auto simp: ebind_Inr_iff)
  then have "fixed_part st' = fixed_part st1"
    using Cons.prems Cons.IH [of "i + 1" st1] by (cases b) simp_all
  then show ?case using match_state [OF m] by simp
qed simp

lemma traverse_state:
  "TraverseDocumentAndApplyUpdate E W S d w tree r st aa = Inr (w1, m1, st') \<Longrightarrow> fixed_part st' = fixed_part st"
  "document_fields E W S d w tree r st aa h m = Inr (w1, h1, m1, st') \<Longrightarrow> fixed_part st' = fixed_part st"
  "TraverseArrayAndApplyUpdate E W S d aw tree st = Inr (ew1, m1, st') \<Longrightarrow> fixed_part st' = fixed_part st"
  "array_elements E W S d ew tree st m = Inr (ew1, m1, st') \<Longrightarrow> fixed_part st' = fixed_part st"
  "HandleCurrentIteratorPosition E W S k v tree ew st a aa = Inr (ew1, c1, m1, st') \<Longrightarrow> fixed_part st' = fixed_part st"
proof (induction E W S d w tree r st aa and E W S d w tree r st aa h m and E W S d aw tree st
      and E W S d ew tree st m and E W S k v tree ew st a aa
    arbitrary: w1 m1 st' and w1 h1 m1 st' and ew1 m1 st' and ew1 m1 st' and ew1 c1 m1 st'
    rule: TraverseDocumentAndApplyUpdate_document_fields_TraverseArrayAndApplyUpdate_array_elements_HandleCurrentIteratorPosition.induct)
  case (1 E W S doc writer tree isRootLevel state arrayAncestors)
  then show ?case by (auto simp: TraverseDocumentAndApplyUpdate.simps ebind_Inr_iff)
next
  case 2
  then show ?case by simp
next
  case (3 E W S key v es writer tree isRootLevel state arrayAncestors handled modif)
  show ?case
  proof (cases "isRootLevel \<and> strcmp key ''_id'' = 0")
    case True
    then show ?thesis using 3(1,4) by simp
  next
    case False
    then obtain ew c fm st1 where pos: "HandleCurrentIteratorPosition E W S key v tree
        (PgbsonInitObjectElementWriter writer key) state False arrayAncestors = Inr (ew, c, fm, st1)"
      using 3(4) by (auto simp: ebind_Inr_iff)
    with False 3(4) have "document_fields E W S es (element_doc ew) tree isRootLevel st1 arrayAncestors
        (case c of None \<Rightarrow> handled | Some i \<Rightarrow> i # handled) (modif \<or> fm) = Inr (w1, h1, m1, st')"
      by (auto split: if_splits)
    then show ?thesis using 3(3) [OF False pos refl refl refl] 3(2) [OF False pos] by simp
  qed
next
  case (4 E W S doc writer tree state)
  then show ?case by (auto simp: TraverseArrayAndApplyUpdate.simps ebind_Inr_iff)
next
  case 5
  then show ?case by simp
next
  case (6 E W S key v es writer tree state modif)
  obtain ew c fm st1 where pos: "HandleCurrentIteratorPosition E W S key v tree writer state True True = Inr (ew, c, fm, st1)"
    using 6(3) by (auto simp: ebind_Inr_iff)
  with 6(3) have "array_elements E W S es ew tree st1 (modif \<or> fm) = Inr (ew1, m1, st')" by simp
  then show ?case using 6(1) [OF pos] 6(2) [OF pos refl refl refl] by simp
next
  case (7 E W S key v tree writer state array arrayAncestors)
  note step = 7(3) [unfolded HandleCurrentIteratorPosition.simps]
  obtain match st1 where mc: "matching_child E S 0 (node_children tree) key array state v = Inr (match, st1)"
    using step by (auto simp: ebind_Inr_iff)
  note below = matching_child_state [OF mc]
  show ?case
  proof (cases match)
    case None
    with step mc below show ?thesis by simp
  next
    case (Some p)
    obtain i c where p: "p = (i, c)" by (cases p)
    show ?thesis
    proof (cases c)
      case BsonLeafPathNode
      with step mc Some p below show ?thesis by (auto simp: ebind_Inr_iff)
    next
      case (BsonIntermediatePathNode f h d cs)
      note IH = 7(1,2) [OF mc refl Some p [symmetric] BsonIntermediatePathNode]
      show ?thesis
        using step mc Some p below BsonIntermediatePathNode IH
        by (auto simp: ebind_Inr_iff split: option.splits)
    qed
  qed
qed

lemma update_keeps_id:
  assumes "ProcessUpdateOperatorWithState E W S doc tree upsert = Inr (Some result)"
  shows "id_value W result \<noteq> BvEOD" "ValidateIdField (id_value W result) = Inr ()"
    "id_value W doc \<noteq> BvEOD \<Longrightarrow> BsonValueEquals E (id_value W result) (id_value W doc) = Inr True"
proof -
  obtain st' :: CurrentDocumentState where st': "documentId st' = id_value W doc"
    "(if id_value W result = BvEOD then Inr True
      else if documentId st' \<noteq> BvEOD
      then ebind (BsonValueEquals E (id_value W result) (documentId st')) (\<lambda>same. Inr (\<not> same))
      else Inr False) = Inr False"
    "ValidateIdField (id_value W result) = Inr ()"
  proof -
    let ?st = "\<lparr> documentId = id_value W doc, isUpsert = upsert, sourceDocument = doc,
      indexOfPositionalTypeQueryFilter = - 1 \<rparr>"
    note step = assms [unfolded ProcessUpdateOperatorWithState_def Let_def]
    obtain w m where w: "HandleUpdateDocumentId E W S PgbsonWriterInit tree ?st = Inr (w, m)"
      using step by (auto simp: ebind_Inr_iff)
    obtain w' m' st' where t: "TraverseDocumentAndApplyUpdate E W S doc w tree True ?st False = Inr (w', m', st')"
      using step w by (auto simp: ebind_Inr_iff)
    show ?thesis
      using step w t traverse_state(1) [OF t] that [of st']
      by (auto simp: ebind_Inr_iff ThrowIdPathModifiedErrorForOperatorUpdate_def split: if_splits)
  qed
  then show "id_value W result \<noteq> BvEOD" "ValidateIdField (id_value W result) = Inr ()"
    "id_value W doc \<noteq> BvEOD \<Longrightarrow> BsonValueEquals E (id_value W result) (id_value W doc) = Inr True"
    by (auto simp: ebind_Inr_iff split: if_splits)
qed

section \<open>The fields an update names\<close>

lemma same_field_update: "node_field n = node_field (cs ! i) \<Longrightarrow> map node_field (cs[i := n]) = map node_field cs"
  by (cases "i < length cs") (simp_all add: map_update list_update_same_conv list_update_beyond)

lemma fields_change_node:
  "node_at ptr cs = Some b \<Longrightarrow> node_field (f b) = node_field b \<Longrightarrow> map node_field (change_node f ptr cs) = map node_field cs"
  by (cases ptr) (auto simp: same_field_update split: BsonPathNode.splits if_splits)

lemma added_child_named:
  assumes "GetOrAddChildNode cf ci cs rel sub t rep s = Inr (cs', i, ex, s')"
  shows "node_field ` set cs' \<subseteq> insert (sv_bytes sub) (node_field ` set cs)"
  using assms by (auto simp: GetOrAddChildNode_def AddChildToTree_def ReplaceTreeInNodeCore_def ebind_Inr_iff
      dest!: set_update_subset_insert [THEN subsetD] split: option.splits if_splits)

lemma path_view_of: "c_string p \<Longrightarrow> length p < 2 ^ 32 \<Longrightarrow> path_view (view_of p)"
  using path_view_CString(1) [of p] by (simp add: CreateStringViewFromString_def strlen_def cstr_c_string)

text \<open>The children of the root have the names they had, or the first component of the path.\<close>

lemma traversed_named:
  assumes "TraverseDottedPathAndGetNode cf ci whole h t False p cs s = Inr (cs', ptr, ex, s')" "path_view p"
  shows "node_field ` set cs' \<subseteq> insert (hd (split_dots (sv_bytes p))) (node_field ` set cs)"
proof -
  let ?pre = "StringViewFindPrefix p CHR ''.''"
  obtain cur rest where cur: "(if sv_string ?pre = None then Inr (p, \<lparr> sv_string = None, sv_length = 0 \<rparr>)
      else ebind (StringViewSubstring p (sv_length ?pre + 1)) (\<lambda>rest. Inr (?pre, rest))) = Inr (cur, rest)"
    "sv_bytes cur = hd (split_dots (sv_bytes p))"
  proof (cases "sv_string ?pre = None")
    case True
    then show ?thesis using that path_view_last [OF assms(2)] by simp
  next
    case False
    then show ?thesis using that path_view_split [OF assms(2)] by (metis (no_types, lifting) ebind_simps(2) list.sel(1))
  qed
  note step = assms(1) [unfolded TraverseDottedPathAndGetNode.simps [of _ _ _ _ _ _ p] Let_def cur(1) ebind_simps prod.case]
  obtain t' cs1 i ex1 s1 where g: "GetOrAddChildNode cf ci cs (sv_buf whole) cur t' False s = Inr (cs1, i, ex1, s1)"
    "sv_length rest = 0 \<Longrightarrow> t' = t" "sv_length rest \<noteq> 0 \<Longrightarrow> t' = NodeType_Intermediate"
    using step by (cases "sv_length rest = 0") (auto simp: ebind_Inr_iff)
  have "map node_field cs' = map node_field cs1"
  proof (cases "sv_length rest = 0")
    case True
    then show ?thesis using step g by simp
  next
    case False
    show ?thesis
    proof (cases "cs1 ! i")
      case BsonLeafPathNode
      then show ?thesis using step g False by simp
    next
      case (BsonIntermediatePathNode f h' d ds)
      then show ?thesis using step g False by (auto simp: ebind_Inr_iff same_field_update)
    qed
  qed
  then have "node_field ` set cs' = node_field ` set cs1" by (metis list.set_map)
  then show ?thesis using added_child_named [OF g(1)] cur(2) by simp
qed

lemma added_path_named:
  assumes "TraverseDottedPathAndGetOrAddNodeCore E (view_of p) v cs cf ci force s = Inr (cs', ptr, new, s')"
    "c_string p" "length p < 2 ^ 32"
  shows "node_field ` set cs' \<subseteq> insert (hd (split_dots p)) (node_field ` set cs)"
proof -
  note step = assms(1) [unfolded TraverseDottedPathAndGetOrAddNodeCore_def]
  obtain t where t: "DetermineChildNodeType E v force = Inr t" using step by (auto simp: ebind_Inr_iff)
  obtain cs1 ex s1 where g: "TraverseDottedPathAndGetNode cf ci (view_of p) (t = NodeType_LeafField) t False (view_of p) cs s
      = Inr (cs1, ptr, ex, s1)"
    using step t by (auto simp: ebind_Inr_iff)
  have "map node_field cs' = map node_field cs1"
  proof (cases ex)
    case False
    then have "ValidateAndSetLeafNodeData ptr v cs1 = Inr cs'" using step t g by (auto simp: ebind_Inr_iff)
    then show ?thesis
      by (auto simp: ValidateAndSetLeafNodeData_def split: option.splits BsonPathNode.splits intro!: fields_change_node)
  qed (use step t g in auto)
  then have "node_field ` set cs' = node_field ` set cs1" by (metis list.set_map)
  then show ?thesis using traversed_named [OF g path_view_of [OF assms(2,3)]] by (simp add: sv_bytes_def sv_buf_def)
qed

lemma reset_named:
  assumes "HandleNodeExistsInTree E W ptr p v f c cs sp = Inr (cs', sp')"
  shows "map node_field cs' = map node_field cs"
  using assms
  by (auto simp: HandleNodeExistsInTree_def ThrowPathConflictError_def ResetNodeWithFieldAndState_def
      ResetNodeWithValueOrField_def ebind_Inr_iff split: option.splits if_splits intro!: fields_change_node)

lemma parent_named:
  "UpdateParentDataInTree ptr b rn n = Inr (n', ps) \<Longrightarrow>
     node_field n' = node_field n \<and> map node_field (node_children n') = map node_field (node_children n)"
proof (induction ptr b rn n arbitrary: n' ps rule: UpdateParentDataInTree.induct)
  case (1 i js b rn f h d cs)
  then obtain c below where "i < length cs" "UpdateParentDataInTree js b rn (cs ! i) = Inr (c, below)"
    by (auto simp: ebind_Inr_iff split: if_splits)
  moreover from this have "node_field c = node_field (cs ! i)" using 1(1) by simp
  ultimately show ?case
    using 1(2) by (auto simp: Let_def ThrowPathConflictError_def same_field_update split: if_splits)
qed simp_all

lemma ebind_case:
  "ebind r f = Inr y \<Longrightarrow> (\<And>x. r = Inr x \<Longrightarrow> f x = Inr y \<Longrightarrow> P) \<Longrightarrow> P"
  by (auto simp: ebind_Inr_iff)

lemma ebind_case2:
  "ebind r (\<lambda>(a, b). f a b) = Inr y \<Longrightarrow> (\<And>a b. r = Inr (a, b) \<Longrightarrow> f a b = Inr y \<Longrightarrow> P) \<Longrightarrow> P"
  by (auto simp: ebind_Inr_iff)

lemma ebind_case4:
  "ebind r (\<lambda>(a, b, c, d). f a b c d) = Inr y \<Longrightarrow> (\<And>a b c d. r = Inr (a, b, c, d) \<Longrightarrow> f a b c d = Inr y \<Longrightarrow> P) \<Longrightarrow> P"
  by (auto simp: ebind_Inr_iff)

lemma if_error_case: "(if b then Inl e else r) = Inr y \<Longrightarrow> (\<not> b \<Longrightarrow> r = Inr y \<Longrightarrow> P) \<Longrightarrow> P"
  by (cases b) simp_all

lemma pair_case: "Inr (a, b) = (Inr (c, d) :: 'e + 'x \<times> 'y) \<Longrightarrow> (a = c \<Longrightarrow> b = d \<Longrightarrow> P) \<Longrightarrow> P"
  by simp

lemmas ebind_cases = ebind_case4 ebind_case2 ebind_case if_error_case pair_case

lemma with_children_named: "fields_of (node_children (with_children cs tree)) \<subseteq> fields_of cs"
  by (cases tree) auto

lemma parent_fields:
  assumes "UpdateParentDataInTree ptr b rn (with_children cs tree) = Inr (n', ps)"
  shows "fields_of (node_children n') \<subseteq> fields_of cs"
  using parent_named [OF assms] with_children_named by (metis list.set_map)

lemma reset_fields:
  assumes "(if new then Inr (cs, sp) else HandleNodeExistsInTree E W ptr p v f c cs sp) = Inr (cs', sp')"
  shows "fields_of cs' = fields_of cs"
proof (cases new)
  case True
  then show ?thesis using assms by simp
next
  case False
  then have "map node_field cs' = map node_field cs" using assms reset_named by (metis (full_types))
  then show ?thesis by (metis list.set_map)
qed

abbreviation valid_path :: "string \<Rightarrow> bool" where
  "valid_path p \<equiv> c_string p \<and> length p < 2 ^ 32"

lemma basic_path_named:
  assumes "add_basic_path E W f sf p v tree sp = Inr (tree', sp')" "valid_path p"
  shows "fields_of (node_children tree') \<subseteq> insert (hd (split_dots p)) (fields_of (node_children tree))"
proof -
  obtain cs1 ptr new sp1 cs2 sp2 ps c where
    s: "TraverseDottedPathAndGetOrAddField E (view_of p) v (node_children tree) (CreateUpdateIntermediateNode E W)
       (CreateUpdateLeafNode E W (Some f) c) sp = Inr (cs1, ptr, new, sp1)"
    and r: "(if new then Inr (cs1, sp1) else HandleNodeExistsInTree E W ptr p v (Some f) c cs1 sp1) = Inr (cs2, sp2)"
    and u: "UpdateParentDataInTree ptr False None (with_children cs2 tree) = Inr (tree', ps)"
    using assms(1) unfolding add_basic_path_def by (elim ebind_cases, hypsubst) (rule that; (assumption | rule refl))
  have "fields_of cs1 \<subseteq> insert (hd (split_dots p)) (fields_of (node_children tree))"
    using added_path_named [OF s [unfolded TraverseDottedPathAndGetOrAddField_def]] assms(2) by simp
  with reset_fields [OF r] parent_fields [OF u] show ?thesis by simp
qed

lemma unset_path_named:
  assumes "add_unset_path E W f p v tree sp = Inr (tree', sp')" "valid_path p"
  shows "fields_of (node_children tree') \<subseteq> insert (hd (split_dots p)) (fields_of (node_children tree))"
proof -
  obtain cs1 ptr new sp1 cs2 where
    s: "TraverseDottedPathAndGetOrAddValue E (view_of p) (BvInt32 0) (node_children tree) (CreateUpdateIntermediateNode E W)
       (CreateUpdateLeafNode E W (Some f) ContextNull) sp = Inr (cs1, ptr, new, sp1)"
    and r: "(if new then Inr (cs1, sp1) else HandleNodeExistsInTree E W ptr p v (Some f) ContextNull cs1 sp1) = Inr (cs2, sp')"
    and t: "tree' = with_children cs2 tree"
    using assms(1) unfolding add_unset_path_def by (elim ebind_cases, hypsubst) (rule that; (assumption | rule refl))
  have "fields_of cs1 \<subseteq> insert (hd (split_dots p)) (fields_of (node_children tree))"
    using added_path_named [OF s [unfolded TraverseDottedPathAndGetOrAddValue_def]] assms(2) by simp
  then show ?thesis using subset_trans [OF with_children_named [of cs2 tree]] by (simp add: t reset_fields [OF r])
qed

lemma rename_path_named:
  assumes "add_rename_path E W f p (BvUtf8 q) tree sp = Inr (tree', sp')" "valid_path p" "valid_path q"
  shows "fields_of (node_children tree') \<subseteq> {hd (split_dots p), hd (split_dots q)} \<union> fields_of (node_children tree)"
proof -
  obtain cs1 ptr new sp1 cs2 sp2 cs3 ptr' new' sp3 cs4 sp4 tree1 ps rn rest where
    s: "TraverseDottedPathAndGetOrAddValue E (view_of p) (BvInt32 0) (node_children tree) (CreateUpdateIntermediateNode E W)
       (CreateUpdateLeafNode E W (Some WriteDollarRenameSource) ContextNull) sp = Inr (cs1, ptr, new, sp1)"
    and r: "(if new then Inr (cs1, sp1) else HandleNodeExistsInTree E W ptr p (BvInt32 0) (Some WriteDollarRenameSource)
       ContextNull cs1 sp1) = Inr (cs2, sp2)"
    and s': "TraverseDottedPathAndGetOrAddValue E (view_of q) (BvInt32 1) cs2 (CreateUpdateIntermediateNode E W)
       (CreateUpdateLeafNode E W (Some f) (ContextRenameSource p)) sp2 = Inr (cs3, ptr', new', sp3)"
    and r': "(if new' then Inr (cs3, sp3) else HandleNodeExistsInTree E W ptr' q (BvUtf8 q) (Some WriteDollarRenameSource)
       ContextNull cs3 sp3) = Inr (cs4, sp4)"
    and u: "UpdateParentDataInTree ptr False (rename_node_of ptr' cs4) (with_children cs4 tree) = Inr (tree1, ps)"
    and u': "UpdateParentDataInTree ptr' True rn tree1 = Inr (tree', rest)"
    using assms(1) unfolding add_rename_path_def bson_value.case
    by (elim ebind_cases, hypsubst) (rule that; (assumption | rule refl))
  have "fields_of (node_children tree') = fields_of (node_children tree1)"
    using parent_named [OF u'] by (metis list.set_map)
  then have "fields_of (node_children tree') \<subseteq> fields_of cs3"
    using parent_fields [OF u] reset_fields [OF r'] by simp
  moreover have "fields_of cs3 \<subseteq> insert (hd (split_dots q)) (fields_of cs1)"
    using added_path_named [OF s' [unfolded TraverseDottedPathAndGetOrAddValue_def]] assms(3) reset_fields [OF r] by simp
  moreover have "fields_of cs1 \<subseteq> insert (hd (split_dots p)) (fields_of (node_children tree))"
    using added_path_named [OF s [unfolded TraverseDottedPathAndGetOrAddValue_def]] assms(2) by simp
  ultimately show ?thesis by blast
qed

lemma basic_tree_named:
  "HandleBasicUpdateTree E W f sf es tree sp = Inr (tree', sp') \<Longrightarrow> \<forall>p \<in> fst ` set es. valid_path p \<Longrightarrow>
     fields_of (node_children tree') \<subseteq> (\<lambda>p. hd (split_dots p)) ` fst ` set es \<union> fields_of (node_children tree)"
proof (induction es arbitrary: tree sp)
  case (Cons e es)
  obtain p v where e: "e = (p, v)" by (cases e)
  with Cons.prems obtain tree1 sp1 where s: "add_basic_path E W f sf p v tree sp = Inr (tree1, sp1)"
    "HandleBasicUpdateTree E W f sf es tree1 sp1 = Inr (tree', sp')"
    by (auto simp: ebind_Inr_iff)
  have "fields_of (node_children tree') \<subseteq> (\<lambda>p. hd (split_dots p)) ` fst ` set es \<union> fields_of (node_children tree1)"
    using Cons.prems(2) by (intro Cons.IH [OF s(2)]) simp
  moreover have "fields_of (node_children tree1) \<subseteq> insert (hd (split_dots p)) (fields_of (node_children tree))"
    using Cons.prems(2) by (intro basic_path_named [OF s(1)]) (simp add: e)
  ultimately show ?case unfolding e by (simp add: subset_iff) blast
qed simp

lemma unset_tree_named:
  "HandleUnsetUpdateTree E W f es tree sp = Inr (tree', sp') \<Longrightarrow> \<forall>p \<in> fst ` set es. valid_path p \<Longrightarrow>
     fields_of (node_children tree') \<subseteq> (\<lambda>p. hd (split_dots p)) ` fst ` set es \<union> fields_of (node_children tree)"
proof (induction es arbitrary: tree sp)
  case (Cons e es)
  obtain p v where e: "e = (p, v)" by (cases e)
  with Cons.prems obtain tree1 sp1 where s: "add_unset_path E W f p v tree sp = Inr (tree1, sp1)"
    "HandleUnsetUpdateTree E W f es tree1 sp1 = Inr (tree', sp')"
    by (auto simp: ebind_Inr_iff)
  have "fields_of (node_children tree') \<subseteq> (\<lambda>p. hd (split_dots p)) ` fst ` set es \<union> fields_of (node_children tree1)"
    using Cons.prems(2) by (intro Cons.IH [OF s(2)]) simp
  moreover have "fields_of (node_children tree1) \<subseteq> insert (hd (split_dots p)) (fields_of (node_children tree))"
    using Cons.prems(2) by (intro unset_path_named [OF s(1)]) (simp add: e)
  ultimately show ?case unfolding e by (simp add: subset_iff) blast
qed simp

text \<open>The new names of a \<open>$rename\<close>.\<close>

definition rename_targets :: "bson_doc \<Rightarrow> string list" where
  "rename_targets es = concat (map (\<lambda>(_, v). case v of BvUtf8 q \<Rightarrow> [q] | _ \<Rightarrow> []) es)"

lemma rename_needs_string:
  "add_rename_path E W f p v tree sp = Inr r \<Longrightarrow> \<exists>q. v = BvUtf8 q"
  unfolding add_rename_path_def by (elim ebind_cases) (cases v; simp)

lemma rename_tree_named:
  "HandleRenameUpdateTree E W f es tree sp = Inr (tree', sp') \<Longrightarrow>
     \<forall>p \<in> fst ` set es \<union> set (rename_targets es). valid_path p \<Longrightarrow>
     fields_of (node_children tree') \<subseteq>
       (\<lambda>p. hd (split_dots p)) ` (fst ` set es \<union> set (rename_targets es)) \<union> fields_of (node_children tree)"
proof (induction es arbitrary: tree sp)
  case (Cons e es)
  obtain p v where e: "e = (p, v)" by (cases e)
  with Cons.prems obtain tree1 sp1 where s: "add_rename_path E W f p v tree sp = Inr (tree1, sp1)"
    "HandleRenameUpdateTree E W f es tree1 sp1 = Inr (tree', sp')"
    by (auto simp: ebind_Inr_iff)
  obtain q where v: "v = BvUtf8 q" using rename_needs_string [OF s(1)] by blast
  have targets: "rename_targets (e # es) = q # rename_targets es" by (simp add: e v rename_targets_def)
  have "fields_of (node_children tree') \<subseteq>
      (\<lambda>p. hd (split_dots p)) ` (fst ` set es \<union> set (rename_targets es)) \<union> fields_of (node_children tree1)"
    using Cons.prems(2) targets by (intro Cons.IH [OF s(2)]) simp
  moreover have "fields_of (node_children tree1) \<subseteq> {hd (split_dots p), hd (split_dots q)} \<union> fields_of (node_children tree)"
    using Cons.prems(2) targets by (intro rename_path_named [OF s(1) [unfolded v]]) (simp_all add: e)
  ultimately have "fields_of (node_children tree') \<subseteq> (\<lambda>p. hd (split_dots p)) `
      (insert p (insert q (fst ` set es \<union> set (rename_targets es)))) \<union> fields_of (node_children tree)"
    unfolding image_insert by blast
  also have "insert p (insert q (fst ` set es \<union> set (rename_targets es)))
      = fst ` set (e # es) \<union> set (rename_targets (e # es))"
    unfolding targets by (simp add: e insert_commute)
  finally show ?case .
qed (simp add: rename_targets_def)

text \<open>The paths a specification names, and the top-level fields they start with.\<close>

definition spec_paths :: "bson_doc \<Rightarrow> string list" where
  "spec_paths spec = concat (map (\<lambda>(op, v). case v of
     BvDocument es \<Rightarrow> map fst es @ (if strcmp ''$rename'' op = 0 then rename_targets es else []) | _ \<Rightarrow> []) spec)"

definition spec_fields :: "bson_doc \<Rightarrow> string list" where
  "spec_fields spec = map (\<lambda>p. hd (split_dots p)) (spec_paths spec)"

lemma find_rename:
  assumes "find (\<lambda>(name, _). strcmp name op = 0) MongoUpdateOperators = Some (n, RenameUpdateTree, f, s)"
  shows "strcmp ''$rename'' op = 0"
  using assms by (auto simp: MongoUpdateOperators_def split: if_splits)

lemma update_tree_named:
  assumes "update_tree_func E W tf f s upsert es tree sp = Inr (tree', sp')"
    "\<forall>p \<in> fst ` set es \<union> (if tf = RenameUpdateTree then set (rename_targets es) else {}). valid_path p"
  shows "fields_of (node_children tree') \<subseteq> (\<lambda>p. hd (split_dots p)) `
      (fst ` set es \<union> (if tf = RenameUpdateTree then set (rename_targets es) else {})) \<union> fields_of (node_children tree)"
  using assms basic_tree_named unset_tree_named rename_tree_named
  by (cases tf) (auto simp: update_tree_func_def HandleSetOnInsertUpdateTree_def Let_def split: if_split_asm)

lemma read_operators_case:
  assumes "read_operators E W upsert ((op, v) # d) tree sp = Inr y"
  obtains n tf f s es tree1 sp1 where
    "find (\<lambda>(name, _). strcmp name op = 0) MongoUpdateOperators = Some (n, tf, f, s)" "v = BvDocument es"
    "update_tree_func E W tf f s upsert es tree sp = Inr (tree1, sp1)" "read_operators E W upsert d tree1 sp1 = Inr y"
proof (cases "find (\<lambda>(name, _). strcmp name op = 0) MongoUpdateOperators")
  case None
  with assms show ?thesis by simp
next
  case (Some q)
  obtain n tf f s where q: "q = (n, tf, f, s)" by (cases q)
  show ?thesis
    using assms unfolding read_operators.simps Some q option.case prod.case
    by (cases v; simp add: raise_naming_def; elim ebind_cases) (simp_all add: that [OF Some [unfolded q]])
qed

lemma operators_named:
  "read_operators E W upsert d tree sp = Inr (tree', sp') \<Longrightarrow> \<forall>p \<in> set (spec_paths d). valid_path p \<Longrightarrow>
     fields_of (node_children tree') \<subseteq> set (spec_fields d) \<union> fields_of (node_children tree)"
proof (induction d arbitrary: tree sp)
  case (Cons e d)
  obtain op v where e: "e = (op, v)" by (cases e)
  obtain n tf f s es tree1 sp1 where
    fd: "find (\<lambda>(name, _). strcmp name op = 0) MongoUpdateOperators = Some (n, tf, f, s)" and v: "v = BvDocument es"
    and s: "update_tree_func E W tf f s upsert es tree sp = Inr (tree1, sp1)"
      "read_operators E W upsert d tree1 sp1 = Inr (tree', sp')"
    by (rule read_operators_case [OF Cons.prems(1) [unfolded e]]) (rule that)
  let ?ps = "fst ` set es \<union> (if tf = RenameUpdateTree then set (rename_targets es) else {})"
  have step: "set (spec_paths (e # d)) =
      fst ` set es \<union> (if strcmp ''$rename'' op = 0 then set (rename_targets es) else {}) \<union> set (spec_paths d)"
    by (simp add: e v spec_paths_def Un_assoc)
  have rename: "strcmp ''$rename'' op = 0" if "tf = RenameUpdateTree"
    by (rule find_rename [OF fd [unfolded that]])
  have ps: "?ps \<subseteq> set (spec_paths (e # d))"
  proof (cases "tf = RenameUpdateTree")
    case True
    show ?thesis unfolding step if_P [OF True] if_P [OF rename [OF True]] by blast
  next
    case False
    show ?thesis unfolding step if_not_P [OF False] by blast
  qed
  have rest: "set (spec_paths d) \<subseteq> set (spec_paths (e # d))" unfolding step by blast
  have "fields_of (node_children tree1) \<subseteq> (\<lambda>p. hd (split_dots p)) ` ?ps \<union> fields_of (node_children tree)"
    by (rule update_tree_named [OF s(1)]) (rule ballI, rule bspec [OF Cons.prems(2)], rule subsetD [OF ps])
  moreover have "fields_of (node_children tree') \<subseteq> set (spec_fields d) \<union> fields_of (node_children tree1)"
    by (rule Cons.IH [OF s(2)]) (rule ballI, rule bspec [OF Cons.prems(2)], rule subsetD [OF rest])
  moreover have "(\<lambda>p. hd (split_dots p)) ` ?ps \<subseteq> set (spec_fields (e # d))" "set (spec_fields d) \<subseteq> set (spec_fields (e # d))"
    unfolding spec_fields_def set_map using image_mono [OF ps] image_mono [OF rest] .
  ultimately show ?case by (meson Un_least Un_upper1 Un_upper2 order_trans)
qed (simp add: spec_fields_def)

lemma state_named:
  assumes "GetOperatorUpdateState E W (BvDocument d) qry filters upsert = Inr tree"
    "\<forall>p \<in> set (spec_paths d). valid_path p"
  shows "fields_of (node_children tree) \<subseteq> insert ''_id'' (set (spec_fields d))"
proof -
  obtain fs sp where read: "ReadUpdateSpecAndUpdateTree E W upsert d update_root
      (Some \<lparr> querySpec = qry, arrayFilters = fs, processedQuerySpec = None \<rparr>) = Inr (tree, sp)"
    using assms(1) unfolding GetOperatorUpdateState_def bson_value.case by (elim ebind_cases) simp
  then obtain cs ptr new s1 where
    t: "TraverseDottedPathAndGetOrAddValue E (view_of ''_id'') (BvInt32 0) (node_children update_root)
       (CreateUpdateIntermediateNode E W) (CreateUpdateLeafNode E W None ContextNull) None = Inr (cs, ptr, new, s1)"
    and ops: "read_operators E W upsert d (with_children cs update_root)
       (Some \<lparr> querySpec = qry, arrayFilters = fs, processedQuerySpec = None \<rparr>) = Inr (tree, sp)"
    unfolding ReadUpdateSpecAndUpdateTree_def by (elim ebind_cases) simp
  have "fields_of cs \<subseteq> {''_id''}"
    using added_path_named [OF t [unfolded TraverseDottedPathAndGetOrAddValue_def]]
    by (simp add: update_root_def c_string_def byte_val_def)
  then show ?thesis using operators_named [OF ops assms(2)] with_children_named [of cs update_root] by blast
qed

lemma hd_split_dots_set: "set (hd (split_dots s)) \<subseteq> set s"
  by (induction s rule: split_dots.induct) (auto split: list.splits if_splits)

lemma document_frame:
  assumes "GetOperatorUpdateState E W (BvDocument d) qry filters upsert = Inr tree"
    "ProcessUpdateOperatorWithState E W S doc tree upsert = Inr (Some result)"
    "\<forall>p \<in> set (spec_paths d). valid_path p" "\<forall>k \<in> fst ` set doc. c_string k"
  shows "outside (insert ''_id'' (set (spec_fields d))) result = outside (insert ''_id'' (set (spec_fields d))) doc"
proof -
  have named: "fields_of (node_children tree) \<subseteq> insert ''_id'' (set (spec_fields d))"
    by (rule state_named [OF assms(1,3)])
  moreover have "\<forall>n \<in> insert ''_id'' (set (spec_fields d)). c_string n"
    using assms(3) hd_split_dots_set by (fastforce simp: spec_fields_def c_string_def byte_val_def)
  ultimately show ?thesis by (intro update_frame [OF assms(2,4)]) auto
qed

end
