(* ===== verification/Spec2Isabelle.thy ===== *)
theory Spec2Isabelle
  imports Query_Properties Update_Frame
begin

text \<open>
  A verification library for DocumentDB, the document database inside PostgreSQL: the core library
  \<^verbatim>\<open>src/pg_documentdb_core\<close> (the BSON type) and the query operators of the extension
  \<^verbatim>\<open>src/pg_documentdb\<close>.

  \<^bold>\<open>The program.\<close>  A document is a list of named values of the 21 BSON types.  The core library stores
  it as bytes, reads it with iterators, compares and hashes values, converts between its four
  numeric types and does arithmetic on them.  The extension answers a query \<open>{ path: { $op: operand } }\<close>
  by a walk along the dotted path (\<open>TraverseBson\<close>) that hands every value it meets to the match
  function of the operator; the match functions use the comparison, the hash sets and the regular
  expressions of the core.  Sorting runs the same walk with callbacks that keep the least or the
  greatest value.  The SQL functions \<open>bson_dollar_...\<close> are the entry points; PostgreSQL's planner
  turns a query into calls of them.

  \<^bold>\<open>The theories\<close>, in the order of the calls, with the files they model:
  \<^item> \<open>Prelude\<close>: results with errors, bytes and C strings, three-way comparisons (locale \<open>three_way\<close>).
  \<^item> \<open>Ieee_Double\<close>: binary64 numbers as bit patterns with their exact values.
  \<^item> \<open>String_View\<close>: \<^verbatim>\<open>types/string_view.c\<close> and \<^verbatim>\<open>utils/string_view.h\<close>.
  \<^item> \<open>Bson_Types\<close>: the types, values and documents, type names and codes, the sort ranks, and the
    well-formedness \<open>wf_value\<close>, \<open>wf_doc\<close> of stored data.
  \<^item> \<open>Bson_Format\<close>: the byte format of documents.
  \<^item> \<open>Extern\<close>: the code outside the sources as the record \<open>extern\<close> (the decimal library, PostgreSQL's
    hash functions and hash tables, ICU, PCRE2, libbson's search for a field) with its documented
    laws, the locale \<open>external_code\<close>.  \<open>Bid_Reference\<close> builds an implementation \<open>ref_extern\<close> and
    interprets the locale on it, so the laws can hold.
  \<^item> \<open>Decimal128\<close>: \<^verbatim>\<open>types/decimal128.c\<close>.
  \<^item> \<open>Bson_Convert\<close>, \<open>Bson_Compare\<close>: \<^verbatim>\<open>query/bson_compare.c\<close>; \<open>Bson_Order\<close> gives values and documents
    keys and shows that the comparison is the order of the keys.
  \<^item> \<open>Pgbson_Element\<close>: \<^verbatim>\<open>io/pgbsonelement.c\<close>, with the reader of raw bytes \<open>FillPgbsonElementUnsafe\<close>.
  \<^item> \<open>Pgbson_Arith\<close>: the arithmetic of \<^verbatim>\<open>io/pgbson_utils.c\<close>.
  \<^item> \<open>Bson_Hash\<close>: \<^verbatim>\<open>query/bson_hash.c\<close> and the sets of values of \<^verbatim>\<open>utils/hashset_utils.c\<close>.
  \<^item> \<open>Bsonquery_Compare\<close>: \<^verbatim>\<open>query/bsonquery_compare.c\<close>, the comparison of \<open>bsonquery\<close> values.
  \<^item> \<open>Bson_Deduplicate\<close>: \<^verbatim>\<open>io/bson_deduplicate.c\<close> over the sets of elements of \<^verbatim>\<open>utils/hashset_utils.c\<close>.
  \<^item> \<open>Bson_Text\<close>: the hexadecimal text of documents (\<^verbatim>\<open>io/pgbson.c\<close>, \<^verbatim>\<open>io/bson_io.c\<close>) and
    \<^verbatim>\<open>io/pgbsonsequence.c\<close>.
  \<^item> \<open>Pcre_Regex\<close>: \<^verbatim>\<open>types/pcre_regex.c\<close> and \<open>CompareRegexTextMatch\<close> of \<^verbatim>\<open>query/bson_text_ops.c\<close>.
  \<^item> \<open>Bson_Traversal\<close>: \<open>TraverseBson\<close> of \<^verbatim>\<open>io/pgbson_utils.c\<close>.  \<open>visits\<close> lists the values a path denotes,
    the locale \<open>visitor\<close> is the contract of the callbacks, and its main lemma says what a traversal
    with such callbacks computes.
  \<^item> \<open>Query_Bits\<close>, \<open>Query_Match\<close>, \<open>Query_Operators\<close>: \<^verbatim>\<open>query/bson_dollar_operators.c\<close> (bit positions, match
    functions and callbacks, SQL functions), with \<^verbatim>\<open>query/bson_expr_eval.c\<close> and
    \<^verbatim>\<open>aggregation/bson_query_common.c\<close> where they are called.
  \<^item> \<open>Query_Spec\<close>: the locales \<open>read_query\<close> and \<open>element_query\<close>, contracts of match functions, with what
    an operator over such a function computes; \<open>Query_Compound\<close>, \<open>Query_Null\<close>, \<open>Query_Regex\<close> and
    \<open>Query_Nested\<close> interpret them for the operators.
  \<^item> \<open>Query_OrderBy\<close>: the sort keys of \<^verbatim>\<open>query/bson_dollar_operators.c\<close>.
  \<^item> \<open>Core_Properties\<close>, \<open>Query_Properties\<close> and this theory: the properties, those with hypotheses with an
    instance at a concrete input.

  \<^bold>\<open>State and errors.\<close>  A function that updates its argument returns the new value; the state behind a
  \<open>void *\<close> is a type parameter of the traversal.  A call that raises is \<open>Inl\<close> of the error:
  \<open>Ereport\<close> with the error code, or what C leaves undefined or the machine traps
  (\<open>TrapDivide\<close>, \<open>BufferOverread\<close>, \<open>NullDereference\<close>, \<open>UnionMisread\<close> for reading the wrong member of a
  union).  Integers keep their width as words; a word is read as signed or unsigned as the C type is.
  Settings of the server are the record \<open>settings\<close>.

  \<^bold>\<open>What is shown.\<close>  The comparison of values never raises on well-formed values and is a total
  preorder, the order of explicit keys; numbers compare by exact value.  Values that
  compare as equal have equal hashes when they contain no double, no code with scope and no decimal
  outside the 64-bit integers (\<open>hash_plain\<close>), and the sets of such values as \<open>set_plain\<close> describes answer
  like a search.  Removing duplicate fields keeps the last value of each and is idempotent; the text of
  a document reads back as the same bytes.  Conversions and arithmetic are exact where the
  result fits, with the behaviour at the bounds written out.  The reader of raw bytes inverts the
  encoder on documents below \<open>2 ^ 31\<close> bytes.  A traversal returns whenever its callbacks do, and each
  modelled query operator decides a closed formula over the
  values the path reaches; nested queries and sorting compose these results.  Where the code differs
  from its comments or from its sibling functions, the property states what it does.

  \<^bold>\<open>Bounds.\<close>  No definition uses fuel: every recursion is on the document, the path, the bytes or the
  magnitude of an integer, with a termination proof.  The strings of a well-formed value are shorter
  than \<open>2 ^ 31\<close> bytes (\<open>short\<close>), as libbson's lengths are; a path is shorter than \<open>2 ^ 32\<close> bytes, the
  range of a view's length.

  \<^bold>\<open>Not modelled.\<close>  Memory management, caching of compiled queries, stack-depth and interrupt checks,
  failures of allocation, and the errors of writing a document that outgrows the format.  Printing
  JSON and the binary send and receive functions are left out.  The planner, the commands, the index access methods and the gateway
  work on the state of the server and on the network.  The evaluation of a nested query, of \<open>$expr\<close>
  and of text scores is a parameter.  Aggregation expressions, updates and index terms are not
  modelled yet.
\<close>

section \<open>Sorting\<close>





section \<open>The traversal optimisation\<close>



section \<open>Nested queries\<close>



end
